(* ===== verification/Prelude.thy ===== *)
theory Prelude
  imports Main "HOL-Library.Char_ord" "HOL-Library.List_Lexorder"
    "HOL-Library.Product_Lexorder"
begin

text \<open>
  Shared ground of the development: Go's error values, results of fallible functions,
  64-bit wrap-around, the generic lemmas on lists of rows and on results, and the
  collections of rewrite rules that the component theories fill.
\<close>

named_theorems domain_simps
named_theorems store_simps
named_theorems go_strings

section \<open>Errors\<close>

text \<open>
  A Go error value. \<open>Err f xs\<close> is a text error (\<^verbatim>\<open>errors.New\<close> and \<^verbatim>\<open>fmt.Errorf\<close> without
  \<^verbatim>\<open>%w\<close>) with its format and its arguments unexpanded, \<open>ErrWrap f xs e\<close> is
  \<^verbatim>\<open>fmt.Errorf\<close> with \<open>e\<close> under \<^verbatim>\<open>%w\<close>, \<open>ErrJoin\<close> is \<^verbatim>\<open>errors.Join\<close> of two non-nil
  errors. The sentinel errors of \<^verbatim>\<open>internal/domain/schedule.go\<close> and
  \<^verbatim>\<open>internal/application/commands.go\<close> are constructors. \<open>ErrDriver\<close> is any error of the
  database driver (a failed statement, a violated constraint), \<open>ErrPanic\<close> a run-time
  panic, \<open>ErrContextCanceled\<close> and \<open>ErrDeadlineExceeded\<close> the two context errors.
\<close>

datatype goerr =
    Err string "string list"
  | ErrWrap string "string list" goerr
  | ErrJoin goerr goerr
  | ErrScheduleAlreadyExists
  | ErrScheduleNotFound
  | ErrScheduleExhausted
  | ErrScheduleChanged
  | ErrClaimLost
  | ErrInvalidDependencies
  | ErrInvalidCommand
  | ErrIdempotencyConflict
  | ErrContextCanceled
  | ErrDeadlineExceeded
  | ErrDriver string
  | ErrPanic string

type_synonym 'a res = "goerr + 'a"

fun errors_Is :: "goerr \<Rightarrow> goerr \<Rightarrow> bool" where
  "errors_Is (ErrWrap f xs e) t = (ErrWrap f xs e = t \<or> errors_Is e t)"
| "errors_Is (ErrJoin a b) t = (ErrJoin a b = t \<or> errors_Is a t \<or> errors_Is b t)"
| "errors_Is e t = (e = t)"

text \<open>An error that may be nil is an option; \<^verbatim>\<open>errors.Join\<close> drops nil arguments.\<close>

fun errors_Join :: "goerr option \<Rightarrow> goerr option \<Rightarrow> goerr option" where
  "errors_Join None b = b"
| "errors_Join a None = a"
| "errors_Join (Some a) (Some b) = Some (ErrJoin a b)"

lemma errors_Join_None_iff [simp]: "errors_Join a b = None \<longleftrightarrow> a = None \<and> b = None"
  by (cases a; cases b) auto

section \<open>Results\<close>

definition isOk :: "'a res \<Rightarrow> bool" where
  "isOk r \<longleftrightarrow> (case r of Inl _ \<Rightarrow> False | Inr _ \<Rightarrow> True)"

lemma isOk_simps [simp]: "isOk (Inr x)" "\<not> isOk (Inl e)"
  by (simp_all add: isOk_def)

lemma isOk_iff: "isOk r \<longleftrightarrow> (\<exists>x. r = Inr x)"
  by (cases r) auto

text \<open>The error of a result, nil for a value.\<close>

definition err_of :: "'a res \<Rightarrow> goerr option" where
  "err_of r = (case r of Inl e \<Rightarrow> Some e | Inr _ \<Rightarrow> None)"

lemma err_of_simps [simp]: "err_of (Inl e) = Some e" "err_of (Inr x) = None"
  by (simp_all add: err_of_def)

section \<open>64-bit signed integers\<close>

text \<open>
  Go's \<^verbatim>\<open>int64\<close> (and \<^verbatim>\<open>int\<close> on the 64-bit targets of the program) wraps around; \<open>int64\<close>
  is the value an unbounded result is stored as. \<open>go_quot\<close> is Go's division, which
  truncates towards zero.
\<close>

definition int64 :: "int \<Rightarrow> int" where
  "int64 x = (x + 2 ^ 63) mod 2 ^ 64 - 2 ^ 63"

definition MaxInt64 :: int where "MaxInt64 = 2 ^ 63 - 1"
definition MinInt64 :: int where "MinInt64 = - (2 ^ 63)"

lemma int64_id: "- (2 ^ 63) \<le> x \<Longrightarrow> x < 2 ^ 63 \<Longrightarrow> int64 x = x"
  by (simp add: int64_def)

lemma int64_range: "- (2 ^ 63) \<le> int64 x \<and> int64 x < 2 ^ 63"
  by (simp add: int64_def)

definition go_quot :: "int \<Rightarrow> int \<Rightarrow> int" where
  "go_quot a b = sgn a * sgn b * (\<bar>a\<bar> div \<bar>b\<bar>)"

lemma go_quot_nonneg: "0 \<le> a \<Longrightarrow> 0 < b \<Longrightarrow> go_quot a b = a div b"
  by (cases "a = 0") (simp_all add: go_quot_def)

section \<open>Tables as lists of rows\<close>

text \<open>
  A table is a list of rows. \<open>upd p f rows\<close> is \<^verbatim>\<open>UPDATE ... SET f WHERE p\<close>: every row that
  satisfies \<open>p\<close> is replaced.
\<close>

definition upd :: "('r \<Rightarrow> bool) \<Rightarrow> ('r \<Rightarrow> 'r) \<Rightarrow> 'r list \<Rightarrow> 'r list" where
  "upd p f rows = map (\<lambda>r. if p r then f r else r) rows"

lemma upd_Nil [simp]: "upd p f [] = []"
  by (simp add: upd_def)

lemma upd_Cons [simp]: "upd p f (r # rs) = (if p r then f r else r) # upd p f rs"
  by (simp add: upd_def)

lemma length_upd [simp]: "length (upd p f rows) = length rows"
  by (simp add: upd_def)

lemma in_upd_iff: "x \<in> set (upd p f rows) \<longleftrightarrow> (\<exists>r \<in> set rows. x = (if p r then f r else r))"
  by (auto simp: upd_def)

lemma map_upd_key:
  "(\<And>r. r \<in> set rows \<Longrightarrow> p r \<Longrightarrow> k (f r) = k r) \<Longrightarrow> map k (upd p f rows) = map k rows"
  by (auto simp: upd_def)

lemma upd_none: "(\<And>r. r \<in> set rows \<Longrightarrow> \<not> p r) \<Longrightarrow> upd p f rows = rows"
  by (induction rows) auto

lemma all_upd:
  assumes "\<forall>r \<in> set rows. P r" and "\<And>r. r \<in> set rows \<Longrightarrow> p r \<Longrightarrow> P (f r)"
  shows "\<forall>r \<in> set (upd p f rows). P r"
  using assms by (auto simp: in_upd_iff)

lemma filter_upd:
  "(\<And>r. r \<in> set rows \<Longrightarrow> p r \<Longrightarrow> q (f r) = q r) \<Longrightarrow>
   filter q (upd p f rows) = upd p f (filter q rows)"
  by (induction rows) auto

lemma distinct_map_inj: "distinct (map k rows) \<Longrightarrow> a \<in> set rows \<Longrightarrow> b \<in> set rows \<Longrightarrow>
    k a = k b \<Longrightarrow> a = b"
  by (metis distinct_map inj_on_eq_iff)

text \<open>The row \<^verbatim>\<open>SELECT ... WHERE p\<close> returns where a unique key makes it the only one.\<close>

lemma find_unique:
  assumes "distinct (map k rows)" and "r \<in> set rows"
  shows "find (\<lambda>x. k x = k r) rows = Some r"
  using assms
proof (induction rows)
  case (Cons a rows)
  then show ?case by (cases "a = r") auto
qed simp

lemma find_Some_in: "find p rows = Some r \<Longrightarrow> r \<in> set rows \<and> p r"
  by (induction rows) (auto split: if_splits)

lemma find_None_all: "find p rows = None \<longleftrightarrow> (\<forall>r \<in> set rows. \<not> p r)"
  by (induction rows) auto

lemma find_append: "find p (xs @ ys) = (case find p xs of None \<Rightarrow> find p ys | Some r \<Rightarrow> Some r)"
  by (induction xs) auto

lemma find_upd_other:
  "(\<And>r. r \<in> set rows \<Longrightarrow> p r \<Longrightarrow> \<not> q r \<and> \<not> q (f r)) \<Longrightarrow>
   find q (upd p f rows) = find q rows"
  by (induction rows) auto

lemma find_upd_same:
  "(\<And>r. r \<in> set rows \<Longrightarrow> p r \<Longrightarrow> q (f r) = q r) \<Longrightarrow>
   find q (upd p f rows) = map_option (\<lambda>r. if p r then f r else r) (find q rows)"
  by (induction rows) auto

text \<open>\<^verbatim>\<open>UPDATE ... RETURNING\<close> of one row by a unique key.\<close>

lemma filter_unique_key:
  assumes "distinct (map k rows)"
  shows "length (filter (\<lambda>x. k x = v \<and> p x) rows) \<le> 1"
  using assms
proof (induction rows)
  case (Cons a rows)
  show ?case
  proof (cases "k a = v")
    case True
    with Cons.prems have "filter (\<lambda>x. k x = v \<and> p x) rows = []"
      by (auto simp: filter_empty_conv image_iff)
    then show ?thesis by simp
  next
    case False
    with Cons show ?thesis by simp
  qed
qed simp

end
