(* ===== verification/GoStrings.thy ===== *)
theory GoStrings
  imports Prelude
begin

text \<open>
  The functions of Go's \<^verbatim>\<open>strings\<close>, \<^verbatim>\<open>strconv\<close> and \<^verbatim>\<open>time\<close> packages that the program calls on
  text. A Go string is a sequence of bytes, and so is an Isabelle \<open>string\<close>. Where Go
  decodes UTF-8 (white space, case mapping) the encoded byte sequences that matter are
  listed: a rune outside ASCII whose case mapping stays outside ASCII is left as it is,
  which no function of the program can tell apart from the mapped one but for the text of
  an error message.
\<close>

section \<open>Searching and splitting\<close>

definition HasPrefix :: "string \<Rightarrow> string \<Rightarrow> bool" where
  "HasPrefix s p \<longleftrightarrow> take (length p) s = p"

definition HasSuffix :: "string \<Rightarrow> string \<Rightarrow> bool" where
  "HasSuffix s p \<longleftrightarrow> HasPrefix (rev s) (rev p)"

definition TrimPrefix :: "string \<Rightarrow> string \<Rightarrow> string" where
  "TrimPrefix s p = (if HasPrefix s p then drop (length p) s else s)"

definition TrimSuffix :: "string \<Rightarrow> string \<Rightarrow> string" where
  "TrimSuffix s p = (if HasSuffix s p then take (length s - length p) s else s)"

text \<open>\<^verbatim>\<open>strings.Contains\<close> and \<^verbatim>\<open>strings.Split\<close> are called with one-byte patterns.\<close>

definition ContainsByte :: "string \<Rightarrow> char \<Rightarrow> bool" where
  "ContainsByte s c \<longleftrightarrow> c \<in> set s"

fun Split :: "string \<Rightarrow> char \<Rightarrow> string list" where
  "Split [] c = [[]]"
| "Split (x # xs) c =
     (if x = c then [] # Split xs c
      else case Split xs c of [] \<Rightarrow> [[x]] | p # ps \<Rightarrow> (x # p) # ps)"

fun Join :: "string list \<Rightarrow> char \<Rightarrow> string" where
  "Join [] c = []"
| "Join [p] c = p"
| "Join (p # q # ps) c = p @ c # Join (q # ps) c"

lemma Split_not_Nil [simp]: "Split s c \<noteq> []"
  by (induction s) (auto split: list.splits)

lemma Split_no_sep: "p \<in> set (Split s c) \<Longrightarrow> c \<notin> set p"
proof (induction s arbitrary: p)
  case (Cons x s)
  then show ?case by (cases "Split s c") (auto split: if_splits)
qed simp

lemma Join_Split: "Join (Split s c) c = s"
proof (induction s)
  case (Cons x s)
  show ?case
  proof (cases "Split s c")
    case Nil
    then show ?thesis using Split_not_Nil [of s c] by simp
  next
    case (Cons p ps)
    then show ?thesis using Cons.IH by (cases ps) auto
  qed
qed simp

lemma Split_no_occ: "c \<notin> set s \<Longrightarrow> Split s c = [s]"
  by (induction s) auto

lemma Split_append_sep: "c \<notin> set s \<Longrightarrow> Split (s @ c # t) c = s # Split t c"
  by (induction s) auto

lemma Split_Join: "ps \<noteq> [] \<Longrightarrow> \<forall>p \<in> set ps. c \<notin> set p \<Longrightarrow> Split (Join ps c) c = ps"
proof (induction ps c rule: Join.induct)
  case (3 p q ps c)
  then show ?case by (simp add: Split_append_sep)
qed (simp_all add: Split_no_occ)

section \<open>White space\<close>

text \<open>The UTF-8 encodings of the runes of \<^verbatim>\<open>unicode.IsSpace\<close>.\<close>

definition space_seqs :: "string list" where
  "space_seqs =
    [[CHR 0x20], [CHR 0x09], [CHR 0x0A], [CHR 0x0B], [CHR 0x0C], [CHR 0x0D],
     [CHR 0xC2, CHR 0x85], [CHR 0xC2, CHR 0xA0], [CHR 0xE1, CHR 0x9A, CHR 0x80],
     [CHR 0xE2, CHR 0x80, CHR 0x80], [CHR 0xE2, CHR 0x80, CHR 0x81],
     [CHR 0xE2, CHR 0x80, CHR 0x82], [CHR 0xE2, CHR 0x80, CHR 0x83],
     [CHR 0xE2, CHR 0x80, CHR 0x84], [CHR 0xE2, CHR 0x80, CHR 0x85],
     [CHR 0xE2, CHR 0x80, CHR 0x86], [CHR 0xE2, CHR 0x80, CHR 0x87],
     [CHR 0xE2, CHR 0x80, CHR 0x88], [CHR 0xE2, CHR 0x80, CHR 0x89],
     [CHR 0xE2, CHR 0x80, CHR 0x8A], [CHR 0xE2, CHR 0x80, CHR 0xA8],
     [CHR 0xE2, CHR 0x80, CHR 0xA9], [CHR 0xE2, CHR 0x80, CHR 0xAF],
     [CHR 0xE2, CHR 0x81, CHR 0x9F], [CHR 0xE3, CHR 0x80, CHR 0x80]]"

text \<open>The length of the first sequence of the list that starts the text, 0 for none.\<close>

fun lead :: "string list \<Rightarrow> string \<Rightarrow> nat" where
  "lead [] s = 0"
| "lead (w # ws) s = (if HasPrefix s w \<and> w \<noteq> [] then length w else lead ws s)"

lemma lead_le: "lead ws s \<le> length s"
  by (induction ws) (auto simp: HasPrefix_def, metis length_take min.cobounded1)

function strip_lead :: "string list \<Rightarrow> string \<Rightarrow> string" where
  "strip_lead ws s = (if lead ws s = 0 then s else strip_lead ws (drop (lead ws s) s))"
  by pat_completeness auto
termination
proof (relation "measure (\<lambda>(ws, s). length s)")
  fix ws s
  assume "lead ws s \<noteq> 0"
  moreover have "lead ws s \<le> length s" by (rule lead_le)
  ultimately show "((ws, drop (lead ws s) s), ws, s) \<in> measure (\<lambda>(ws, s). length s)"
    by auto
qed simp

declare strip_lead.simps [simp del]

definition TrimSpace :: "string \<Rightarrow> string" where
  "TrimSpace s = rev (strip_lead (map rev space_seqs) (rev (strip_lead space_seqs s)))"

lemma strip_lead_fixed: "lead ws (strip_lead ws s) = 0"
proof (induction ws s rule: strip_lead.induct)
  case (1 ws s)
  then show ?case by (subst strip_lead.simps) (auto simp: strip_lead.simps [of ws s])
qed

lemma strip_lead_suffix: "\<exists>u. s = u @ strip_lead ws s"
proof (induction ws s rule: strip_lead.induct)
  case (1 ws s)
  show ?case
  proof (cases "lead ws s = 0")
    case True
    then show ?thesis by (simp add: strip_lead.simps [of ws s])
  next
    case False
    with 1 obtain u where "drop (lead ws s) s = u @ strip_lead ws (drop (lead ws s) s)"
      by blast
    then have "s = (take (lead ws s) s @ u) @ strip_lead ws (drop (lead ws s) s)"
      by (metis append.assoc append_take_drop_id)
    with False show ?thesis by (metis strip_lead.simps)
  qed
qed

lemma lead_0_iff: "lead ws s = 0 \<longleftrightarrow> (\<forall>w \<in> set ws. w \<noteq> [] \<longrightarrow> \<not> HasPrefix s w)"
  by (induction ws) auto

lemma HasPrefix_take: "HasPrefix (take n s) w \<Longrightarrow> HasPrefix s w"
  unfolding HasPrefix_def
  by (metis length_take min.absorb2 min.cobounded1 min.cobounded2 min_def take_take)

lemma strip_lead_id: "lead ws s = 0 \<Longrightarrow> strip_lead ws s = s"
  by (simp add: strip_lead.simps)

text \<open>Trimming twice is trimming once, and what is trimmed is a contiguous piece.\<close>

lemma TrimSpace_idem [simp]: "TrimSpace (TrimSpace s) = TrimSpace s"
proof -
  let ?l = "strip_lead space_seqs s"
  let ?t = "strip_lead (map rev space_seqs) (rev ?l)"
  obtain u where u: "rev ?l = u @ ?t" using strip_lead_suffix by blast
  then have "?l = rev ?t @ rev u" by (metis rev_append rev_rev_ident)
  then have "rev ?t = take (length ?t) ?l" by (metis append_eq_conv_conj length_rev)
  moreover have "lead space_seqs ?l = 0" by (rule strip_lead_fixed)
  ultimately have "lead space_seqs (rev ?t) = 0"
    by (auto simp: lead_0_iff dest: HasPrefix_take)
  then have "strip_lead space_seqs (rev ?t) = rev ?t" by (rule strip_lead_id)
  moreover have "strip_lead (map rev space_seqs) ?t = ?t"
    by (rule strip_lead_id, rule strip_lead_fixed)
  ultimately show ?thesis by (simp add: TrimSpace_def)
qed

lemma TrimSpace_Nil [simp]: "TrimSpace [] = []"
  by (simp add: TrimSpace_def strip_lead.simps lead_0_iff HasPrefix_def)

text \<open>\<^verbatim>\<open>strings.Fields\<close>: the maximal runs of bytes that are not white space.\<close>

function fields_go :: "string \<Rightarrow> string \<Rightarrow> string list" where
  "fields_go acc s =
     (if s = [] then (if acc = [] then [] else [rev acc])
      else if lead space_seqs s \<noteq> 0
        then (if acc = [] then [] else [rev acc]) @ fields_go [] (drop (lead space_seqs s) s)
      else fields_go (hd s # acc) (tl s))"
  by pat_completeness auto
termination
  by (relation "measure (\<lambda>(acc, s). length s)") auto

declare fields_go.simps [simp del]

definition Fields :: "string \<Rightarrow> string list" where
  "Fields s = fields_go [] s"

section \<open>Case mapping\<close>

definition lower_char :: "char \<Rightarrow> char" where
  "lower_char c =
     (if 65 \<le> (of_char c :: int) \<and> of_char c \<le> (90 :: int) then char_of (of_char c + 32 :: int) else c)"

definition upper_char :: "char \<Rightarrow> char" where
  "upper_char c =
     (if 97 \<le> (of_char c :: int) \<and> of_char c \<le> (122 :: int) then char_of (of_char c - 32 :: int) else c)"

text \<open>U+0130 (C4 B0) maps to \<open>i\<close> and U+212A (E2 84 AA) to \<open>k\<close>.\<close>

fun ToLower :: "string \<Rightarrow> string" where
  "ToLower [] = []"
| "ToLower (a # s) =
     (if a = CHR 0xC4 \<and> HasPrefix s [CHR 0xB0] then CHR ''i'' # ToLower (drop 1 s)
      else if a = CHR 0xE2 \<and> HasPrefix s [CHR 0x84, CHR 0xAA] then CHR ''k'' # ToLower (drop 2 s)
      else lower_char a # ToLower s)"

text \<open>U+0131 (C4 B1) maps to \<open>I\<close> and U+017F (C5 BF) to \<open>S\<close>.\<close>

fun ToUpper :: "string \<Rightarrow> string" where
  "ToUpper [] = []"
| "ToUpper (a # s) =
     (if a = CHR 0xC4 \<and> HasPrefix s [CHR 0xB1] then CHR ''I'' # ToUpper (drop 1 s)
      else if a = CHR 0xC5 \<and> HasPrefix s [CHR 0xBF] then CHR ''S'' # ToUpper (drop 1 s)
      else upper_char a # ToUpper s)"

text \<open>
  \<^verbatim>\<open>strings.EqualFold\<close> against an ASCII word: U+017F folds with \<open>s\<close> and U+212A with \<open>k\<close>.
\<close>

fun fold_case :: "string \<Rightarrow> string" where
  "fold_case [] = []"
| "fold_case (a # s) =
     (if a = CHR 0xC5 \<and> HasPrefix s [CHR 0xBF] then CHR ''s'' # fold_case (drop 1 s)
      else if a = CHR 0xE2 \<and> HasPrefix s [CHR 0x84, CHR 0xAA] then CHR ''k'' # fold_case (drop 2 s)
      else lower_char a # fold_case s)"

definition EqualFold :: "string \<Rightarrow> string \<Rightarrow> bool" where
  "EqualFold s t \<longleftrightarrow> fold_case s = fold_case t"

section \<open>Numbers\<close>

definition is_digit :: "char \<Rightarrow> bool" where
  "is_digit c \<longleftrightarrow> 48 \<le> (of_char c :: int) \<and> of_char c \<le> (57 :: int)"

definition digit_val :: "char \<Rightarrow> int" where
  "digit_val c = of_char c - 48"

fun digits_val :: "int \<Rightarrow> string \<Rightarrow> int" where
  "digits_val n [] = n"
| "digits_val n (c # cs) = digits_val (10 * n + digit_val c) cs"

text \<open>\<^verbatim>\<open>strconv.Atoi\<close>: an optional sign, at least one digit, and a value of \<^verbatim>\<open>int\<close>.\<close>

definition atoi_abs :: "string \<Rightarrow> int option" where
  "atoi_abs ds = (if ds = [] \<or> \<not> list_all is_digit ds then None else Some (digits_val 0 ds))"

definition Atoi :: "string \<Rightarrow> int option" where
  "Atoi s =
     (let neg = HasPrefix s ''-''; ds = (if neg \<or> HasPrefix s ''+'' then tl s else s)
      in case atoi_abs ds of
           None \<Rightarrow> None
         | Some n \<Rightarrow>
             let v = (if neg then - n else n)
             in if MinInt64 \<le> v \<and> v \<le> MaxInt64 then Some v else None)"

lemma Atoi_range: "Atoi s = Some v \<Longrightarrow> - (2 ^ 63) \<le> v \<and> v < 2 ^ 63"
  by (auto simp: Atoi_def Let_def MinInt64_def MaxInt64_def split: option.splits if_splits)

section \<open>\<^verbatim>\<open>time.ParseDuration\<close>\<close>

text \<open>
  The fraction of a duration goes through \<^verbatim>\<open>float64\<close>. A positive \<^verbatim>\<open>float64\<close> is a fraction
  of two numbers; \<open>round53 p q\<close> is \<open>p / q\<close> rounded to 53 significant bits, ties to even.
  No value of the conversion is near the smallest or the largest exponent.
\<close>

function log2 :: "int \<Rightarrow> int" where
  "log2 n = (if n < 2 then 0 else 1 + log2 (n div 2))"
  by pat_completeness auto
termination
  by (relation "measure nat") auto

declare log2.simps [simp del]

definition pow2 :: "int \<Rightarrow> int" where
  "pow2 k = 2 ^ nat k"

definition round53 :: "int \<Rightarrow> int \<Rightarrow> int \<times> int" where
  "round53 p q =
     (let e0 = log2 p - log2 q;
          e = (if q * pow2 e0 \<le> p * pow2 (- e0) then e0 else e0 - 1);
          s = 52 - e;
          n = p * pow2 s; d = q * pow2 (- s);
          m = n div d; r = n mod d;
          m' = (if d < 2 * r \<or> (2 * r = d \<and> odd m) then m + 1 else m)
      in (m' * pow2 (- s), pow2 s))"

definition fraction_ns :: "int \<Rightarrow> int \<Rightarrow> int \<Rightarrow> int" where
  "fraction_ns f unit scale =
     (let (a, b) = round53 f 1; (c, d) = round53 unit scale; (x, y) = round53 (a * c) (b * d)
      in x div y)"

text \<open>\<^verbatim>\<open>leadingInt\<close>: the value and the rest, nothing on overflow.\<close>

fun leadingInt :: "int \<Rightarrow> string \<Rightarrow> (int \<times> string) option" where
  "leadingInt x [] = Some (x, [])"
| "leadingInt x (c # cs) =
     (if \<not> is_digit c then Some (x, c # cs)
      else if x > 2 ^ 63 div 10 then None
      else let y = 10 * x + digit_val c in if y > 2 ^ 63 then None else leadingInt y cs)"

text \<open>\<^verbatim>\<open>leadingFraction\<close>: the digits that fit, their scale, and the rest.\<close>

fun leadingFraction :: "int \<Rightarrow> int \<Rightarrow> bool \<Rightarrow> string \<Rightarrow> int \<times> int \<times> string" where
  "leadingFraction x scale ovf [] = (x, scale, [])"
| "leadingFraction x scale ovf (c # cs) =
     (if \<not> is_digit c then (x, scale, c # cs)
      else if ovf then leadingFraction x scale True cs
      else if x > (2 ^ 63 - 1) div 10 then leadingFraction x scale True cs
      else let y = 10 * x + digit_val c
           in if y > 2 ^ 63 then leadingFraction x scale True cs
              else leadingFraction y (scale * 10) False cs)"

lemma leadingInt_length: "leadingInt x s = Some (v, r) \<Longrightarrow> length r \<le> length s"
  by (induction x s rule: leadingInt.induct) (auto simp: Let_def split: if_splits)

lemma leadingFraction_length: "length (snd (snd (leadingFraction x sc ov s))) \<le> length s"
  by (induction s arbitrary: x sc ov) (auto simp: Let_def le_SucI)

definition unitMap :: "string \<Rightarrow> int option" where
  "unitMap u = map_of
     [(''ns'', 1), (''us'', 1000), ([CHR 0xC2, CHR 0xB5, CHR ''s''], 1000),
      ([CHR 0xCE, CHR 0xBC, CHR ''s''], 1000), (''ms'', 1000000), (''s'', 1000000000),
      (''m'', 60000000000), (''h'', 3600000000000)] u"

definition unit_char :: "char \<Rightarrow> bool" where
  "unit_char c \<longleftrightarrow> \<not> (c = CHR ''.'' \<or> is_digit c)"

text \<open>One turn of the loop: a number, a fraction and a unit; the value and the rest.\<close>

definition duration_item :: "string \<Rightarrow> (int \<times> string) option" where
  "duration_item s =
     (if s = [] \<or> unit_char (hd s) then None
      else case leadingInt 0 s of
        None \<Rightarrow> None
      | Some (v, s1) \<Rightarrow>
          let pre = (length s1 \<noteq> length s);
              dot = HasPrefix s1 ''.'';
              (f, scale, s2) = (if dot then leadingFraction 0 1 False (tl s1) else (0, 1, s1));
              post = (dot \<and> length s2 \<noteq> length (tl s1));
              u = takeWhile unit_char s2; s3 = dropWhile unit_char s2
          in if (\<not> pre \<and> \<not> post) \<or> u = [] then None
             else case unitMap u of
               None \<Rightarrow> None
             | Some unit \<Rightarrow>
                 if v > 2 ^ 63 div unit then None
                 else let w = v * unit + (if f > 0 then fraction_ns f unit scale else 0)
                      in if f > 0 \<and> w > 2 ^ 63 then None else Some (w, s3))"

lemma length_dropWhile_lt: "takeWhile p s \<noteq> [] \<Longrightarrow> length (dropWhile p s) < length s"
  by (cases s) (auto simp: length_dropWhile_le le_imp_less_Suc split: if_splits)

lemma duration_item_length: "duration_item s = Some (v, r) \<Longrightarrow> length r < length s"
proof -
  assume a: "duration_item s = Some (v, r)"
  then obtain w s1 where li: "leadingInt 0 s = Some (w, s1)"
    by (auto simp: duration_item_def split: if_splits option.splits)
  let ?t = "if HasPrefix s1 ''.'' then leadingFraction 0 1 False (tl s1) else (0, 1, s1)"
  from a li have "takeWhile unit_char (snd (snd ?t)) \<noteq> []"
      and r: "r = dropWhile unit_char (snd (snd ?t))"
    by (auto simp: duration_item_def Let_def split: if_splits option.splits prod.splits)
  then have "length r < length (snd (snd ?t))" by (simp add: length_dropWhile_lt)
  also have "\<dots> \<le> length s1"
    using leadingFraction_length [of 0 1 False "tl s1"] by auto
  also have "\<dots> \<le> length s" using li by (rule leadingInt_length)
  finally show ?thesis .
qed

text \<open>The sum is a \<^verbatim>\<open>uint64\<close>: it wraps before it is compared with \<open>2 ^ 63\<close>.\<close>

function duration_loop :: "int \<Rightarrow> string \<Rightarrow> int option" where
  "duration_loop d s =
     (if s = [] then Some d
      else case duration_item s of
        None \<Rightarrow> None
      | Some (v, r) \<Rightarrow>
          let d' = (d + v) mod 2 ^ 64 in if d' > 2 ^ 63 then None else duration_loop d' r)"
  by pat_completeness auto
termination
  by (relation "measure (\<lambda>(d, s). length s)") (auto dest: duration_item_length)

declare duration_loop.simps [simp del]

definition ParseDuration :: "string \<Rightarrow> int option" where
  "ParseDuration orig =
     (let neg = HasPrefix orig ''-'';
          s = (if neg \<or> HasPrefix orig ''+'' then tl orig else orig)
      in if s = ''0'' then Some 0
         else if s = [] then None
         else case duration_loop 0 s of
           None \<Rightarrow> None
         | Some d \<Rightarrow>
             if neg then Some (int64 (- d))
             else if d > 2 ^ 63 - 1 then None else Some d)"

lemma duration_loop_nonneg: "duration_loop d s = Some r \<Longrightarrow> 0 \<le> d \<Longrightarrow> 0 \<le> r"
proof (induction d s rule: duration_loop.induct)
  case (1 d s)
  then show ?case
    by (auto simp: Let_def duration_loop.simps [of d s] split: if_splits option.splits)
qed

lemma ParseDuration_range: "ParseDuration s = Some d \<Longrightarrow> - (2 ^ 63) \<le> d \<and> d < 2 ^ 63"
  using int64_range
  by (auto simp: ParseDuration_def Let_def split: if_splits option.splits
      dest!: duration_loop_nonneg)

end
