(* ===== verification/Calendar.thy ===== *)
theory Calendar
  imports GoStrings
begin

text \<open>
  Go's \<^verbatim>\<open>time.Time\<close> and \<^verbatim>\<open>time.Duration\<close>. An instant is the number of nanoseconds since
  January 1 of year 1, 00:00 UTC, which is the zero \<^verbatim>\<open>time.Time\<close>; a duration is a number of
  nanoseconds, a 64-bit value. The proleptic Gregorian calendar is computed from the day
  number in cycles of 400, 100, 4 and 1 years, as \<^verbatim>\<open>time.Date\<close> and its inverse do. A location
  is its UTC offset in seconds at every second: the time zone database is a parameter.
\<close>

type_synonym instant = int
type_synonym duration = int
type_synonym location = "int \<Rightarrow> int"

section \<open>Instants and durations\<close>

definition Millisecond :: duration where "Millisecond = 1000000"
definition Second :: duration where "Second = 1000000000"
definition Minute :: duration where "Minute = 60 * Second"
definition Hour :: duration where "Hour = 60 * Minute"

lemmas duration_units = Millisecond_def Second_def Minute_def Hour_def

definition IsZero :: "instant \<Rightarrow> bool" where
  "IsZero t \<longleftrightarrow> t = 0"

text \<open>\<^verbatim>\<open>Truncate\<close> rounds down to a multiple of \<open>d\<close> since the zero time.\<close>

definition Truncate :: "instant \<Rightarrow> duration \<Rightarrow> instant" where
  "Truncate t d = t - t mod d"

text \<open>\<^verbatim>\<open>t.Sub(u)\<close> saturates at the largest and the smallest duration.\<close>

definition Sub :: "instant \<Rightarrow> instant \<Rightarrow> duration" where
  "Sub t u =
     (if t - u > MaxInt64 then MaxInt64 else if t - u < MinInt64 then MinInt64 else t - u)"

text \<open>\<^verbatim>\<open>domain.NormalizeInstant\<close> (\<^verbatim>\<open>internal/domain/occurrence.go\<close>).\<close>

definition NormalizeInstant :: "instant \<Rightarrow> instant" where
  "NormalizeInstant value = (if IsZero value then 0 else Truncate value Millisecond)"

lemma Truncate_bounds: "0 < d \<Longrightarrow> Truncate t d \<le> t \<and> t < Truncate t d + d"
  by (simp add: Truncate_def pos_mod_bound)

lemma Truncate_dvd: "d dvd Truncate t d"
  by (simp add: Truncate_def minus_mod_eq_mult_div)

lemma Truncate_id: "d dvd t \<Longrightarrow> Truncate t d = t"
  by (simp add: Truncate_def)

lemma Truncate_greatest: "0 < d \<Longrightarrow> d dvd u \<Longrightarrow> u \<le> t \<Longrightarrow> u \<le> Truncate t d"
proof -
  assume a: "0 < d" "d dvd u" "u \<le> t"
  then obtain k where "u = d * k" by (auto elim: dvdE)
  with a have "k \<le> t div d" using zdiv_mono1 [of u t d] by simp
  with a \<open>u = d * k\<close> show ?thesis
    by (simp add: Truncate_def minus_mod_eq_mult_div mult_left_mono)
qed

lemma NormalizeInstant_eq: "NormalizeInstant t = Truncate t Millisecond"
  by (simp add: NormalizeInstant_def IsZero_def Truncate_def)

lemma NormalizeInstant_aligned [simp]: "Millisecond dvd NormalizeInstant t"
  by (simp add: NormalizeInstant_eq Truncate_dvd)

lemma NormalizeInstant_id: "Millisecond dvd t \<Longrightarrow> NormalizeInstant t = t"
  by (simp add: NormalizeInstant_eq Truncate_id)

lemma NormalizeInstant_idem [simp]: "NormalizeInstant (NormalizeInstant t) = NormalizeInstant t"
  by (simp add: NormalizeInstant_id)

lemma NormalizeInstant_0 [simp]: "NormalizeInstant 0 = 0"
  by (simp add: NormalizeInstant_def IsZero_def)

lemma NormalizeInstant_mono: "s \<le> t \<Longrightarrow> NormalizeInstant s \<le> NormalizeInstant t"
proof -
  assume "s \<le> t"
  moreover have pos: "0 < Millisecond" by (simp add: Millisecond_def)
  ultimately have "Truncate s Millisecond \<le> t"
    using Truncate_bounds [of Millisecond s] by simp
  with pos show ?thesis
    unfolding NormalizeInstant_eq by (intro Truncate_greatest Truncate_dvd)
qed

lemma Sub_exact: "\<bar>t - u\<bar> \<le> MaxInt64 \<Longrightarrow> Sub t u = t - u"
  by (auto simp: Sub_def MaxInt64_def MinInt64_def)

section \<open>The calendar\<close>

definition is_leap :: "int \<Rightarrow> bool" where
  "is_leap y \<longleftrightarrow> y mod 4 = 0 \<and> (y mod 100 \<noteq> 0 \<or> y mod 400 = 0)"

definition days_before_year :: "int \<Rightarrow> int" where
  "days_before_year y = 365 * (y - 1) + (y - 1) div 4 - (y - 1) div 100 + (y - 1) div 400"

definition month_lengths :: "bool \<Rightarrow> int list" where
  "month_lengths leap = [31, if leap then 29 else 28, 31, 30, 31, 30, 31, 31, 30, 31, 30, 31]"

definition days_before_month :: "bool \<Rightarrow> int \<Rightarrow> int" where
  "days_before_month leap m = sum_list (take (nat (m - 1)) (month_lengths leap))"

text \<open>The day number of \<^verbatim>\<open>time.Date(y, m, d, ...)\<close>, with months and days out of range carried.\<close>

definition date_days :: "int \<Rightarrow> int \<Rightarrow> int \<Rightarrow> int" where
  "date_days y m d =
     (let y' = y + (m - 1) div 12; m' = (m - 1) mod 12 + 1
      in days_before_year y' + days_before_month (is_leap y') m' + (d - 1))"

definition year_yday :: "int \<Rightarrow> int \<times> int" where
  "year_yday n =
     (let n400 = n div 146097; d400 = n mod 146097;
          n100 = min 3 (d400 div 36524); d100 = d400 - 36524 * n100;
          n4 = d100 div 1461; d4 = d100 mod 1461;
          n1 = min 3 (d4 div 365)
      in (400 * n400 + 100 * n100 + 4 * n4 + n1 + 1, d4 - 365 * n1))"

fun scan_months :: "int \<Rightarrow> int list \<Rightarrow> int \<Rightarrow> int \<times> int" where
  "scan_months m [] d = (m, d + 1)"
| "scan_months m (l # ls) d =
     (if d < l \<or> ls = [] then (m, d + 1) else scan_months (m + 1) ls (d - l))"

text \<open>Year, month and day of a day number.\<close>

definition civil :: "int \<Rightarrow> int \<times> int \<times> int" where
  "civil n = (let (y, yd) = year_yday n; (m, d) = scan_months 1 (month_lengths (is_leap y)) yd
              in (y, m, d))"

definition weekday :: "int \<Rightarrow> int" where
  "weekday n = (n + 1) mod 7"

text \<open>The fields of an instant shown in a location.\<close>

definition local_seconds :: "location \<Rightarrow> instant \<Rightarrow> int" where
  "local_seconds loc t = t div Second + loc (t div Second)"

definition local_day :: "location \<Rightarrow> instant \<Rightarrow> int" where
  "local_day loc t = local_seconds loc t div 86400"

definition tMinute :: "location \<Rightarrow> instant \<Rightarrow> int" where
  "tMinute loc t = local_seconds loc t div 60 mod 60"

definition tHour :: "location \<Rightarrow> instant \<Rightarrow> int" where
  "tHour loc t = local_seconds loc t div 3600 mod 24"

definition tMonth :: "location \<Rightarrow> instant \<Rightarrow> int" where
  "tMonth loc t = fst (snd (civil (local_day loc t)))"

definition tDay :: "location \<Rightarrow> instant \<Rightarrow> int" where
  "tDay loc t = snd (snd (civil (local_day loc t)))"

definition tWeekday :: "location \<Rightarrow> instant \<Rightarrow> int" where
  "tWeekday loc t = weekday (local_day loc t)"

definition UTC :: location where
  "UTC s = 0"

text \<open>\<^verbatim>\<open>t.AddDate(years, 0, 0)\<close> of a UTC instant.\<close>

definition AddYears :: "instant \<Rightarrow> int \<Rightarrow> instant" where
  "AddYears t k =
     (let n = t div (24 * Hour); (y, m, d) = civil n
      in date_days (y + k) m d * (24 * Hour) + t mod (24 * Hour))"

section \<open>The calendar computed both ways agrees\<close>

lemma year_yday_spec:
  assumes "year_yday n = (y, yd)"
  shows "n = days_before_year y + yd" and "0 \<le> yd" and "yd < 365 + (if is_leap y then 1 else 0)"
proof -
  define a where "a = n div 146097"
  define d400 where "d400 = n mod 146097"
  define b where "b = min 3 (d400 div 36524)"
  define d100 where "d100 = d400 - 36524 * b"
  define c where "c = d100 div 1461"
  define d4 where "d4 = d100 mod 1461"
  define e where "e = min 3 (d4 div 365)"
  have y: "y = 400 * a + 100 * b + 4 * c + e + 1" and yd: "yd = d4 - 365 * e"
    using assms unfolding year_yday_def Let_def
    by (simp_all add: a_def b_def c_def d400_def d100_def d4_def e_def)
  have n: "n = 146097 * a + d400" by (simp add: a_def d400_def)
  have d400: "0 \<le> d400" "d400 < 146097" by (simp_all add: d400_def)
  define q where "q = d400 div 36524"
  have q: "36524 * q \<le> d400" "d400 < 36524 * q + 36524" "0 \<le> q" "q \<le> 4"
    using d400 unfolding q_def by auto
  have b: "0 \<le> b" "b \<le> 3" and d100: "0 \<le> d100" "d100 < 36525" "b < 3 \<Longrightarrow> d100 < 36524"
    using d400 q unfolding b_def d100_def q_def [symmetric] min_def by auto
  have c: "0 \<le> c" "c \<le> 24" and d4: "0 \<le> d4" "d4 < 1461" "d100 = 1461 * c + d4"
    using d100 unfolding c_def d4_def by auto
  define r where "r = d4 div 365"
  have r: "365 * r \<le> d4" "d4 < 365 * r + 365" "0 \<le> r" "r \<le> 4"
    using d4 unfolding r_def by auto
  have e: "0 \<le> e" "e \<le> 3" and yd0: "0 \<le> yd" and yd1: "yd \<le> 365" "e < 3 \<Longrightarrow> yd < 365"
    using d4 r unfolding yd e_def r_def [symmetric] min_def by auto
  have ys: "(y - 1) div 4 = 100 * a + 25 * b + c" "(y - 1) div 100 = 4 * a + b"
      "(y - 1) div 400 = a"
    using b c e unfolding y
    by (auto intro: int_div_pos_eq [where r = e] int_div_pos_eq [where r = "4 * c + e"]
        int_div_pos_eq [where r = "100 * b + 4 * c + e"])
  show "n = days_before_year y + yd"
    unfolding days_before_year_def ys using n d4(3) by (simp add: y yd d100_def)
  show "0 \<le> yd" by (rule yd0)
  show "yd < 365 + (if is_leap y then 1 else 0)"
  proof (cases "yd = 365")
    case True
    with yd1 e have e3: "e = 3" by fastforce
    with True yd d4 have "d4 = 1460" by simp
    with d4(3) d100 c have "c = 24 \<Longrightarrow> b = 3" using b by fastforce
    moreover have "y = 4 * (100 * a + 25 * b + c + 1)" "y = 100 * (4 * a + b) + 4 * (c + 1)"
      using e3 by (simp_all add: y)
    ultimately have "is_leap y"
      using c int_mod_pos_eq [of y 100 "4 * a + b" "4 * (c + 1)"]
      by (cases "c = 24") (simp_all add: is_leap_def)
    with True show ?thesis by simp
  next
    case False
    with yd1 show ?thesis by simp
  qed
qed

lemma scan_months_spec:
  assumes "scan_months k ls d = (m, day)" and "0 \<le> d" and "ls \<noteq> []" and "d < sum_list ls"
    and "\<forall>l \<in> set ls. 0 < l"
  shows "k \<le> m \<and> m < k + int (length ls) \<and> 1 \<le> day \<and> day \<le> ls ! nat (m - k)
    \<and> d = sum_list (take (nat (m - k)) ls) + (day - 1)"
  using assms
proof (induction k ls d rule: scan_months.induct)
  case (2 k l ls d)
  show ?case
  proof (cases "d < l \<or> ls = []")
    case True
    with 2 show ?thesis by auto
  next
    case False
    with 2 have IH: "k + 1 \<le> m \<and> m < k + 1 + int (length ls) \<and> 1 \<le> day
        \<and> day \<le> ls ! nat (m - (k + 1)) \<and> d - l = sum_list (take (nat (m - (k + 1))) ls) + (day - 1)"
      by auto
    then have "nat (m - k) = Suc (nat (m - (k + 1)))" by auto
    with IH show ?thesis by auto
  qed
qed simp

lemma month_lengths_facts:
  "length (month_lengths l) = 12" "\<forall>x \<in> set (month_lengths l). 0 < x"
  "sum_list (month_lengths l) = 365 + (if l then 1 else 0)" "month_lengths l \<noteq> []"
  by (auto simp: month_lengths_def)

lemma civil_spec:
  assumes "civil n = (y, m, d)"
  shows "date_days y m d = n" and "1 \<le> m" and "m \<le> 12" and "1 \<le> d"
    and "d \<le> month_lengths (is_leap y) ! nat (m - 1)"
proof -
  obtain y' yd where yy: "year_yday n = (y', yd)" by fastforce
  with assms have [simp]: "y' = y"
      and sm: "scan_months 1 (month_lengths (is_leap y)) yd = (m, d)"
    by (auto simp: civil_def Let_def split: prod.splits)
  note Y = year_yday_spec [OF yy, simplified]
  have S: "1 \<le> m \<and> m < 1 + int (length (month_lengths (is_leap y))) \<and> 1 \<le> d
      \<and> d \<le> month_lengths (is_leap y) ! nat (m - 1)
      \<and> yd = sum_list (take (nat (m - 1)) (month_lengths (is_leap y))) + (d - 1)"
    using scan_months_spec [OF sm] Y by (auto simp: month_lengths_facts)
  then show "1 \<le> m" "m \<le> 12" "1 \<le> d" "d \<le> month_lengths (is_leap y) ! nat (m - 1)"
    by (auto simp: month_lengths_facts)
  then have "(m - 1) div 12 = 0" "(m - 1) mod 12 = m - 1" by auto
  then show "date_days y m d = n"
    using S Y by (simp add: date_days_def Let_def days_before_month_def)
qed

lemma div_step: "0 < (m :: int) \<Longrightarrow> y div m = (y - 1) div m + (if m dvd y then 1 else 0)"
proof -
  assume m: "0 < m"
  define q r where "q = (y - 1) div m" and "r = (y - 1) mod m"
  then have y: "y = m * q + (r + 1)" and r: "0 \<le> r" "r < m"
    using m mult_div_mod_eq [of m "y - 1"] by auto
  show ?thesis
  proof (cases "r + 1 = m")
    case True
    with y have "y = m * (q + 1)" by (simp add: algebra_simps)
    with m have "y div m = q + 1" and "m dvd y" by simp_all
    then show ?thesis by (simp add: q_def)
  next
    case False
    with y r have "y div m = q" "y mod m = r + 1"
      by (auto intro: int_div_pos_eq int_mod_pos_eq)
    with r show ?thesis by (simp add: q_def [symmetric] dvd_eq_mod_eq_0)
  qed
qed

lemma leap_sum:
  fixes a a' b b' c c' y :: int
  assumes "a' = a + (if p then 1 else 0)" and "b' = b + (if q then 1 else 0)"
    and "c' = c + (if r then 1 else 0)" and "q \<Longrightarrow> p" and "r \<Longrightarrow> q"
  shows "365 * y + a' - b' + c'
    = 365 * (y - 1) + a - b + c + 365 + (if p \<and> (\<not> q \<or> r) then 1 else 0)"
  using assms by auto

lemma days_before_year_step:
  "days_before_year (y + 1) = days_before_year y + 365 + (if is_leap y then 1 else 0)"
proof -
  have d: "4 dvd y" if "(100 :: int) dvd y" using that by (rule dvd_trans [rotated]) simp
  have e: "100 dvd y" if "(400 :: int) dvd y" using that by (rule dvd_trans [rotated]) simp
  have l: "is_leap y \<longleftrightarrow> 4 dvd y \<and> (\<not> 100 dvd y \<or> 400 dvd y)"
    by (simp add: is_leap_def dvd_eq_mod_eq_0)
  show ?thesis
    unfolding days_before_year_def add_diff_cancel_right' l
    by (rule leap_sum [OF div_step div_step div_step d e]) simp_all
qed

lemma days_before_year_mono:
  "days_before_year y + 365 * int k \<le> days_before_year (y + int k)"
proof (induction k)
  case (Suc k)
  have "days_before_year (y + int (Suc k)) = days_before_year (y + int k + 1)"
    by (simp add: algebra_simps)
  with Suc show ?case by (simp add: days_before_year_step)
qed simp

lemma date_days_mono_year:
  assumes "civil n = (y, m, d)" and "0 < k"
  shows "n < date_days (y + k) m d"
proof -
  note C = civil_spec [OF assms(1)]
  have *: "(m - 1) div 12 = 0" "(m - 1) mod 12 = m - 1" using C by auto
  have "nat (m - 1) < 12" using C by auto
  then have mm: "days_before_month (is_leap y) m \<le> days_before_month (is_leap (y + k)) m + 1"
    unfolding days_before_month_def month_lengths_def
    by (auto simp: less_Suc_eq numeral_eq_Suc)
  have "days_before_year y + 365 \<le> days_before_year (y + k)"
    using days_before_year_mono [of y "nat k"] assms(2) by simp
  with C(1) * mm show ?thesis by (simp add: date_days_def Let_def)
qed

lemma AddYears_later: "0 < k \<Longrightarrow> t < AddYears t k"
proof -
  assume k: "0 < k"
  obtain y m d where c: "civil (t div (24 * Hour)) = (y, m, d)" by (metis prod_cases3)
  then have "t div (24 * Hour) + 1 \<le> date_days (y + k) m d"
    using date_days_mono_year [OF c k] by simp
  moreover have "t = t div (24 * Hour) * (24 * Hour) + t mod (24 * Hour)"
    by (rule div_mult_mod_eq [symmetric])
  moreover have "0 < 24 * Hour" by (simp add: duration_units)
  ultimately have "t < date_days (y + k) m d * (24 * Hour) + t mod (24 * Hour)"
    by (metis add_less_cancel_right mult_strict_right_mono zless_add1_eq zle_add1_eq_le
        add1_zle_eq)
  with c show ?thesis by (simp add: AddYears_def Let_def)
qed

lemma tMinute_range: "0 \<le> tMinute loc t \<and> tMinute loc t < 60"
  by (simp add: tMinute_def)

lemma tHour_range: "0 \<le> tHour loc t \<and> tHour loc t < 24"
  by (simp add: tHour_def)

lemma tWeekday_range: "0 \<le> tWeekday loc t \<and> tWeekday loc t < 7"
  by (simp add: tWeekday_def weekday_def)

end
