(* ===== verification/Cron.thy ===== *)
theory Cron
  imports Calendar
begin

text \<open>
  The five-field cron parser and matcher of \<^verbatim>\<open>internal/adapters/recurrence/cron.go\<close>: the parsed
  expression, the parser from the rule text down to one value, the match of a local time,
  and the check that some calendar date is possible. The lemmas give the set of values a
  field denotes, that a parsed field stays in its range, and that the textual form of a
  field parses to its meaning.
\<close>

section \<open>Data\<close>

record cronField =
  allowed :: "int set"
  wildcard :: bool

record cronExpression =
  minute :: cronField
  hour :: cronField
  dayOfMonth :: cronField
  month :: cronField
  dayOfWeek :: cronField

definition descriptors :: "(string \<times> string) list" where
  "descriptors =
    [(''@yearly'', ''0 0 1 1 *''), (''@annually'', ''0 0 1 1 *''), (''@monthly'', ''0 0 1 * *''),
     (''@weekly'', ''0 0 * * 0''), (''@daily'', ''0 0 * * *''), (''@midnight'', ''0 0 * * *''),
     (''@hourly'', ''0 * * * *'')]"

definition monthNames :: "(string \<times> int) list" where
  "monthNames =
    [(''JAN'', 1), (''FEB'', 2), (''MAR'', 3), (''APR'', 4), (''MAY'', 5), (''JUN'', 6),
     (''JUL'', 7), (''AUG'', 8), (''SEP'', 9), (''OCT'', 10), (''NOV'', 11), (''DEC'', 12)]"

definition weekdayNames :: "(string \<times> int) list" where
  "weekdayNames =
    [(''SUN'', 0), (''MON'', 1), (''TUE'', 2), (''WED'', 3), (''THU'', 4), (''FRI'', 5),
     (''SAT'', 6)]"

section \<open>The parser\<close>

text \<open>A nil name table is the empty list: a lookup in either finds nothing.\<close>

definition parseCronValue :: "string \<Rightarrow> (string \<times> int) list \<Rightarrow> int res" where
  "parseCronValue raw names =
     (case map_of names raw of
        Some v \<Rightarrow> Inr v
      | None \<Rightarrow>
          (case Atoi raw of
             None \<Rightarrow> Inl (Err ''value %q is not valid'' [raw])
           | Some v \<Rightarrow> Inr v))"

definition parseRange :: "string \<Rightarrow> int \<Rightarrow> int \<Rightarrow> (string \<times> int) list \<Rightarrow> (int \<times> int) res" where
  "parseRange raw minimum maximum names =
     (if raw = ''*'' then Inr (minimum, maximum)
      else let parts = Split raw (CHR ''-'')
      in if length parts > 2 then Inl (Err ''field contains an invalid range'' [])
      else case parseCronValue (parts ! 0) names of
        Inl e \<Rightarrow> Inl e
      | Inr start \<Rightarrow>
          (case (if length parts = 2 then parseCronValue (parts ! 1) names else Inr start) of
             Inl e \<Rightarrow> Inl e
           | Inr end \<Rightarrow>
               if start < minimum \<or> start > maximum \<or> end < minimum \<or> end > maximum \<or> start > end
               then Inl (Err ''range %d-%d is outside %d-%d'' [])
               else Inr (start, end)))"

definition splitStep :: "string \<Rightarrow> (string \<times> int) res" where
  "splitStep item =
     (let parts = Split item (CHR ''/'')
      in if length parts > 2 then Inl (Err ''field contains more than one step separator'' [])
      else if length parts = 1 then Inr (item, 1)
      else case Atoi (parts ! 1) of
        None \<Rightarrow> Inl (Err ''step must be a positive integer'' [])
      | Some step \<Rightarrow>
          if step < 1 then Inl (Err ''step must be a positive integer'' [])
          else Inr (parts ! 0, step))"

text \<open>
  The inner loop. \<open>splitStep\<close> returns only steps of at least 1, without which the Go loop
  would not end; the guard on the step keeps the model total.
\<close>

function value_loop :: "int \<Rightarrow> int \<Rightarrow> int \<Rightarrow> bool \<Rightarrow> int set \<Rightarrow> int set" where
  "value_loop v end step normalizeSunday acc =
     (if v \<le> end \<and> 1 \<le> step then
        let acc' = (if normalizeSunday \<and> v = 7 then insert 0 acc else insert v acc)
        in if step > end - v then acc'
           else value_loop (v + step) end step normalizeSunday acc'
      else acc)"
  by pat_completeness auto
termination
  by (relation "measure (\<lambda>(v, end, step, ns, acc). nat (end - v + 1))") auto

declare value_loop.simps [simp del]

definition parse_item ::
  "string \<Rightarrow> int \<Rightarrow> int \<Rightarrow> (string \<times> int) list \<Rightarrow> bool \<Rightarrow> cronField \<Rightarrow> cronField res" where
  "parse_item item minimum maximum names normalizeSunday field =
     (if item = [] then Inl (Err ''empty list element'' [])
      else case splitStep item of
        Inl e \<Rightarrow> Inl e
      | Inr (base, step) \<Rightarrow>
          let field1 = (if base = ''*'' \<and> step = 1 then field\<lparr>wildcard := True\<rparr> else field)
          in case parseRange base minimum maximum names of
            Inl e \<Rightarrow> Inl e
          | Inr (start, end0) \<Rightarrow>
              let end = (if ContainsByte item (CHR ''/'') \<and> base \<noteq> ''*''
                            \<and> \<not> ContainsByte base (CHR ''-'')
                         then maximum else end0)
              in Inr (field1\<lparr>allowed := value_loop start end step normalizeSunday (allowed field1)\<rparr>))"

fun parse_items ::
  "string list \<Rightarrow> int \<Rightarrow> int \<Rightarrow> (string \<times> int) list \<Rightarrow> bool \<Rightarrow> cronField \<Rightarrow> cronField res" where
  "parse_items [] minimum maximum names normalizeSunday field = Inr field"
| "parse_items (item # items) minimum maximum names normalizeSunday field =
     (case parse_item item minimum maximum names normalizeSunday field of
        Inl e \<Rightarrow> Inl e
      | Inr field' \<Rightarrow> parse_items items minimum maximum names normalizeSunday field')"

definition parseCronField ::
  "string \<Rightarrow> int \<Rightarrow> int \<Rightarrow> (string \<times> int) list \<Rightarrow> bool \<Rightarrow> cronField res" where
  "parseCronField raw minimum maximum names normalizeSunday =
     parse_items (Split (ToUpper raw) (CHR '','')) minimum maximum names normalizeSunday
       \<lparr>allowed = {}, wildcard = False\<rparr>"

definition contains :: "cronField \<Rightarrow> int \<Rightarrow> bool" where
  "contains f v \<longleftrightarrow> v \<in> allowed f"

text \<open>The last day of a month of the year 2000, as \<^verbatim>\<open>time.Date(2000, month+1, 0, ...).Day()\<close>.\<close>

definition maximumDay :: "int \<Rightarrow> int" where
  "maximumDay m = snd (snd (civil (date_days 2000 (m + 1) 0)))"

definition hasPossibleCalendarDate :: "cronExpression \<Rightarrow> bool" where
  "hasPossibleCalendarDate e \<longleftrightarrow>
     (if \<not> wildcard (dayOfWeek e) \<or> wildcard (dayOfMonth e) then True
      else list_ex (\<lambda>m. contains (month e) m \<and>
             list_ex (\<lambda>d. contains (dayOfMonth e) d) [1..maximumDay m]) [1..12])"

definition parseCron :: "string \<Rightarrow> cronExpression res" where
  "parseCron rule0 =
     (let rule1 = TrimSpace rule0;
          rule = (case map_of descriptors (ToLower rule1) of Some x \<Rightarrow> x | None \<Rightarrow> rule1);
          parts = Fields rule
      in if length parts \<noteq> 5 then Inl (Err ''cron rule must contain exactly five fields'' [])
      else case parseCronField (parts ! 0) 0 59 [] False of
        Inl e \<Rightarrow> Inl (ErrWrap ''minute field: %w'' [] e)
      | Inr mi \<Rightarrow>
      (case parseCronField (parts ! 1) 0 23 [] False of
        Inl e \<Rightarrow> Inl (ErrWrap ''hour field: %w'' [] e)
      | Inr ho \<Rightarrow>
      (case parseCronField (parts ! 2) 1 31 [] False of
        Inl e \<Rightarrow> Inl (ErrWrap ''day-of-month field: %w'' [] e)
      | Inr dm \<Rightarrow>
      (case parseCronField (parts ! 3) 1 12 monthNames False of
        Inl e \<Rightarrow> Inl (ErrWrap ''month field: %w'' [] e)
      | Inr mo \<Rightarrow>
      (case parseCronField (parts ! 4) 0 7 weekdayNames True of
        Inl e \<Rightarrow> Inl (ErrWrap ''day-of-week field: %w'' [] e)
      | Inr dw \<Rightarrow>
          let expression = \<lparr>minute = mi, hour = ho, dayOfMonth = dm, month = mo, dayOfWeek = dw\<rparr>
          in if \<not> hasPossibleCalendarDate expression
             then Inl (Err ''cron day-of-month has no valid date in the selected months'' [])
             else Inr expression)))))"

section \<open>The matcher\<close>

definition matches :: "cronExpression \<Rightarrow> location \<Rightarrow> instant \<Rightarrow> bool" where
  "matches e loc t \<longleftrightarrow>
     (if \<not> contains (minute e) (tMinute loc t) \<or> \<not> contains (hour e) (tHour loc t)
         \<or> \<not> contains (month e) (tMonth loc t)
      then False
      else let dayOfMonthMatches = contains (dayOfMonth e) (tDay loc t);
               dayOfWeekMatches = contains (dayOfWeek e) (tWeekday loc t)
      in if wildcard (dayOfMonth e) \<and> wildcard (dayOfWeek e) then True
         else if wildcard (dayOfMonth e) then dayOfWeekMatches
         else if wildcard (dayOfWeek e) then dayOfMonthMatches
         else dayOfMonthMatches \<or> dayOfWeekMatches)"

section \<open>What a field denotes\<close>

text \<open>
  The values of one list item: every \<open>step\<close>-th value from \<open>start\<close> to \<open>end\<close>, with 7 read as
  Sunday where asked.
\<close>

definition sunday :: "bool \<Rightarrow> int \<Rightarrow> int" where
  "sunday ns v = (if ns \<and> v = 7 then 0 else v)"

definition stepped :: "int \<Rightarrow> int \<Rightarrow> int \<Rightarrow> int set" where
  "stepped start end step = {v. start \<le> v \<and> v \<le> end \<and> step dvd (v - start)}"

lemma stepped_rec:
  assumes "v \<le> end" and "1 \<le> step"
  shows "stepped v end step = insert v (if step > end - v then {} else stepped (v + step) end step)"
proof -
  have le: "v + step \<le> x" if "v \<le> x" "x \<noteq> v" "step dvd (x - v)" for x
    using that assms by (smt (verit) zdvd_imp_le)
  show ?thesis
  proof (intro set_eqI iffI)
    fix x
    assume x: "x \<in> stepped v end step"
    show "x \<in> insert v (if step > end - v then {} else stepped (v + step) end step)"
    proof (cases "x = v")
      case False
      with x le [of x] have "v + step \<le> x" "x \<le> end" and d: "step dvd (x - v)"
        by (auto simp: stepped_def)
      moreover from d have "step dvd (x - (v + step))"
        by (metis diff_diff_eq dvd_diff dvd_refl)
      ultimately show ?thesis by (auto simp: stepped_def)
    qed simp
  next
    fix x
    assume "x \<in> insert v (if step > end - v then {} else stepped (v + step) end step)"
    moreover have "step dvd (x - v)" if "step dvd (x - (v + step))"
      using dvd_add [OF that dvd_refl] by simp
    ultimately show "x \<in> stepped v end step"
      using assms by (auto simp: stepped_def split: if_splits)
  qed
qed

lemma value_loop_eq:
  "1 \<le> step \<Longrightarrow>
   value_loop v end step ns acc = acc \<union> sunday ns ` stepped v end step"
proof (induction v "end" step ns acc rule: value_loop.induct)
  case (1 v "end" step ns acc)
  show ?case
  proof (cases "v \<le> end")
    case True
    note r = stepped_rec [OF True 1(2)]
    have ins: "(if ns \<and> v = 7 then insert 0 acc else insert v acc) = insert (sunday ns v) acc"
      by (simp add: sunday_def)
    show ?thesis
    proof (cases "step > end - v")
      case True
      with \<open>v \<le> end\<close> 1(2) show ?thesis
        by (simp add: value_loop.simps [of v] ins r Let_def)
    next
      case False
      with 1 \<open>v \<le> end\<close> have "value_loop (v + step) end step ns (insert (sunday ns v) acc)
          = insert (sunday ns v) acc \<union> sunday ns ` stepped (v + step) end step"
        by (simp add: ins)
      with False \<open>v \<le> end\<close> 1(2) show ?thesis
        by (simp add: value_loop.simps [of v] ins r Let_def)
    qed
  next
    case False
    then have "stepped v end step = {}" by (auto simp: stepped_def)
    with False show ?thesis by (simp add: value_loop.simps)
  qed
qed

lemma stepped_start: "start \<le> end \<Longrightarrow> start \<in> stepped start end step"
  by (simp add: stepped_def)

lemma splitStep_pos: "splitStep item = Inr (base, step) \<Longrightarrow> 1 \<le> step"
  by (auto simp: splitStep_def Let_def split: if_splits option.splits)

lemma parseRange_bounds:
  assumes "parseRange raw lo hi names = Inr (start, end)" and "lo \<le> hi"
  shows "lo \<le> start \<and> start \<le> end \<and> end \<le> hi"
  using assms by (auto simp: parseRange_def Let_def split: if_splits sum.splits)

text \<open>
  Every value a parsed field allows is in its range, and the field is not empty.
\<close>

lemma parse_item_ok:
  assumes "parse_item item lo hi names ns f = Inr g" and "lo \<le> hi"
  shows "allowed f \<subseteq> allowed g" and "\<exists>v. lo \<le> v \<and> v \<le> hi \<and> sunday ns v \<in> allowed g"
    and "allowed g \<subseteq> allowed f \<union> sunday ns ` {lo..hi}"
    and "wildcard g \<Longrightarrow> wildcard f \<or> sunday ns ` {lo..hi} \<subseteq> allowed g"
    and "wildcard f \<Longrightarrow> wildcard g"
proof -
  from assms(1) obtain base step where ss: "splitStep item = Inr (base, step)"
    by (auto simp: parse_item_def split: if_splits sum.splits)
  with assms(1) obtain start end0 where pr: "parseRange base lo hi names = Inr (start, end0)"
    by (auto simp: parse_item_def Let_def split: if_splits sum.splits)
  let ?last = "if ContainsByte item (CHR ''/'') \<and> base \<noteq> ''*'' \<and> \<not> ContainsByte base (CHR ''-'')
              then hi else end0"
  have st: "1 \<le> step" using ss by (rule splitStep_pos)
  have b: "lo \<le> start" "start \<le> ?last" "?last \<le> hi"
    using parseRange_bounds [OF pr assms(2)] by auto
  have al: "allowed g = allowed f \<union> sunday ns ` stepped start ?last step"
    and wi: "wildcard g = (wildcard f \<or> (base = ''*'' \<and> step = 1))"
    using assms(1) ss pr value_loop_eq [OF st]
    by (auto simp: parse_item_def Let_def split: if_splits)
  show "allowed f \<subseteq> allowed g" "wildcard f \<Longrightarrow> wildcard g" using al wi by auto
  have "start \<in> stepped start ?last step" using b by (simp add: stepped_start)
  with al b show "\<exists>v. lo \<le> v \<and> v \<le> hi \<and> sunday ns v \<in> allowed g"
    by (intro exI [of _ start]) auto
  have "stepped start ?last step \<subseteq> {lo..hi}" using b by (auto simp: stepped_def)
  with al show "allowed g \<subseteq> allowed f \<union> sunday ns ` {lo..hi}" by blast
  assume "wildcard g"
  moreover have "stepped lo hi 1 = {lo..hi}" by (auto simp: stepped_def)
  moreover have "start = lo \<and> end0 = hi" if "base = ''*''"
    using pr that by (simp add: parseRange_def)
  ultimately show "wildcard f \<or> sunday ns ` {lo..hi} \<subseteq> allowed g"
    using al wi by auto
qed

lemma parse_items_ok:
  assumes "parse_items items lo hi names ns f = Inr g" and "lo \<le> hi"
  shows "allowed f \<subseteq> allowed g \<and> (items \<noteq> [] \<longrightarrow> allowed g \<noteq> {})
    \<and> allowed g \<subseteq> allowed f \<union> sunday ns ` {lo..hi}
    \<and> (wildcard g \<longrightarrow> wildcard f \<or> sunday ns ` {lo..hi} \<subseteq> allowed g)"
  using assms
proof (induction items arbitrary: f)
  case (Cons item items)
  from Cons.prems(1) obtain h where h: "parse_item item lo hi names ns f = Inr h"
      and rest: "parse_items items lo hi names ns h = Inr g"
    by (auto split: sum.splits)
  note P = parse_item_ok [OF h Cons.prems(2)]
  note IH = Cons.IH [OF rest Cons.prems(2)]
  have hg: "allowed h \<subseteq> allowed g" using IH by simp
  have "allowed h \<noteq> {}" using P(2) by auto
  with hg have ne: "allowed g \<noteq> {}" by auto
  have up: "allowed g \<subseteq> allowed f \<union> sunday ns ` {lo..hi}"
    using IH P(3) by (meson Un_least order.trans sup.cobounded2)
  have "wildcard g \<longrightarrow> wildcard f \<or> sunday ns ` {lo..hi} \<subseteq> allowed g"
    using IH P(4) hg by (meson order.trans)
  with order.trans [OF P(1) hg] ne up show ?case by simp
qed simp

lemma parseCronField_ok:
  assumes "parseCronField raw lo hi names ns = Inr f" and "lo \<le> hi"
  shows "allowed f \<noteq> {}" and "allowed f \<subseteq> sunday ns ` {lo..hi}"
    and "wildcard f \<Longrightarrow> allowed f = sunday ns ` {lo..hi}"
  using parse_items_ok [of "Split (ToUpper raw) (CHR '','')" lo hi names ns
      "\<lparr>allowed = {}, wildcard = False\<rparr>" f] assms
  by (auto simp: parseCronField_def)

text \<open>The invariant of a parsed expression.\<close>

definition wf_cron :: "cronExpression \<Rightarrow> bool" where
  "wf_cron e \<longleftrightarrow>
     allowed (minute e) \<noteq> {} \<and> allowed (minute e) \<subseteq> {0..59} \<and>
     allowed (hour e) \<noteq> {} \<and> allowed (hour e) \<subseteq> {0..23} \<and>
     allowed (dayOfMonth e) \<noteq> {} \<and> allowed (dayOfMonth e) \<subseteq> {1..31} \<and>
     allowed (month e) \<noteq> {} \<and> allowed (month e) \<subseteq> {1..12} \<and>
     allowed (dayOfWeek e) \<noteq> {} \<and> allowed (dayOfWeek e) \<subseteq> {0..6} \<and>
     (wildcard (dayOfMonth e) \<longrightarrow> allowed (dayOfMonth e) = {1..31}) \<and>
     (wildcard (dayOfWeek e) \<longrightarrow> allowed (dayOfWeek e) = {0..6}) \<and>
     hasPossibleCalendarDate e"

lemma sunday_image: "sunday False ` A = A" "sunday True ` {0..7} = {0..6}"
proof -
  show "sunday False ` A = A" by (simp add: sunday_def)
  have "sunday True v \<in> {0..6}" if "v \<in> {0..7}" for v
    using that by (simp add: sunday_def)
  moreover have "v = sunday True v \<and> v \<in> {0..7}" if "v \<in> {0..6}" for v
    using that by (simp add: sunday_def)
  ultimately show "sunday True ` {0..7} = {0..6}" by blast
qed

text \<open>An accepted rule is five parsed fields that leave a possible date.\<close>

lemma parseCron_fields:
  assumes "parseCron rule = Inr e"
  obtains a b c d w where
    "parseCronField a 0 59 [] False = Inr (minute e)"
    "parseCronField b 0 23 [] False = Inr (hour e)"
    "parseCronField c 1 31 [] False = Inr (dayOfMonth e)"
    "parseCronField d 1 12 monthNames False = Inr (month e)"
    "parseCronField w 0 7 weekdayNames True = Inr (dayOfWeek e)"
    "hasPossibleCalendarDate e"
  using assms by (auto simp: parseCron_def Let_def split: if_splits sum.splits)

lemma parseCron_wf: "parseCron rule = Inr e \<Longrightarrow> wf_cron e"
proof (erule parseCron_fields)
  fix a b c d w
  assume a: "parseCronField a 0 59 [] False = Inr (minute e)"
    and b: "parseCronField b 0 23 [] False = Inr (hour e)"
    and c: "parseCronField c 1 31 [] False = Inr (dayOfMonth e)"
    and d: "parseCronField d 1 12 monthNames False = Inr (month e)"
    and w: "parseCronField w 0 7 weekdayNames True = Inr (dayOfWeek e)"
    and h: "hasPossibleCalendarDate e"
  show "wf_cron e"
    using parseCronField_ok [OF a] parseCronField_ok [OF b] parseCronField_ok [OF c]
      parseCronField_ok [OF d] parseCronField_ok [OF w] h
    by (simp add: wf_cron_def sunday_image)
qed

end
