(* ===== verification/Decimal.thy ===== *)
theory Decimal
  imports GoStrings
begin

text \<open>
  Decimal numerals as \<^verbatim>\<open>strconv.Itoa\<close> and the verbs \<^verbatim>\<open>%d\<close> and \<^verbatim>\<open>%02d\<close> print them, and the theorem
  that \<^verbatim>\<open>strconv.Atoi\<close> reads back what was printed.
\<close>

section \<open>Decimal numerals\<close>

definition digit_char :: "int \<Rightarrow> char" where
  "digit_char d = char_of (48 + d)"

function show_int :: "int \<Rightarrow> string" where
  "show_int n = (if n < 10 then [digit_char n] else show_int (n div 10) @ [digit_char (n mod 10)])"
  by pat_completeness auto
termination
  by (relation "measure nat") auto

declare show_int.simps [simp del]

lemma digit_char_facts:
  assumes "0 \<le> d" and "d < 10"
  shows "is_digit (digit_char d)" and "digit_val (digit_char d) = d"
  using assms by (simp_all add: digit_char_def is_digit_def digit_val_def)

lemma digits_val_append: "digits_val n (xs @ ys) = digits_val (digits_val n xs) ys"
  by (induction xs arbitrary: n) simp_all

lemma show_int_all:
  "0 \<le> n \<Longrightarrow>
   show_int n \<noteq> [] \<and> list_all is_digit (show_int n) \<and> digits_val 0 (show_int n) = n"
proof (induction n rule: show_int.induct)
  case (1 n)
  show ?case
  proof (cases "n < 10")
    case True
    with 1 show ?thesis by (simp add: show_int.simps [of n] digit_char_facts)
  next
    case False
    with 1 show ?thesis
      by (simp add: show_int.simps [of n] digits_val_append digit_char_facts)
  qed
qed

lemma show_int_facts:
  assumes "0 \<le> n"
  shows "show_int n \<noteq> []" and "list_all is_digit (show_int n)" and "digits_val 0 (show_int n) = n"
  using show_int_all [OF assms] by simp_all

lemma digit_not_sign: "list_all is_digit s \<Longrightarrow> s \<noteq> [] \<Longrightarrow> \<not> HasPrefix s ''-'' \<and> \<not> HasPrefix s ''+''"
  by (cases s) (auto simp: HasPrefix_def is_digit_def)

lemma Atoi_show_int: "0 \<le> n \<Longrightarrow> n < 2 ^ 63 \<Longrightarrow> Atoi (show_int n) = Some n"
  using show_int_facts [of n] digit_not_sign [of "show_int n"]
  by (simp add: Atoi_def atoi_abs_def Let_def MinInt64_def MaxInt64_def)

section \<open>Signed and padded numerals\<close>

definition Itoa :: "int \<Rightarrow> string" where
  "Itoa n = (if n < 0 then CHR ''-'' # show_int (- n) else show_int n)"

text \<open>\<open>pad k n\<close> is the \<open>k\<close> last digits of \<open>n\<close>, with leading zeros.\<close>

fun pad :: "nat \<Rightarrow> int \<Rightarrow> string" where
  "pad 0 n = []"
| "pad (Suc k) n = pad k (n div 10) @ [digit_char (n mod 10)]"

lemma length_pad [simp]: "length (pad k n) = k"
  by (induction k arbitrary: n) simp_all

lemma pad_digits: "list_all is_digit (pad k n)"
  by (induction k arbitrary: n) (simp_all add: digit_char_facts)

lemma pad_val: "0 \<le> n \<Longrightarrow> n < 10 ^ k \<Longrightarrow> digits_val 0 (pad k n) = n"
proof (induction k arbitrary: n)
  case (Suc k)
  then have "n div 10 < 10 ^ k" by simp
  with Suc show ?case by (simp add: digits_val_append digit_char_facts)
qed simp

end
