(* ===== verification/CronText.thy ===== *)
theory CronText
  imports Cron Decimal
begin

text \<open>
  The grammar of a cron field as data, its printed form and its meaning, and the theorem
  that the parser of \<^verbatim>\<open>cron.go\<close> reads the printed form of any well-formed list of items as the
  union of the meanings of the items.
\<close>

section \<open>Items\<close>

datatype cron_base = BStar | BVal int | BRange int int

type_synonym cron_item = "cron_base \<times> int option"

fun show_base :: "cron_base \<Rightarrow> string" where
  "show_base BStar = ''*''"
| "show_base (BVal v) = show_int v"
| "show_base (BRange a b) = show_int a @ CHR ''-'' # show_int b"

fun show_item :: "cron_item \<Rightarrow> string" where
  "show_item (b, None) = show_base b"
| "show_item (b, Some n) = show_base b @ CHR ''/'' # show_int n"

definition show_field :: "cron_item list \<Rightarrow> string" where
  "show_field items = Join (map show_item items) (CHR '','')"

definition item_step :: "cron_item \<Rightarrow> int" where
  "item_step it = (case snd it of None \<Rightarrow> 1 | Some n \<Rightarrow> n)"

fun item_values :: "int \<Rightarrow> int \<Rightarrow> cron_item \<Rightarrow> int set" where
  "item_values lo hi (BStar, s) = stepped lo hi (item_step (BStar, s))"
| "item_values lo hi (BVal v, None) = {v}"
| "item_values lo hi (BVal v, Some n) = stepped v hi n"
| "item_values lo hi (BRange a b, s) = stepped a b (item_step (BRange a b, s))"

definition item_wildcard :: "cron_item \<Rightarrow> bool" where
  "item_wildcard it \<longleftrightarrow> fst it = BStar \<and> item_step it = 1"

fun wf_base :: "int \<Rightarrow> int \<Rightarrow> cron_base \<Rightarrow> bool" where
  "wf_base lo hi BStar = True"
| "wf_base lo hi (BVal v) = (lo \<le> v \<and> v \<le> hi)"
| "wf_base lo hi (BRange a b) = (lo \<le> a \<and> a \<le> b \<and> b \<le> hi)"

definition wf_item :: "int \<Rightarrow> int \<Rightarrow> cron_item \<Rightarrow> bool" where
  "wf_item lo hi it \<longleftrightarrow> wf_base lo hi (fst it) \<and> 1 \<le> item_step it \<and> item_step it < 2 ^ 63"

section \<open>Characters of the printed form\<close>

lemma is_digit_not:
  "is_digit c \<Longrightarrow> c \<noteq> CHR ''-'' \<and> c \<noteq> CHR ''/'' \<and> c \<noteq> CHR '','' \<and> c \<noteq> CHR ''*''"
  by (auto simp: is_digit_def)

lemma show_int_chars:
  "0 \<le> n \<Longrightarrow> c \<in> set (show_int n) \<Longrightarrow>
   c \<noteq> CHR ''-'' \<and> c \<noteq> CHR ''/'' \<and> c \<noteq> CHR '','' \<and> c \<noteq> CHR ''*'' \<and> of_char c < (97 :: int)"
  using show_int_facts(2) [of n] is_digit_not [of c]
  by (auto simp: list_all_iff is_digit_def)

lemma ToUpper_id: "\<forall>c \<in> set s. of_char c < (97 :: int) \<Longrightarrow> ToUpper s = s"
proof (induction s)
  case (Cons a s)
  then have "of_char a < (97 :: int)" and "ToUpper s = s" by auto
  moreover from this have "a \<noteq> CHR 0xC4" "a \<noteq> CHR 0xC5" by auto
  ultimately show ?case by (simp add: upper_char_def)
qed simp

lemma show_base_chars:
  assumes "wf_base lo hi b" and "0 \<le> lo"
  shows "\<forall>c \<in> set (show_base b). c \<noteq> CHR ''/'' \<and> c \<noteq> CHR '','' \<and> of_char c < (97 :: int)"
proof (cases b)
  case (BVal v)
  with assms show ?thesis using show_int_chars [of v] by auto
next
  case (BRange x y)
  with assms show ?thesis using show_int_chars [of x] show_int_chars [of y] by auto
qed simp

lemma show_item_chars:
  assumes "wf_item lo hi it" and "0 \<le> lo"
  shows "\<forall>c \<in> set (show_item it). c \<noteq> CHR '','' \<and> of_char c < (97 :: int)"
proof -
  obtain b s where [simp]: "it = (b, s)" by fastforce
  have b: "wf_base lo hi b" and st: "1 \<le> item_step it" using assms by (auto simp: wf_item_def)
  note B = show_base_chars [OF b assms(2)]
  show ?thesis
  proof (cases s)
    case None
    with B show ?thesis by simp
  next
    case (Some n)
    with st show ?thesis using B show_int_chars [of n] by (auto simp: item_step_def)
  qed
qed

lemma show_base_not_Nil: "wf_base lo hi b \<Longrightarrow> 0 \<le> lo \<Longrightarrow> show_base b \<noteq> []"
  using show_int_facts(1) by (cases b) auto

lemma set_Join: "set (Join ps c) \<subseteq> insert c (\<Union>p \<in> set ps. set p)"
  by (induction ps c rule: Join.induct) auto

section \<open>The parser reads the printed form\<close>

lemma splitStep_show:
  assumes "wf_item lo hi it" and "0 \<le> lo"
  shows "splitStep (show_item it) = Inr (show_base (fst it), item_step it)"
proof -
  obtain b s where [simp]: "it = (b, s)" by fastforce
  have b: "CHR ''/'' \<notin> set (show_base b)"
    using show_base_chars [of lo hi b] assms by (auto simp: wf_item_def)
  show ?thesis
  proof (cases s)
    case None
    with b show ?thesis by (simp add: splitStep_def Split_no_occ item_step_def)
  next
    case (Some n)
    with assms have n: "1 \<le> n" "n < 2 ^ 63" by (auto simp: wf_item_def item_step_def)
    then have "CHR ''/'' \<notin> set (show_int n)" using show_int_chars [of n] by auto
    with b n Some show ?thesis
      by (simp add: splitStep_def Split_append_sep Split_no_occ item_step_def Atoi_show_int)
  qed
qed

lemma slash_show:
  assumes "wf_item lo hi (b, s)" and "0 \<le> lo"
  shows "ContainsByte (show_item (b, s)) (CHR ''/'') \<longleftrightarrow> s \<noteq> None"
  using assms show_base_chars [of lo hi b]
  by (cases s) (auto simp: ContainsByte_def wf_item_def)

lemma parseCronValue_show:
  assumes "map_of names (show_int v) = None" and "0 \<le> v" and "v < 2 ^ 63"
  shows "parseCronValue (show_int v) names = Inr v"
  using assms by (simp add: parseCronValue_def Atoi_show_int)

lemma show_int_not_star: "0 \<le> v \<Longrightarrow> show_int v \<noteq> ''*''"
  using show_int_chars [of v "CHR ''*''"] by auto

lemma parseRange_show_range:
  assumes names: "\<And>n. 0 \<le> n \<Longrightarrow> map_of names (show_int n) = None"
    and r: "0 \<le> lo" "hi < 2 ^ 63" "lo \<le> a" "a \<le> b" "b \<le> hi"
  shows "parseRange (show_base (BRange a b)) lo hi names = Inr (a, b)"
proof -
  have "CHR ''-'' \<notin> set (show_int a)" "CHR ''-'' \<notin> set (show_int b)"
    using show_int_chars [of a] show_int_chars [of b] r by auto
  then have "Split (show_base (BRange a b)) (CHR ''-'') = [show_int a, show_int b]"
    by (simp add: Split_append_sep Split_no_occ)
  moreover have "show_base (BRange a b) \<noteq> ''*''"
    using show_int_facts(1) [of a] r by (cases "show_int a") auto
  ultimately show ?thesis
    using r parseCronValue_show [OF names, of a] parseCronValue_show [OF names, of b]
    by (simp add: parseRange_def Let_def)
qed

lemma parseRange_show_val:
  assumes names: "\<And>n. 0 \<le> n \<Longrightarrow> map_of names (show_int n) = None"
    and r: "0 \<le> lo" "hi < 2 ^ 63" "lo \<le> v" "v \<le> hi"
  shows "parseRange (show_base (BVal v)) lo hi names = Inr (v, v)"
proof -
  have "Split (show_int v) (CHR ''-'') = [show_int v]"
    using show_int_chars [of v] r by (intro Split_no_occ) auto
  moreover have "show_int v \<noteq> ''*''" using r by (intro show_int_not_star) simp
  ultimately show ?thesis
    using r parseCronValue_show [OF names, of v] by (simp add: parseRange_def Let_def)
qed

lemma parse_item_show:
  assumes names: "\<And>n. 0 \<le> n \<Longrightarrow> map_of names (show_int n) = None"
    and wf: "wf_item lo hi it" and lo: "0 \<le> lo" and hi: "hi < 2 ^ 63"
  shows "parse_item (show_item it) lo hi names ns f =
    Inr (f\<lparr>allowed := allowed f \<union> sunday ns ` item_values lo hi it,
           wildcard := wildcard f \<or> item_wildcard it\<rparr>)"
proof -
  obtain b s where it [simp]: "it = (b, s)" by fastforce
  note ss = splitStep_show [OF wf lo] and sl = slash_show [OF wf [unfolded it] lo]
  have step: "1 \<le> item_step it" and wb: "wf_base lo hi b" using wf by (auto simp: wf_item_def)
  have ne: "show_item it \<noteq> []"
    using show_base_not_Nil [OF wb lo] by (cases s) auto
  note loop = value_loop_eq [OF step]
  show ?thesis
  proof (cases b)
    case BStar
    have "parseRange (show_base b) lo hi names = Inr (lo, hi)"
      by (simp add: BStar parseRange_def)
    with ss ne loop show ?thesis
      by (cases "wildcard f") (auto simp: parse_item_def BStar item_wildcard_def Let_def)
  next
    case (BVal v)
    then have v: "lo \<le> v" "v \<le> hi" using wb by auto
    have "\<not> ContainsByte (show_int v) (CHR ''-'')" "show_int v \<noteq> ''*''"
      using show_int_chars [of v] show_int_not_star [of v] v lo by (auto simp: ContainsByte_def)
    moreover have "stepped v v 1 = {v}" by (auto simp: stepped_def)
    ultimately show ?thesis
      using parseRange_show_val [OF names lo hi v] ss ne loop sl
      by (cases s) (auto simp: parse_item_def BVal item_wildcard_def Let_def item_step_def)
  next
    case (BRange x y)
    then have v: "lo \<le> x" "x \<le> y" "y \<le> hi" using wb by auto
    have "ContainsByte (show_base b) (CHR ''-'')" by (simp add: BRange ContainsByte_def)
    moreover have "show_base b \<noteq> ''*''"
      using show_int_facts(1) [of x] v lo by (cases "show_int x") (auto simp: BRange)
    ultimately show ?thesis
      using parseRange_show_range [OF names lo hi v] ss ne loop
      by (auto simp: parse_item_def BRange item_wildcard_def Let_def)
  qed
qed

lemma parse_items_show:
  assumes names: "\<And>n. 0 \<le> n \<Longrightarrow> map_of names (show_int n) = None"
    and wf: "\<forall>it \<in> set items. wf_item lo hi it" and lo: "0 \<le> lo" and hi: "hi < 2 ^ 63"
  shows "parse_items (map show_item items) lo hi names ns f =
    Inr (f\<lparr>allowed := allowed f \<union> (\<Union>it \<in> set items. sunday ns ` item_values lo hi it),
           wildcard := wildcard f \<or> (\<exists>it \<in> set items. item_wildcard it)\<rparr>)"
  using wf
proof (induction items arbitrary: f)
  case (Cons it items)
  then show ?case
    using parse_item_show [OF names _ lo hi, of it ns f] by (simp add: Un_assoc)
qed simp

lemma parseCronField_show:
  assumes names: "\<And>n. 0 \<le> n \<Longrightarrow> map_of names (show_int n) = None"
    and wf: "\<forall>it \<in> set items. wf_item lo hi it" and ne: "items \<noteq> []"
    and lo: "0 \<le> lo" and hi: "hi < 2 ^ 63"
  shows "parseCronField (show_field items) lo hi names ns =
    Inr \<lparr>allowed = (\<Union>it \<in> set items. sunday ns ` item_values lo hi it),
         wildcard = (\<exists>it \<in> set items. item_wildcard it)\<rparr>"
proof -
  have chars: "\<forall>p \<in> set (map show_item items). \<forall>c \<in> set p. c \<noteq> CHR '','' \<and> of_char c < (97 :: int)"
  proof
    fix p
    assume "p \<in> set (map show_item items)"
    then obtain it where "it \<in> set items" and p: "p = show_item it" by auto
    with wf have "wf_item lo hi it" by blast
    then show "\<forall>c \<in> set p. c \<noteq> CHR '','' \<and> of_char c < (97 :: int)"
      unfolding p by (rule show_item_chars [OF _ lo])
  qed
  have "\<forall>c \<in> set (show_field items). of_char c < (97 :: int)"
    using set_Join [of "map show_item items" "CHR '',''"] chars
    by (fastforce simp: show_field_def)
  then have "ToUpper (show_field items) = show_field items" by (rule ToUpper_id)
  moreover have "Split (show_field items) (CHR '','') = map show_item items"
    unfolding show_field_def using chars ne by (intro Split_Join) auto
  ultimately show ?thesis
    by (simp add: parseCronField_def parse_items_show [OF names wf lo hi])
qed

text \<open>The name tables of the program hold no numerals.\<close>

lemma names_no_digits:
  assumes "\<forall>k \<in> fst ` set names. \<exists>c \<in> set k. \<not> is_digit c" and "0 \<le> n"
  shows "map_of names (show_int n) = None"
proof (rule ccontr)
  assume "map_of names (show_int n) \<noteq> None"
  then have "show_int n \<in> fst ` set names" by (metis map_of_eq_None_iff)
  with assms(1) obtain c where "c \<in> set (show_int n)" "\<not> is_digit c" by blast
  with show_int_facts(2) [OF assms(2)] show False by (auto simp: list_all_iff)
qed

lemma month_names_no_digits: "0 \<le> n \<Longrightarrow> map_of monthNames (show_int n) = None"
  by (rule names_no_digits) (simp_all add: monthNames_def is_digit_def)

lemma weekday_names_no_digits: "0 \<le> n \<Longrightarrow> map_of weekdayNames (show_int n) = None"
  by (rule names_no_digits) (simp_all add: weekdayNames_def is_digit_def)

end
