(* ===== verification/Recurrence.thy ===== *)
theory Recurrence
  imports CronText
begin

text \<open>
  The recurrence calculator of \<^verbatim>\<open>internal/adapters/recurrence/calculator.go\<close> and the interface
  \<^verbatim>\<open>ports.Recurrence\<close> that the planner and the command service use. The time zone database
  behind \<^verbatim>\<open>time.LoadLocation\<close> is the parameter \<open>tzdb\<close>. The lemmas show that the search for
  the next match returns the first matching minute, that the closed form for \<^verbatim>\<open>@every\<close> rules is
  iteration of the interval, and that the calculator satisfies the laws of the interface.
\<close>

type_synonym tzdb = "string \<Rightarrow> location option"

section \<open>The calculator\<close>

definition minimumInterval :: duration where "minimumInterval = Second"
definition maximumInterval :: duration where "maximumInterval = 366 * 24 * Hour"
definition searchYears :: int where "searchYears = 10"

definition loadLocation :: "tzdb \<Rightarrow> string \<Rightarrow> location res" where
  "loadLocation tz name0 =
     (let name = (if name0 = [] then ''UTC'' else name0)
      in if name \<noteq> ''UTC'' \<and> \<not> ContainsByte name (CHR ''/'')
         then Inl (Err ''timezone must be UTC or an IANA area/location name'' [])
         else case tz name of
           None \<Rightarrow> Inl (Err ''load timezone %q: %w'' [name])
         | Some location \<Rightarrow> Inr location)"

definition parseInterval :: "string \<Rightarrow> duration res" where
  "parseInterval rule =
     (let raw = TrimSpace (TrimPrefix rule ''@every '')
      in case ParseDuration raw of
        None \<Rightarrow> Inl (Err ''parse @every interval: %w'' [raw])
      | Some interval \<Rightarrow>
          if interval < minimumInterval \<or> interval > maximumInterval
          then Inl (Err ''@every interval must be between %s and %s'' [])
          else if interval mod Millisecond \<noteq> 0
          then Inl (Err ''@every interval must use millisecond precision'' [])
          else Inr interval)"

definition is_every :: "string \<Rightarrow> bool" where
  "is_every rule \<longleftrightarrow> HasPrefix rule ''@every ''"

definition Validate :: "tzdb \<Rightarrow> string \<Rightarrow> string \<Rightarrow> goerr option" where
  "Validate tz rule timezone =
     (if HasPrefix rule ''TZ='' \<or> HasPrefix rule ''CRON_TZ=''
      then Some (Err ''timezone prefix is not allowed in schedule rule'' [])
      else case loadLocation tz timezone of
        Inl e \<Rightarrow> Some e
      | Inr _ \<Rightarrow>
          if is_every rule then err_of (parseInterval rule) else err_of (parseCron rule))"

text \<open>The search loop: minute by minute from the candidate to the limit.\<close>

function next_loop :: "cronExpression \<Rightarrow> location \<Rightarrow> instant \<Rightarrow> instant \<Rightarrow> instant option" where
  "next_loop e loc candidate limit =
     (if candidate \<le> limit then
        (if matches e loc candidate then Some (Truncate candidate Millisecond)
         else next_loop e loc (candidate + Minute) limit)
      else None)"
  by pat_completeness auto
termination
  by (relation "measure (\<lambda>(e, loc, candidate, limit). nat (limit - candidate + 1))")
    (auto simp: duration_units)

declare next_loop.simps [simp del]

definition first_candidate :: "instant \<Rightarrow> instant" where
  "first_candidate after = Truncate after Minute + Minute"

definition Next :: "tzdb \<Rightarrow> string \<Rightarrow> string \<Rightarrow> instant \<Rightarrow> instant res" where
  "Next tz rule timezone after =
     (case Validate tz rule timezone of
        Some e \<Rightarrow> Inl e
      | None \<Rightarrow>
          if is_every rule then
            (case parseInterval rule of
               Inl e \<Rightarrow> Inl e
             | Inr interval \<Rightarrow> Inr (Truncate (after + interval) Millisecond))
          else case (loadLocation tz timezone, parseCron rule) of
            (Inr location, Inr expression) \<Rightarrow>
              (let candidate = first_candidate after; limit = AddYears candidate searchYears
               in case next_loop expression location candidate limit of
                 None \<Rightarrow>
                   Inl (Err ''schedule has no occurrence within the supported search horizon'' [])
               | Some t \<Rightarrow> Inr t)
          | (Inl e, _) \<Rightarrow> Inl e
          | (_, Inl e) \<Rightarrow> Inl e)"

definition NextAfter :: "tzdb \<Rightarrow> string \<Rightarrow> string \<Rightarrow> instant \<Rightarrow> instant \<Rightarrow> instant res" where
  "NextAfter tz rule timezone anchor0 threshold0 =
     (case Validate tz rule timezone of
        Some e \<Rightarrow> Inl e
      | None \<Rightarrow>
          let anchor = Truncate anchor0 Millisecond; threshold = Truncate threshold0 Millisecond
          in if is_every rule then
               (case parseInterval rule of
                  Inl e \<Rightarrow> Inl e
                | Inr interval \<Rightarrow>
                    if anchor > threshold then Inr anchor
                    else let steps = int64 (go_quot (Sub threshold anchor) interval + 1)
                         in Inr (Truncate (anchor + int64 (steps * interval)) Millisecond))
             else Next tz rule timezone threshold)"

section \<open>The search returns the first match\<close>

lemma minute_grid:
  assumes "Minute dvd c" and "c \<le> u" and "u \<noteq> c" and "Minute dvd u"
  shows "c + Minute \<le> u"
proof -
  from assms have "Minute dvd (u - c)" by (intro dvd_diff) simp_all
  with assms have "Minute \<le> u - c" by (intro zdvd_imp_le) simp_all
  then show ?thesis by simp
qed

lemma next_loop_Some:
  assumes "next_loop e loc c lim = Some t" and "Minute dvd c"
  shows "c \<le> t \<and> t \<le> lim \<and> Minute dvd t \<and> matches e loc t
    \<and> (\<forall>u. c \<le> u \<and> u < t \<and> Minute dvd u \<longrightarrow> \<not> matches e loc u)"
  using assms
proof (induction e loc c lim rule: next_loop.induct)
  case (1 e loc c lim)
  have ms: "Millisecond dvd c"
    using 1(3) by (rule dvd_trans [rotated]) (simp add: duration_units)
  from 1(2) have le: "c \<le> lim" by (auto simp: next_loop.simps [of e loc c] split: if_splits)
  show ?case
  proof (cases "matches e loc c")
    case True
    with 1(2,3) le ms have "t = c" by (simp add: next_loop.simps [of e loc c] Truncate_id)
    with True le 1(3) show ?thesis by auto
  next
    case False
    with 1 le have IH: "c + Minute \<le> t \<and> t \<le> lim \<and> Minute dvd t \<and> matches e loc t
        \<and> (\<forall>u. c + Minute \<le> u \<and> u < t \<and> Minute dvd u \<longrightarrow> \<not> matches e loc u)"
      by (simp add: next_loop.simps [of e loc c])
    note grid = minute_grid [OF 1(3)]
    with IH False grid have "\<not> matches e loc u" if "c \<le> u" "u < t" "Minute dvd u" for u
      using that by metis
    moreover have "0 < Minute" by (simp add: duration_units)
    ultimately show ?thesis using IH by auto
  qed
qed

lemma next_loop_None:
  assumes "next_loop e loc c lim = None" and "Minute dvd c"
  shows "\<forall>u. c \<le> u \<and> u \<le> lim \<and> Minute dvd u \<longrightarrow> \<not> matches e loc u"
  using assms
proof (induction e loc c lim rule: next_loop.induct)
  case (1 e loc c lim)
  show ?case
  proof (cases "c \<le> lim")
    case True
    with 1(2) have nm: "\<not> matches e loc c"
      by (auto simp: next_loop.simps [of e loc c] split: if_splits)
    with 1 True have IH: "\<forall>u. c + Minute \<le> u \<and> u \<le> lim \<and> Minute dvd u \<longrightarrow> \<not> matches e loc u"
      by (simp add: next_loop.simps [of e loc c])
    note grid = minute_grid [OF 1(3)]
    with IH nm grid show ?thesis by metis
  qed auto
qed

lemma first_candidate_facts:
  "after < first_candidate after" "Minute dvd first_candidate after"
  "Minute dvd u \<Longrightarrow> after < u \<Longrightarrow> first_candidate after \<le> u"
proof -
  have pos: "0 < Minute" by (simp add: duration_units)
  then show "after < first_candidate after"
    using Truncate_bounds [of Minute after] by (simp add: first_candidate_def)
  show "Minute dvd first_candidate after" by (simp add: first_candidate_def Truncate_dvd)
  assume "Minute dvd u" and "after < u"
  with pos have "Minute dvd (u - Truncate after Minute)" "Truncate after Minute < u"
    using Truncate_bounds [OF pos, of after] Truncate_dvd [of Minute after]
    by (auto intro: dvd_diff)
  then have "Minute \<le> u - Truncate after Minute" by (intro zdvd_imp_le) simp_all
  then show "first_candidate after \<le> u" by (simp add: first_candidate_def)
qed

text \<open>A rule that is not an interval: what an answer and what a failure of the search mean.\<close>

lemma Next_cron_iff:
  assumes "\<not> is_every rule" and "Validate tz rule zone = None"
  obtains loc e where "loadLocation tz zone = Inr loc" and "parseCron rule = Inr e"
    and "Next tz rule zone after =
      (case next_loop e loc (first_candidate after) (AddYears (first_candidate after) searchYears)
       of None \<Rightarrow> Inl (Err ''schedule has no occurrence within the supported search horizon'' [])
        | Some t \<Rightarrow> Inr t)"
  using assms
  by (auto simp: Validate_def Next_def Let_def isOk_def err_of_def split: if_splits sum.splits)

lemma Next_valid: "Next tz rule zone after = Inr t \<Longrightarrow> Validate tz rule zone = None"
  by (auto simp: Next_def split: option.splits)

lemma NextAfter_valid: "NextAfter tz rule zone a th = Inr t \<Longrightarrow> Validate tz rule zone = None"
  by (auto simp: NextAfter_def split: option.splits)

lemma Next_cron_first:
  assumes "Next tz rule zone after = Inr t" and "\<not> is_every rule"
  obtains loc e where "loadLocation tz zone = Inr loc" and "parseCron rule = Inr e"
    and "after < t" and "Minute dvd t" and "matches e loc t"
    and "\<forall>u. after < u \<and> u < t \<and> Minute dvd u \<longrightarrow> \<not> matches e loc u"
proof -
  obtain loc e where L: "loadLocation tz zone = Inr loc" and E: "parseCron rule = Inr e"
    and N: "Next tz rule zone after =
      (case next_loop e loc (first_candidate after) (AddYears (first_candidate after) searchYears)
       of None \<Rightarrow> Inl (Err ''schedule has no occurrence within the supported search horizon'' [])
        | Some t \<Rightarrow> Inr t)"
    using Next_cron_iff [OF assms(2) Next_valid [OF assms(1)]] .
  from N assms(1) have "next_loop e loc (first_candidate after)
      (AddYears (first_candidate after) searchYears) = Some t"
    by (simp split: option.splits)
  from next_loop_Some [OF this first_candidate_facts(2)]
  have T: "first_candidate after \<le> t" "Minute dvd t" "matches e loc t"
    and F: "\<forall>u. first_candidate after \<le> u \<and> u < t \<and> Minute dvd u \<longrightarrow> \<not> matches e loc u"
    by auto
  from T(1) have "after < t" using first_candidate_facts(1) [of after] by linarith
  moreover from F have "\<forall>u. after < u \<and> u < t \<and> Minute dvd u \<longrightarrow> \<not> matches e loc u"
    using first_candidate_facts(3) by blast
  ultimately show thesis using that L E T by blast
qed

section \<open>Intervals\<close>

lemma parseInterval_ok:
  assumes "parseInterval rule = Inr i"
  shows "Second \<le> i" and "i \<le> 366 * 24 * Hour" and "Millisecond dvd i"
  using assms
  by (auto simp: parseInterval_def Let_def minimumInterval_def maximumInterval_def
      dvd_eq_mod_eq_0 split: option.splits if_splits)

lemma Next_every:
  assumes "Next tz rule zone after = Inr t" and "is_every rule"
  obtains i where "parseInterval rule = Inr i" and "t = Truncate (after + i) Millisecond"
  using assms by (auto simp: Next_def split: option.splits sum.splits)

lemma Next_every_later:
  assumes "parseInterval rule = Inr i"
  shows "after < Truncate (after + i) Millisecond"
proof -
  have "0 < Millisecond" by (simp add: duration_units)
  from Truncate_bounds [OF this, of "after + i"]
  have "after + i - Millisecond < Truncate (after + i) Millisecond" by linarith
  moreover have "Millisecond \<le> i" using parseInterval_ok(1) [OF assms] by (simp add: duration_units)
  ultimately show ?thesis by linarith
qed

text \<open>
  The span over which the closed form for intervals does not meet the saturation of
  \<^verbatim>\<open>Sub\<close> or the wrap-around of the product: about 291 years.
\<close>

definition safe_span :: duration where
  "safe_span = MaxInt64 - maximumInterval"

lemma every_closed_form:
  assumes "Second \<le> i" and "i \<le> maximumInterval" and "Millisecond dvd i"
    and "Millisecond dvd a" and "a \<le> th" and "th - a \<le> safe_span"
  shows "Truncate (a + int64 (int64 (go_quot (Sub th a) i + 1) * i)) Millisecond
      = a + ((th - a) div i + 1) * i"
proof -
  have i: "0 < i" using assms(1) by (simp add: duration_units)
  define k where "k = (th - a) div i"
  have k: "0 \<le> k" using assms(5) i by (simp add: k_def pos_imp_zdiv_nonneg_iff)
  have ki: "k * i \<le> th - a" using i by (simp add: k_def minus_mod_eq_div_mult [symmetric])
  have "k \<le> k * i" using k i by (simp add: mult_le_cancel_left1)
  with ki assms(6) have kb: "k + 1 \<le> MaxInt64"
    by (simp add: safe_span_def maximumInterval_def duration_units MaxInt64_def)
  have "Sub th a = th - a"
    using assms(5,6) by (intro Sub_exact)
      (simp add: safe_span_def maximumInterval_def duration_units MaxInt64_def)
  then have "go_quot (Sub th a) i = k" using assms(5) i by (simp add: go_quot_nonneg k_def)
  moreover have "int64 (k + 1) = k + 1"
    using k kb by (intro int64_id) (simp_all add: MaxInt64_def)
  moreover have "int64 ((k + 1) * i) = (k + 1) * i"
  proof (rule int64_id)
    have "(k + 1) * i = k * i + i" by (simp add: algebra_simps)
    then have "(k + 1) * i \<le> MaxInt64"
      using ki assms(2,6) unfolding safe_span_def by linarith
    then show "(k + 1) * i < 2 ^ 63" by (simp add: MaxInt64_def)
    have "0 \<le> (k + 1) * i" using k i by simp
    moreover have "- (2 ^ 63) \<le> (0 :: int)" by simp
    ultimately show "- (2 ^ 63) \<le> (k + 1) * i" by (rule order.trans [rotated])
  qed
  moreover have "Millisecond dvd (a + (k + 1) * i)" using assms(3,4) by (intro dvd_add dvd_mult)
  ultimately show ?thesis by (simp add: Truncate_id k_def)
qed

text \<open>Stepping the interval from the anchor until the threshold is passed: the reference.\<close>

function every_steps :: "duration \<Rightarrow> instant \<Rightarrow> instant \<Rightarrow> instant" where
  "every_steps i a th = (if a > th \<or> i \<le> 0 then a else every_steps i (a + i) th)"
  by pat_completeness auto
termination
  by (relation "measure (\<lambda>(i, a, th). nat (th - a + 1))") auto

declare every_steps.simps [simp del]

lemma every_steps_closed:
  assumes "0 < i" and "a \<le> th"
  shows "every_steps i a th = a + ((th - a) div i + 1) * i"
  using assms
proof (induction i a th rule: every_steps.induct)
  case (1 i a th)
  show ?case
  proof (cases "a + i \<le> th")
    case True
    with 1 have IH: "every_steps i (a + i) th = a + i + ((th - (a + i)) div i + 1) * i" by simp
    have "(th - (a + i)) div i = (th - a) div i - 1"
      using 1(2) div_add_self2 [of i "th - a - i"] by (simp add: algebra_simps)
    with IH 1(2,3) show ?thesis by (simp add: every_steps.simps [of i a] algebra_simps)
  next
    case False
    with 1(2,3) have "(th - a) div i = 0" by simp
    with False 1(2,3) show ?thesis
      by (simp add: every_steps.simps [of i a] every_steps.simps [of i "a + i"])
  qed
qed

lemma NextAfter_every:
  assumes "NextAfter tz rule zone a th = Inr t" and "is_every rule"
    and "Millisecond dvd a" and "Millisecond dvd th" and "a \<le> th" and "th - a \<le> safe_span"
  obtains i where "parseInterval rule = Inr i" and "t = every_steps i a th"
proof -
  from assms(1,2) obtain i where i: "parseInterval rule = Inr i"
    by (auto simp: NextAfter_def Let_def split: option.splits sum.splits)
  note I = parseInterval_ok [OF i]
  have "Truncate a Millisecond = a" "Truncate th Millisecond = th"
    using assms(3,4) by (simp_all add: Truncate_id)
  with assms i NextAfter_valid [OF assms(1)]
  have "t = Truncate (a + int64 (int64 (go_quot (Sub th a) i + 1) * i)) Millisecond"
    by (simp add: NextAfter_def Let_def)
  also have "\<dots> = a + ((th - a) div i + 1) * i"
    using I assms by (intro every_closed_form) (simp_all add: maximumInterval_def)
  also have "\<dots> = every_steps i a th"
    using I assms by (intro every_steps_closed [symmetric]) (simp_all add: duration_units)
  finally show thesis using that i by blast
qed

lemma every_steps_passes: "0 < i \<Longrightarrow> th < every_steps i a th"
proof (induction i a th rule: every_steps.induct)
  case (1 i a th)
  then show ?case by (auto simp: every_steps.simps [of i a])
qed

section \<open>The interface of the recurrence port\<close>

text \<open>
  \<^verbatim>\<open>ports.Recurrence\<close>: what the planner and the command service rely on. An answer is later
  than the instant asked about and is a whole number of milliseconds.
\<close>

locale recurrence_port =
  fixes port_next :: "string \<Rightarrow> string \<Rightarrow> instant \<Rightarrow> instant res"
    and port_next_after :: "string \<Rightarrow> string \<Rightarrow> instant \<Rightarrow> instant \<Rightarrow> instant res"
  assumes next_later: "port_next rule zone t = Inr u \<Longrightarrow> t < u"
    and next_aligned: "port_next rule zone t = Inr u \<Longrightarrow> Millisecond dvd u"
    and next_after_later:
      "\<lbrakk>port_next_after rule zone a th = Inr u; Millisecond dvd a; Millisecond dvd th; a \<le> th;
        th - a \<le> safe_span\<rbrakk> \<Longrightarrow> th < u"
    and next_after_aligned: "port_next_after rule zone a th = Inr u \<Longrightarrow> Millisecond dvd u"

lemma Next_later: "Next tz rule zone t = Inr u \<Longrightarrow> t < u"
proof (cases "is_every rule")
  case True
  assume "Next tz rule zone t = Inr u"
  then obtain i where "parseInterval rule = Inr i" and "u = Truncate (t + i) Millisecond"
    using True by (rule Next_every)
  then show ?thesis by (simp add: Next_every_later)
next
  case False
  assume "Next tz rule zone t = Inr u"
  then show ?thesis using False by (rule Next_cron_first)
qed

lemma Next_aligned: "Next tz rule zone t = Inr u \<Longrightarrow> Millisecond dvd u"
proof (cases "is_every rule")
  case False
  assume "Next tz rule zone t = Inr u"
  then show ?thesis
  proof (rule Next_cron_first [OF _ False])
    assume "Minute dvd u"
    then show ?thesis by (rule dvd_trans [rotated]) (simp add: duration_units)
  qed
qed (auto elim!: Next_every simp: Truncate_dvd)

lemma NextAfter_cron: "\<not> is_every rule \<Longrightarrow> NextAfter tz rule zone a th = Inr u \<Longrightarrow>
    Next tz rule zone (Truncate th Millisecond) = Inr u"
  by (auto simp: NextAfter_def Let_def split: option.splits)

lemma NextAfter_later:
  assumes "NextAfter tz rule zone a th = Inr u" and "Millisecond dvd a" and "Millisecond dvd th"
    and "a \<le> th" and "th - a \<le> safe_span"
  shows "th < u"
proof (cases "is_every rule")
  case True
  obtain i where i: "parseInterval rule = Inr i" and u: "u = every_steps i a th"
    using NextAfter_every [OF assms(1) True assms(2-5)] .
  have "0 < i" using parseInterval_ok(1) [OF i] by (simp add: duration_units)
  then show ?thesis unfolding u by (rule every_steps_passes)
next
  case False
  from NextAfter_cron [OF False assms(1)] assms(3) show ?thesis
    by (simp add: Truncate_id Next_later)
qed

lemma NextAfter_aligned: "NextAfter tz rule zone a th = Inr u \<Longrightarrow> Millisecond dvd u"
proof (cases "is_every rule")
  case True
  assume "NextAfter tz rule zone a th = Inr u"
  with True show ?thesis
    by (auto simp: NextAfter_def Let_def Truncate_dvd split: option.splits sum.splits if_splits)
next
  case False
  assume "NextAfter tz rule zone a th = Inr u"
  from Next_aligned [OF NextAfter_cron [OF False this]] show ?thesis .
qed

interpretation calc: recurrence_port "Next tz" "NextAfter tz" for tz
  by unfold_locales (auto intro: Next_later Next_aligned NextAfter_later NextAfter_aligned)

end
