(* ===== verification/Targets.thy ===== *)
theory Targets
  imports GoStrings "HOL-Library.Word"
begin

text \<open>
  Outbound target policy: the IP address classes of Go's \<^verbatim>\<open>net/netip\<close>, the target checks of
  \<^verbatim>\<open>internal/domain/schedule.go\<close> (\<^verbatim>\<open>IsSafeTargetAddress\<close>, \<^verbatim>\<open>validateTargetURL\<close>) and the
  deployment allowlist of \<^verbatim>\<open>internal/config/target_allowlist.go\<close>. The textual parsers
  \<^verbatim>\<open>url.Parse\<close>, \<^verbatim>\<open>netip.ParseAddr\<close> and \<^verbatim>\<open>netip.ParsePrefix\<close> are parameters. The lemmas give
  the exact set of safe addresses as numeric ranges and show that an allowlist only ever
  admits internal addresses.
\<close>

section \<open>Addresses and prefixes\<close>

text \<open>The zero \<^verbatim>\<open>netip.Addr\<close>, an IPv4 address, an IPv6 address with its zone.\<close>

datatype addr = AddrZero | V4 "32 word" | V6 "128 word" string

record prefix =
  pfx_addr :: addr
  pfx_bits :: nat

definition ip4 :: "nat \<Rightarrow> nat \<Rightarrow> nat \<Rightarrow> nat \<Rightarrow> 32 word" where
  "ip4 a b c d = of_nat (((a * 256 + b) * 256 + c) * 256 + d)"

definition IsValid :: "addr \<Rightarrow> bool" where
  "IsValid ip \<longleftrightarrow> ip \<noteq> AddrZero"

fun Zone :: "addr \<Rightarrow> string" where
  "Zone (V6 a z) = z"
| "Zone ip = []"

definition Unmap :: "addr \<Rightarrow> addr" where
  "Unmap ip = (case ip of
     V6 a z \<Rightarrow> if drop_bit 32 a = 0xffff then V4 (ucast a) else ip
   | _ \<Rightarrow> ip)"

fun Is4 :: "addr \<Rightarrow> bool" where
  "Is4 (V4 a) = True"
| "Is4 ip = False"

fun IsLoopback :: "addr \<Rightarrow> bool" where
  "IsLoopback (V4 a) = (drop_bit 24 a = 127)"
| "IsLoopback (V6 a z) = (a = 1)"
| "IsLoopback AddrZero = False"

fun IsPrivate :: "addr \<Rightarrow> bool" where
  "IsPrivate (V4 a) = (drop_bit 24 a = 10 \<or> drop_bit 20 a = 0xac1 \<or> drop_bit 16 a = 0xc0a8)"
| "IsPrivate (V6 a z) = (drop_bit 121 a = 0x7e)"
| "IsPrivate AddrZero = False"

fun IsUnspecified :: "addr \<Rightarrow> bool" where
  "IsUnspecified (V4 a) = (a = 0)"
| "IsUnspecified (V6 a z) = (a = 0 \<and> z = [])"
| "IsUnspecified AddrZero = False"

fun IsLinkLocalUnicast :: "addr \<Rightarrow> bool" where
  "IsLinkLocalUnicast (V4 a) = (drop_bit 16 a = 0xa9fe)"
| "IsLinkLocalUnicast (V6 a z) = (drop_bit 118 a = 0x3fa)"
| "IsLinkLocalUnicast AddrZero = False"

fun IsMulticast :: "addr \<Rightarrow> bool" where
  "IsMulticast (V4 a) = (drop_bit 28 a = 0xe)"
| "IsMulticast (V6 a z) = (drop_bit 120 a = 0xff)"
| "IsMulticast AddrZero = False"

definition IsGlobalUnicast :: "addr \<Rightarrow> bool" where
  "IsGlobalUnicast ip \<longleftrightarrow>
     (case ip of AddrZero \<Rightarrow> False
      | V4 a \<Rightarrow> a \<noteq> 0 \<and> a \<noteq> 0xffffffff \<and> \<not> IsLoopback ip \<and> \<not> IsMulticast ip
                 \<and> \<not> IsLinkLocalUnicast ip
      | V6 a z \<Rightarrow> \<not> (a = 0 \<and> z = []) \<and> \<not> IsLoopback ip \<and> \<not> IsMulticast ip
                 \<and> \<not> IsLinkLocalUnicast ip)"

text \<open>
  \<^verbatim>\<open>Prefix.Contains\<close>: an address of the same family, without a zone, that agrees on the
  leading bits.
\<close>

definition Contains :: "prefix \<Rightarrow> addr \<Rightarrow> bool" where
  "Contains p ip \<longleftrightarrow>
     (case (pfx_addr p, ip) of
        (V4 b, V4 a) \<Rightarrow> drop_bit (32 - pfx_bits p) a = drop_bit (32 - pfx_bits p) b
      | (V6 b _, V6 a z) \<Rightarrow> z = [] \<and> drop_bit (128 - pfx_bits p) a = drop_bit (128 - pfx_bits p) b
      | _ \<Rightarrow> False)"

text \<open>\<^verbatim>\<open>Prefix.Masked\<close>: the host bits cleared.\<close>

definition Masked :: "prefix \<Rightarrow> prefix" where
  "Masked p =
     (case pfx_addr p of
        V4 a \<Rightarrow> p\<lparr>pfx_addr := V4 (push_bit (32 - pfx_bits p) (drop_bit (32 - pfx_bits p) a))\<rparr>
      | V6 a z \<Rightarrow>
          p\<lparr>pfx_addr := V6 (push_bit (128 - pfx_bits p) (drop_bit (128 - pfx_bits p) a)) []\<rparr>
      | AddrZero \<Rightarrow> p)"

section \<open>Safe target addresses\<close>

definition p4 :: "nat \<Rightarrow> nat \<Rightarrow> nat \<Rightarrow> nat \<Rightarrow> nat \<Rightarrow> prefix" where
  "p4 a b c d n = \<lparr>pfx_addr = V4 (ip4 a b c d), pfx_bits = n\<rparr>"

definition p6 :: "128 word \<Rightarrow> nat \<Rightarrow> prefix" where
  "p6 a n = \<lparr>pfx_addr = V6 a [], pfx_bits = n\<rparr>"

definition reservedTargetPrefixes :: "prefix list" where
  "reservedTargetPrefixes =
    [p4 0 0 0 0 8, p4 100 64 0 0 10, p4 192 0 0 0 24, p4 192 0 2 0 24, p4 192 31 196 0 24,
     p4 192 52 193 0 24, p4 192 88 99 0 24, p4 192 175 48 0 24, p4 198 18 0 0 15,
     p4 198 51 100 0 24, p4 203 0 113 0 24, p4 240 0 0 0 4,
     p6 0x20010002000000000000000000000000 48, p6 0x20010db8000000000000000000000000 32,
     p6 0x20010010000000000000000000000000 28, p6 0x3fff0000000000000000000000000000 20]"

definition IsSafeTargetAddress :: "addr \<Rightarrow> bool" where
  "IsSafeTargetAddress address0 \<longleftrightarrow>
     (if \<not> IsValid address0 \<or> Zone address0 \<noteq> [] then False
      else let address = Unmap address0
      in if \<not> IsGlobalUnicast address \<or> IsLoopback address \<or> IsPrivate address
            \<or> IsUnspecified address \<or> IsLinkLocalUnicast address \<or> IsMulticast address
         then False
         else \<not> list_ex (\<lambda>p. Contains p address) reservedTargetPrefixes)"

section \<open>Target URLs\<close>

text \<open>The parts of a parsed \<^verbatim>\<open>url.URL\<close> that the checks read.\<close>

record url =
  Scheme :: string
  UserSet :: bool
  Host :: string
  Fragment :: string

text \<open>\<^verbatim>\<open>splitHostPort\<close> behind \<^verbatim>\<open>Hostname\<close> and \<^verbatim>\<open>Port\<close>: the port after the last colon, if it is
  a valid optional port, and the host without brackets.\<close>

definition last_colon :: "string \<Rightarrow> (string \<times> string) option" where
  "last_colon s =
     (if CHR '':'' \<notin> set s then None
      else let port = rev (takeWhile (\<lambda>c. c \<noteq> CHR '':'') (rev s))
           in Some (take (length s - length port - 1) s, port))"

definition splitHostPort :: "string \<Rightarrow> string \<times> string" where
  "splitHostPort hostPort =
     (let (host, port) =
        (case last_colon hostPort of
           None \<Rightarrow> (hostPort, [])
         | Some (h, p) \<Rightarrow> if list_all is_digit p then (h, p) else (hostPort, []))
      in (if HasPrefix host ''['' \<and> HasSuffix host '']'' then butlast (tl host) else host, port))"

definition Hostname :: "url \<Rightarrow> string" where
  "Hostname u = fst (splitHostPort (Host u))"

definition Port :: "url \<Rightarrow> string" where
  "Port u = snd (splitHostPort (Host u))"

definition numericHostname :: "string \<Rightarrow> bool" where
  "numericHostname hostname \<longleftrightarrow>
     (if hostname = [] then False else list_all (\<lambda>c. is_digit c \<or> c = CHR ''.'') hostname)"

definition validateTargetURL ::
  "(string \<Rightarrow> url option) \<Rightarrow> (string \<Rightarrow> addr option) \<Rightarrow> string \<Rightarrow> bool \<Rightarrow> goerr option" where
  "validateTargetURL parse_url parse_addr rawURL rejectUnsafeLiteral =
     (case parse_url rawURL of
        None \<Rightarrow> Some (Err ''target must be an absolute HTTP(S) URL with a host'' [])
      | Some u \<Rightarrow>
        if Host u = [] then Some (Err ''target must be an absolute HTTP(S) URL with a host'' [])
        else if \<not> EqualFold (Scheme u) ''http'' \<and> \<not> EqualFold (Scheme u) ''https''
        then Some (Err ''target scheme must be http or https'' [])
        else if UserSet u \<or> Fragment u \<noteq> []
        then Some (Err ''target must not contain credentials or a fragment'' [])
        else if HasSuffix (Host u) '':''
        then Some (Err ''target port must be a number between 1 and 65535'' [])
        else if Port u \<noteq> [] \<and>
          (case Atoi (Port u) of None \<Rightarrow> True | Some n \<Rightarrow> n < 1 \<or> n > 65535)
        then Some (Err ''target port must be a number between 1 and 65535'' [])
        else let hostname = TrimSuffix (ToLower (Hostname u)) ''.''
        in if hostname = [] then Some (Err ''target host must not be empty'' [])
        else if hostname = ''localhost'' \<or> HasSuffix hostname ''.localhost''
          \<or> ContainsByte hostname (CHR ''%'')
        then Some (Err ''target host is not allowed'' [])
        else if parse_addr hostname = None \<and> numericHostname hostname
        then Some (Err ''target host is not allowed'' [])
        else if rejectUnsafeLiteral \<and>
          (case parse_addr hostname of None \<Rightarrow> False | Some a \<Rightarrow> \<not> IsSafeTargetAddress a)
        then Some (Err ''target IP address is not allowed'' [])
        else None)"

definition ValidateTargetURL ::
  "(string \<Rightarrow> url option) \<Rightarrow> (string \<Rightarrow> addr option) \<Rightarrow> string \<Rightarrow> goerr option" where
  "ValidateTargetURL parse_url parse_addr rawURL = validateTargetURL parse_url parse_addr rawURL True"

definition ValidateTargetURLSyntax ::
  "(string \<Rightarrow> url option) \<Rightarrow> (string \<Rightarrow> addr option) \<Rightarrow> string \<Rightarrow> goerr option" where
  "ValidateTargetURLSyntax parse_url parse_addr rawURL =
     validateTargetURL parse_url parse_addr rawURL False"

section \<open>The deployment allowlist\<close>

type_synonym TargetAllowlist = "(string \<times> prefix list) list"

definition normalizeAllowlistHostForLookup :: "string \<Rightarrow> string" where
  "normalizeAllowlistHostForLookup host = TrimSuffix (ToLower host) ''.''"

text \<open>A nil policy admits nothing; otherwise the entry of the host decides.\<close>

definition Allows :: "TargetAllowlist option \<Rightarrow> string \<Rightarrow> addr \<Rightarrow> bool" where
  "Allows a host address \<longleftrightarrow>
     (case a of
        None \<Rightarrow> False
      | Some entries \<Rightarrow>
          (case map_of entries (normalizeAllowlistHostForLookup host) of
             None \<Rightarrow> False
           | Some prefixes \<Rightarrow> list_ex (\<lambda>p. Contains p (Unmap address)) prefixes))"

definition internalTargetPrefixes :: "prefix list" where
  "internalTargetPrefixes =
    [p4 10 0 0 0 8, p4 172 16 0 0 12, p4 192 168 0 0 16, p4 127 0 0 0 8,
     p6 0xfc000000000000000000000000000000 7, p6 1 128]"

definition isInternalTargetPrefix :: "prefix \<Rightarrow> bool" where
  "isInternalTargetPrefix prefix \<longleftrightarrow>
     (let address = Unmap (pfx_addr prefix)
      in list_ex (\<lambda>p. Is4 address = Is4 (pfx_addr p) \<and> pfx_bits p \<le> pfx_bits prefix
           \<and> Contains p address) internalTargetPrefixes)"

definition dns_label :: "string \<Rightarrow> bool" where
  "dns_label label \<longleftrightarrow>
     label \<noteq> [] \<and> length label \<le> 63 \<and> hd label \<noteq> CHR ''-'' \<and> last label \<noteq> CHR ''-'' \<and>
     list_all (\<lambda>c. (97 \<le> (of_char c :: int) \<and> of_char c \<le> (122 :: int)) \<or> is_digit c
                   \<or> c = CHR ''-'') label"

definition normalizeAllowlistHost :: "(string \<Rightarrow> addr option) \<Rightarrow> string \<Rightarrow> string res" where
  "normalizeAllowlistHost parse_addr host =
     (if host = [] \<or> TrimSpace host \<noteq> host
      then Inl (Err ''host must be a non-empty DNS hostname without surrounding whitespace'' [])
      else let normalized = normalizeAllowlistHostForLookup host
      in if normalized = [] \<or> length normalized > 253 \<or> ContainsByte normalized (CHR ''*'')
      then Inl (Err ''host must be an exact DNS hostname; wildcards are not allowed'' [])
      else if parse_addr normalized \<noteq> None
      then Inl (Err ''host must be a DNS hostname, not an IP literal'' [])
      else if \<not> list_all dns_label (Split normalized (CHR ''.''))
      then Inl (Err ''host %q is not a valid DNS hostname'' [host])
      else Inr normalized)"

fun parse_cidrs ::
  "(string \<Rightarrow> prefix option) \<Rightarrow> string list \<Rightarrow> prefix list \<Rightarrow> prefix list res" where
  "parse_cidrs parse_prefix [] seen = Inr (rev seen)"
| "parse_cidrs parse_prefix (raw # raws) seen =
     (case parse_prefix raw of
        None \<Rightarrow> Inl (Err ''must be a canonical private, loopback, or IPv6 ULA CIDR'' [raw])
      | Some p \<Rightarrow>
          if p \<noteq> Masked p \<or> \<not> isInternalTargetPrefix p
          then Inl (Err ''must be a canonical private, loopback, or IPv6 ULA CIDR'' [raw])
          else if p \<in> set seen then Inl (Err ''duplicate CIDR %q'' [raw])
          else parse_cidrs parse_prefix raws (p # seen))"

text \<open>The entries of the decoded JSON array, each a host and its CIDRs.\<close>

fun allowlist_entries ::
  "(string \<Rightarrow> addr option) \<Rightarrow> (string \<Rightarrow> prefix option) \<Rightarrow> (string \<times> string list) list \<Rightarrow>
   TargetAllowlist \<Rightarrow> TargetAllowlist res" where
  "allowlist_entries parse_addr parse_prefix [] acc = Inr acc"
| "allowlist_entries parse_addr parse_prefix ((host0, cidrs) # entries) acc =
     (case normalizeAllowlistHost parse_addr host0 of
        Inl e \<Rightarrow> Inl e
      | Inr host \<Rightarrow>
          if map_of acc host \<noteq> None then Inl (Err ''duplicate host %q'' [host])
          else if cidrs = [] then Inl (Err ''cidrs must contain at least one internal CIDR'' [])
          else case parse_cidrs parse_prefix cidrs [] of
            Inl e \<Rightarrow> Inl e
          | Inr prefixes \<Rightarrow>
              allowlist_entries parse_addr parse_prefix entries ((host, prefixes) # acc))"

section \<open>The safe addresses as numeric ranges\<close>

lemma div_eq_range: "0 < n \<Longrightarrow> (m :: nat) div n = q \<longleftrightarrow> q * n \<le> m \<and> m < (q + 1) * n"
proof -
  assume n: "0 < n"
  show ?thesis
  proof
    assume "m div n = q"
    then show "q * n \<le> m \<and> m < (q + 1) * n"
      using n dividend_less_times_div [of n m] by (auto simp: algebra_simps)
  qed (auto intro: div_nat_eqI simp: algebra_simps)
qed

lemma drop_bit_range:
  fixes a c :: "'a :: len word"
  shows "drop_bit n a = c \<longleftrightarrow> unat c * 2 ^ n \<le> unat a \<and> unat a < (unat c + 1) * 2 ^ n"
proof -
  have "drop_bit n a = c \<longleftrightarrow> unat (drop_bit n a) = unat c" by (rule word_unat_eq_iff)
  also have "\<dots> \<longleftrightarrow> unat a div 2 ^ n = unat c"
    by (simp only: unat_drop_bit_eq drop_bit_eq_div [where 'a = nat])
  also have "\<dots> \<longleftrightarrow> unat c * 2 ^ n \<le> unat a \<and> unat a < (unat c + 1) * 2 ^ n"
    by (rule div_eq_range) simp
  finally show ?thesis .
qed

text \<open>The number a dotted quad stands for.\<close>

definition quad :: "nat \<Rightarrow> nat \<Rightarrow> nat \<Rightarrow> nat \<Rightarrow> nat" where
  "quad a b c d = ((a * 256 + b) * 256 + c) * 256 + d"

text \<open>
  The special-purpose IPv4 ranges of the IANA registry that a target must not lie in, first
  and last address: this network, private, shared, loopback, link-local, IETF protocol,
  documentation, AS112, AMT, 6to4 relay, benchmarking, multicast and reserved.
\<close>

definition special_v4 :: "(nat \<times> nat) list" where
  "special_v4 =
    [(quad 0 0 0 0, quad 0 255 255 255), (quad 10 0 0 0, quad 10 255 255 255),
     (quad 100 64 0 0, quad 100 127 255 255), (quad 127 0 0 0, quad 127 255 255 255),
     (quad 169 254 0 0, quad 169 254 255 255), (quad 172 16 0 0, quad 172 31 255 255),
     (quad 192 0 0 0, quad 192 0 0 255), (quad 192 0 2 0, quad 192 0 2 255),
     (quad 192 31 196 0, quad 192 31 196 255), (quad 192 52 193 0, quad 192 52 193 255),
     (quad 192 88 99 0, quad 192 88 99 255), (quad 192 168 0 0, quad 192 168 255 255),
     (quad 192 175 48 0, quad 192 175 48 255), (quad 198 18 0 0, quad 198 19 255 255),
     (quad 198 51 100 0, quad 198 51 100 255), (quad 203 0 113 0, quad 203 0 113 255),
     (quad 224 0 0 0, quad 255 255 255 255)]"

definition in_ranges :: "nat \<Rightarrow> (nat \<times> nat) list \<Rightarrow> bool" where
  "in_ranges n rs \<longleftrightarrow> list_ex (\<lambda>(lo, hi). lo \<le> n \<and> n \<le> hi) rs"

text \<open>Membership in one range, kept folded so that the classes stay propositional atoms.\<close>

definition within :: "nat \<Rightarrow> nat \<Rightarrow> nat \<Rightarrow> bool" where
  "within n lo hi \<longleftrightarrow> lo \<le> n \<and> n \<le> hi"

lemma drop_bit_within:
  fixes a c :: "'a :: len word"
  shows "drop_bit n a = c \<longleftrightarrow> within (unat a) (unat c * 2 ^ n) (unat c * 2 ^ n + (2 ^ n - 1))"
proof -
  have "x < (q + 1) * m \<longleftrightarrow> x \<le> q * m + (m - 1)" if "0 < m" for x q m :: nat
    using that by (auto simp: algebra_simps)
  then show ?thesis unfolding drop_bit_range within_def by simp
qed

lemma within_numeral_zero: "n = 0 \<Longrightarrow> within n 0 m"
  by (simp add: within_def)

lemma safe_v4_classes:
  fixes a :: "32 word"
  defines "n \<equiv> unat a"
  shows "IsSafeTargetAddress (V4 a) \<longleftrightarrow>
    \<not> (n = 0 \<or> n = 4294967295 \<or> list_ex (\<lambda>(lo, hi). within n lo hi)
      [(2130706432, 2147483647), (3758096384, 4026531839), (2851995648, 2852061183),
       (167772160, 184549375), (2886729728, 2887778303), (3232235520, 3232301055),
       (0, 16777215), (1681915904, 1686110207), (3221225472, 3221225727),
       (3221225984, 3221226239), (3223307264, 3223307519), (3224682752, 3224683007),
       (3227017984, 3227018239), (3232706560, 3232706815), (3323068416, 3323199487),
       (3325256704, 3325256959), (3405803776, 3405804031), (4026531840, 4294967295)])"
proof -
  have z: "a = 0 \<longleftrightarrow> n = 0" by (simp add: n_def unat_eq_0)
  have m: "a = 0xffffffff \<longleftrightarrow> n = 4294967295"
    unfolding n_def word_unat_eq_iff [of a "0xffffffff"] by simp
  show ?thesis
    unfolding IsSafeTargetAddress_def IsGlobalUnicast_def
    by (simp add: IsValid_def Unmap_def reservedTargetPrefixes_def Contains_def p4_def p6_def
        ip4_def drop_bit_within z m n_def [symmetric] del: neq0_conv) blast
qed

lemma safe_v4_ranges:
  "IsSafeTargetAddress (V4 a) \<longleftrightarrow> \<not> in_ranges (unat a) special_v4"
proof -
  have top: "within n 3758096384 4294967295 \<longleftrightarrow>
      within n 3758096384 4026531839 \<or> within n 4026531840 4294967295" for n
    by (auto simp: within_def)
  have ends: "n = 0 \<Longrightarrow> within n 0 16777215" "n = 4294967295 \<Longrightarrow> within n 4026531840 4294967295" for n
    by (simp_all add: within_def)
  have "in_ranges n special_v4 \<longleftrightarrow> list_ex (\<lambda>(lo, hi). within n lo hi) special_v4" for n
    by (simp add: in_ranges_def within_def)
  then show ?thesis
    unfolding safe_v4_classes
    by (simp add: special_v4_def quad_def top del: neq0_conv) (use ends in blast)
qed

section \<open>An allowlist admits internal addresses only\<close>

definition internal_address :: "addr \<Rightarrow> bool" where
  "internal_address ip \<longleftrightarrow> list_ex (\<lambda>q. Contains q ip) internalTargetPrefixes"

lemma drop_bit_coarser:
  fixes a b :: "'a :: len word"
  shows "drop_bit k a = drop_bit k b \<Longrightarrow> k \<le> l \<Longrightarrow> drop_bit l a = drop_bit l b"
  by (metis drop_bit_drop_bit le_add_diff_inverse2)

text \<open>Every bare IPv4 address of an internal prefix has a bit set, so no wide prefix hides one.\<close>

lemma internal_v4_nonzero:
  "q \<in> set internalTargetPrefixes \<Longrightarrow> Contains q (V4 0) \<Longrightarrow> False"
  by (auto simp: internalTargetPrefixes_def Contains_def p4_def p6_def ip4_def)

lemma Unmap_V6_not_mapped: "Unmap a = V6 b z \<Longrightarrow> drop_bit 32 b \<noteq> 0xffff"
  by (auto simp: Unmap_def split: addr.splits if_splits)

lemma ucast_low_zero:
  fixes b :: "128 word"
  assumes "b = push_bit k (drop_bit k b)" and "32 \<le> k"
  shows "ucast b = (0 :: 32 word)"
proof (rule bit_word_eqI)
  fix i
  assume "i < LENGTH(32)"
  then have "i < k" using assms(2) by simp
  then have "\<not> bit (push_bit k (drop_bit k b)) i" by (simp add: bit_push_bit_iff)
  with assms(1) have "\<not> bit b i" by simp
  then show "bit (ucast b :: 32 word) i = bit (0 :: 32 word) i" by (simp add: bit_ucast_iff)
qed

lemma prefix_internal:
  assumes canon: "p = Masked p" and int: "isInternalTargetPrefix p"
    and con: "Contains p (Unmap a)"
  shows "internal_address (Unmap a)"
proof -
  from int obtain q where q: "q \<in> set internalTargetPrefixes"
      and fam: "Is4 (Unmap (pfx_addr p)) = Is4 (pfx_addr q)" and bits: "pfx_bits q \<le> pfx_bits p"
      and cq: "Contains q (Unmap (pfx_addr p))"
    by (auto simp: isInternalTargetPrefix_def Let_def list_ex_iff)
  have "Contains q (Unmap a)"
  proof (cases "pfx_addr p")
    case AddrZero
    with con show ?thesis by (simp add: Contains_def)
  next
    case (V4 b)
    with con obtain x where x: "Unmap a = V4 x"
      by (auto simp: Contains_def split: addr.splits)
    from cq V4 obtain c where c: "pfx_addr q = V4 c"
      by (auto simp: Contains_def Unmap_def split: addr.splits)
    have "drop_bit (32 - pfx_bits q) x = drop_bit (32 - pfx_bits q) b"
      using con V4 x bits by - (rule drop_bit_coarser [of "32 - pfx_bits p"], simp_all add: Contains_def)
    with cq V4 x c show ?thesis by (simp add: Contains_def Unmap_def)
  next
    case (V6 b z)
    with con obtain x y where x: "Unmap a = V6 x y"
      by (auto simp: Contains_def split: addr.splits)
    have eq: "y = [] \<and> drop_bit (128 - pfx_bits p) x = drop_bit (128 - pfx_bits p) b"
      using con V6 x by (simp add: Contains_def)
    have "pfx_addr (Masked p) =
        V6 (push_bit (128 - pfx_bits p) (drop_bit (128 - pfx_bits p) b)) []"
      by (simp add: Masked_def V6)
    with arg_cong [OF canon, of pfx_addr]
    have "V6 b z = V6 (push_bit (128 - pfx_bits p) (drop_bit (128 - pfx_bits p) b)) []"
      unfolding V6 by (rule trans)
    then have bm: "b = push_bit (128 - pfx_bits p) (drop_bit (128 - pfx_bits p) b)"
      by (rule addr.inject(2) [THEN iffD1, THEN conjunct1])
    have nm: "drop_bit 32 b \<noteq> 0xffff"
    proof
      assume m: "drop_bit 32 b = 0xffff"
      then have um: "Unmap (pfx_addr p) = V4 (ucast b)" by (simp add: V6 Unmap_def)
      show False
      proof (cases "32 \<le> 128 - pfx_bits p")
        case True
        from ucast_low_zero [OF bm True] um cq q show False
          by (auto dest: internal_v4_nonzero)
      next
        case False
        then have "drop_bit 32 x = drop_bit 32 b"
          using eq by - (rule drop_bit_coarser [of "128 - pfx_bits p"], auto)
        with m Unmap_V6_not_mapped [OF x] show False by simp
      qed
    qed
    then have um: "Unmap (pfx_addr p) = V6 b z" by (simp add: V6 Unmap_def)
    with cq obtain c w where c: "pfx_addr q = V6 c w"
      by (auto simp: Contains_def split: addr.splits)
    have "drop_bit (128 - pfx_bits q) x = drop_bit (128 - pfx_bits q) b"
      using eq bits by - (rule drop_bit_coarser [of "128 - pfx_bits p"], auto)
    with cq um x c eq show ?thesis by (simp add: Contains_def)
  qed
  with q show ?thesis by (auto simp: internal_address_def list_ex_iff)
qed

lemma parse_cidrs_internal:
  assumes "parse_cidrs pp raws seen = Inr ps"
    and "\<forall>p \<in> set seen. p = Masked p \<and> isInternalTargetPrefix p"
  shows "\<forall>p \<in> set ps. p = Masked p \<and> isInternalTargetPrefix p"
  using assms
  by (induction pp raws seen rule: parse_cidrs.induct) (auto split: option.splits if_splits)

lemma allowlist_entries_internal:
  assumes "allowlist_entries pa pp entries acc = Inr al"
    and "\<forall>(h, ps) \<in> set acc. \<forall>p \<in> set ps. p = Masked p \<and> isInternalTargetPrefix p"
  shows "\<forall>(h, ps) \<in> set al. \<forall>p \<in> set ps. p = Masked p \<and> isInternalTargetPrefix p"
  using assms
proof (induction pa pp entries acc rule: allowlist_entries.induct)
  case (2 pa pp host0 cidrs entries acc)
  from 2(2) obtain host ps where h: "normalizeAllowlistHost pa host0 = Inr host"
      and n: "map_of acc host = None" "cidrs \<noteq> []" and ps: "parse_cidrs pp cidrs [] = Inr ps"
      and rest: "allowlist_entries pa pp entries ((host, ps) # acc) = Inr al"
    by (auto split: sum.splits if_splits)
  have "\<forall>p \<in> set ps. p = Masked p \<and> isInternalTargetPrefix p"
    using parse_cidrs_internal [OF ps] by simp
  with 2(3) have "\<forall>(h, ps) \<in> set ((host, ps) # acc).
      \<forall>p \<in> set ps. p = Masked p \<and> isInternalTargetPrefix p"
    by auto
  with 2(1) [OF h _ _ ps rest] n show ?case by simp
qed simp

lemma allowlist_admits_internal:
  assumes "allowlist_entries pa pp entries [] = Inr al" and "Allows (Some al) host a"
  shows "internal_address (Unmap a)"
proof -
  from assms(2) obtain ps p where "map_of al (normalizeAllowlistHostForLookup host) = Some ps"
      and p: "p \<in> set ps" "Contains p (Unmap a)"
    by (auto simp: Allows_def list_ex_iff split: option.splits)
  then have "(normalizeAllowlistHostForLookup host, ps) \<in> set al" by (simp add: map_of_SomeD)
  with allowlist_entries_internal [OF assms(1)] p
  have "p = Masked p" "isInternalTargetPrefix p" by auto
  with p(2) show ?thesis by (auto intro: prefix_internal)
qed

end
