(* ===== verification/Json.thy ===== *)
theory Json
  imports GoStrings
begin

text \<open>
  JSON text as Go's \<^verbatim>\<open>encoding/json\<close> reads and writes it: the value a decoder with \<^verbatim>\<open>UseNumber\<close>
  builds (numbers keep their text, an object is a map in which the last of equal keys
  stands), the text \<^verbatim>\<open>json.Marshal\<close> writes (keys sorted, HTML characters escaped), and on top
  of them \<^verbatim>\<open>canonicalizeJSON\<close> of \<^verbatim>\<open>internal/domain/schedule.go\<close>. Strings are bytes; UTF-8 that
  is not valid is replaced by U+FFFD on decoding, as Go does.
\<close>

datatype json =
    JNull
  | JBool bool
  | JNum string
  | JStr string
  | JArr "json list"
  | JObj "(string \<times> json) list"

section \<open>Bytes and runes\<close>

definition byte :: "char \<Rightarrow> int" where
  "byte c = of_char c"

definition is_ws :: "char \<Rightarrow> bool" where
  "is_ws c \<longleftrightarrow> c = CHR 0x20 \<or> c = CHR 0x09 \<or> c = CHR 0x0A \<or> c = CHR 0x0D"

definition skip_ws :: "string \<Rightarrow> string" where
  "skip_ws s = dropWhile is_ws s"

definition cont_byte :: "char \<Rightarrow> bool" where
  "cont_byte c \<longleftrightarrow> 0x80 \<le> byte c \<and> byte c \<le> 0xBF"

text \<open>The length of the well-formed UTF-8 sequence the text starts with, 0 if it is not one.\<close>

definition utf8_len :: "string \<Rightarrow> nat" where
  "utf8_len s =
     (case s of
        [] \<Rightarrow> 0
      | a # r \<Rightarrow>
          if byte a < 0x80 then 1
          else if 0xC2 \<le> byte a \<and> byte a \<le> 0xDF then
            (case r of b # _ \<Rightarrow> if cont_byte b then 2 else 0 | [] \<Rightarrow> 0)
          else if 0xE0 \<le> byte a \<and> byte a \<le> 0xEF then
            (case r of b # c # _ \<Rightarrow>
               if (if byte a = 0xE0 then 0xA0 else 0x80) \<le> byte b
                  \<and> byte b \<le> (if byte a = 0xED then 0x9F else 0xBF) \<and> cont_byte c
               then 3 else 0
             | _ \<Rightarrow> 0)
          else if 0xF0 \<le> byte a \<and> byte a \<le> 0xF4 then
            (case r of b # c # d # _ \<Rightarrow>
               if (if byte a = 0xF0 then 0x90 else 0x80) \<le> byte b
                  \<and> byte b \<le> (if byte a = 0xF4 then 0x8F else 0xBF)
                  \<and> cont_byte c \<and> cont_byte d
               then 4 else 0
             | _ \<Rightarrow> 0)
          else 0)"

definition byte_chr :: "int \<Rightarrow> char" where
  "byte_chr n = char_of n"

definition replacement :: string where
  "replacement = [CHR 0xEF, CHR 0xBF, CHR 0xBD]"

text \<open>\<^verbatim>\<open>utf8.EncodeRune\<close> of a code point that is not a surrogate.\<close>

definition encode_rune :: "int \<Rightarrow> string" where
  "encode_rune r =
     (if r < 0x80 then [byte_chr r]
      else if r < 0x800 then [byte_chr (0xC0 + r div 64), byte_chr (0x80 + r mod 64)]
      else if r < 0x10000 then
        [byte_chr (0xE0 + r div 4096), byte_chr (0x80 + r div 64 mod 64), byte_chr (0x80 + r mod 64)]
      else
        [byte_chr (0xF0 + r div 262144), byte_chr (0x80 + r div 4096 mod 64),
         byte_chr (0x80 + r div 64 mod 64), byte_chr (0x80 + r mod 64)])"

definition hex_val :: "char \<Rightarrow> int option" where
  "hex_val c =
     (if is_digit c then Some (byte c - 48)
      else if 97 \<le> byte c \<and> byte c \<le> 102 then Some (byte c - 87)
      else if 65 \<le> byte c \<and> byte c \<le> 70 then Some (byte c - 55)
      else None)"

fun hex4 :: "string \<Rightarrow> (int \<times> string) option" where
  "hex4 (a # b # c # d # r) =
     (case (hex_val a, hex_val b, hex_val c, hex_val d) of
        (Some w, Some x, Some y, Some z) \<Rightarrow> Some (((w * 16 + x) * 16 + y) * 16 + z, r)
      | _ \<Rightarrow> None)"
| "hex4 _ = None"

lemma hex4_length: "hex4 s = Some (v, r) \<Longrightarrow> length r < length s"
  by (induction s rule: hex4.induct) (auto split: option.splits)

section \<open>Reading\<close>

text \<open>
  What follows a backslash: the bytes it stands for and the rest. A high surrogate takes
  the low surrogate that follows it, any other surrogate stands for U+FFFD.
\<close>

definition parse_escape :: "string \<Rightarrow> (string \<times> string) option" where
  "parse_escape s =
     (case s of
        [] \<Rightarrow> None
      | c # r \<Rightarrow>
          if c = CHR 0x22 \<or> c = CHR 0x5C \<or> c = CHR ''/'' then Some ([c], r)
          else if c = CHR ''b'' then Some ([CHR 0x08], r)
          else if c = CHR ''f'' then Some ([CHR 0x0C], r)
          else if c = CHR ''n'' then Some ([CHR 0x0A], r)
          else if c = CHR ''r'' then Some ([CHR 0x0D], r)
          else if c = CHR ''t'' then Some ([CHR 0x09], r)
          else if c = CHR ''u'' then
            (case hex4 r of
               None \<Rightarrow> None
             | Some (v, r1) \<Rightarrow>
                 if v < 0xD800 \<or> 0xDFFF < v then Some (encode_rune v, r1)
                 else if v \<le> 0xDBFF \<and> HasPrefix r1 [CHR 0x5C, CHR ''u''] then
                   (case hex4 (drop 2 r1) of
                      Some (w, r2) \<Rightarrow>
                        if 0xDC00 \<le> w \<and> w \<le> 0xDFFF
                        then Some (encode_rune ((v - 0xD800) * 1024 + (w - 0xDC00) + 0x10000), r2)
                        else Some (replacement, r1)
                    | None \<Rightarrow> Some (replacement, r1))
                 else Some (replacement, r1))
          else None)"

lemma parse_escape_length: "parse_escape s = Some (out, r) \<Longrightarrow> length r < length s"
  by (auto simp: parse_escape_def dest!: hex4_length split: list.splits if_splits option.splits)

text \<open>The body of a string after its opening quote: the decoded bytes and the rest.\<close>

function parse_str :: "string \<Rightarrow> (string \<times> string) option" where
  "parse_str s =
     (case s of
        [] \<Rightarrow> None
      | c # cs \<Rightarrow>
          if c = CHR 0x22 then Some ([], cs)
          else if c = CHR 0x5C then
            (case parse_escape cs of
               None \<Rightarrow> None
             | Some (out, r) \<Rightarrow> map_option (\<lambda>(t, r'). (out @ t, r')) (parse_str r))
          else if byte c < 0x20 then None
          else if utf8_len s = 0 then
            map_option (\<lambda>(t, r'). (replacement @ t, r')) (parse_str cs)
          else map_option (\<lambda>(t, r'). (take (utf8_len s) s @ t, r')) (parse_str (drop (utf8_len s) s)))"
  by pat_completeness auto
termination
  by (relation "measure length") (auto dest!: parse_escape_length)

declare parse_str.simps [simp del]

text \<open>A number literal: the text and the rest.\<close>

definition span_digits :: "string \<Rightarrow> string \<times> string" where
  "span_digits s = (takeWhile is_digit s, dropWhile is_digit s)"

definition num_int :: "string \<Rightarrow> (string \<times> string) option" where
  "num_int s =
     (case s of
        [] \<Rightarrow> None
      | c # r \<Rightarrow> if c = CHR ''0'' then Some ([c], r)
                 else if is_digit c then Some (span_digits s) else None)"

definition num_frac :: "string \<Rightarrow> (string \<times> string) option" where
  "num_frac s =
     (if HasPrefix s ''.'' then
        (let (ds, r) = span_digits (tl s) in if ds = [] then None else Some (CHR ''.'' # ds, r))
      else Some ([], s))"

definition num_exp :: "string \<Rightarrow> (string \<times> string) option" where
  "num_exp s =
     (if HasPrefix s ''e'' \<or> HasPrefix s ''E'' then
        (let sign = (if HasPrefix (tl s) ''+'' \<or> HasPrefix (tl s) ''-'' then [hd (tl s)] else []);
             (ds, r) = span_digits (drop (length sign) (tl s))
         in if ds = [] then None else Some (hd s # sign @ ds, r))
      else Some ([], s))"

definition parse_num :: "string \<Rightarrow> (string \<times> string) option" where
  "parse_num s =
     (let sign = (if HasPrefix s ''-'' then ''-'' else [])
      in case num_int (drop (length sign) s) of
        None \<Rightarrow> None
      | Some (i, r1) \<Rightarrow>
          (case num_frac r1 of
             None \<Rightarrow> None
           | Some (f, r2) \<Rightarrow>
               (case num_exp r2 of
                  None \<Rightarrow> None
                | Some (e, r3) \<Rightarrow> Some (sign @ i @ f @ e, r3))))"

text \<open>An object as the map the decoder builds: sorted keys, the last of equal keys.\<close>

fun put :: "string \<Rightarrow> 'v \<Rightarrow> (string \<times> 'v) list \<Rightarrow> (string \<times> 'v) list" where
  "put k v [] = [(k, v)]"
| "put k v ((k', v') # kvs) =
     (if k = k' then (k, v) # kvs else if k < k' then (k, v) # (k', v') # kvs
      else (k', v') # put k v kvs)"

definition maxNestingDepth :: nat where "maxNestingDepth = 10000"

text \<open>
  Values, members and elements. The first argument is fuel, one more than the length of the
  text is enough; the second is the nesting depth still allowed.
\<close>

fun parse_value :: "nat \<Rightarrow> nat \<Rightarrow> string \<Rightarrow> (json \<times> string) option"
  and parse_members ::
    "nat \<Rightarrow> nat \<Rightarrow> (string \<times> json) list \<Rightarrow> string \<Rightarrow> (json \<times> string) option"
  and parse_elements :: "nat \<Rightarrow> nat \<Rightarrow> json list \<Rightarrow> string \<Rightarrow> (json \<times> string) option" where
  "parse_value 0 d s = None"
| "parse_value (Suc n) d s0 =
     (case skip_ws s0 of
        [] \<Rightarrow> None
      | c # r \<Rightarrow>
          if c = CHR 0x22 then map_option (\<lambda>(t, r'). (JStr t, r')) (parse_str r)
          else if c = CHR ''{'' then
            (if d = 0 then None
             else if HasPrefix (skip_ws r) ''}'' then Some (JObj [], tl (skip_ws r))
             else parse_members n (d - 1) [] r)
          else if c = CHR ''['' then
            (if d = 0 then None
             else if HasPrefix (skip_ws r) '']'' then Some (JArr [], tl (skip_ws r))
             else parse_elements n (d - 1) [] r)
          else if HasPrefix (c # r) ''true'' then Some (JBool True, drop 4 (c # r))
          else if HasPrefix (c # r) ''false'' then Some (JBool False, drop 5 (c # r))
          else if HasPrefix (c # r) ''null'' then Some (JNull, drop 4 (c # r))
          else map_option (\<lambda>(t, r'). (JNum t, r')) (parse_num (c # r)))"
| "parse_members 0 d acc s = None"
| "parse_members (Suc n) d acc s =
     (if \<not> HasPrefix (skip_ws s) [CHR 0x22] then None
      else case parse_str (tl (skip_ws s)) of
        None \<Rightarrow> None
      | Some (k, r1) \<Rightarrow>
          if \<not> HasPrefix (skip_ws r1) '':'' then None
          else case parse_value n d (tl (skip_ws r1)) of
            None \<Rightarrow> None
          | Some (v, r2) \<Rightarrow>
              if HasPrefix (skip_ws r2) '','' then parse_members n d (put k v acc) (tl (skip_ws r2))
              else if HasPrefix (skip_ws r2) ''}'' then Some (JObj (put k v acc), tl (skip_ws r2))
              else None)"
| "parse_elements 0 d acc s = None"
| "parse_elements (Suc n) d acc s =
     (case parse_value n d s of
        None \<Rightarrow> None
      | Some (v, r2) \<Rightarrow>
          if HasPrefix (skip_ws r2) '','' then parse_elements n d (v # acc) (tl (skip_ws r2))
          else if HasPrefix (skip_ws r2) '']'' then Some (JArr (rev (v # acc)), tl (skip_ws r2))
          else None)"

text \<open>One value and nothing but white space after it.\<close>

definition json_decode :: "string \<Rightarrow> json option" where
  "json_decode s =
     (case parse_value (Suc (length s)) maxNestingDepth s of
        Some (v, r) \<Rightarrow> if skip_ws r = [] then Some v else None
      | None \<Rightarrow> None)"

definition is_object :: "json \<Rightarrow> bool" where
  "is_object v \<longleftrightarrow> (case v of JObj _ \<Rightarrow> True | _ \<Rightarrow> False)"

section \<open>Writing\<close>

definition hex_digit :: "int \<Rightarrow> char" where
  "hex_digit n = (if n < 10 then char_of (48 + n) else char_of (87 + n))"

text \<open>\<^verbatim>\<open>hex.EncodeToString\<close> of bytes.\<close>

definition hex_bytes :: "string \<Rightarrow> string" where
  "hex_bytes s = concat (map (\<lambda>c. [hex_digit (byte c div 16), hex_digit (byte c mod 16)]) s)"

text \<open>The escapes of one ASCII byte in a string.\<close>

definition quote_byte :: "char \<Rightarrow> string" where
  "quote_byte c =
     (if c = CHR 0x22 then [CHR 0x5C, CHR 0x22]
      else if c = CHR 0x5C then [CHR 0x5C, CHR 0x5C]
      else if c = CHR 0x08 then [CHR 0x5C, CHR ''b'']
      else if c = CHR 0x0C then [CHR 0x5C, CHR ''f'']
      else if c = CHR 0x0A then [CHR 0x5C, CHR ''n'']
      else if c = CHR 0x0D then [CHR 0x5C, CHR ''r'']
      else if c = CHR 0x09 then [CHR 0x5C, CHR ''t'']
      else if byte c < 0x20 \<or> c = CHR ''<'' \<or> c = CHR ''>'' \<or> c = CHR ''&'' then
        [CHR 0x5C, CHR ''u'', CHR ''0'', CHR ''0'', hex_digit (byte c div 16), hex_digit (byte c mod 16)]
      else [c])"

function quote_body :: "string \<Rightarrow> string" where
  "quote_body s =
     (case s of
        [] \<Rightarrow> []
      | c # cs \<Rightarrow>
          if byte c < 0x80 then quote_byte c @ quote_body cs
          else if utf8_len s = 0 then [CHR 0x5C, CHR ''u'', CHR ''f'', CHR ''f'', CHR ''f'', CHR ''d''] @ quote_body cs
          else if take 3 s = [CHR 0xE2, CHR 0x80, CHR 0xA8] then
            [CHR 0x5C, CHR ''u'', CHR ''2'', CHR ''0'', CHR ''2'', CHR ''8''] @ quote_body (drop 3 s)
          else if take 3 s = [CHR 0xE2, CHR 0x80, CHR 0xA9] then
            [CHR 0x5C, CHR ''u'', CHR ''2'', CHR ''0'', CHR ''2'', CHR ''9''] @ quote_body (drop 3 s)
          else take (utf8_len s) s @ quote_body (drop (utf8_len s) s))"
  by pat_completeness auto
termination
  by (relation "measure length") auto

declare quote_body.simps [simp del]

definition quote_str :: "string \<Rightarrow> string" where
  "quote_str s = CHR 0x22 # quote_body s @ [CHR 0x22]"

text \<open>\<^verbatim>\<open>json.Marshal\<close> of a decoded value.\<close>

fun marshal :: "json \<Rightarrow> string"
  and marshal_elements :: "json list \<Rightarrow> string"
  and marshal_members :: "(string \<times> json) list \<Rightarrow> string" where
  "marshal JNull = ''null''"
| "marshal (JBool b) = (if b then ''true'' else ''false'')"
| "marshal (JNum t) = t"
| "marshal (JStr s) = quote_str s"
| "marshal (JArr vs) = ''['' @ marshal_elements vs @ '']''"
| "marshal (JObj kvs) = ''{'' @ marshal_members kvs @ ''}''"
| "marshal_elements [] = []"
| "marshal_elements [v] = marshal v"
| "marshal_elements (v # w # vs) = marshal v @ CHR '','' # marshal_elements (w # vs)"
| "marshal_members [] = []"
| "marshal_members [(k, v)] = quote_str k @ CHR '':'' # marshal v"
| "marshal_members ((k, v) # kv # kvs) =
     quote_str k @ CHR '':'' # marshal v @ CHR '','' # marshal_members (kv # kvs)"

section \<open>Canonical payloads\<close>

text \<open>
  \<^verbatim>\<open>json.Unmarshal\<close> into a \<^verbatim>\<open>map[string]json.RawMessage\<close> gives a non-nil map for the text of an
  object; \<^verbatim>\<open>canonicalizeJSON\<close> writes the decoded value back.
\<close>

definition unmarshals_to_object :: "string \<Rightarrow> bool" where
  "unmarshals_to_object raw \<longleftrightarrow> (case json_decode raw of Some v \<Rightarrow> is_object v | None \<Rightarrow> False)"

definition canonicalizeJSON :: "string \<Rightarrow> string res" where
  "canonicalizeJSON raw =
     (case parse_value (Suc (length raw)) maxNestingDepth raw of
        None \<Rightarrow> Inl (Err ''invalid JSON'' [])
      | Some (v, r) \<Rightarrow>
          if skip_ws r = [] then Inr (marshal v)
          else (case parse_value (Suc (length r)) maxNestingDepth r of
                  Some _ \<Rightarrow> Inl (Err ''JSON payload contains trailing data'' [])
                | None \<Rightarrow> Inl (Err ''invalid JSON'' [])))"

lemma canonicalizeJSON_object:
  assumes "unmarshals_to_object raw"
  shows "\<exists>kvs. json_decode raw = Some (JObj kvs) \<and> canonicalizeJSON raw = Inr (marshal (JObj kvs))"
  using assms
  by (auto simp: unmarshals_to_object_def json_decode_def is_object_def canonicalizeJSON_def
      split: option.splits json.splits if_splits)

end
