(* ===== verification/JsonText.thy ===== *)
theory JsonText
  imports Json
begin

text \<open>
  Reading back what \<^verbatim>\<open>json.Marshal\<close> wrote. \<open>json_wf\<close> describes the values a decoder builds:
  valid UTF-8, number literals, sorted distinct keys, bounded nesting. Every decoded value is
  of this kind, and the text written for such a value is read as that value; so a canonical
  payload is its own canonical form.
\<close>

section \<open>Valid UTF-8\<close>

function utf8_valid :: "string \<Rightarrow> bool" where
  "utf8_valid s = (if s = [] then True else if utf8_len s = 0 then False else utf8_valid (drop (utf8_len s) s))"
  by pat_completeness auto
termination
  by (relation "measure length") auto

declare utf8_valid.simps [simp del]

lemma utf8_valid_Nil [simp]: "utf8_valid []"
  by (subst utf8_valid.simps) simp

lemma utf8_valid_step: "utf8_len s \<noteq> 0 \<Longrightarrow> utf8_valid s = utf8_valid (drop (utf8_len s) s)"
  by (subst utf8_valid.simps) auto

text \<open>The length of the first sequence depends on that sequence only.\<close>

lemma utf8_len_cases:
  obtains (none) "utf8_len s = 0"
  | (one) a r where "s = a # r" "byte a < 0x80" "utf8_len s = 1" "\<And>t. utf8_len (a # t) = 1"
  | (two) a b r where "s = a # b # r" "0x80 \<le> byte a" "utf8_len s = 2" "\<And>t. utf8_len (a # b # t) = 2"
  | (three) a b c r where "s = a # b # c # r" "0x80 \<le> byte a" "utf8_len s = 3" "\<And>t. utf8_len (a # b # c # t) = 3"
  | (four) a b c d r where "s = a # b # c # d # r" "0x80 \<le> byte a" "utf8_len s = 4" "\<And>t. utf8_len (a # b # c # d # t) = 4"
proof (cases s)
  case Nil
  then show thesis by (intro none) (simp add: utf8_len_def)
next
  case s: (Cons a r)
  consider "byte a < 0x80" | "0xC2 \<le> byte a" "byte a \<le> 0xDF" | "0xE0 \<le> byte a" "byte a \<le> 0xEF"
    | "0xF0 \<le> byte a" "byte a \<le> 0xF4" | "0x80 \<le> byte a" "byte a < 0xC2" | "0xF4 < byte a" by linarith
  then show thesis
  proof cases
    case 1
    then show thesis using s by (intro one [of a r]) (simp_all add: utf8_len_def)
  next
    case 2
    show thesis
    proof (cases r)
      case Nil
      then show thesis using 2 s by (intro none) (simp add: utf8_len_def)
    next
      case (Cons b r2)
      then show thesis using 2 s
        by (cases "cont_byte b") (intro two [of a b r2] none; simp add: utf8_len_def)+
    qed
  next
    case 3
    show thesis
    proof (cases "\<exists>b c r3. r = b # c # r3")
      case False
      then show thesis using 3 s by (intro none) (auto simp: utf8_len_def split: list.splits)
    next
      case True
      then obtain b c r3 where r: "r = b # c # r3" by blast
      let ?ok = "(if byte a = 0xE0 then 0xA0 else 0x80) \<le> byte b
                  \<and> byte b \<le> (if byte a = 0xED then 0x9F else 0xBF) \<and> cont_byte c"
      show thesis
      proof (cases ?ok)
        case True
        show thesis by (rule three [of a b c r3]) (use 3 s r True in \<open>simp_all add: utf8_len_def\<close>)
      next
        case False
        show thesis by (rule none) (use 3 s r False in \<open>simp add: utf8_len_def\<close>)
      qed
    qed
  next
    case 4
    show thesis
    proof (cases "\<exists>b c d r4. r = b # c # d # r4")
      case False
      then show thesis using 4 s by (intro none) (auto simp: utf8_len_def split: list.splits)
    next
      case True
      then obtain b c d r4 where r: "r = b # c # d # r4" by blast
      let ?ok = "(if byte a = 0xF0 then 0x90 else 0x80) \<le> byte b
                  \<and> byte b \<le> (if byte a = 0xF4 then 0x8F else 0xBF) \<and> cont_byte c \<and> cont_byte d"
      show thesis
      proof (cases ?ok)
        case True
        show thesis by (rule four [of a b c d r4]) (use 4 s r True in \<open>simp_all add: utf8_len_def\<close>)
      next
        case False
        show thesis by (rule none) (use 4 s r False in \<open>simp add: utf8_len_def\<close>)
      qed
    qed
  next
    case 5
    then show thesis using s by (intro none) (simp add: utf8_len_def)
  next
    case 6
    then show thesis using s by (intro none) (simp add: utf8_len_def)
  qed
qed

lemma utf8_len_le: "utf8_len s \<le> length s"
  by (cases s rule: utf8_len_cases) simp_all

lemma utf8_len_append: "utf8_len s \<noteq> 0 \<Longrightarrow> utf8_len (s @ t) = utf8_len s"
  by (cases s rule: utf8_len_cases) simp_all

lemma utf8_len_take: "utf8_len s \<noteq> 0 \<Longrightarrow> utf8_len (take (utf8_len s) s @ t) = utf8_len s"
  by (cases s rule: utf8_len_cases) simp_all

lemma utf8_len_ascii: "byte c < 0x80 \<Longrightarrow> utf8_len (c # s) = 1"
  by (simp add: utf8_len_def)

lemma utf8_valid_seq: "utf8_len s = length s \<Longrightarrow> utf8_valid s"
  by (cases "s = []") (simp_all add: utf8_valid_step)

lemma utf8_valid_append: "utf8_valid s \<Longrightarrow> utf8_valid t \<Longrightarrow> utf8_valid (s @ t)"
proof (induction s rule: utf8_valid.induct)
  case (1 s)
  show ?case
  proof (cases "s = []")
    case False
    have ne: "utf8_len s \<noteq> 0"
    proof
      assume "utf8_len s = 0"
      with 1(2) False show False by (subst (asm) utf8_valid.simps) simp
    qed
    with 1(2) have "utf8_valid (drop (utf8_len s) s @ t)"
      by (intro 1(1) False 1(3)) (simp_all add: utf8_valid_step [of s])
    then show ?thesis
      using ne by (simp add: utf8_valid_step [of "s @ t"] utf8_len_append utf8_len_le)
  qed (use 1(3) in simp)
qed

lemma byte_range: "0 \<le> byte c \<and> byte c < 256"
proof -
  have "byte c = int (of_char c)" by (simp only: byte_def of_nat_of_char)
  then show ?thesis using nat_of_char_less_256 [of c] by simp
qed

lemma byte_chr_byte: "byte_chr (byte c) = c"
  by (simp add: byte_chr_def byte_def)

lemma byte_byte_chr: "0 \<le> n \<Longrightarrow> n < 256 \<Longrightarrow> byte (byte_chr n) = n"
  by (simp add: byte_chr_def byte_def)

lemma base64_digits: "(r :: int) = r div 64 * 64 + r mod 64" "r div 4096 = r div 64 div 64"
    "r div 262144 = r div 64 div 64 div 64"
  using zdiv_zmult2_eq [of 64 r 64] zdiv_zmult2_eq [of 64 "r div 64" 64] zdiv_zmult2_eq [of 4096 r 64] by simp_all

lemma encode_rune_len:
  assumes "0 \<le> r" and "r \<le> 0x10FFFF" and "r < 0xD800 \<or> 0xDFFF < r"
  shows "utf8_len (encode_rune r) = length (encode_rune r)"
proof -
  consider "r < 0x80" | "0x80 \<le> r" "r < 0x800" | "0x800 \<le> r" "r < 0x10000" | "0x10000 \<le> r" by linarith
  then show ?thesis
  proof cases
    case 1
    then show ?thesis using assms by (simp add: encode_rune_def utf8_len_def byte_byte_chr)
  next
    case 2
    have "2 \<le> r div 64" "r div 64 \<le> 31" "0 \<le> r mod 64" "r mod 64 < 64" using 2 by auto
    then show ?thesis using 2
      by (simp add: encode_rune_def utf8_len_def byte_byte_chr cont_byte_def)
  next
    case 3
    define a b c where "a = r div 4096" and "b = r div 64 mod 64" and "c = r mod 64"
    have r: "r = a * 4096 + b * 64 + c"
      unfolding a_def b_def c_def base64_digits(2)
      using base64_digits(1) [of r] base64_digits(1) [of "r div 64"] by linarith
    have bnd: "0 \<le> a" "a \<le> 15" "0 \<le> b" "b < 64" "0 \<le> c" "c < 64"
      unfolding a_def b_def c_def using 3 by auto
    have "a = 0 \<Longrightarrow> 32 \<le> b" and "a = 13 \<Longrightarrow> b \<le> 31" using r bnd 3 assms(3) by auto
    then show ?thesis using 3 bnd
      by (simp add: encode_rune_def utf8_len_def byte_byte_chr cont_byte_def
          a_def [symmetric] b_def [symmetric] c_def [symmetric])
  next
    case 4
    define a b c d where "a = r div 262144" and "b = r div 4096 mod 64" and "c = r div 64 mod 64" and "d = r mod 64"
    have r: "r = a * 262144 + b * 4096 + c * 64 + d"
      unfolding a_def b_def c_def d_def
base64_digits(2,3)
      using base64_digits(1) [of r] base64_digits(1) [of "r div 64"] base64_digits(1) [of "r div 64 div 64"] by linarith
    have bnd: "0 \<le> a" "a \<le> 4" "0 \<le> b" "b < 64" "0 \<le> c" "c < 64" "0 \<le> d" "d < 64"
      unfolding a_def b_def c_def d_def using 4 assms(2) by auto
    have "a = 0 \<Longrightarrow> 16 \<le> b" and "a = 4 \<Longrightarrow> b \<le> 15" using r bnd 4 assms(2) by auto
    then show ?thesis using 4 bnd
      by (simp add: encode_rune_def utf8_len_def byte_byte_chr cont_byte_def
          a_def [symmetric] b_def [symmetric] c_def [symmetric] d_def [symmetric])
  qed
qed

lemma encode_rune_valid:
  "0 \<le> r \<Longrightarrow> r \<le> 0x10FFFF \<Longrightarrow> r < 0xD800 \<or> 0xDFFF < r \<Longrightarrow> utf8_valid (encode_rune r)"
  by (intro utf8_valid_seq encode_rune_len)

lemma hex_val_range: "hex_val c = Some v \<Longrightarrow> 0 \<le> v \<and> v < 16"
  by (auto simp: hex_val_def is_digit_def byte_def split: if_splits)

lemma hex4_range: "hex4 s = Some (v, r) \<Longrightarrow> 0 \<le> v \<and> v \<le> 0xFFFF"
  by (induction s rule: hex4.induct)
    (auto split: option.splits dest!: hex_val_range)

lemma utf8_valid_ascii: "byte c < 0x80 \<Longrightarrow> utf8_valid (c # s) = utf8_valid s"
  by (simp add: utf8_valid_step utf8_len_ascii)

lemma parse_escape_cases:
  assumes "parse_escape s = Some (out, r)"
  obtains (simple) c where "byte c < 0x80" "out = [c]" | (rune) v where "0 \<le> v" "v \<le> 0x10FFFF" "v < 0xD800 \<or> 0xDFFF < v" "out = encode_rune v"
    | (bad) "out = replacement"
proof (cases s)
  case (Cons c r')
  show thesis
  proof (cases "c = CHR ''u''")
    case True
    with assms Cons obtain v r1 where h: "hex4 r' = Some (v, r1)"
      by (auto simp: parse_escape_def split: option.splits)
    note v = hex4_range [OF h]
    show thesis
    proof (cases "v < 0xD800 \<or> 0xDFFF < v")
      case True
      with assms Cons \<open>c = CHR ''u''\<close> h v show thesis by (intro rune [of v]) (auto simp: parse_escape_def)
    next
      case False
      consider "out = replacement" | w r2 where "hex4 (drop 2 r1) = Some (w, r2)" "0xDC00 \<le> w" "w \<le> 0xDFFF" "v \<le> 0xDBFF"
        "out = encode_rune ((v - 0xD800) * 1024 + (w - 0xDC00) + 0x10000)"
        using assms Cons True h False by (auto simp: parse_escape_def split: if_splits option.splits)
      then show thesis
      proof cases
        case 1
        then show thesis by (rule bad)
      next
        case (2 w r2)
        show thesis by (rule rune [OF _ _ _ 2(5)]) (use 2 False in auto)
      qed
    qed
  next
    case False
    with assms Cons show thesis
      by (intro simple [of "hd out"]) (auto simp: parse_escape_def byte_def split: if_splits)
  qed
qed (use assms in \<open>simp add: parse_escape_def\<close>)

lemma parse_escape_valid: "parse_escape s = Some (out, r) \<Longrightarrow> utf8_valid out"
proof (elim parse_escape_cases)
  assume "out = replacement"
  moreover have "utf8_valid replacement" by code_simp
  ultimately show ?thesis by simp
qed (simp_all add: utf8_valid_ascii encode_rune_valid)

section \<open>Strings\<close>

lemma parse_str_valid: "parse_str s = Some (t, r) \<Longrightarrow> utf8_valid t"
proof (induction s arbitrary: t r rule: parse_str.induct)
  case (1 s)
  show ?case
  proof (cases s)
    case Nil
    with 1(4) show ?thesis by (simp add: parse_str.simps)
  next
    case s: (Cons c cs)
    consider "c = CHR 0x22" | "c = CHR 0x5C" | "c \<noteq> CHR 0x22" "c \<noteq> CHR 0x5C" "\<not> byte c < 0x20" "utf8_len s = 0"
      | "c \<noteq> CHR 0x22" "c \<noteq> CHR 0x5C" "\<not> byte c < 0x20" "utf8_len s \<noteq> 0" | "c \<noteq> CHR 0x22" "c \<noteq> CHR 0x5C" "byte c < 0x20" by blast
    then show ?thesis
    proof cases
      case a: 1
      with 1(4) s show ?thesis by (subst (asm) parse_str.simps) simp
    next
      case a: 2
      with 1(4) s obtain out r1 t1 where p: "parse_escape cs = Some (out, r1)" "parse_str r1 = Some (t1, r)" "t = out @ t1"
        by (subst (asm) parse_str.simps) (auto split: option.splits)
      with 1(1) [OF s _ a p(1) refl] a have "utf8_valid t1" by simp
      with p show ?thesis by (simp add: utf8_valid_append parse_escape_valid)
    next
      case a: 3
      with 1(4) s obtain t1 where p: "parse_str cs = Some (t1, r)" "t = replacement @ t1"
        by (subst (asm) parse_str.simps) auto
      with 1(2) [OF s a] have "utf8_valid t1" by simp
      moreover have "utf8_valid replacement" by code_simp
      ultimately show ?thesis using p by (simp add: utf8_valid_append)
    next
      case a: 4
      with 1(4) s obtain t1 where p: "parse_str (drop (utf8_len s) s) = Some (t1, r)" "t = take (utf8_len s) s @ t1"
        by (subst (asm) parse_str.simps) auto
      with 1(3) [OF s a] have v: "utf8_valid t1" by simp
      have "utf8_valid (take (utf8_len s) s)"
        using utf8_len_take [OF a(4), of "[]"] utf8_len_le [of s] by (intro utf8_valid_seq) simp
      with v p(2) show ?thesis by (simp add: utf8_valid_append)
    next
      case a: 5
      with 1(4) s show ?thesis by (subst (asm) parse_str.simps) simp
    qed
  qed
qed

text \<open>One written character is read as that character.\<close>

lemma hex_val_digit: "0 \<le> n \<Longrightarrow> n < 16 \<Longrightarrow> hex_val (hex_digit n) = Some n"
  by (simp add: hex_val_def hex_digit_def is_digit_def byte_def)

lemma parse_quote_byte:
  assumes "byte c < 0x80"
  shows "parse_str (quote_byte c @ rest) = map_option (\<lambda>(t, r). (c # t, r)) (parse_str rest)"
proof (cases "byte c < 0x20 \<or> c = CHR ''<'' \<or> c = CHR ''>'' \<or> c = CHR ''&''")
  case True
  show ?thesis
  proof (cases "c \<in> {CHR 0x08, CHR 0x0C, CHR 0x0A, CHR 0x0D, CHR 0x09}")
    case True
    then show ?thesis
      by (auto simp: quote_byte_def parse_str.simps [of "CHR 0x5C # _"] parse_escape_def)
  next
    case False
    have n: "0 \<le> byte c div 16" "byte c div 16 < 16" "0 \<le> byte c mod 16" "byte c mod 16 < 16"
      using byte_range [of c] by auto
    have "c \<noteq> CHR 0x22" "c \<noteq> CHR 0x5C" using True by (auto simp: byte_def)
    then have q: "quote_byte c = [CHR 0x5C, CHR ''u'', CHR ''0'', CHR ''0'', hex_digit (byte c div 16), hex_digit (byte c mod 16)]"
      using True False by (simp add: quote_byte_def)
    have z: "hex_val (CHR ''0'') = Some 0" by code_simp
    have "hex4 ([CHR ''0'', CHR ''0'', hex_digit (byte c div 16), hex_digit (byte c mod 16)] @ rest) = Some (byte c, rest)"
      using n by (simp add: z hex_val_digit)
    moreover have "encode_rune (byte c) = [c]" using assms by (simp add: encode_rune_def byte_chr_byte)
    ultimately have "parse_escape (tl (quote_byte c) @ rest) = Some ([c], rest)"
      using assms by (simp add: q parse_escape_def)
    then show ?thesis
      using q by (simp add: parse_str.simps [of "CHR 0x5C # _"])
  qed
next
  case False
  show ?thesis
  proof (cases "c = CHR 0x22 \<or> c = CHR 0x5C")
    case True
    then show ?thesis
      by (auto simp: quote_byte_def parse_str.simps [of "CHR 0x5C # _"] parse_escape_def)
  next
    case no: False
    moreover have "c \<notin> {CHR 0x08, CHR 0x0C, CHR 0x0A, CHR 0x0D, CHR 0x09}" using False by (auto simp: byte_def)
    ultimately have "quote_byte c = [c]" using False by (simp add: quote_byte_def)
    then show ?thesis
      using no False assms by (simp add: parse_str.simps [of "c # _"] utf8_len_ascii)
  qed
qed

lemma parse_chunk:
  assumes "utf8_len s \<noteq> 0" and "0x80 \<le> byte (hd s)" and "s \<noteq> []"
  shows "parse_str (take (utf8_len s) s @ rest) = map_option (\<lambda>(t, r). (take (utf8_len s) s @ t, r)) (parse_str rest)"
proof -
  let ?k = "utf8_len s"
  have k: "utf8_len (take ?k s @ rest) = ?k" by (rule utf8_len_take [OF assms(1)])
  obtain c cs where c: "take ?k s @ rest = c # cs" and h: "c = hd s"
    using assms by (cases s; cases ?k) auto
  have "c \<noteq> CHR 0x22" "c \<noteq> CHR 0x5C" "\<not> byte c < 0x20" using assms(2) h by (auto simp: byte_def)
  moreover have "take ?k (take ?k s @ rest) = take ?k s" "drop ?k (take ?k s @ rest) = rest"
    using utf8_len_le [of s] by simp_all
  ultimately show ?thesis using c k assms(1) by (simp add: parse_str.simps [of "c # cs"])
qed

lemma parse_escaped:
  assumes "parse_escape (e @ y) = Some (out, y)"
  shows "parse_str (CHR 0x5C # e @ y) = map_option (\<lambda>(t, r). (out @ t, r)) (parse_str y)"
  using assms by (simp add: parse_str.simps [of "CHR 0x5C # _"])

lemma parse_u2028: "parse_escape (''u2028'' @ x) = Some ([CHR 0xE2, CHR 0x80, CHR 0xA8], x)"
  and parse_u2029: "parse_escape (''u2029'' @ x) = Some ([CHR 0xE2, CHR 0x80, CHR 0xA9], x)"
  by (simp_all add: parse_escape_def hex_val_def is_digit_def byte_def encode_rune_def byte_chr_def char_of_def)

lemma separator_len:
  "utf8_len (CHR 0xE2 # CHR 0x80 # CHR 0xA8 # r) = 3" "utf8_len (CHR 0xE2 # CHR 0x80 # CHR 0xA9 # r) = 3"
  by (simp_all add: utf8_len_def byte_def cont_byte_def)

theorem parse_str_quote: "utf8_valid s \<Longrightarrow> parse_str (quote_body s @ CHR 0x22 # rest) = Some (s, rest)"
proof (induction s rule: quote_body.induct)
  case (1 s)
  show ?case
  proof (cases s)
    case Nil
    then show ?thesis by (simp add: quote_body.simps parse_str.simps)
  next
    case s: (Cons c cs)
    show ?thesis
    proof (cases "byte c < 0x80")
      case True
      then have "utf8_valid cs" using 1(6) s by (simp add: utf8_valid_ascii)
      with True s 1(1) [OF s True] show ?thesis
        by (simp add: quote_body.simps [of "c # cs"] parse_quote_byte)
    next
      case False
      have k: "utf8_len s \<noteq> 0"
        using 1(6) s by (subst (asm) utf8_valid.simps) (auto split: if_splits)
      have v: "utf8_valid (drop (utf8_len s) s)" using 1(6) k by (simp add: utf8_valid_step [of s])
      consider (u2028) "take 3 s = [CHR 0xE2, CHR 0x80, CHR 0xA8]" | (u2029) "take 3 s = [CHR 0xE2, CHR 0x80, CHR 0xA9]"
        | (other) "take 3 s \<noteq> [CHR 0xE2, CHR 0x80, CHR 0xA8]" "take 3 s \<noteq> [CHR 0xE2, CHR 0x80, CHR 0xA9]" by blast
      then show ?thesis
      proof cases
        case u2028
        then have r: "s = [CHR 0xE2, CHR 0x80, CHR 0xA8] @ drop 3 s" by (metis append_take_drop_id)
        then have "utf8_len s = 3" by (metis append_Cons append_Nil separator_len(1) separator_len(2))
        then have "parse_str (quote_body (drop 3 s) @ CHR 0x22 # rest) = Some (drop 3 s, rest)"
          using 1(3) [OF s False k u2028] v by simp
        moreover have "quote_body s = (CHR 0x5C # ''u2028'') @ quote_body (drop 3 s)"
          using s False k u2028 by (subst quote_body.simps) simp
        ultimately show ?thesis
          using parse_escaped [OF parse_u2028, of "quote_body (drop 3 s) @ CHR 0x22 # rest"] r by simp
      next
        case u2029
        then have r: "s = [CHR 0xE2, CHR 0x80, CHR 0xA9] @ drop 3 s" by (metis append_take_drop_id)
        then have "utf8_len s = 3" by (metis append_Cons append_Nil separator_len(1) separator_len(2))
        then have "parse_str (quote_body (drop 3 s) @ CHR 0x22 # rest) = Some (drop 3 s, rest)"
          using 1(4) [OF s False k _ u2029] u2029 v by simp
        moreover have "quote_body s = (CHR 0x5C # ''u2029'') @ quote_body (drop 3 s)"
          using s False k u2029 by (subst quote_body.simps) simp
        ultimately show ?thesis
          using parse_escaped [OF parse_u2029, of "quote_body (drop 3 s) @ CHR 0x22 # rest"] r by simp
      next
        case other
        have "parse_str (quote_body (drop (utf8_len s) s) @ CHR 0x22 # rest) = Some (drop (utf8_len s) s, rest)"
          using 1(5) [OF s False k other] v by simp
        moreover have "quote_body s = take (utf8_len s) s @ quote_body (drop (utf8_len s) s)"
          using s False k other by (subst quote_body.simps) auto
        ultimately show ?thesis using s False k by (simp add: parse_chunk del: take_Cons' drop_Cons')
      qed
    qed
  qed
qed

section \<open>Numbers\<close>

text \<open>A literal is read the same whatever follows, as long as that does not continue it.\<close>

definition ends_number :: "string \<Rightarrow> bool" where
  "ends_number r \<longleftrightarrow> (case r of [] \<Rightarrow> True | c # _ \<Rightarrow> \<not> is_digit c \<and> c \<noteq> CHR ''.'' \<and> c \<noteq> CHR ''e'' \<and> c \<noteq> CHR ''E'')"

definition number_wf :: "string \<Rightarrow> bool" where
  "number_wf t \<longleftrightarrow> parse_num t = Some (t, [])"

definition no_digit :: "string \<Rightarrow> bool" where
  "no_digit r \<longleftrightarrow> (case r of [] \<Rightarrow> True | c # _ \<Rightarrow> \<not> is_digit c)"

lemma span_digits_iff: "span_digits s = (ds, r) \<longleftrightarrow> s = ds @ r \<and> list_all is_digit ds \<and> no_digit r"
proof
  assume "span_digits s = (ds, r)"
  then have d: "ds = takeWhile is_digit s" "r = dropWhile is_digit s" by (simp_all add: span_digits_def)
  then show "s = ds @ r \<and> list_all is_digit ds \<and> no_digit r"
    by (auto simp: no_digit_def list_all_iff dest: set_takeWhileD dropWhile_eq_Cons_conv [THEN iffD1] split: list.splits)
next
  assume "s = ds @ r \<and> list_all is_digit ds \<and> no_digit r"
  then show "span_digits s = (ds, r)"
    by (cases r) (auto simp: span_digits_def no_digit_def list_all_iff takeWhile_append2 dropWhile_append2)
qed

lemma num_int_iff:
  "num_int s = Some (i, r) \<longleftrightarrow>
   (i = ''0'' \<and> s = i @ r) \<or> (i \<noteq> [] \<and> hd i \<noteq> CHR ''0'' \<and> list_all is_digit i \<and> s = i @ r \<and> no_digit r)"
proof (cases s)
  case (Cons c t)
  have h: "s = i @ r \<Longrightarrow> i \<noteq> [] \<Longrightarrow> hd i = c" using Cons by (cases i) auto
  have d: "list_all is_digit i \<Longrightarrow> i \<noteq> [] \<Longrightarrow> is_digit (hd i)" by (cases i) auto
  consider "is_digit c" "c \<noteq> CHR ''0''" | "c = CHR ''0''" | "\<not> is_digit c" "c \<noteq> CHR ''0''" by blast
  then show ?thesis
  proof cases
    case 1
    then have "num_int s = Some (i, r) \<longleftrightarrow> s = i @ r \<and> list_all is_digit i \<and> no_digit r"
      using Cons by (simp add: num_int_def span_digits_iff)
    moreover have "s = i @ r \<Longrightarrow> no_digit r \<Longrightarrow> i \<noteq> []" using Cons 1 by (auto simp: no_digit_def)
    ultimately show ?thesis using 1 h by (metis list.distinct(1) list.sel(1))
  next
    case 2
    then have "num_int s = Some (i, r) \<longleftrightarrow> i = ''0'' \<and> s = i @ r" using Cons by (auto simp: num_int_def)
    with 2 h show ?thesis by blast
  next
    case 3
    then have "num_int s = None" using Cons by (simp add: num_int_def)
    with 3 h d show ?thesis by (metis list.distinct(1) list.sel(1) option.distinct(1))
  qed
qed (simp add: num_int_def)

lemma num_frac_iff:
  "num_frac s = Some (f, r) \<longleftrightarrow>
   (f = [] \<and> s = r \<and> \<not> HasPrefix r ''.'') \<or>
   (\<exists>ds. f = CHR ''.'' # ds \<and> ds \<noteq> [] \<and> list_all is_digit ds \<and> s = f @ r \<and> no_digit r)"
proof (cases "HasPrefix s ''.''")
  case True
  then obtain t where s: "s = CHR ''.'' # t" by (cases s) (auto simp: HasPrefix_def)
  obtain ds r' where sd: "span_digits t = (ds, r')" by fastforce
  have "(\<exists>ds. f = CHR ''.'' # ds \<and> ds \<noteq> [] \<and> list_all is_digit ds \<and> s = f @ r \<and> no_digit r)
      \<longleftrightarrow> (\<exists>ds. f = CHR ''.'' # ds \<and> ds \<noteq> [] \<and> span_digits t = (ds, r))"
    using s by (auto simp: span_digits_iff)
  then show ?thesis using True s sd by (auto simp: num_frac_def HasPrefix_def)
qed (auto simp: num_frac_def HasPrefix_def)

definition exp_sign :: "string \<Rightarrow> bool" where
  "exp_sign sg \<longleftrightarrow> sg = [] \<or> sg = ''+'' \<or> sg = ''-''"

lemma num_exp_iff:
  "num_exp s = Some (e, r) \<longleftrightarrow>
   (e = [] \<and> s = r \<and> \<not> HasPrefix r ''e'' \<and> \<not> HasPrefix r ''E'') \<or>
   (\<exists>c sg ds. e = c # sg @ ds \<and> (c = CHR ''e'' \<or> c = CHR ''E'') \<and> exp_sign sg \<and> ds \<noteq> []
      \<and> list_all is_digit ds \<and> s = e @ r \<and> no_digit r)"
  (is "_ \<longleftrightarrow> ?none \<or> ?some")
proof (cases "HasPrefix s ''e'' \<or> HasPrefix s ''E''")
  case True
  then obtain c t where s: "s = c # t" and c: "c = CHR ''e'' \<or> c = CHR ''E''" by (cases s) (auto simp: HasPrefix_def)
  define sign where "sign = (if HasPrefix t ''+'' \<or> HasPrefix t ''-'' then [hd t] else [])"
  have sg: "exp_sign sign" "t = sign @ drop (length sign) t"
    by (cases t; auto simp: sign_def exp_sign_def HasPrefix_def)+
  have uniq: "sg = sign" if "exp_sign sg" "ds \<noteq> []" "list_all is_digit ds" "t = sg @ ds @ r" for sg ds
    using that by (cases ds) (auto simp: exp_sign_def sign_def HasPrefix_def is_digit_def)
  have "num_exp s = (let (ds, r) = span_digits (drop (length sign) t) in if ds = [] then None else Some (c # sign @ ds, r))"
    using True unfolding num_exp_def Let_def sign_def s list.sel by simp
  then have "num_exp s = Some (e, r) \<longleftrightarrow> (\<exists>ds. span_digits (drop (length sign) t) = (ds, r) \<and> ds \<noteq> [] \<and> e = c # sign @ ds)"
    by (auto simp: case_prod_beta split: if_splits prod.splits)
  also have "\<dots> \<longleftrightarrow> ?some"
  proof
    assume "\<exists>ds. span_digits (drop (length sign) t) = (ds, r) \<and> ds \<noteq> [] \<and> e = c # sign @ ds"
    then obtain ds where d: "drop (length sign) t = ds @ r" "list_all is_digit ds" "no_digit r" "ds \<noteq> []" "e = c # sign @ ds"
      by (auto simp: span_digits_iff)
    then have "s = e @ r" using s sg(2) by (metis append.assoc append_Cons)
    with d c sg(1) show ?some by blast
  next
    assume ?some
    then obtain c' sg' ds where d: "e = c' # sg' @ ds" "exp_sign sg'" "ds \<noteq> []" "list_all is_digit ds" "s = e @ r" "no_digit r"
      by blast
    then have t: "t = sg' @ ds @ r" "c' = c" using s by simp_all
    have "sg' = sign" by (rule uniq [OF d(2-4) t(1)])
    with d t show "\<exists>ds. span_digits (drop (length sign) t) = (ds, r) \<and> ds \<noteq> [] \<and> e = c # sign @ ds"
      by (auto simp: span_digits_iff)
  qed
  finally show ?thesis using True by auto
qed (auto simp: num_exp_def HasPrefix_def)

text \<open>The grammar of number literals.\<close>

definition literal :: "string \<Rightarrow> string \<Rightarrow> string \<Rightarrow> string \<Rightarrow> string \<Rightarrow> bool" where
  "literal sg i f e r \<longleftrightarrow> (sg = [] \<or> sg = ''-'') \<and> num_int (i @ f @ e @ r) = Some (i, f @ e @ r)
     \<and> num_frac (f @ e @ r) = Some (f, e @ r) \<and> num_exp (e @ r) = Some (e, r)"

lemma parse_num_literal:
  "parse_num s = Some (t, r) \<longleftrightarrow> (\<exists>sg i f e. literal sg i f e r \<and> t = sg @ i @ f @ e \<and> s = t @ r)"
proof -
  define sign where "sign = (if HasPrefix s ''-'' then ''-'' else [])"
  have s: "s = sign @ drop (length sign) s" by (cases s) (auto simp: sign_def HasPrefix_def)
  have "parse_num s = Some (t, r) \<longleftrightarrow> (\<exists>i r1 f r2 e. num_int (drop (length sign) s) = Some (i, r1)
      \<and> num_frac r1 = Some (f, r2) \<and> num_exp r2 = Some (e, r) \<and> t = sign @ i @ f @ e)"
    by (auto simp: parse_num_def Let_def sign_def [symmetric] split: option.splits)
  also have "\<dots> \<longleftrightarrow> (\<exists>sg i f e. literal sg i f e r \<and> t = sg @ i @ f @ e \<and> s = t @ r)" (is "?l \<longleftrightarrow> ?r")
  proof
    assume ?l
    then obtain i r1 f r2 e where p: "num_int (drop (length sign) s) = Some (i, r1)" "num_frac r1 = Some (f, r2)"
      "num_exp r2 = Some (e, r)" "t = sign @ i @ f @ e" by blast
    have "drop (length sign) s = i @ r1" "r1 = f @ r2" "r2 = e @ r"
      using p(1-3) by (auto simp: num_int_iff num_frac_iff num_exp_iff)
    with p s show ?r by (intro exI [of _ sign] exI [of _ i] exI [of _ f] exI [of _ e])
        (auto simp: literal_def sign_def)
  next
    assume ?r
    then obtain sg i f e where p: "literal sg i f e r" "t = sg @ i @ f @ e" "s = t @ r" by blast
    have "i \<noteq> []" "hd i \<noteq> CHR ''-''" using p(1) by (auto simp: literal_def num_int_iff is_digit_def neq_Nil_conv)
    then have "sg = sign" using p by (cases i) (auto simp: sign_def literal_def HasPrefix_def)
    with p show ?l by (auto simp: literal_def)
  qed
  finally show ?thesis .
qed

lemma no_digit_append: "no_digit (a @ r) \<Longrightarrow> no_digit x \<Longrightarrow> no_digit (a @ x)"
  by (cases a) (auto simp: no_digit_def)

lemma HasPrefix_single_append: "\<not> HasPrefix (a @ r) [c] \<Longrightarrow> \<not> HasPrefix x [c] \<Longrightarrow> \<not> HasPrefix (a @ x) [c]"
  by (cases a) (auto simp: HasPrefix_def)

lemma ends_numberD: "ends_number x \<Longrightarrow> no_digit x \<and> \<not> HasPrefix x ''.'' \<and> \<not> HasPrefix x ''e'' \<and> \<not> HasPrefix x ''E''"
  by (cases x) (auto simp: ends_number_def HasPrefix_def no_digit_def)

lemma literal_other_end:
  assumes "literal sg i f e r" and "ends_number x"
  shows "literal sg i f e x"
proof -
  note x = ends_numberD [OF assms(2)]
  have "num_int (i @ f @ e @ x) = Some (i, f @ e @ x)"
    using assms(1) x no_digit_append [of "f @ e" r x] unfolding literal_def num_int_iff by auto
  moreover have "num_frac (f @ e @ x) = Some (f, e @ x)"
    using assms(1) x no_digit_append [of e r x] HasPrefix_single_append [of e r "CHR ''.''" x]
    unfolding literal_def num_frac_iff by auto
  moreover have "num_exp (e @ x) = Some (e, x)"
    using assms(1) x unfolding literal_def num_exp_iff by auto
  ultimately show ?thesis using assms(1) by (simp add: literal_def)
qed

lemma parse_num_wf: "parse_num s = Some (t, r) \<Longrightarrow> number_wf t"
  unfolding number_wf_def parse_num_literal
  using literal_other_end [of _ _ _ _ r "[]"] by (fastforce simp: ends_number_def)

lemma number_read:
  assumes "number_wf t" and "ends_number x"
  shows "parse_num (t @ x) = Some (t, x)"
  using assms literal_other_end unfolding number_wf_def parse_num_literal by fastforce

lemma number_head:
  assumes "number_wf t"
  shows "\<exists>c cs. t = c # cs \<and> (is_digit c \<or> c = CHR ''-'')"
proof -
  obtain sg i f e where l: "literal sg i f e []" "t = sg @ i @ f @ e"
    using assms by (auto simp: number_wf_def parse_num_literal)
  then show ?thesis by (auto simp: literal_def num_int_iff is_digit_def neq_Nil_conv)
qed

section \<open>Values\<close>

text \<open>The values a decoder builds within a nesting depth.\<close>

fun json_wf :: "nat \<Rightarrow> json \<Rightarrow> bool" where
  "json_wf d JNull = True"
| "json_wf d (JBool b) = True"
| "json_wf d (JNum t) = number_wf t"
| "json_wf d (JStr s) = utf8_valid s"
| "json_wf d (JArr vs) = (d \<noteq> 0 \<and> list_all (json_wf (d - 1)) vs)"
| "json_wf d (JObj kvs) = (d \<noteq> 0 \<and> sorted_wrt (<) (map fst kvs) \<and> list_all utf8_valid (map fst kvs)
     \<and> list_all (json_wf (d - 1)) (map snd kvs))"

definition members_wf :: "nat \<Rightarrow> (string \<times> json) list \<Rightarrow> bool" where
  "members_wf d kvs \<longleftrightarrow> sorted_wrt (<) (map fst kvs) \<and> list_all utf8_valid (map fst kvs) \<and> list_all (json_wf d) (map snd kvs)"

lemma put_keys: "set (map fst (put k v kvs)) = insert k (set (map fst kvs))"
  by (induction k v kvs rule: put.induct) auto

lemma put_sorted: "sorted_wrt (<) (map fst kvs) \<Longrightarrow> sorted_wrt (<) (map fst (put k v kvs))"
proof (induction k v kvs rule: put.induct)
  case (2 k v k' v' kvs)
  then show ?case using put_keys [of k v kvs] by auto
qed simp

lemma put_wf: "members_wf d kvs \<Longrightarrow> utf8_valid k \<Longrightarrow> json_wf d v \<Longrightarrow> members_wf d (put k v kvs)"
proof -
  assume a: "members_wf d kvs" "utf8_valid k" "json_wf d v"
  have "set (map snd (put k v kvs)) \<subseteq> insert v (set (map snd kvs))"
    by (induction k v kvs rule: put.induct) auto
  with a show ?thesis
    using put_keys [of k v kvs] unfolding members_wf_def list_all_iff by (auto simp del: set_map simp: put_sorted)
qed

lemma parse_wf:
  "parse_value n d s = Some (v, r) \<Longrightarrow> json_wf d v"
  "parse_members n d acc s = Some (v, r) \<Longrightarrow> members_wf d acc \<Longrightarrow> \<exists>kvs. v = JObj kvs \<and> members_wf d kvs"
  "parse_elements n d vs s = Some (v, r) \<Longrightarrow> list_all (json_wf d) vs \<Longrightarrow> \<exists>ws. v = JArr ws \<and> list_all (json_wf d) ws"
proof (induction n d s and n d acc s and n d vs s arbitrary: v r and v r and v r
    rule: parse_value_parse_members_parse_elements.induct)
  case (2 n d s0)
  show ?case
  proof (cases "skip_ws s0")
    case (Cons c t)
    with 2(3) show ?thesis
      using 2(1) [OF Cons] 2(2) [OF Cons]
      by (fastforce simp: members_wf_def dest: parse_str_valid parse_num_wf split: if_splits)
  qed (use 2(3) in simp)
next
  case (4 n d acc s)
  then show ?case
    by (fastforce simp: put_wf dest: parse_str_valid split: if_splits option.splits)
next
  case (6 n d acc s)
  then show ?case
    by (fastforce simp: list_all_iff split: if_splits option.splits)
qed simp_all

section \<open>Reading what was written\<close>

lemma put_last: "\<forall>k' \<in> set (map fst acc). k' < k \<Longrightarrow> put k v acc = acc @ [(k, v)]"
  by (induction k v acc rule: put.induct) auto

lemma skip_ws_Cons: "\<not> is_ws c \<Longrightarrow> skip_ws (c # s) = c # s"
  by (simp add: skip_ws_def)

lemma plain_chars [simp]:
  "\<not> is_ws (CHR 0x22)" "\<not> is_ws (CHR ''{'')" "\<not> is_ws (CHR ''}'')" "\<not> is_ws (CHR ''['')" "\<not> is_ws (CHR '']'')"
  "\<not> is_ws (CHR '','')" "\<not> is_ws (CHR '':'')" "\<not> is_ws (CHR ''t'')" "\<not> is_ws (CHR ''f'')" "\<not> is_ws (CHR ''n'')"
  by (simp_all add: is_ws_def)

lemma ends_number_delimiters [simp]:
  "ends_number []" "ends_number (CHR '','' # x)" "ends_number (CHR ''}'' # x)" "ends_number (CHR '']'' # x)"
  by (simp_all add: ends_number_def is_digit_def)

lemma HasPrefix_Cons: "HasPrefix (c # s) [c'] \<longleftrightarrow> c = c'"
  by (auto simp: HasPrefix_def)

lemma number_value:
  assumes "number_wf t" and "ends_number x"
  shows "parse_value (Suc n) d (t @ x) = Some (JNum t, x)"
proof -
  obtain c cs where t: "t = c # cs" and c: "is_digit c \<or> c = CHR ''-''" using number_head [OF assms(1)] by blast
  have "\<not> is_ws c" "c \<noteq> CHR 0x22" "c \<noteq> CHR ''{''" "c \<noteq> CHR ''[''" "c \<noteq> CHR ''t''" "c \<noteq> CHR ''f''" "c \<noteq> CHR ''n''"
    using c by (auto simp: is_digit_def is_ws_def)
  then show ?thesis
    using number_read [OF assms] t by (simp add: skip_ws_Cons HasPrefix_def)
qed

lemma value_head:
  "json_wf d v \<Longrightarrow> \<exists>c cs. marshal v = c # cs \<and> \<not> is_ws c \<and> c \<noteq> CHR '']'' \<and> c \<noteq> CHR ''}''"
proof (cases v)
  case (JNum t)
  assume "json_wf d v"
  with JNum obtain c cs where "t = c # cs" "is_digit c \<or> c = CHR ''-''" using number_head [of t] by auto
  with JNum show ?thesis by (auto simp: is_digit_def is_ws_def)
qed (auto simp: quote_str_def is_ws_def)

lemma elements_head:
  "vs \<noteq> [] \<Longrightarrow> list_all (json_wf d) vs \<Longrightarrow>
   \<exists>c cs. marshal_elements vs = c # cs \<and> \<not> is_ws c \<and> c \<noteq> CHR '']''"
  using value_head [of d "hd vs"] by (cases vs; cases "tl vs") auto

lemma members_head: "kvs \<noteq> [] \<Longrightarrow> \<exists>cs. marshal_members kvs = CHR 0x22 # cs"
  by (cases kvs; cases "tl kvs") (auto simp: quote_str_def)

lemma member_step:
  assumes "utf8_valid k"
    and "parse_value n d (marshal v @ y) = Some (v, y)"
  shows "parse_members (Suc n) d acc (quote_str k @ CHR '':'' # marshal v @ y) =
    (if HasPrefix (skip_ws y) '','' then parse_members n d (put k v acc) (tl (skip_ws y))
     else if HasPrefix (skip_ws y) ''}'' then Some (JObj (put k v acc), tl (skip_ws y)) else None)"
  using assms by (simp add: quote_str_def skip_ws_Cons HasPrefix_Cons parse_str_quote)

lemma marshal_read:
  "json_wf d v \<Longrightarrow> ends_number x \<Longrightarrow> length (marshal v) < n \<Longrightarrow> parse_value n d (marshal v @ x) = Some (v, x)"
  "vs \<noteq> [] \<Longrightarrow> list_all (json_wf d) vs \<Longrightarrow> length (marshal_elements vs) + 2 \<le> n \<Longrightarrow>
     parse_elements n d acc (marshal_elements vs @ CHR '']'' # x) = Some (JArr (rev acc @ vs), x)"
  "kvs \<noteq> [] \<Longrightarrow> members_wf d kvs \<Longrightarrow> \<forall>a \<in> set (map fst macc). \<forall>k \<in> set (map fst kvs). a < k \<Longrightarrow>
     length (marshal_members kvs) + 2 \<le> n \<Longrightarrow>
     parse_members n d macc (marshal_members kvs @ CHR ''}'' # x) = Some (JObj (macc @ kvs), x)"
proof (induction v and vs and kvs arbitrary: d x n and d x n acc and d x n macc rule: marshal_marshal_elements_marshal_members.induct)
  case 1
  then show ?case by (cases n) (simp_all add: skip_ws_Cons HasPrefix_def)
next
  case (2 b)
  then show ?case by (cases n) (simp_all add: skip_ws_Cons HasPrefix_def)
next
  case (3 t)
  then show ?case by (cases n) (simp_all del: parse_value.simps add: number_value)
next
  case (4 s)
  then show ?case by (cases n) (simp_all add: skip_ws_Cons quote_str_def parse_str_quote)
next
  case (5 vs)
  then obtain m where n: "n = Suc m" by (cases n) simp_all
  show ?case
  proof (cases "vs = []")
    case True
    then show ?thesis using 5(2) n by (simp add: skip_ws_Cons HasPrefix_Cons)
  next
    case False
    with 5(2) obtain c cs where h: "marshal_elements vs = c # cs" "\<not> is_ws c" "c \<noteq> CHR '']''"
      using elements_head [of vs "d - 1"] by auto
    have "parse_elements m (d - 1) [] (marshal_elements vs @ CHR '']'' # x) = Some (JArr (rev [] @ vs), x)"
      using 5 n False by (intro 5(1)) auto
    with 5(2) n h show ?thesis by (simp add: skip_ws_Cons HasPrefix_Cons)
  qed
next
  case (6 kvs)
  then obtain m where n: "n = Suc m" by (cases n) simp_all
  show ?case
  proof (cases "kvs = []")
    case True
    then show ?thesis using 6(2) n by (simp add: skip_ws_Cons HasPrefix_Cons)
  next
    case False
    then obtain cs where h: "marshal_members kvs = CHR 0x22 # cs" using members_head by blast
    have "parse_members m (d - 1) [] (marshal_members kvs @ CHR ''}'' # x) = Some (JObj ([] @ kvs), x)"
      using 6 n False by (intro 6(1)) (auto simp: members_wf_def)
    with 6(2) n h show ?thesis by (simp add: skip_ws_Cons HasPrefix_Cons)
  qed
next
  case 7
  then show ?case by simp
next
  case (8 v)
  then obtain m where n: "n = Suc m" by (cases n) simp_all
  with 8 show ?case by (simp add: skip_ws_Cons HasPrefix_Cons)
next
  case (9 v w vs)
  then obtain m where n: "n = Suc m" by (cases n) simp_all
  have v: "parse_value m d (marshal v @ CHR '','' # marshal_elements (w # vs) @ CHR '']'' # x)
      = Some (v, CHR '','' # marshal_elements (w # vs) @ CHR '']'' # x)"
    using 9(4,5) n by (intro 9(1)) simp_all
  have "parse_elements m d (v # acc) (marshal_elements (w # vs) @ CHR '']'' # x) = Some (JArr (rev (v # acc) @ w # vs), x)"
    using 9(4,5) n by (intro 9(2)) simp_all
  with v n show ?case by (simp add: skip_ws_Cons HasPrefix_Cons)
next
  case 10
  then show ?case by simp
next
  case (11 k v)
  then obtain m where n: "n = Suc m" by (cases n) simp_all
  have "parse_value m d (marshal v @ CHR ''}'' # x) = Some (v, CHR ''}'' # x)"
    using 11 n by (intro 11(1)) (simp_all add: members_wf_def quote_str_def)
  moreover have "put k v macc = macc @ [(k, v)]" using 11(4) by (intro put_last) auto
  ultimately show ?case
    using 11(3) n by (simp add: member_step skip_ws_Cons HasPrefix_Cons members_wf_def del: parse_members.simps)
next
  case (12 k v kv kvs)
  then obtain m where n: "n = Suc m" by (cases n) simp_all
  let ?y = "CHR '','' # marshal_members (kv # kvs) @ CHR ''}'' # x"
  have v: "parse_value m d (marshal v @ ?y) = Some (v, ?y)"
    using 12(4,6) n by (intro 12(1)) (simp_all add: members_wf_def quote_str_def)
  have p: "put k v macc = macc @ [(k, v)]" using 12(5) by (intro put_last) auto
  have "parse_members m d (macc @ [(k, v)]) (marshal_members (kv # kvs) @ CHR ''}'' # x) = Some (JObj ((macc @ [(k, v)]) @ kv # kvs), x)"
    using 12(4-6) n by (intro 12(2)) (auto simp: members_wf_def quote_str_def)
  with v p 12(4) n show ?case
    by (simp add: member_step skip_ws_Cons HasPrefix_Cons members_wf_def del: parse_members.simps)
qed

theorem canonical_is_canonical:
  assumes "canonicalizeJSON raw = Inr c"
  shows "canonicalizeJSON c = Inr c"
proof -
  obtain v r where p: "parse_value (Suc (length raw)) maxNestingDepth raw = Some (v, r)" "c = marshal v"
    using assms by (auto simp: canonicalizeJSON_def split: option.splits if_splits)
  have "parse_value (Suc (length (marshal v))) maxNestingDepth (marshal v @ []) = Some (v, [])"
    using parse_wf(1) [OF p(1)] by (intro marshal_read) simp_all
  with p show ?thesis by (simp add: canonicalizeJSON_def skip_ws_def)
qed

section \<open>The fuel is enough\<close>

lemma skip_ws_length: "length (skip_ws s) \<le> length s"
  by (simp add: skip_ws_def length_dropWhile_le)

lemma parse_str_length: "parse_str s = Some (t, r) \<Longrightarrow> length r < length s"
proof (induction s arbitrary: t r rule: parse_str.induct)
  case (1 s)
  from 1(4) show ?case
    by (subst (asm) parse_str.simps)
      (use 1(1-3) in \<open>fastforce dest: parse_escape_length split: list.splits if_splits option.splits\<close>)
qed

lemma parse_num_length: "parse_num s = Some (t, r) \<Longrightarrow> length r < length s"
proof -
  assume "parse_num s = Some (t, r)"
  then obtain sg i f e where "literal sg i f e r" "s = (sg @ i @ f @ e) @ r" by (auto simp: parse_num_literal)
  then show ?thesis by (auto simp: literal_def num_int_iff)
qed

lemma HasPrefix_length: "HasPrefix s p \<Longrightarrow> length p \<le> length s"
  by (metis HasPrefix_def length_take min.cobounded1)

text \<open>
  A text that is read with some amount of fuel is read with any amount that exceeds the number
  of characters consumed; so one more than the length of the text is enough.
\<close>

lemma tl_skip_ws_length: "HasPrefix (skip_ws s) [c] \<Longrightarrow> length (tl (skip_ws s)) < length s"
  using HasPrefix_length [of "skip_ws s" "[c]"] skip_ws_length [of s] by simp

lemma parse_fuel:
  "parse_value n d s = Some (v, r) \<Longrightarrow>
     length r < length s \<and> (\<forall>m. length s < m + length r \<longrightarrow> parse_value m d s = Some (v, r))"
  "parse_members n d macc s = Some (v, r) \<Longrightarrow>
     length r < length s \<and> (\<forall>m. length s < m + length r \<longrightarrow> parse_members m d macc s = Some (v, r))"
  "parse_elements n d acc s = Some (v, r) \<Longrightarrow>
     length r < length s \<and> (\<forall>m. length s < m + length r \<longrightarrow> parse_elements m d acc s = Some (v, r))"
proof (induction n d s and n d macc s and n d acc s arbitrary: v r and v r and v r
    rule: parse_value_parse_members_parse_elements.induct)
  case (2 n d s0)
  obtain c t where sk: "skip_ws s0 = c # t" using 2(3) by (auto split: list.splits)
  have len: "Suc (length t) \<le> length s0" using skip_ws_length [of s0] sk by simp
  have pos: "\<exists>k. m = Suc k" if "length r < length s0" "length s0 < m + length r" for m
    using that by (cases m) auto
  consider (str) "c = CHR 0x22" | (obj) "c = CHR ''{''" "\<not> HasPrefix (skip_ws t) ''}''"
    | (arr) "c = CHR ''[''" "\<not> HasPrefix (skip_ws t) '']''"
    | (flat) "c \<noteq> CHR 0x22" "c = CHR ''{'' \<longrightarrow> HasPrefix (skip_ws t) ''}''" "c = CHR ''['' \<longrightarrow> HasPrefix (skip_ws t) '']''" by blast
  then show ?case
  proof cases
    case str
    with 2(3) sk obtain u where u: "parse_str t = Some (u, r)" "v = JStr u" by auto
    have "length r < length s0" using parse_str_length [OF u(1)] len by simp
    with str sk u pos show ?thesis by fastforce
  next
    case obj
    with 2(3) sk have d: "d \<noteq> 0" and p: "parse_members n (d - 1) [] t = Some (v, r)" by (auto split: if_splits)
    have ih: "length r < length t \<and> (\<forall>m. length t < m + length r \<longrightarrow> parse_members m (d - 1) [] t = Some (v, r))"
      by (rule 2(1) [OF sk _ obj(1) d obj(2) p]) (simp add: obj)
    have "parse_value m d s0 = Some (v, r)" if "length s0 < m + length r" for m
      using pos [OF _ that] ih that len obj d sk by auto
    with ih len show ?thesis by simp
  next
    case arr
    with 2(3) sk have d: "d \<noteq> 0" and p: "parse_elements n (d - 1) [] t = Some (v, r)" by (auto split: if_splits)
    have ih: "length r < length t \<and> (\<forall>m. length t < m + length r \<longrightarrow> parse_elements m (d - 1) [] t = Some (v, r))"
      by (rule 2(2) [OF sk _ _ arr(1) d arr(2) p]) (simp_all add: arr)
    have "parse_value m d s0 = Some (v, r)" if "length s0 < m + length r" for m
      using pos [OF _ that] ih that len arr d sk by auto
    with ih len show ?thesis by simp
  next
    case flat
    have same: "parse_value (Suc k) d s0 = parse_value (Suc n) d s0" for k using sk flat by simp
    have "v = JObj [] \<and> r = tl (skip_ws t) \<and> HasPrefix (skip_ws t) ''}'' \<or> v = JArr [] \<and> r = tl (skip_ws t) \<and> HasPrefix (skip_ws t) '']''
        \<or> r = drop 4 (c # t) \<or> r = drop 5 (c # t) \<or> (\<exists>u. parse_num (c # t) = Some (u, r))"
      using 2(3) sk flat by (simp split: if_splits) blast
    then have r: "length r < length s0"
      using len parse_num_length [of "c # t"] tl_skip_ws_length [of t "CHR '']''"] tl_skip_ws_length [of t "CHR ''}''"]
      by (elim disjE conjE exE) fastforce+
    have "parse_value m d s0 = Some (v, r)" if "length s0 < m + length r" for m
      using pos [OF r that] 2(3) same by (metis)
    with r show ?thesis by simp
  qed
next
  case (4 n d acc s)
  obtain k r1 v1 r2 where q: "HasPrefix (skip_ws s) [CHR 0x22]" "parse_str (tl (skip_ws s)) = Some (k, r1)"
      "HasPrefix (skip_ws r1) '':''" and pv: "parse_value n d (tl (skip_ws r1)) = Some (v1, r2)"
    using 4(3) by (auto split: if_splits option.splits)
  have l1: "length r1 < length s" "length (tl (skip_ws r1)) < length r1"
    using tl_skip_ws_length [OF q(1)] tl_skip_ws_length [OF q(3)] parse_str_length [OF q(2)] by simp_all
  have v1: "length r2 < length (tl (skip_ws r1))
      \<and> (\<forall>m. length (tl (skip_ws r1)) < m + length r2 \<longrightarrow> parse_value m d (tl (skip_ws r1)) = Some (v1, r2))"
    by (rule 4(1) [OF _ q(2) refl _ pv]) (simp_all add: q)
  show ?case
  proof (cases "HasPrefix (skip_ws r2) '',''")
    case True
    have len: "length (tl (skip_ws r2)) < length r2" using True by (rule tl_skip_ws_length)
    have pm: "parse_members n d (put k v1 acc) (tl (skip_ws r2)) = Some (v, r)" using 4(3) q pv True by simp
    have rest: "length r < length (tl (skip_ws r2)) \<and> (\<forall>m. length (tl (skip_ws r2)) < m + length r \<longrightarrow>
        parse_members m d (put k v1 acc) (tl (skip_ws r2)) = Some (v, r))"
      by (rule 4(2) [OF _ q(2) refl _ pv refl True pm]) (simp_all add: q)
    have "parse_members m d acc s = Some (v, r)" if m: "length s < m + length r" for m
    proof -
      obtain j where j: "m = Suc j" using m rest len v1 l1 by (cases m) auto
      have "parse_value j d (tl (skip_ws r1)) = Some (v1, r2)" using v1 m j len rest l1 by simp
      moreover have "parse_members j d (put k v1 acc) (tl (skip_ws r2)) = Some (v, r)" using rest m j len v1 l1 by simp
      ultimately show ?thesis using True j q by simp
    qed
    then show ?thesis using v1 rest len l1 by auto
  next
    case False
    with 4(3) q pv have e: "HasPrefix (skip_ws r2) ''}''" "v = JObj (put k v1 acc)" "r = tl (skip_ws r2)"
      by (auto split: if_splits)
    have len: "length (tl (skip_ws r2)) < length r2" using e(1) by (rule tl_skip_ws_length)
    have "parse_members m d acc s = Some (v, r)" if m: "length s < m + length r" for m
    proof -
      obtain j where j: "m = Suc j" using m e len v1 l1 by (cases m) auto
      have "parse_value j d (tl (skip_ws r1)) = Some (v1, r2)" using v1 m j len e l1 by simp
      then show ?thesis using False e j q by simp
    qed
    then show ?thesis using v1 e len l1 by auto
  qed
next
  case (6 n d acc s)
  from 6(3) obtain v1 r2 where pv: "parse_value n d s = Some (v1, r2)" by (auto split: option.splits)
  note v1 = 6(1) [OF pv]
  show ?case
  proof (cases "HasPrefix (skip_ws r2) '',''")
    case True
    with 6(3) pv have pe: "parse_elements n d (v1 # acc) (tl (skip_ws r2)) = Some (v, r)" by simp
    note rest = 6(2) [OF pv refl True pe]
    have len: "length (tl (skip_ws r2)) < length r2" using True by (rule tl_skip_ws_length)
    have "parse_elements m d acc s = Some (v, r)" if m: "length s < m + length r" for m
    proof -
      obtain k where k: "m = Suc k" using m rest len v1 by (cases m) auto
      have "parse_value k d s = Some (v1, r2)" using v1 m k len rest by simp
      moreover have "parse_elements k d (v1 # acc) (tl (skip_ws r2)) = Some (v, r)" using rest m k len v1 by simp
      ultimately show ?thesis using True k by simp
    qed
    then show ?thesis using v1 rest len by auto
  next
    case False
    with 6(3) pv have e: "HasPrefix (skip_ws r2) '']''" "v = JArr (rev (v1 # acc))" "r = tl (skip_ws r2)"
      by (auto split: if_splits)
    have len: "length (tl (skip_ws r2)) < length r2" using e(1) by (rule tl_skip_ws_length)
    have "parse_elements m d acc s = Some (v, r)" if m: "length s < m + length r" for m
    proof -
      obtain k where k: "m = Suc k" using m e len v1 by (cases m) auto
      have "parse_value k d s = Some (v1, r2)" using v1 m k len e by simp
      then show ?thesis using False e k by simp
    qed
    then show ?thesis using v1 e len by auto
  qed
qed simp_all

theorem decode_fuel:
  "parse_value n d s = Some (v, r) \<Longrightarrow> parse_value (Suc (length s)) d s = Some (v, r)"
  using parse_fuel(1) [of n d s v r] by (simp del: parse_value.simps)

declare parse_value.simps [simp del] parse_members.simps [simp del] parse_elements.simps [simp del]

end
