(* ===== verification/Digest.thy ===== *)
theory Digest
  imports Json "HOL-Library.Word"
begin

unbundle bit_operations_syntax

text \<open>
  SHA-256 as FIPS 180-4 defines it, over 32-bit words, and \<^verbatim>\<open>hex.EncodeToString\<close> of its result:
  what \<^verbatim>\<open>crypto/sha256\<close> and \<^verbatim>\<open>encoding/hex\<close> compute for the identities, fingerprints and lease
  keys of the program.
\<close>

type_synonym w32 = "32 word"

section \<open>Padding and blocks\<close>

definition char_word :: "char \<Rightarrow> w32" where
  "char_word c = of_nat (of_char c)"

definition length_bytes :: "nat \<Rightarrow> string" where
  "length_bytes n = map (\<lambda>i. char_of (8 * n div 256 ^ (7 - i) mod 256)) [0 ..< 8]"

definition sha_pad :: "string \<Rightarrow> string" where
  "sha_pad s =
     s @ CHR 0x80 # replicate (nat ((55 - int (length s)) mod 64)) (CHR 0x00) @ length_bytes (length s)"

fun be_words :: "string \<Rightarrow> w32 list" where
  "be_words (a # b # c # d # r) =
     (((char_word a * 256 + char_word b) * 256 + char_word c) * 256 + char_word d) # be_words r"
| "be_words _ = []"

function blocks_of :: "w32 list \<Rightarrow> w32 list list" where
  "blocks_of ws = (if ws = [] then [] else take 16 ws # blocks_of (drop 16 ws))"
  by pat_completeness auto
termination
  by (relation "measure length") auto

declare blocks_of.simps [simp del]

section \<open>The compression function\<close>

definition small_sigma0 :: "w32 \<Rightarrow> w32" where
  "small_sigma0 x = word_rotr 7 x XOR word_rotr 18 x XOR drop_bit 3 x"

definition small_sigma1 :: "w32 \<Rightarrow> w32" where
  "small_sigma1 x = word_rotr 17 x XOR word_rotr 19 x XOR drop_bit 10 x"

definition big_sigma0 :: "w32 \<Rightarrow> w32" where
  "big_sigma0 x = word_rotr 2 x XOR word_rotr 13 x XOR word_rotr 22 x"

definition big_sigma1 :: "w32 \<Rightarrow> w32" where
  "big_sigma1 x = word_rotr 6 x XOR word_rotr 11 x XOR word_rotr 25 x"

definition choice :: "w32 \<Rightarrow> w32 \<Rightarrow> w32 \<Rightarrow> w32" where
  "choice x y z = (x AND y) XOR (NOT x AND z)"

definition majority :: "w32 \<Rightarrow> w32 \<Rightarrow> w32 \<Rightarrow> w32" where
  "majority x y z = (x AND y) XOR (x AND z) XOR (y AND z)"

text \<open>
  The round constants in decimal: the first 32 bits of the fractional parts of the cube roots of the
  first 64 primes (\<open>round_constants_cube_roots\<close> below checks each of them against its prime).
\<close>

definition round_constants :: "w32 list" where
  "round_constants =
    [1116352408, 1899447441, 3049323471, 3921009573, 961987163, 1508970993, 2453635748, 2870763221,
     3624381080, 310598401, 607225278, 1426881987, 1925078388, 2162078206, 2614888103, 3248222580,
     3835390401, 4022224774, 264347078, 604807628, 770255983, 1249150122, 1555081692, 1996064986,
     2554220882, 2821834349, 2952996808, 3210313671, 3336571891, 3584528711, 113926993, 338241895,
     666307205, 773529912, 1294757372, 1396182291, 1695183700, 1986661051, 2177026350, 2456956037,
     2730485921, 2820302411, 3259730800, 3345764771, 3516065817, 3600352804, 4094571909, 275423344,
     430227734, 506948616, 659060556, 883997877, 958139571, 1322822218, 1537002063, 1747873779,
     1955562222, 2024104815, 2227730452, 2361852424, 2428436474, 2756734187, 3204031479, 3329325298]"

definition first_primes :: "int list" where
  "first_primes =
    [2, 3, 5, 7, 11, 13, 17, 19, 23, 29, 31, 37, 41, 43, 47, 53, 59, 61, 67, 71, 73, 79,
     83, 89, 97, 101, 103, 107, 109, 113, 127, 131, 137, 139, 149, 151, 157, 163, 167, 173, 179, 181, 191, 193,
     197, 199, 211, 223, 227, 229, 233, 239, 241, 251, 257, 263, 269, 271, 277, 281, 283, 293, 307, 311]"

definition cube_root_bits :: "int \<Rightarrow> int \<Rightarrow> bool" where
  "cube_root_bits p k \<longleftrightarrow>
     list_ex (\<lambda>q. (q * 2 ^ 32 + k) ^ 3 \<le> p * 2 ^ 96 \<and> p * 2 ^ 96 < (q * 2 ^ 32 + k + 1) ^ 3) [0, 1, 2, 3, 4, 5, 6]"

lemma round_constants_cube_roots: "list_all2 cube_root_bits first_primes (map uint round_constants)"
  by (simp add: round_constants_def first_primes_def cube_root_bits_def)

definition extend_schedule :: "w32 list \<Rightarrow> w32 list" where
  "extend_schedule ws =
     (let t = length ws
      in ws @ [small_sigma1 (ws ! (t - 2)) + ws ! (t - 7) + small_sigma0 (ws ! (t - 15)) + ws ! (t - 16)])"

definition sha_round :: "w32 list \<Rightarrow> w32 \<times> w32 \<Rightarrow> w32 list" where
  "sha_round st kw =
     (case st of
        [a, b, c, d, e, f, g, h] \<Rightarrow>
          let t1 = h + big_sigma1 e + choice e f g + fst kw + snd kw;
              t2 = big_sigma0 a + majority a b c
          in [t1 + t2, a, b, c, d + t1, e, f, g]
      | _ \<Rightarrow> st)"

definition compress :: "w32 list \<Rightarrow> w32 list \<Rightarrow> w32 list" where
  "compress h block =
     map2 (+) h (foldl sha_round h (zip round_constants ((extend_schedule ^^ 48) block)))"

definition initial_hash :: "w32 list" where
  "initial_hash =
    [0x6a09e667, 0xbb67ae85, 0x3c6ef372, 0xa54ff53a, 0x510e527f, 0x9b05688c, 0x1f83d9ab, 0x5be0cd19]"

definition Sum256 :: "string \<Rightarrow> w32 list" where
  "Sum256 s = foldl compress initial_hash (blocks_of (be_words (sha_pad s)))"

section \<open>Hexadecimal text\<close>

definition word_hex :: "w32 \<Rightarrow> string" where
  "word_hex w = map (\<lambda>i. hex_digit (uint (drop_bit (28 - 4 * i) w AND 15))) [0 ..< 8]"

definition hexSha256 :: "string \<Rightarrow> string" where
  "hexSha256 s = concat (map word_hex (Sum256 s))"

lemma length_sha_round [simp]: "length (sha_round st kw) = length st"
  by (auto simp: sha_round_def Let_def split: list.splits)

lemma length_compress: "length h = 8 \<Longrightarrow> length (compress h block) = 8"
proof -
  assume h: "length h = 8"
  have "length (foldl sha_round h kws) = 8" for kws
    using h by (induction kws arbitrary: h) simp_all
  with h show ?thesis by (simp add: compress_def)
qed

lemma length_Sum256 [simp]: "length (Sum256 s) = 8"
proof -
  have "length h = 8 \<Longrightarrow> length (foldl compress h bs) = 8" for h bs
    by (induction bs arbitrary: h) (simp_all add: length_compress)
  then show ?thesis by (simp add: Sum256_def initial_hash_def)
qed

definition lower_hex_digit :: "char \<Rightarrow> bool" where
  "lower_hex_digit c \<longleftrightarrow> is_digit c \<or> (97 \<le> byte c \<and> byte c \<le> 102)"

lemma hex_digit_lower: "0 \<le> n \<Longrightarrow> n < 16 \<Longrightarrow> lower_hex_digit (hex_digit n)"
  by (simp add: hex_digit_def lower_hex_digit_def is_digit_def byte_def)

lemma length_word_hex [simp]: "length (word_hex w) = 8"
  by (simp add: word_hex_def)

lemma nibble_range: "uint (x AND (15 :: w32)) < 16"
proof -
  have "uint (x AND 15) = uint x AND 15" by (simp add: unsigned_and_eq)
  also have "\<dots> \<le> 15" by (rule AND_upper2) simp
  finally show ?thesis by simp
qed

lemma word_hex_lower: "list_all lower_hex_digit (word_hex w)"
  unfolding word_hex_def list_all_iff by (auto intro!: hex_digit_lower nibble_range)

theorem hexSha256_shape: "length (hexSha256 s) = 64 \<and> list_all lower_hex_digit (hexSha256 s)"
proof -
  have "length (concat (map word_hex ws)) = 8 * length ws" for ws
    by (induction ws) simp_all
  moreover have "list_all lower_hex_digit (concat (map word_hex ws))" for ws
    using word_hex_lower by (induction ws) simp_all
  ultimately show ?thesis by (simp add: hexSha256_def)
qed

end
