(* ===== verification/Timestamps.thy ===== *)
theory Timestamps
  imports Calendar Decimal
begin

text \<open>
  Instants as text: \<^verbatim>\<open>t.Format(time.RFC3339Nano)\<close> of a UTC instant, and what
  \<^verbatim>\<open>internal/transport/http/json.go\<close> accepts as \<^verbatim>\<open>run_at\<close>, which is \<^verbatim>\<open>time.Parse\<close> restricted by
  \<^verbatim>\<open>runAtPattern\<close> to UTC and at most three fractional digits. What is printed for an instant
  at millisecond precision is read back as that instant.
\<close>

section \<open>Printing\<close>

definition show_year :: "int \<Rightarrow> string" where
  "show_year y =
     (if y < 0 then ''-'' else []) @ (if \<bar>y\<bar> < 10000 then pad 4 \<bar>y\<bar> else show_int \<bar>y\<bar>)"

definition trim_zeros :: "string \<Rightarrow> string" where
  "trim_zeros ds = rev (dropWhile (\<lambda>c. c = CHR ''0'') (rev ds))"

definition show_fraction :: "int \<Rightarrow> string" where
  "show_fraction ns = (if ns = 0 then [] else CHR ''.'' # trim_zeros (pad 9 ns))"

definition formatRFC3339 :: "instant \<Rightarrow> string" where
  "formatRFC3339 t =
     (let (y, m, d) = civil (t div (24 * Hour)); s = t div Second mod 86400
      in show_year y @ CHR ''-'' # pad 2 m @ CHR ''-'' # pad 2 d @ CHR ''T'' # pad 2 (s div 3600)
         @ CHR '':'' # pad 2 (s div 60 mod 60) @ CHR '':'' # pad 2 (s mod 60)
         @ show_fraction (t mod Second) @ ''Z'')"

section \<open>Reading\<close>

definition part :: "nat \<Rightarrow> nat \<Rightarrow> string \<Rightarrow> string" where
  "part i k s = take k (drop i s)"

definition fraction_digits :: "string \<Rightarrow> string option" where
  "fraction_digits r =
     (if r = ''Z'' then Some []
      else if HasPrefix r ''.'' \<and> HasSuffix r ''Z'' \<and> 3 \<le> length r \<and> length r \<le> 5
        \<and> list_all is_digit (butlast (tl r))
      then Some (butlast (tl r)) else None)"

text \<open>The pattern \<^verbatim>\<open>^\d{4}-\d{2}-\d{2}T\d{2}:\d{2}:\d{2}(?:\.\d{1,3})?Z$\<close>.\<close>

definition runAtPattern :: "string \<Rightarrow> bool" where
  "runAtPattern s \<longleftrightarrow>
     20 \<le> length s \<and> list_all is_digit (part 0 4 s) \<and> s ! 4 = CHR ''-''
     \<and> list_all is_digit (part 5 2 s) \<and> s ! 7 = CHR ''-'' \<and> list_all is_digit (part 8 2 s)
     \<and> s ! 10 = CHR ''T'' \<and> list_all is_digit (part 11 2 s) \<and> s ! 13 = CHR '':''
     \<and> list_all is_digit (part 14 2 s) \<and> s ! 16 = CHR '':'' \<and> list_all is_digit (part 17 2 s)
     \<and> fraction_digits (drop 19 s) \<noteq> None"

text \<open>\<^verbatim>\<open>time.Parse\<close> of a text that matches the pattern: the fields must be in range.\<close>

definition parse_instant :: "string \<Rightarrow> instant option" where
  "parse_instant s =
     (let y = digits_val 0 (part 0 4 s); m = digits_val 0 (part 5 2 s); d = digits_val 0 (part 8 2 s);
          h = digits_val 0 (part 11 2 s); mi = digits_val 0 (part 14 2 s); sec = digits_val 0 (part 17 2 s);
          ns = (case fraction_digits (drop 19 s) of None \<Rightarrow> 0
                | Some ds \<Rightarrow> digits_val 0 (take 9 (ds @ replicate 9 (CHR ''0''))))
      in if m < 1 \<or> 12 < m \<or> d < 1 \<or> month_lengths (is_leap y) ! nat (m - 1) < d
            \<or> 23 < h \<or> 59 < mi \<or> 59 < sec then None
         else Some ((date_days y m d * 86400 + h * 3600 + mi * 60 + sec) * Second + ns))"

text \<open>The \<^verbatim>\<open>run_at\<close> of a request: \<^verbatim>\<open>None\<close> is the error of \<^verbatim>\<open>toDomain\<close>.\<close>

definition parseRunAt :: "string \<Rightarrow> instant option" where
  "parseRunAt s =
     (if \<not> runAtPattern s then None
      else case parse_instant s of None \<Rightarrow> None | Some t \<Rightarrow> if IsZero t then None else Some t)"

section \<open>Reading what was printed\<close>

lemma dropWhile_replicate:
  "replicate (length xs - length (dropWhile (\<lambda>c. c = z) xs)) z @ dropWhile (\<lambda>c. c = z) xs = xs"
proof (induction xs)
  case (Cons x xs)
  have "length (dropWhile (\<lambda>c. c = z) xs) \<le> length xs" by (rule length_dropWhile_le)
  then show ?case using Cons by (auto simp: Suc_diff_le)
qed simp

lemma trim_zeros_restore:
  "trim_zeros ds @ replicate (length ds - length (trim_zeros ds)) (CHR ''0'') = ds"
proof -
  let ?d = "dropWhile (\<lambda>c. c = CHR ''0'') (rev ds)"
  have "rev (replicate (length (rev ds) - length ?d) (CHR ''0'') @ ?d) = rev (rev ds)"
    using dropWhile_replicate [of "rev ds" "CHR ''0''"] by (rule arg_cong)
  then show ?thesis by (simp add: trim_zeros_def)
qed

lemma trim_zeros_length: "length (trim_zeros ds) \<le> length ds"
  using trim_zeros_restore [of ds] by (metis le_add1 length_append)

lemma take_trim_zeros:
  "length ds = 9 \<Longrightarrow> take 9 (trim_zeros ds @ replicate 9 (CHR ''0'')) = ds"
  using trim_zeros_restore [of ds] trim_zeros_length [of ds] by (simp add: min_def)

lemma trim_zeros_append: "trim_zeros (ds @ replicate k (CHR ''0'')) = trim_zeros ds"
  by (induction k) (simp_all add: trim_zeros_def dropWhile_append)

lemma digit_char_0: "digit_char 0 = CHR ''0''"
  by code_simp

lemma pad_shift: "pad (j + k) (n * 10 ^ k) = pad j n @ replicate k (CHR ''0'')"
proof (induction k)
  case (Suc k)
  have "n * 10 ^ Suc k div 10 = n * 10 ^ k" "n * 10 ^ Suc k mod 10 = 0" by simp_all
  with Suc show ?case
    by (simp add: digit_char_0 replicate_append_same del: power_Suc)
qed simp

lemma trim_zeros_digits: "list_all is_digit ds \<Longrightarrow> list_all is_digit (trim_zeros ds)"
  using trim_zeros_restore [of ds] by (metis list_all_append)

lemma trim_zeros_Nil: "trim_zeros ds = [] \<Longrightarrow> digits_val 0 ds = 0"
proof -
  assume "trim_zeros ds = []"
  then have "ds = replicate (length ds) (CHR ''0'')" using trim_zeros_restore [of ds] by simp
  moreover have "digits_val 0 (replicate k (CHR ''0'')) = 0" for k
    by (induction k) (simp_all add: digit_val_def)
  ultimately show ?thesis by metis
qed

lemma show_fraction_read:
  assumes "0 \<le> ns" and "ns < Second" and "Millisecond dvd ns"
  shows "\<exists>ds. fraction_digits (show_fraction ns @ ''Z'') = Some ds
    \<and> digits_val 0 (take 9 (ds @ replicate 9 (CHR ''0''))) = ns"
proof (cases "ns = 0")
  case True
  have "digits_val 0 (replicate 9 (CHR ''0'')) = 0" by code_simp
  with True show ?thesis by (simp add: show_fraction_def fraction_digits_def)
next
  case False
  let ?ds = "trim_zeros (pad 9 ns)"
  from assms(3) obtain ms where ms: "ns = ms * 10 ^ 6" by (auto simp: Millisecond_def elim!: dvdE)
  have "?ds = trim_zeros (pad 3 ms)"
    using pad_shift [of 3 6 ms] by (simp add: ms trim_zeros_append)
  then have len: "length ?ds \<le> 3" using trim_zeros_length [of "pad 3 ms"] by simp
  have val: "digits_val 0 (pad 9 ns) = ns"
    using assms(1,2) by (intro pad_val) (simp_all add: Second_def)
  then have ne: "?ds \<noteq> []" using False trim_zeros_Nil [of "pad 9 ns"] by auto
  have dig: "list_all is_digit ?ds" by (intro trim_zeros_digits pad_digits)
  have "fraction_digits (show_fraction ns @ ''Z'') = Some ?ds"
    using False len ne dig
    by (simp add: show_fraction_def fraction_digits_def HasPrefix_def HasSuffix_def Suc_le_eq)
  then show ?thesis using val by (simp add: take_trim_zeros del: take_append)
qed

definition four_digit_year :: "instant \<Rightarrow> bool" where
  "four_digit_year t \<longleftrightarrow> (let (y, m, d) = civil (t div (24 * Hour)) in 0 \<le> y \<and> y < 10000)"

lemma sixties: "(u :: int) = u div 3600 * 3600 + u div 60 mod 60 * 60 + u mod 60"
proof -
  have "u div 3600 = u div 60 div 60" using zdiv_zmult2_eq [of 60 u 60] by simp
  moreover have "u div 60 = u div 60 div 60 * 60 + u div 60 mod 60" by simp
  moreover have "u = u div 60 * 60 + u mod 60" by simp
  ultimately show ?thesis by linarith
qed

lemma clock_fields:
  fixes t :: int
  shows "t = ((t div (24 * Hour)) * 86400 + (t div Second mod 86400 div 3600) * 3600
    + (t div Second mod 86400 div 60 mod 60) * 60 + (t div Second mod 86400 mod 60)) * Second + t mod Second"
proof -
  let ?s = "t div Second"
  have "t div (24 * Hour) = ?s div 86400"
    by (simp add: Hour_def Minute_def zdiv_zmult2_eq [symmetric] Second_def)
  moreover have "?s = ?s div 86400 * 86400 + ?s mod 86400" by simp
  moreover have "?s mod 86400 = ?s mod 86400 div 3600 * 3600 + ?s mod 86400 div 60 mod 60 * 60 + ?s mod 86400 mod 60"
    by (rule sixties)
  moreover have "t = ?s * Second + t mod Second" by simp
  ultimately show ?thesis by (metis (no_types, lifting) add.assoc)
qed

theorem parse_format:
  assumes "Millisecond dvd t" and "four_digit_year t" and "t \<noteq> 0"
  shows "parseRunAt (formatRFC3339 t) = Some t"
proof -
  obtain y m d where c: "civil (t div (24 * Hour)) = (y, m, d)" by (metis prod_cases3)
  note spec = civil_spec [OF c]
  have y: "0 \<le> y" "y < 10000" using assms(2) c by (simp_all add: four_digit_year_def)
  have md: "1 \<le> m" "m \<le> 12" "1 \<le> d" "d \<le> month_lengths (is_leap y) ! nat (m - 1)"
    using spec by simp_all
  have "nat (m - 1) < 12" using md by simp
  then have "month_lengths (is_leap y) ! nat (m - 1) \<le> 31"
    by (auto simp: month_lengths_def less_Suc_eq numeral_eq_Suc)
  then have d: "d \<le> 31" using md by simp
  define s where "s = t div Second mod 86400"
  have s: "0 \<le> s" "s < 86400" by (simp_all add: s_def)
  have ns: "0 \<le> t mod Second" "t mod Second < Second" by (simp_all add: Second_def)
  have "Millisecond dvd t mod Second"
    using assms(1) by (intro dvd_mod) (simp_all add: Millisecond_def Second_def)
  then obtain ds where ds: "fraction_digits (show_fraction (t mod Second) @ ''Z'') = Some ds"
    and dv: "digits_val 0 (take 9 (ds @ replicate 9 (CHR ''0''))) = t mod Second"
    using show_fraction_read [OF ns] by blast
  have f: "formatRFC3339 t = pad 4 y @ CHR ''-'' # pad 2 m @ CHR ''-'' # pad 2 d @ CHR ''T'' # pad 2 (s div 3600)
      @ CHR '':'' # pad 2 (s div 60 mod 60) @ CHR '':'' # pad 2 (s mod 60) @ (show_fraction (t mod Second) @ ''Z'')"
    using y c by (simp add: formatRFC3339_def show_year_def s_def Let_def)
  let ?f = "formatRFC3339 t"
  have parts: "part 0 4 ?f = pad 4 y" "part 5 2 ?f = pad 2 m" "part 8 2 ?f = pad 2 d"
      "part 11 2 ?f = pad 2 (s div 3600)" "part 14 2 ?f = pad 2 (s div 60 mod 60)" "part 17 2 ?f = pad 2 (s mod 60)"
      "drop 19 ?f = show_fraction (t mod Second) @ ''Z''"
    unfolding f by (simp_all add: part_def)
  have seps: "20 \<le> length ?f" "?f ! 4 = CHR ''-''" "?f ! 7 = CHR ''-''" "?f ! 10 = CHR ''T''"
      "?f ! 13 = CHR '':''" "?f ! 16 = CHR '':''"
    unfolding f by (simp_all add: nth_append)
  have "runAtPattern ?f"
    unfolding runAtPattern_def parts seps(2-6) using seps(1) ds by (simp add: pad_digits)
  moreover have vals: "digits_val 0 (pad 4 y) = y" "digits_val 0 (pad 2 m) = m" "digits_val 0 (pad 2 d) = d"
      "digits_val 0 (pad 2 (s div 3600)) = s div 3600" "digits_val 0 (pad 2 (s div 60 mod 60)) = s div 60 mod 60"
      "digits_val 0 (pad 2 (s mod 60)) = s mod 60"
    using y md d s by (intro pad_val; simp)+
  have hms: "s div 3600 \<le> 23" "s div 60 mod 60 \<le> 59" "s mod 60 \<le> 59"
    using s pos_mod_bound [of 60 "s div 60"] pos_mod_bound [of 60 s] by simp_all
  have "parse_instant ?f = Some ((date_days y m d * 86400 + s div 3600 * 3600 + s div 60 mod 60 * 60 + s mod 60) * Second + t mod Second)"
    unfolding parse_instant_def parts vals ds using md hms by (simp add: dv Let_def del: take_append)
  moreover have "\<dots> = Some t"
    using clock_fields [of t] spec by (simp add: s_def)
  ultimately show ?thesis using assms(3) by (simp add: parseRunAt_def IsZero_def)
qed

end
