(* ===== verification/Domain.thy ===== *)
theory Domain
  imports Recurrence Targets Json Digest Timestamps
begin

text \<open>
  The domain model of \<^verbatim>\<open>internal/domain/schedule.go\<close>, \<^verbatim>\<open>occurrence.go\<close> and \<^verbatim>\<open>command.go\<close>: schedules
  with their normalisation and validation, retry policies, occurrence plans and identities,
  dispatch work and results, command receipts. What \<^verbatim>\<open>time.LoadLocation\<close>, \<^verbatim>\<open>url.Parse\<close> and
  \<^verbatim>\<open>netip.ParseAddr\<close> answer is collected in a record that every validating function takes.
  The lemmas show that normalisation is idempotent and gives valid schedules, and which
  results the dispatcher may retry.
\<close>

record golib =
  LoadLocation :: tzdb
  url_Parse :: "string \<Rightarrow> url option"
  netip_ParseAddr :: "string \<Rightarrow> addr option"

section \<open>Constants\<close>

type_synonym Method = string
type_synonym MisfirePolicy = string
type_synonym OverlapPolicy = string
type_synonym ScheduleStatus = string

definition DefaultRetryAttempts :: int where "DefaultRetryAttempts = 1"
definition DefaultRetryBackoff :: int where "DefaultRetryBackoff = 1"
definition DefaultRetryMaxBackoff :: int where "DefaultRetryMaxBackoff = 3600"
definition DefaultRetryMaxWindow :: int where "DefaultRetryMaxWindow = 3600"
definition MaxRetryAttempts :: int where "MaxRetryAttempts = 10"
definition MaxRetryBackoffSeconds :: int where "MaxRetryBackoffSeconds = 3600"
definition MaxRetryWindowSeconds_limit :: int where "MaxRetryWindowSeconds_limit = 86400"
definition MaxCatchUpOccurrences :: int where "MaxCatchUpOccurrences = 100"

lemmas retry_limits [domain_simps] =
  DefaultRetryAttempts_def DefaultRetryBackoff_def DefaultRetryMaxBackoff_def
  DefaultRetryMaxWindow_def MaxRetryAttempts_def MaxRetryBackoffSeconds_def
  MaxRetryWindowSeconds_limit_def MaxCatchUpOccurrences_def

definition MethodPost :: Method where "MethodPost = ''POST''"
definition MethodPut :: Method where "MethodPut = ''PUT''"
definition DefaultMethod :: Method where "DefaultMethod = MethodPost"
definition DefaultTimezone :: string where "DefaultTimezone = ''UTC''"

definition MisfireSkip :: MisfirePolicy where "MisfireSkip = ''skip''"
definition MisfireFireOnce :: MisfirePolicy where "MisfireFireOnce = ''fire_once''"
definition MisfireCatchUpBounded :: MisfirePolicy where "MisfireCatchUpBounded = ''catch_up_bounded''"

definition OverlapAllow :: OverlapPolicy where "OverlapAllow = ''allow''"
definition OverlapForbid :: OverlapPolicy where "OverlapForbid = ''forbid''"

definition ScheduleActive :: ScheduleStatus where "ScheduleActive = ''active''"
definition SchedulePaused :: ScheduleStatus where "SchedulePaused = ''paused''"
definition ScheduleExhausted :: ScheduleStatus where "ScheduleExhausted = ''exhausted''"

definition OccurrencePending :: string where "OccurrencePending = ''pending''"
definition OccurrenceDispatching :: string where "OccurrenceDispatching = ''dispatching''"
definition OccurrenceRetrying :: string where "OccurrenceRetrying = ''retrying''"
definition OccurrenceSucceeded :: string where "OccurrenceSucceeded = ''succeeded''"
definition OccurrenceFailed :: string where "OccurrenceFailed = ''failed''"
definition OccurrenceSkipped :: string where "OccurrenceSkipped = ''skipped''"

definition OutboxPending :: string where "OutboxPending = ''pending''"
definition OutboxDispatching :: string where "OutboxDispatching = ''dispatching''"
definition OutboxRetrying :: string where "OutboxRetrying = ''retrying''"
definition OutboxSucceeded :: string where "OutboxSucceeded = ''succeeded''"
definition OutboxFailed :: string where "OutboxFailed = ''failed''"

text \<open>The literals behind the constants, for evaluation and for telling them apart.\<close>

lemmas policy_literals =
  MethodPost_def MethodPut_def DefaultMethod_def DefaultTimezone_def
  MisfireSkip_def MisfireFireOnce_def MisfireCatchUpBounded_def
  OverlapAllow_def OverlapForbid_def
  ScheduleActive_def SchedulePaused_def ScheduleExhausted_def

lemmas status_literals =
  OccurrencePending_def OccurrenceDispatching_def OccurrenceRetrying_def
  OccurrenceSucceeded_def OccurrenceFailed_def OccurrenceSkipped_def
  OutboxPending_def OutboxDispatching_def OutboxRetrying_def
  OutboxSucceeded_def OutboxFailed_def

lemma policies_distinct [simp]:
  "MethodPost \<noteq> MethodPut" "MethodPut \<noteq> MethodPost"
  "MisfireSkip \<noteq> MisfireFireOnce" "MisfireFireOnce \<noteq> MisfireSkip"
  "MisfireSkip \<noteq> MisfireCatchUpBounded" "MisfireCatchUpBounded \<noteq> MisfireSkip"
  "MisfireFireOnce \<noteq> MisfireCatchUpBounded" "MisfireCatchUpBounded \<noteq> MisfireFireOnce"
  "OverlapAllow \<noteq> OverlapForbid" "OverlapForbid \<noteq> OverlapAllow"
  "ScheduleActive \<noteq> SchedulePaused" "SchedulePaused \<noteq> ScheduleActive"
  "ScheduleActive \<noteq> ScheduleExhausted" "ScheduleExhausted \<noteq> ScheduleActive"
  "SchedulePaused \<noteq> ScheduleExhausted" "ScheduleExhausted \<noteq> SchedulePaused"
  by (simp_all add: policy_literals)

lemma policies_nonempty [simp]:
  "MethodPost \<noteq> []" "MethodPut \<noteq> []" "DefaultMethod \<noteq> []" "DefaultTimezone \<noteq> []"
  "MisfireSkip \<noteq> []" "MisfireFireOnce \<noteq> []" "MisfireCatchUpBounded \<noteq> []"
  "OverlapAllow \<noteq> []" "OverlapForbid \<noteq> []"
  "ScheduleActive \<noteq> []" "SchedulePaused \<noteq> []" "ScheduleExhausted \<noteq> []"
  by (simp_all add: policy_literals)

definition CodeTargetUnavailable :: string where "CodeTargetUnavailable = ''SCHEDULER_TARGET_UNAVAILABLE''"
definition CodeTargetTimeout :: string where "CodeTargetTimeout = ''SCHEDULER_TARGET_TIMEOUT''"
definition CodeTargetRejected :: string where "CodeTargetRejected = ''SCHEDULER_TARGET_REJECTED''"
definition CodeTargetPermanent :: string where "CodeTargetPermanent = ''SCHEDULER_TARGET_PERMANENT''"
definition CodeCancelled :: string where "CodeCancelled = ''SCHEDULER_CANCELLED''"
definition CodeCoordinationUnavailable :: string where
  "CodeCoordinationUnavailable = ''SCHEDULER_COORDINATION_UNAVAILABLE''"
definition CodeCoordinationContended :: string where
  "CodeCoordinationContended = ''SCHEDULER_COORDINATION_CONTENDED''"
definition CodeDispatchRecoveryExhausted :: string where
  "CodeDispatchRecoveryExhausted = ''SCHEDULER_DISPATCH_RECOVERY_EXHAUSTED''"
definition CodeMisfireSkipped :: string where "CodeMisfireSkipped = ''SCHEDULER_MISFIRE_SKIPPED''"
definition CodeMisfireBoundExceeded :: string where
  "CodeMisfireBoundExceeded = ''SCHEDULER_MISFIRE_BOUND_EXCEEDED''"
definition CodeOverlapBlocked :: string where "CodeOverlapBlocked = ''SCHEDULER_OVERLAP_BLOCKED''"

lemmas code_literals =
  CodeTargetUnavailable_def CodeTargetTimeout_def CodeTargetRejected_def CodeTargetPermanent_def
  CodeCancelled_def CodeCoordinationUnavailable_def CodeCoordinationContended_def
  CodeDispatchRecoveryExhausted_def CodeMisfireSkipped_def CodeMisfireBoundExceeded_def
  CodeOverlapBlocked_def

section \<open>Error texts\<close>

text \<open>
  \<^verbatim>\<open>err.Error()\<close>. A format is expanded with its arguments, \<^verbatim>\<open>%q\<close> writes the argument as a quoted
  Go string (non-ASCII bytes are kept), a wrapped error's text stands at \<^verbatim>\<open>%w\<close>, joined errors are
  separated by a newline.
\<close>

definition go_quote_char :: "char \<Rightarrow> string" where
  "go_quote_char c =
     (if c = CHR 0x22 then [CHR 0x5C, CHR 0x22]
      else if c = CHR 0x5C then [CHR 0x5C, CHR 0x5C]
      else if c = CHR 0x07 then [CHR 0x5C, CHR ''a'']
      else if c = CHR 0x08 then [CHR 0x5C, CHR ''b'']
      else if c = CHR 0x0C then [CHR 0x5C, CHR ''f'']
      else if c = CHR 0x0A then [CHR 0x5C, CHR ''n'']
      else if c = CHR 0x0D then [CHR 0x5C, CHR ''r'']
      else if c = CHR 0x09 then [CHR 0x5C, CHR ''t'']
      else if c = CHR 0x0B then [CHR 0x5C, CHR ''v'']
      else if byte c < 0x20 \<or> byte c = 0x7F then
        [CHR 0x5C, CHR ''x'', hex_digit (byte c div 16), hex_digit (byte c mod 16)]
      else [c])"

definition go_quote :: "string \<Rightarrow> string" where
  "go_quote s = CHR 0x22 # concat (map go_quote_char s) @ [CHR 0x22]"

fun Sprintf :: "string \<Rightarrow> string list \<Rightarrow> string" where
  "Sprintf [] xs = []"
| "Sprintf [c] xs = [c]"
| "Sprintf (c # v # f) xs =
     (if c = CHR ''%'' then
        (case xs of
           [] \<Rightarrow> c # v # Sprintf f []
         | x # xs' \<Rightarrow> (if v = CHR ''q'' then go_quote x else x) @ Sprintf f xs')
      else c # Sprintf (v # f) xs)"

fun Error :: "goerr \<Rightarrow> string" where
  "Error (Err f xs) = Sprintf f xs"
| "Error (ErrWrap f xs e) = Sprintf f (xs @ [Error e])"
| "Error (ErrJoin a b) = Error a @ CHR 0x0A # Error b"
| "Error ErrScheduleAlreadyExists = ''scheduler schedule already exists''"
| "Error ErrScheduleNotFound = ''scheduler schedule not found''"
| "Error ErrScheduleExhausted = ''scheduler schedule is exhausted''"
| "Error ErrScheduleChanged = ''scheduler schedule changed''"
| "Error ErrClaimLost = ''scheduler persistence claim is no longer owned''"
| "Error ErrInvalidDependencies = ''scheduler application dependencies are incomplete''"
| "Error ErrInvalidCommand = ''scheduler command is invalid''"
| "Error ErrIdempotencyConflict = ''idempotency key already used with a different request''"
| "Error ErrContextCanceled = ''context canceled''"
| "Error ErrDeadlineExceeded = ''context deadline exceeded''"
| "Error (ErrDriver m) = m"
| "Error (ErrPanic m) = m"

section \<open>Retry policies\<close>

record RetryPolicy =
  MaxAttempts :: int
  BackoffSeconds :: int
  MaxBackoffSeconds :: int
  MaxRetryWindowSeconds :: int

definition DefaultRetryPolicy :: RetryPolicy where
  "DefaultRetryPolicy =
     \<lparr>MaxAttempts = DefaultRetryAttempts, BackoffSeconds = DefaultRetryBackoff,
      MaxBackoffSeconds = DefaultRetryMaxBackoff, MaxRetryWindowSeconds = DefaultRetryMaxWindow\<rparr>"

definition RetryPolicy_Validate :: "RetryPolicy \<Rightarrow> goerr option" where
  "RetryPolicy_Validate p =
     (if MaxAttempts p < 1 \<or> MaxAttempts p > MaxRetryAttempts
      then Some (Err ''retry.max_attempts must be between 1 and 10'' [])
      else if BackoffSeconds p < 1 \<or> BackoffSeconds p > MaxRetryBackoffSeconds
      then Some (Err ''retry.backoff_seconds must be between 1 and 3600'' [])
      else if MaxBackoffSeconds p < BackoffSeconds p \<or> MaxBackoffSeconds p > MaxRetryBackoffSeconds
      then Some (Err ''retry.max_backoff_seconds must be between retry.backoff_seconds and 3600'' [])
      else if MaxRetryWindowSeconds p < 1 \<or> MaxRetryWindowSeconds p > MaxRetryWindowSeconds_limit
      then Some (Err ''retry.max_retry_window_seconds must be between 1 and 86400'' [])
      else None)"

definition withDefaults :: "RetryPolicy \<Rightarrow> RetryPolicy" where
  "withDefaults p =
     (let d = DefaultRetryPolicy in
      \<lparr>MaxAttempts = (if MaxAttempts p = 0 then MaxAttempts d else MaxAttempts p),
       BackoffSeconds = (if BackoffSeconds p = 0 then BackoffSeconds d else BackoffSeconds p),
       MaxBackoffSeconds = (if MaxBackoffSeconds p = 0 then MaxBackoffSeconds d else MaxBackoffSeconds p),
       MaxRetryWindowSeconds =
         (if MaxRetryWindowSeconds p = 0 then MaxRetryWindowSeconds d else MaxRetryWindowSeconds p)\<rparr>)"

text \<open>The bounds a valid policy has, as the rest of the program uses them.\<close>

definition retry_ok :: "RetryPolicy \<Rightarrow> bool" where
  "retry_ok p \<longleftrightarrow>
     1 \<le> MaxAttempts p \<and> MaxAttempts p \<le> 10 \<and>
     1 \<le> BackoffSeconds p \<and> BackoffSeconds p \<le> MaxBackoffSeconds p \<and> MaxBackoffSeconds p \<le> 3600 \<and>
     1 \<le> MaxRetryWindowSeconds p \<and> MaxRetryWindowSeconds p \<le> 86400"

lemma RetryPolicy_Validate_iff: "RetryPolicy_Validate p = None \<longleftrightarrow> retry_ok p"
  by (auto simp: RetryPolicy_Validate_def retry_ok_def domain_simps)

lemma withDefaults_idem [simp]: "withDefaults (withDefaults p) = withDefaults p"
  by (simp add: withDefaults_def DefaultRetryPolicy_def Let_def domain_simps)

section \<open>Schedules\<close>

record Schedule =
  s_ID :: string
  s_TenantID :: string
  s_Name :: string
  s_Rule :: string
  s_RunAt :: instant
  s_Timezone :: string
  s_TargetURL :: string
  s_Method :: Method
  s_Payload :: string
  s_Retry :: RetryPolicy
  s_MisfirePolicy :: MisfirePolicy
  s_CatchUpLimit :: int
  s_OverlapPolicy :: OverlapPolicy
  s_Status :: ScheduleStatus
  s_NextDueAt :: instant
  s_Version :: int
  s_CreatedAt :: instant
  s_UpdatedAt :: instant
  s_ClaimOwner :: string
  s_ClaimExpiresAt :: instant

definition zeroRetry :: RetryPolicy where
  "zeroRetry = \<lparr>MaxAttempts = 0, BackoffSeconds = 0, MaxBackoffSeconds = 0, MaxRetryWindowSeconds = 0\<rparr>"

definition zeroSchedule :: Schedule where
  "zeroSchedule =
     \<lparr>s_ID = [], s_TenantID = [], s_Name = [], s_Rule = [], s_RunAt = 0, s_Timezone = [],
      s_TargetURL = [], s_Method = [], s_Payload = [], s_Retry = zeroRetry, s_MisfirePolicy = [],
      s_CatchUpLimit = 0, s_OverlapPolicy = [], s_Status = [], s_NextDueAt = 0, s_Version = 0,
      s_CreatedAt = 0, s_UpdatedAt = 0, s_ClaimOwner = [], s_ClaimExpiresAt = 0\<rparr>"

text \<open>
  The control characters a tenant id must not hold are single bytes: no byte below 0x80
  is part of a longer UTF-8 sequence.
\<close>

definition ValidateTenantID :: "string \<Rightarrow> goerr option" where
  "ValidateTenantID tenantID =
     (if tenantID = [] \<or> length tenantID > 128
         \<or> list_ex (\<lambda>character. byte character < 0x20 \<or> byte character = 0x7f) tenantID
      then Some (Err ''trusted tenant id must contain between 1 and 128 visible characters'' [])
      else None)"

text \<open>The pattern \<^verbatim>\<open>^[a-z0-9][a-z0-9._-]{0,63}$\<close>.\<close>

definition name_start :: "char \<Rightarrow> bool" where
  "name_start c \<longleftrightarrow> (97 \<le> byte c \<and> byte c \<le> 122) \<or> is_digit c"

definition name_char :: "char \<Rightarrow> bool" where
  "name_char c \<longleftrightarrow> name_start c \<or> c = CHR ''.'' \<or> c = CHR ''_'' \<or> c = CHR ''-''"

definition IsValidScheduleName :: "string \<Rightarrow> bool" where
  "IsValidScheduleName name \<longleftrightarrow>
     (case name of [] \<Rightarrow> False
      | c # cs \<Rightarrow> name_start c \<and> list_all name_char cs \<and> length cs \<le> 63)"

definition Schedule_Validate :: "golib \<Rightarrow> Schedule \<Rightarrow> goerr option" where
  "Schedule_Validate g s =
     (case ValidateTenantID (s_TenantID s) of Some err \<Rightarrow> Some err
      | None \<Rightarrow>
      if \<not> IsValidScheduleName (s_Name s) then Some (Err ''schedule name %q is invalid'' [s_Name s])
      else if (s_Rule s = []) = IsZero (s_RunAt s) \<or> length (s_Rule s) > 256
      then Some (Err ''exactly one of schedule rule or run_at is required'' [])
      else if HasPrefix (s_Rule s) ''TZ='' \<or> HasPrefix (s_Rule s) ''CRON_TZ=''
      then Some (Err ''schedule timezone must use the timezone field'' [])
      else if s_Timezone s \<noteq> ''UTC'' \<and> \<not> ContainsByte (s_Timezone s) (CHR ''/'')
      then Some (Err ''timezone must be UTC or an IANA area/location name'' [])
      else if LoadLocation g (s_Timezone s) = None
      then Some (ErrWrap ''timezone %q is invalid: %w'' [s_Timezone s]
                   (Err ''unknown time zone %s'' [s_Timezone s]))
      else case ValidateTargetURL (url_Parse g) (netip_ParseAddr g) (s_TargetURL s) of
        Some err \<Rightarrow> Some (ErrWrap ''schedule %q has invalid url: %w'' [s_Name s] err)
      | None \<Rightarrow>
      if s_Method s \<noteq> MethodPost \<and> s_Method s \<noteq> MethodPut
      then Some (Err ''schedule %q has unsupported method %q'' [s_Name s, s_Method s])
      else if \<not> unmarshals_to_object (s_Payload s)
      then Some (Err ''payload must be a JSON object'' [])
      else case RetryPolicy_Validate (s_Retry s) of
        Some err \<Rightarrow> Some (ErrWrap ''schedule %q has invalid retry policy: %w'' [s_Name s] err)
      | None \<Rightarrow>
      case (if s_MisfirePolicy s = MisfireSkip \<or> s_MisfirePolicy s = MisfireFireOnce then
              (if s_CatchUpLimit s \<noteq> 1
               then Some (Err ''catch_up_limit must be 1 unless misfire_policy is catch_up_bounded'' [])
               else None)
            else if s_MisfirePolicy s = MisfireCatchUpBounded then
              (if s_CatchUpLimit s < 1 \<or> s_CatchUpLimit s > MaxCatchUpOccurrences
               then Some (Err ''catch_up_limit must be between 1 and %d'' [''100''])
               else None)
            else Some (Err ''schedule %q has invalid misfire_policy %q'' [s_Name s, s_MisfirePolicy s])) of
        Some err \<Rightarrow> Some err
      | None \<Rightarrow>
      if s_OverlapPolicy s \<noteq> OverlapAllow \<and> s_OverlapPolicy s \<noteq> OverlapForbid
      then Some (Err ''schedule %q has invalid overlap_policy %q'' [s_Name s, s_OverlapPolicy s])
      else if s_Status s \<noteq> ScheduleActive \<and> s_Status s \<noteq> SchedulePaused \<and> s_Status s \<noteq> ScheduleExhausted
      then Some (Err ''schedule %q has invalid status %q'' [s_Name s, s_Status s])
      else if s_Status s = ScheduleExhausted \<and>
        (IsZero (s_RunAt s) \<or> \<not> IsZero (s_NextDueAt s) \<or> s_ClaimOwner s \<noteq> []
         \<or> \<not> IsZero (s_ClaimExpiresAt s))
      then Some (Err ''exhausted schedule must be once with no next due or claim'' [])
      else if \<not> IsZero (s_RunAt s) \<and> \<not> IsZero (s_NextDueAt s) \<and>
        NormalizeInstant (s_RunAt s) \<noteq> NormalizeInstant (s_NextDueAt s)
      then Some (Err ''once next due must equal run_at'' [])
      else None)"

text \<open>The first half of \<^verbatim>\<open>Normalized\<close>: trimming and defaults, before validation.\<close>

definition withScheduleDefaults :: "Schedule \<Rightarrow> Schedule" where
  "withScheduleDefaults s =
     s\<lparr>s_TenantID := TrimSpace (s_TenantID s),
       s_Name := TrimSpace (s_Name s),
       s_Rule := TrimSpace (s_Rule s),
       s_Timezone := (if TrimSpace (s_Timezone s) = [] then DefaultTimezone else TrimSpace (s_Timezone s)),
       s_TargetURL := TrimSpace (s_TargetURL s),
       s_Method := (if s_Method s = [] then DefaultMethod else s_Method s),
       s_Payload := (if s_Payload s = [] then ''{}'' else s_Payload s),
       s_Retry := withDefaults (s_Retry s),
       s_MisfirePolicy := (if s_MisfirePolicy s = [] then MisfireFireOnce else s_MisfirePolicy s),
       s_CatchUpLimit := (if s_CatchUpLimit s = 0 then 1 else s_CatchUpLimit s),
       s_OverlapPolicy := (if s_OverlapPolicy s = [] then OverlapForbid else s_OverlapPolicy s),
       s_Status := (if s_Status s = [] then ScheduleActive else s_Status s)\<rparr>"

definition normalizeInstants :: "Schedule \<Rightarrow> Schedule" where
  "normalizeInstants s =
     s\<lparr>s_RunAt := NormalizeInstant (s_RunAt s),
       s_NextDueAt := NormalizeInstant (s_NextDueAt s),
       s_CreatedAt := NormalizeInstant (s_CreatedAt s),
       s_UpdatedAt := NormalizeInstant (s_UpdatedAt s),
       s_ClaimExpiresAt := NormalizeInstant (s_ClaimExpiresAt s)\<rparr>"

definition Normalized :: "golib \<Rightarrow> Schedule \<Rightarrow> Schedule res" where
  "Normalized g s0 =
     (let s = withScheduleDefaults s0
      in case Schedule_Validate g s of
           Some err \<Rightarrow> Inl err
         | None \<Rightarrow>
             (case canonicalizeJSON (s_Payload s) of
                Inl err \<Rightarrow> Inl err
              | Inr canonicalPayload \<Rightarrow> Inr (normalizeInstants (s\<lparr>s_Payload := canonicalPayload\<rparr>))))"

section \<open>Occurrences\<close>

record OccurrencePlan =
  p_ScheduledAt :: instant
  p_ObservedAt :: instant
  p_Status :: string
  p_OutcomeCode :: string
  p_MissedCount :: int
  p_Dispatch :: bool

record OccurrenceIdentityValue =
  i_ScheduledAt :: instant
  i_RequestID :: string
  i_IdempotencyKey :: string
  i_TraceID :: string

text \<open>
  The identity of an occurrence, from the hexadecimal SHA-256 digest of tenant, schedule id,
  name and instant.
\<close>

definition identity_seed :: "Schedule \<Rightarrow> instant \<Rightarrow> string" where
  "identity_seed schedule scheduledAt =
     s_TenantID schedule @ CHR 0x00 # s_ID schedule @ CHR 0x00 # s_Name schedule @ CHR 0x00
       # formatRFC3339 scheduledAt"

definition OccurrenceIdentity :: "Schedule \<Rightarrow> instant \<Rightarrow> OccurrenceIdentityValue" where
  "OccurrenceIdentity schedule scheduledAt0 =
     (let scheduledAt = NormalizeInstant scheduledAt0;
          hexDigest = hexSha256 (identity_seed schedule scheduledAt)
      in \<lparr>i_ScheduledAt = scheduledAt,
          i_RequestID = ''sched_'' @ take 24 hexDigest,
          i_IdempotencyKey = ''schedule:'' @ hexDigest,
          i_TraceID = take 32 hexDigest\<rparr>)"

record DispatchWork =
  w_ID :: string
  w_TenantID :: string
  w_OccurrenceID :: string
  w_ScheduleID :: string
  w_ScheduleName :: string
  w_ScheduledAt :: instant
  w_TargetURL :: string
  w_Method :: Method
  w_Payload :: string
  w_Status :: string
  w_AttemptCount :: int
  w_Retry :: RetryPolicy
  w_NextAttemptAt :: instant
  w_FirstAttemptAt :: instant
  w_CreatedAt :: instant

definition ScheduleSnapshot :: "DispatchWork \<Rightarrow> Schedule" where
  "ScheduleSnapshot w =
     zeroSchedule\<lparr>s_ID := w_ScheduleID w, s_TenantID := w_TenantID w, s_Name := w_ScheduleName w,
       s_TargetURL := w_TargetURL w, s_Method := w_Method w, s_Payload := w_Payload w,
       s_Retry := w_Retry w\<rparr>"

record DispatchResult =
  r_Status :: int
  r_Err :: "goerr option"
  r_Code :: string
  r_RequestID :: string
  r_IdempotencyKey :: string
  r_TraceID :: string
  r_Duration :: duration

definition zeroResult :: DispatchResult where
  "zeroResult = \<lparr>r_Status = 0, r_Err = None, r_Code = [], r_RequestID = [], r_IdempotencyKey = [],
     r_TraceID = [], r_Duration = 0\<rparr>"

definition Succeeded :: "DispatchResult \<Rightarrow> bool" where
  "Succeeded r \<longleftrightarrow> r_Err r = None \<and> r_Status r \<ge> 200 \<and> r_Status r < 300"

definition RetryableDispatch :: "DispatchResult \<Rightarrow> bool" where
  "RetryableDispatch r =
     (if r_Code r = CodeTargetRejected \<or> r_Code r = CodeTargetPermanent \<or> r_Code r = CodeCancelled
      then False
      else if r_Status r = 408 \<or> r_Status r = 425 \<or> r_Status r = 429 \<or> r_Status r \<ge> 500
      then True
      else if r_Err r \<noteq> None \<and> (r_Code r = CodeTargetUnavailable \<or> r_Code r = CodeTargetTimeout)
      then True
      else r_Status r = 0 \<and> r_Err r \<noteq> None \<and> r_Code r = [])"

section \<open>Commands\<close>

type_synonym CommandOperation = string

definition CommandCreate :: CommandOperation where "CommandCreate = ''create''"
definition CommandUpdate :: CommandOperation where "CommandUpdate = ''update''"
definition CommandDelete :: CommandOperation where "CommandDelete = ''delete''"
definition CommandPause :: CommandOperation where "CommandPause = ''pause''"
definition CommandResume :: CommandOperation where "CommandResume = ''resume''"

lemmas operation_literals =
  CommandCreate_def CommandUpdate_def CommandDelete_def CommandPause_def CommandResume_def

lemma operations_distinct [simp]:
  "CommandCreate \<noteq> CommandUpdate" "CommandUpdate \<noteq> CommandCreate"
  "CommandCreate \<noteq> CommandDelete" "CommandDelete \<noteq> CommandCreate"
  "CommandCreate \<noteq> CommandPause" "CommandPause \<noteq> CommandCreate"
  "CommandCreate \<noteq> CommandResume" "CommandResume \<noteq> CommandCreate"
  "CommandUpdate \<noteq> CommandDelete" "CommandDelete \<noteq> CommandUpdate"
  "CommandUpdate \<noteq> CommandPause" "CommandPause \<noteq> CommandUpdate"
  "CommandUpdate \<noteq> CommandResume" "CommandResume \<noteq> CommandUpdate"
  "CommandDelete \<noteq> CommandPause" "CommandPause \<noteq> CommandDelete"
  "CommandDelete \<noteq> CommandResume" "CommandResume \<noteq> CommandDelete"
  "CommandPause \<noteq> CommandResume" "CommandResume \<noteq> CommandPause"
  by (simp_all add: operation_literals)

definition ResultRegistered :: string where "ResultRegistered = ''registered''"
definition ResultUpdated :: string where "ResultUpdated = ''updated''"
definition ResultDeleted :: string where "ResultDeleted = ''deleted''"
definition ResultPaused :: string where "ResultPaused = ''paused''"
definition ResultResumed :: string where "ResultResumed = ''resumed''"
definition ResultAlreadyExists :: string where "ResultAlreadyExists = ''schedule_already_exists''"
definition ResultNotFound :: string where "ResultNotFound = ''schedule_not_found''"
definition ResultExhausted :: string where "ResultExhausted = ''schedule_exhausted''"
definition ResultChanged :: string where "ResultChanged = ''schedule_changed''"

lemmas result_literals =
  ResultRegistered_def ResultUpdated_def ResultDeleted_def ResultPaused_def ResultResumed_def
  ResultAlreadyExists_def ResultNotFound_def ResultExhausted_def ResultChanged_def

record CommandResult =
  c_Code :: string
  c_Name :: string
  c_Schedule :: "Schedule option"

record CommandReceipt =
  rc_TenantID :: string
  rc_CommandScope :: string
  rc_IdempotencyKey :: string
  rc_RequestDigest :: string
  rc_RequestID :: string
  rc_Result :: CommandResult
  rc_CreatedAt :: instant

end
