(* ===== verification/DomainProps.thy ===== *)
theory DomainProps
  imports Domain JsonText
begin

text \<open>
  Properties of the domain model: a normalised schedule is a fixed point of normalisation and
  is valid, and the identity of an occurrence determines the occurrence up to a collision of
  SHA-256.
\<close>

section \<open>Normalisation\<close>

lemma withScheduleDefaults_idem: "withScheduleDefaults (withScheduleDefaults s) = withScheduleDefaults s"
proof -
  have "TrimSpace DefaultTimezone = DefaultTimezone" by code_simp
  then show ?thesis by (simp add: withScheduleDefaults_def)
qed

lemma canonical_object:
  assumes "unmarshals_to_object raw" and "canonicalizeJSON raw = Inr c"
  shows "unmarshals_to_object c" and "c \<noteq> []"
proof -
  obtain kvs where k: "json_decode raw = Some (JObj kvs)" "c = marshal (JObj kvs)"
    using canonicalizeJSON_object [OF assms(1)] assms(2) by auto
  then obtain r where p: "parse_value (Suc (length raw)) maxNestingDepth raw = Some (JObj kvs, r)"
    by (auto simp: json_decode_def split: option.splits if_splits)
  have "parse_value (Suc (length c)) maxNestingDepth (c @ []) = Some (JObj kvs, [])"
    unfolding k(2) using parse_wf(1) [OF p] by (intro marshal_read(1)) simp_all
  then show "unmarshals_to_object c"
    by (simp add: unmarshals_to_object_def json_decode_def skip_ws_def is_object_def)
  show "c \<noteq> []" using k by simp
qed

text \<open>A chain of guards returns nil when no guard holds.\<close>

lemma guard_None: "(if b then Some e else x) = None \<longleftrightarrow> \<not> b \<and> x = None"
  and check_None: "(case y of None \<Rightarrow> x | Some e \<Rightarrow> Some (f e)) = None \<longleftrightarrow> y = None \<and> x = None"
  by (auto split: option.splits)

lemma Validate_frame:
  assumes "Schedule_Validate g s = None" and "unmarshals_to_object c"
    and "s_RunAt s = 0 \<or> NormalizeInstant (s_RunAt s) \<noteq> 0"
  shows "Schedule_Validate g (normalizeInstants (s\<lparr>s_Payload := c\<rparr>)) = None"
proof -
  let ?n = "normalizeInstants (s\<lparr>s_Payload := c\<rparr>)"
  have z: "IsZero (s_RunAt ?n) = IsZero (s_RunAt s)"
    using assms(3) by (auto simp: IsZero_def normalizeInstants_def)
  have n: "IsZero (s_NextDueAt s) \<Longrightarrow> IsZero (s_NextDueAt ?n)" "IsZero (s_ClaimExpiresAt s) \<Longrightarrow> IsZero (s_ClaimExpiresAt ?n)"
      "NormalizeInstant (s_RunAt ?n) = NormalizeInstant (s_RunAt s)" "NormalizeInstant (s_NextDueAt ?n) = NormalizeInstant (s_NextDueAt s)"
      "IsZero (s_NextDueAt s) \<or> s_NextDueAt ?n = NormalizeInstant (s_NextDueAt s)" "unmarshals_to_object (s_Payload ?n)"
    using assms(2) by (auto simp: IsZero_def normalizeInstants_def)
  have same: "s_TenantID ?n = s_TenantID s" "s_Name ?n = s_Name s" "s_Rule ?n = s_Rule s" "s_Timezone ?n = s_Timezone s"
      "s_TargetURL ?n = s_TargetURL s" "s_Method ?n = s_Method s" "s_Retry ?n = s_Retry s"
      "s_MisfirePolicy ?n = s_MisfirePolicy s" "s_CatchUpLimit ?n = s_CatchUpLimit s" "s_OverlapPolicy ?n = s_OverlapPolicy s"
      "s_Status ?n = s_Status s" "s_ClaimOwner ?n = s_ClaimOwner s"
    by (simp_all add: normalizeInstants_def)
  have "\<not> (s_Status s = ScheduleExhausted \<and> (IsZero (s_RunAt s) \<or> \<not> IsZero (s_NextDueAt s) \<or> s_ClaimOwner s \<noteq> []
      \<or> \<not> IsZero (s_ClaimExpiresAt s)))"
    and "\<not> (\<not> IsZero (s_RunAt s) \<and> \<not> IsZero (s_NextDueAt s) \<and> NormalizeInstant (s_RunAt s) \<noteq> NormalizeInstant (s_NextDueAt s))"
    using assms(1) unfolding Schedule_Validate_def guard_None check_None by - (elim conjE, assumption)+
  then have "\<not> (s_Status s = ScheduleExhausted \<and> (IsZero (s_RunAt s) \<or> \<not> IsZero (s_NextDueAt ?n) \<or> s_ClaimOwner s \<noteq> []
      \<or> \<not> IsZero (s_ClaimExpiresAt ?n)))"
    and "\<not> (\<not> IsZero (s_RunAt s) \<and> \<not> IsZero (s_NextDueAt ?n) \<and> NormalizeInstant (s_RunAt s) \<noteq> NormalizeInstant (s_NextDueAt s))"
    using n(1,2) by blast+
  moreover have "\<not> \<not> unmarshals_to_object (s_Payload ?n)" using n(6) by simp
  ultimately show ?thesis
    using assms(1) unfolding Schedule_Validate_def guard_None check_None same z n(3,4)
    by (elim conjE, intro conjI) (assumption | rule refl)+
qed

lemma Normalized_Inr:
  assumes "Normalized g s = Inr n"
  obtains c where "Schedule_Validate g (withScheduleDefaults s) = None"
    and "canonicalizeJSON (s_Payload (withScheduleDefaults s)) = Inr c"
    and "n = normalizeInstants ((withScheduleDefaults s)\<lparr>s_Payload := c\<rparr>)"
  using assms by (auto simp: Normalized_def Let_def split: option.splits sum.splits)

lemma Validate_payload: "Schedule_Validate g s = None \<Longrightarrow> unmarshals_to_object (s_Payload s)"
  unfolding Schedule_Validate_def guard_None check_None by blast

lemma Normalized_fixed:
  assumes "Normalized g s = Inr n" and "s_RunAt s = 0 \<or> NormalizeInstant (s_RunAt s) \<noteq> 0"
  shows "Normalized g n = Inr n" and "Schedule_Validate g n = None"
proof -
  let ?s = "withScheduleDefaults s"
  obtain c where v: "Schedule_Validate g ?s = None" and c: "canonicalizeJSON (s_Payload ?s) = Inr c"
    and n: "n = normalizeInstants (?s\<lparr>s_Payload := c\<rparr>)"
    using assms(1) by (rule Normalized_Inr)
  note obj = canonical_object [OF Validate_payload [OF v] c]
  have r: "s_RunAt ?s = s_RunAt s" by (simp add: withScheduleDefaults_def)
  show vn: "Schedule_Validate g n = None"
    unfolding n using v obj(1) assms(2) by (intro Validate_frame) (simp_all add: r)
  have "withScheduleDefaults (normalizeInstants (?s\<lparr>s_Payload := c\<rparr>)) = normalizeInstants ((withScheduleDefaults ?s)\<lparr>s_Payload := c\<rparr>)"
    using obj(2) by (simp add: withScheduleDefaults_def normalizeInstants_def)
  then have w: "withScheduleDefaults n = n" using n by (simp add: withScheduleDefaults_idem)
  have "canonicalizeJSON (s_Payload n) = Inr (s_Payload n)"
    using canonical_is_canonical [OF c] by (simp add: n normalizeInstants_def)
  moreover have "normalizeInstants (n\<lparr>s_Payload := s_Payload n\<rparr>) = n"
    by (simp add: n normalizeInstants_def)
  ultimately show "Normalized g n = Inr n" using w vn by (simp add: Normalized_def)
qed

section \<open>Identities\<close>

lemma NUL_free_split:
  "a @ CHR 0x00 # x = b @ CHR 0x00 # y \<Longrightarrow> CHR 0x00 \<notin> set a \<Longrightarrow> CHR 0x00 \<notin> set b \<Longrightarrow> a = b \<and> x = y"
proof (induction a arbitrary: b)
  case Nil
  then show ?case by (cases b) auto
next
  case (Cons c a)
  then show ?case by (cases b) auto
qed

lemma identity_seed_inj:
  assumes "identity_seed s t = identity_seed s' t'"
    and "CHR 0x00 \<notin> set (s_TenantID s)" and "CHR 0x00 \<notin> set (s_TenantID s')"
    and "CHR 0x00 \<notin> set (s_ID s)" and "CHR 0x00 \<notin> set (s_ID s')"
    and "CHR 0x00 \<notin> set (s_Name s)" and "CHR 0x00 \<notin> set (s_Name s')"
  shows "s_TenantID s = s_TenantID s' \<and> s_ID s = s_ID s' \<and> s_Name s = s_Name s' \<and> formatRFC3339 t = formatRFC3339 t'"
proof -
  note 1 = NUL_free_split [OF assms(1) [unfolded identity_seed_def] assms(2,3)]
  note 2 = NUL_free_split [OF conjunct2 [OF 1] assms(4,5)]
  note 3 = NUL_free_split [OF conjunct2 [OF 2] assms(6,7)]
  from 1 2 3 show ?thesis by simp
qed

lemma formatRFC3339_inj:
  assumes "formatRFC3339 t = formatRFC3339 t'" and "Millisecond dvd t" and "Millisecond dvd t'"
    and "four_digit_year t" and "four_digit_year t'" and "t \<noteq> 0" and "t' \<noteq> 0"
  shows "t = t'"
  using parse_format [OF assms(2,4,6)] parse_format [OF assms(3,5,7)] assms(1) by (metis option.inject)

lemma tenant_no_NUL: "ValidateTenantID t = None \<Longrightarrow> CHR 0x00 \<notin> set t"
  by (auto simp: ValidateTenantID_def list_ex_iff byte_def split: if_splits)

lemma name_no_NUL: "IsValidScheduleName n \<Longrightarrow> CHR 0x00 \<notin> set n"
  by (cases n) (auto simp: IsValidScheduleName_def list_all_iff name_char_def name_start_def is_digit_def byte_def)

lemma identity_determines:
  assumes "i_IdempotencyKey (OccurrenceIdentity s t) = i_IdempotencyKey (OccurrenceIdentity s' t')"
    and "hexSha256 (identity_seed s (NormalizeInstant t)) = hexSha256 (identity_seed s' (NormalizeInstant t')) \<Longrightarrow>
      identity_seed s (NormalizeInstant t) = identity_seed s' (NormalizeInstant t')"
    and "ValidateTenantID (s_TenantID s) = None" and "ValidateTenantID (s_TenantID s') = None"
    and "IsValidScheduleName (s_Name s)" and "IsValidScheduleName (s_Name s')"
    and "CHR 0x00 \<notin> set (s_ID s)" and "CHR 0x00 \<notin> set (s_ID s')"
    and "four_digit_year (NormalizeInstant t)" and "four_digit_year (NormalizeInstant t')"
    and "NormalizeInstant t \<noteq> 0" and "NormalizeInstant t' \<noteq> 0"
  shows "s_TenantID s = s_TenantID s' \<and> s_ID s = s_ID s' \<and> s_Name s = s_Name s' \<and> NormalizeInstant t = NormalizeInstant t'"
proof -
  have "identity_seed s (NormalizeInstant t) = identity_seed s' (NormalizeInstant t')"
    using assms(1) by (intro assms(2)) (simp add: OccurrenceIdentity_def Let_def)
  then have "s_TenantID s = s_TenantID s' \<and> s_ID s = s_ID s' \<and> s_Name s = s_Name s'
      \<and> formatRFC3339 (NormalizeInstant t) = formatRFC3339 (NormalizeInstant t')"
    using assms(3-8) by (intro identity_seed_inj) (auto dest: tenant_no_NUL name_no_NUL)
  then show ?thesis using formatRFC3339_inj assms(9-12) by auto
qed

end
