(* ===== verification/Store.thy ===== *)
theory Store
  imports Domain
begin

text \<open>
  The PostgreSQL store of \<^verbatim>\<open>internal/adapters/postgres\<close> (\<^verbatim>\<open>store.go\<close>, \<^verbatim>\<open>scan.go\<close>, \<^verbatim>\<open>commands.go\<close>,
  \<^verbatim>\<open>due.go\<close>, \<^verbatim>\<open>outbox.go\<close>) over the four tables of \<^verbatim>\<open>database/schema.sql\<close>. A table is a list of
  rows, \<^verbatim>\<open>NULL\<close> is \<open>None\<close>; a method of \<^verbatim>\<open>txStore\<close> is a function from the database to an error or a
  result with the database after its statements. A violated constraint, and text that is not
  valid UTF-8, make the statement fail with an error of the driver. What the server computes
  beyond the statements is the record \<open>pg\<close>: the ids it draws, the text it prints a
  \<^verbatim>\<open>JSONB\<close> value as, the rounding of \<^verbatim>\<open>TIMESTAMPTZ(3)\<close>, and what a stored command result reads
  back as.
\<close>

record pg =
  gen_random_uuid :: "nat \<Rightarrow> string"
  jsonb :: "string \<Rightarrow> string option"
  ts3 :: "instant \<Rightarrow> instant"
  result_jsonb :: "CommandResult \<Rightarrow> CommandResult option"

text \<open>
  What the program relies on: a \<^verbatim>\<open>TIMESTAMPTZ(3)\<close> column keeps whole milliseconds and holds
  whole milliseconds only; reading a \<^verbatim>\<open>JSONB\<close> value and writing it again changes nothing; an
  object stays an object; a stored result keeps its code and its name.
\<close>

definition pg_documented :: "pg \<Rightarrow> bool" where
  "pg_documented d \<longleftrightarrow>
     (\<forall>t. Millisecond dvd ts3 d t) \<and>
     (\<forall>t. Millisecond dvd t \<longrightarrow> ts3 d t = t) \<and>
     (\<forall>p q. jsonb d p = Some q \<longrightarrow> jsonb d q = Some q) \<and>
     (\<forall>p q. jsonb d p = Some q \<longrightarrow> unmarshals_to_object q = unmarshals_to_object p) \<and>
     (\<forall>r s. result_jsonb d r = Some s \<longrightarrow> c_Code s = c_Code r \<and> c_Name s = c_Name r)"

section \<open>Rows\<close>

record schedule_row =
  sc_id :: string
  sc_tenant_id :: string
  sc_name :: string
  sc_schedule_rule :: "string option"
  sc_run_at :: "instant option"
  sc_timezone :: string
  sc_target_url :: string
  sc_target_method :: string
  sc_payload :: string
  sc_status :: string
  sc_misfire_policy :: string
  sc_catch_up_limit :: int
  sc_overlap_policy :: string
  sc_retry :: RetryPolicy
  sc_next_due_at :: "instant option"
  sc_claim_owner :: "string option"
  sc_claim_expires_at :: "instant option"
  sc_version :: int
  sc_created_at :: instant
  sc_updated_at :: instant

record occurrence_row =
  oc_id :: string
  oc_tenant_id :: string
  oc_schedule_id :: string
  oc_schedule_name :: string
  oc_scheduled_at :: instant
  oc_observed_at :: instant
  oc_status :: string
  oc_outcome_code :: "string option"
  oc_missed_count :: int
  oc_attempt_count :: int
  oc_last_http_status :: "int option"
  oc_last_error_code :: "string option"
  oc_last_error_message :: "string option"
  oc_created_at :: instant
  oc_updated_at :: instant
  oc_completed_at :: "instant option"

record receipt_row =
  re_id :: string
  re_tenant_id :: string
  re_command_scope :: string
  re_idempotency_key :: string
  re_request_digest :: string
  re_request_id :: string
  re_result_code :: string
  re_result_body :: CommandResult
  re_created_at :: instant

record outbox_row =
  ob_id :: string
  ob_tenant_id :: string
  ob_occurrence_id :: string
  ob_schedule_id :: string
  ob_schedule_name :: string
  ob_scheduled_at :: instant
  ob_target_url :: string
  ob_target_method :: string
  ob_payload :: string
  ob_status :: string
  ob_attempt_count :: int
  ob_retry :: RetryPolicy
  ob_next_attempt_at :: instant
  ob_first_attempt_at :: "instant option"
  ob_claim_owner :: "string option"
  ob_claim_expires_at :: "instant option"
  ob_last_http_status :: "int option"
  ob_last_error_code :: "string option"
  ob_last_error_message :: "string option"
  ob_created_at :: instant
  ob_updated_at :: instant
  ob_completed_at :: "instant option"

record db =
  schedules :: "schedule_row list"
  occurrences :: "occurrence_row list"
  receipts :: "receipt_row list"
  outbox :: "outbox_row list"
  uuid_seq :: nat

definition empty_db :: db where
  "empty_db = \<lparr>schedules = [], occurrences = [], receipts = [], outbox = [], uuid_seq = 0\<rparr>"

type_synonym 'a tx = "db \<Rightarrow> goerr + ('a \<times> db)"

section \<open>Constraints\<close>

text \<open>Text the server accepts: valid UTF-8 without a zero byte.\<close>

function pg_text :: "string \<Rightarrow> bool" where
  "pg_text s =
     (if s = [] then True
      else if hd s = CHR 0x00 \<or> utf8_len s = 0 then False
      else pg_text (drop (utf8_len s) s))"
  by pat_completeness auto
termination
  by (relation "measure length") auto

declare pg_text.simps [simp del]

text \<open>\<^verbatim>\<open>length\<close> of a text counts characters: the bytes that do not continue one.\<close>

definition char_length :: "string \<Rightarrow> nat" where
  "char_length s = length (filter (\<lambda>c. \<not> cont_byte c) s)"

definition violated :: "goerr" where
  "violated = ErrDriver ''new row violates a constraint''"

definition bad_text :: "goerr" where
  "bad_text = ErrDriver ''invalid byte sequence for encoding UTF8''"

definition ck_tenant :: "string \<Rightarrow> bool" where
  "ck_tenant t \<longleftrightarrow> t \<noteq> [] \<and> char_length t \<le> 128"

definition ck_retry :: "RetryPolicy \<Rightarrow> bool" where
  "ck_retry p \<longleftrightarrow>
     1 \<le> MaxAttempts p \<and> MaxAttempts p \<le> 10 \<and>
     1 \<le> BackoffSeconds p \<and> BackoffSeconds p \<le> 3600 \<and>
     BackoffSeconds p \<le> MaxBackoffSeconds p \<and> MaxBackoffSeconds p \<le> 3600 \<and>
     1 \<le> MaxRetryWindowSeconds p \<and> MaxRetryWindowSeconds p \<le> 86400"

definition opt_text :: "string option \<Rightarrow> bool" where
  "opt_text x \<longleftrightarrow> (case x of None \<Rightarrow> True | Some t \<Rightarrow> pg_text t)"

definition ck_schedule :: "schedule_row \<Rightarrow> bool" where
  "ck_schedule r \<longleftrightarrow>
     list_all pg_text [sc_tenant_id r, sc_name r, sc_timezone r, sc_target_url r, sc_target_method r,
       sc_status r, sc_misfire_policy r, sc_overlap_policy r] \<and>
     opt_text (sc_schedule_rule r) \<and> opt_text (sc_claim_owner r) \<and>
     sc_version r \<le> MaxInt64 \<and>
     ck_tenant (sc_tenant_id r) \<and>
     IsValidScheduleName (sc_name r) \<and>
     (case sc_schedule_rule r of
        Some rule \<Rightarrow> rule \<noteq> [] \<and> char_length rule \<le> 256 \<and> sc_run_at r = None
      | None \<Rightarrow> sc_run_at r \<noteq> None) \<and>
     sc_timezone r \<noteq> [] \<and> char_length (sc_timezone r) \<le> 128 \<and>
     (sc_target_method r = ''POST'' \<or> sc_target_method r = ''PUT'') \<and>
     unmarshals_to_object (sc_payload r) \<and>
     (sc_status r = ''active'' \<or> sc_status r = ''paused'' \<or> sc_status r = ''exhausted'') \<and>
     ((sc_status r = ''exhausted'' \<and> sc_run_at r \<noteq> None \<and> sc_next_due_at r = None
        \<and> sc_claim_owner r = None \<and> sc_claim_expires_at r = None)
      \<or> ((sc_status r = ''active'' \<or> sc_status r = ''paused'') \<and> sc_next_due_at r \<noteq> None
        \<and> (sc_run_at r = None \<or> sc_next_due_at r = sc_run_at r))) \<and>
     (sc_status r \<noteq> ''paused'' \<or> (sc_claim_owner r = None \<and> sc_claim_expires_at r = None)) \<and>
     ((sc_misfire_policy r = ''catch_up_bounded'' \<and> 1 \<le> sc_catch_up_limit r \<and> sc_catch_up_limit r \<le> 100)
      \<or> ((sc_misfire_policy r = ''skip'' \<or> sc_misfire_policy r = ''fire_once'') \<and> sc_catch_up_limit r = 1)) \<and>
     (sc_overlap_policy r = ''allow'' \<or> sc_overlap_policy r = ''forbid'') \<and>
     ck_retry (sc_retry r) \<and>
     (sc_claim_owner r = None \<longleftrightarrow> sc_claim_expires_at r = None)"

definition ck_http_status :: "int option \<Rightarrow> bool" where
  "ck_http_status s \<longleftrightarrow> (case s of None \<Rightarrow> True | Some n \<Rightarrow> 100 \<le> n \<and> n \<le> 599)"

definition occurrence_open :: "string \<Rightarrow> bool" where
  "occurrence_open s \<longleftrightarrow> s = ''pending'' \<or> s = ''dispatching'' \<or> s = ''retrying''"

definition ck_occurrence :: "occurrence_row \<Rightarrow> bool" where
  "ck_occurrence r \<longleftrightarrow>
     list_all pg_text [oc_tenant_id r, oc_schedule_name r, oc_status r] \<and>
     opt_text (oc_outcome_code r) \<and> opt_text (oc_last_error_code r) \<and> opt_text (oc_last_error_message r) \<and>
     ck_tenant (oc_tenant_id r) \<and>
     (occurrence_open (oc_status r) \<or> oc_status r = ''succeeded'' \<or> oc_status r = ''failed''
      \<or> oc_status r = ''skipped'') \<and>
     1 \<le> oc_missed_count r \<and> oc_missed_count r < 2 ^ 31 \<and>
     0 \<le> oc_attempt_count r \<and> oc_attempt_count r \<le> 10 \<and>
     ck_http_status (oc_last_http_status r) \<and>
     (occurrence_open (oc_status r) \<longleftrightarrow> oc_completed_at r = None)"

text \<open>The pattern \<^verbatim>\<open>^sha256:[0-9a-f]{64}$\<close>, in the schema and in \<^verbatim>\<open>application/commands.go\<close>.\<close>

definition lower_hex :: "char \<Rightarrow> bool" where
  "lower_hex c \<longleftrightarrow> is_digit c \<or> (97 \<le> byte c \<and> byte c \<le> 102)"

definition digestPattern :: "string \<Rightarrow> bool" where
  "digestPattern s \<longleftrightarrow> HasPrefix s ''sha256:'' \<and> length s = 71 \<and> list_all lower_hex (drop 7 s)"

definition ck_receipt :: "receipt_row \<Rightarrow> bool" where
  "ck_receipt r \<longleftrightarrow>
     list_all pg_text [re_tenant_id r, re_command_scope r, re_idempotency_key r, re_request_digest r,
       re_request_id r, re_result_code r] \<and>
     ck_tenant (re_tenant_id r) \<and>
     re_command_scope r \<noteq> [] \<and> char_length (re_command_scope r) \<le> 256 \<and>
     re_idempotency_key r \<noteq> [] \<and> char_length (re_idempotency_key r) \<le> 256 \<and>
     digestPattern (re_request_digest r) \<and>
     re_request_id r \<noteq> [] \<and> char_length (re_request_id r) \<le> 128"

definition outbox_final :: "string \<Rightarrow> bool" where
  "outbox_final s \<longleftrightarrow> s = ''succeeded'' \<or> s = ''failed''"

definition ck_outbox :: "outbox_row \<Rightarrow> bool" where
  "ck_outbox r \<longleftrightarrow>
     list_all pg_text [ob_tenant_id r, ob_schedule_name r, ob_target_url r, ob_target_method r, ob_status r] \<and>
     opt_text (ob_claim_owner r) \<and> opt_text (ob_last_error_code r) \<and> opt_text (ob_last_error_message r) \<and>
     ck_tenant (ob_tenant_id r) \<and>
     (ob_target_method r = ''POST'' \<or> ob_target_method r = ''PUT'') \<and>
     unmarshals_to_object (ob_payload r) \<and>
     (occurrence_open (ob_status r) \<or> outbox_final (ob_status r)) \<and>
     0 \<le> ob_attempt_count r \<and> ob_attempt_count r \<le> MaxAttempts (ob_retry r) \<and>
     ck_retry (ob_retry r) \<and>
     ck_http_status (ob_last_http_status r) \<and>
     (if ob_status r = ''dispatching''
      then ob_claim_owner r \<noteq> None \<and> ob_claim_expires_at r \<noteq> None
      else ob_claim_owner r = None \<and> ob_claim_expires_at r = None) \<and>
     (outbox_final (ob_status r) \<longleftrightarrow> ob_completed_at r \<noteq> None)"

text \<open>\<^verbatim>\<open>UPDATE\<close> of the rows that satisfy \<open>p\<close>: every new row is checked.\<close>

definition upd_checked :: "('r \<Rightarrow> bool) \<Rightarrow> ('r \<Rightarrow> bool) \<Rightarrow> ('r \<Rightarrow> 'r) \<Rightarrow> 'r list \<Rightarrow> 'r list res" where
  "upd_checked ck p f rows =
     (if list_all (\<lambda>r. p r \<longrightarrow> ck (f r)) rows then Inr (upd p f rows) else Inl violated)"

definition affected :: "('r \<Rightarrow> bool) \<Rightarrow> 'r list \<Rightarrow> nat" where
  "affected p rows = length (filter p rows)"

section \<open>Scanning and parameters\<close>

definition nullableString :: "string \<Rightarrow> string option" where
  "nullableString value = (if value = [] then None else Some value)"

definition nullableStatus :: "int \<Rightarrow> int option" where
  "nullableStatus status = (if status = 0 then None else Some status)"

definition nullableInstant :: "instant \<Rightarrow> instant option" where
  "nullableInstant value = (if IsZero value then None else Some (NormalizeInstant value))"

definition scanSchedule :: "schedule_row \<Rightarrow> Schedule" where
  "scanSchedule r =
     \<lparr>s_ID = sc_id r, s_TenantID = sc_tenant_id r, s_Name = sc_name r,
      s_Rule = (case sc_schedule_rule r of None \<Rightarrow> [] | Some rule \<Rightarrow> rule),
      s_RunAt = (case sc_run_at r of None \<Rightarrow> 0 | Some t \<Rightarrow> NormalizeInstant t),
      s_Timezone = sc_timezone r, s_TargetURL = sc_target_url r, s_Method = sc_target_method r,
      s_Payload = sc_payload r, s_Retry = sc_retry r, s_MisfirePolicy = sc_misfire_policy r,
      s_CatchUpLimit = sc_catch_up_limit r, s_OverlapPolicy = sc_overlap_policy r,
      s_Status = sc_status r,
      s_NextDueAt = (case sc_next_due_at r of None \<Rightarrow> 0 | Some t \<Rightarrow> NormalizeInstant t),
      s_Version = sc_version r, s_CreatedAt = NormalizeInstant (sc_created_at r),
      s_UpdatedAt = NormalizeInstant (sc_updated_at r),
      s_ClaimOwner = (case sc_claim_owner r of None \<Rightarrow> [] | Some owner \<Rightarrow> owner),
      s_ClaimExpiresAt = (case sc_claim_expires_at r of None \<Rightarrow> 0 | Some t \<Rightarrow> NormalizeInstant t)\<rparr>"

definition scanDispatch :: "outbox_row \<Rightarrow> DispatchWork" where
  "scanDispatch r =
     \<lparr>w_ID = ob_id r, w_TenantID = ob_tenant_id r, w_OccurrenceID = ob_occurrence_id r,
      w_ScheduleID = ob_schedule_id r, w_ScheduleName = ob_schedule_name r,
      w_ScheduledAt = NormalizeInstant (ob_scheduled_at r), w_TargetURL = ob_target_url r,
      w_Method = ob_target_method r, w_Payload = ob_payload r, w_Status = ob_status r,
      w_AttemptCount = ob_attempt_count r, w_Retry = ob_retry r,
      w_NextAttemptAt = NormalizeInstant (ob_next_attempt_at r),
      w_FirstAttemptAt = (case ob_first_attempt_at r of None \<Rightarrow> 0 | Some t \<Rightarrow> NormalizeInstant t),
      w_CreatedAt = NormalizeInstant (ob_created_at r)\<rparr>"

section \<open>Transactions\<close>

text \<open>
  \<^verbatim>\<open>WithinTx\<close>: the statements run and commit, or nothing of them stands. What the connection
  does is a parameter: the transaction may fail to begin, break off or fail to commit
  (\<open>TxAborted\<close>), and the acknowledgement of a commit that took place may be lost (\<open>AckLost\<close>).
\<close>

datatype tx_fault = NoFault | TxAborted goerr | AckLost goerr

definition WithinTx :: "tx_fault \<Rightarrow> 'a tx \<Rightarrow> db \<Rightarrow> 'a res \<times> db" where
  "WithinTx fault run d =
     (case fault of
        TxAborted e \<Rightarrow> (Inl e, d)
      | NoFault \<Rightarrow> (case run d of Inl e \<Rightarrow> (Inl e, d) | Inr (a, d') \<Rightarrow> (Inr a, d'))
      | AckLost e \<Rightarrow> (case run d of Inl e' \<Rightarrow> (Inl e', d) | Inr (a, d') \<Rightarrow> (Inl e, d')))"

section \<open>Command statements (commands.go)\<close>

text \<open>The advisory lock is held to the end of the transaction; it changes no row.\<close>

definition LockCommandIdentity :: "string \<Rightarrow> string \<Rightarrow> string \<Rightarrow> unit tx" where
  "LockCommandIdentity tenantID scope idempotencyKey d =
     (if pg_text (tenantID @ CHR 0x1f # scope @ CHR 0x1f # idempotencyKey) then Inr ((), d) else Inl bad_text)"

definition receipt_key :: "string \<Rightarrow> string \<Rightarrow> string \<Rightarrow> receipt_row \<Rightarrow> bool" where
  "receipt_key tenantID scope idempotencyKey r \<longleftrightarrow>
     re_tenant_id r = tenantID \<and> re_command_scope r = scope \<and> re_idempotency_key r = idempotencyKey"

definition receipt_of :: "receipt_row \<Rightarrow> CommandReceipt" where
  "receipt_of r =
     \<lparr>rc_TenantID = re_tenant_id r, rc_CommandScope = re_command_scope r,
      rc_IdempotencyKey = re_idempotency_key r, rc_RequestDigest = re_request_digest r,
      rc_RequestID = re_request_id r, rc_Result = re_result_body r,
      rc_CreatedAt = NormalizeInstant (re_created_at r)\<rparr>"

definition FindCommandReceipt :: "string \<Rightarrow> string \<Rightarrow> string \<Rightarrow> CommandReceipt option tx" where
  "FindCommandReceipt tenantID scope idempotencyKey d =
     (if \<not> list_all pg_text [tenantID, scope, idempotencyKey] then Inl bad_text
      else Inr (map_option receipt_of (find (receipt_key tenantID scope idempotencyKey) (receipts d)), d))"

definition new_receipt :: "pg \<Rightarrow> CommandReceipt \<Rightarrow> CommandResult \<Rightarrow> nat \<Rightarrow> receipt_row" where
  "new_receipt g receipt body n =
     \<lparr>re_id = gen_random_uuid g n, re_tenant_id = rc_TenantID receipt,
      re_command_scope = rc_CommandScope receipt, re_idempotency_key = rc_IdempotencyKey receipt,
      re_request_digest = rc_RequestDigest receipt, re_request_id = rc_RequestID receipt,
      re_result_code = c_Code (rc_Result receipt), re_result_body = body,
      re_created_at = ts3 g (rc_CreatedAt receipt)\<rparr>"

definition InsertCommandReceipt :: "pg \<Rightarrow> CommandReceipt \<Rightarrow> unit tx" where
  "InsertCommandReceipt g receipt d =
     (case result_jsonb g (rc_Result receipt) of
        None \<Rightarrow> Inl (ErrDriver ''unsupported JSON value'')
      | Some body \<Rightarrow>
          let row = new_receipt g receipt body (uuid_seq d)
          in if ck_receipt row
                \<and> list_all (\<lambda>r. re_id r \<noteq> re_id row
                     \<and> \<not> receipt_key (rc_TenantID receipt) (rc_CommandScope receipt) (rc_IdempotencyKey receipt) r)
                   (receipts d)
             then Inr ((), d\<lparr>receipts := receipts d @ [row], uuid_seq := Suc (uuid_seq d)\<rparr>)
             else Inl violated)"

definition by_name :: "string \<Rightarrow> string \<Rightarrow> schedule_row \<Rightarrow> bool" where
  "by_name tenantID name r \<longleftrightarrow> sc_tenant_id r = tenantID \<and> sc_name r = name"

definition GetSchedule :: "string \<Rightarrow> string \<Rightarrow> Schedule tx" where
  "GetSchedule tenantID name d =
     (if \<not> list_all pg_text [tenantID, name] then Inl bad_text
      else case find (by_name tenantID name) (schedules d) of
        None \<Rightarrow> Inl ErrScheduleNotFound
      | Some r \<Rightarrow> Inr (scanSchedule r, d))"

definition new_schedule :: "pg \<Rightarrow> Schedule \<Rightarrow> string \<Rightarrow> nat \<Rightarrow> schedule_row" where
  "new_schedule g s payload n =
     \<lparr>sc_id = gen_random_uuid g n, sc_tenant_id = s_TenantID s, sc_name = s_Name s,
      sc_schedule_rule = nullableString (s_Rule s),
      sc_run_at = map_option (ts3 g) (nullableInstant (s_RunAt s)),
      sc_timezone = s_Timezone s, sc_target_url = s_TargetURL s, sc_target_method = s_Method s,
      sc_payload = payload, sc_status = s_Status s, sc_misfire_policy = s_MisfirePolicy s,
      sc_catch_up_limit = s_CatchUpLimit s, sc_overlap_policy = s_OverlapPolicy s,
      sc_retry = s_Retry s, sc_next_due_at = Some (ts3 g (s_NextDueAt s)),
      sc_claim_owner = None, sc_claim_expires_at = None, sc_version = 1,
      sc_created_at = ts3 g (s_CreatedAt s), sc_updated_at = ts3 g (s_CreatedAt s)\<rparr>"

text \<open>
  \<^verbatim>\<open>INSERT ... ON CONFLICT ... DO NOTHING RETURNING\<close>: the constraints of the new row are checked
  first, then the conflict on tenant and name gives no row.
\<close>

definition CreateSchedule :: "pg \<Rightarrow> Schedule \<Rightarrow> Schedule tx" where
  "CreateSchedule g s d =
     (case jsonb g (s_Payload s) of
        None \<Rightarrow> Inl (ErrDriver ''invalid input syntax for type json'')
      | Some payload \<Rightarrow>
          let row = new_schedule g s payload (uuid_seq d)
          in if \<not> ck_schedule row then Inl violated
             else if list_ex (by_name (s_TenantID s) (s_Name s)) (schedules d)
             then Inl ErrScheduleAlreadyExists
             else if list_ex (\<lambda>r. sc_id r = sc_id row) (schedules d) then Inl violated
             else Inr (scanSchedule row,
                    d\<lparr>schedules := schedules d @ [row], uuid_seq := Suc (uuid_seq d)\<rparr>))"

text \<open>\<^verbatim>\<open>UPDATE ... RETURNING\<close> of the one row a condition with a key selects.\<close>

definition update_returning ::
  "(schedule_row \<Rightarrow> bool) \<Rightarrow> (schedule_row \<Rightarrow> schedule_row) \<Rightarrow> (Schedule option) tx" where
  "update_returning p f d =
     (case upd_checked ck_schedule p f (schedules d) of
        Inl e \<Rightarrow> Inl e
      | Inr rows \<Rightarrow> Inr (map_option (\<lambda>r. scanSchedule (f r)) (find p (schedules d)), d\<lparr>schedules := rows\<rparr>))"

definition update_where :: "Schedule \<Rightarrow> Schedule \<Rightarrow> schedule_row \<Rightarrow> bool" where
  "update_where current s r \<longleftrightarrow>
     by_name (s_TenantID s) (s_Name s) r \<and> sc_id r = s_ID current \<and> sc_version r = s_Version current"

definition update_set :: "pg \<Rightarrow> Schedule \<Rightarrow> string \<Rightarrow> schedule_row \<Rightarrow> schedule_row" where
  "update_set g s payload r =
     r\<lparr>sc_schedule_rule := nullableString (s_Rule s), sc_timezone := s_Timezone s,
       sc_target_url := s_TargetURL s, sc_target_method := s_Method s, sc_payload := payload,
       sc_status := s_Status s, sc_misfire_policy := s_MisfirePolicy s,
       sc_catch_up_limit := s_CatchUpLimit s, sc_overlap_policy := s_OverlapPolicy s,
       sc_retry := s_Retry s, sc_next_due_at := map_option (ts3 g) (nullableInstant (s_NextDueAt s)),
       sc_claim_owner := None, sc_claim_expires_at := None, sc_version := sc_version r + 1,
       sc_updated_at := ts3 g (s_UpdatedAt s), sc_run_at := map_option (ts3 g) (nullableInstant (s_RunAt s))\<rparr>"

definition UpdateSchedule :: "pg \<Rightarrow> Schedule \<Rightarrow> Schedule \<Rightarrow> Schedule tx" where
  "UpdateSchedule g current s d =
     (case jsonb g (s_Payload s) of
        None \<Rightarrow> Inl (ErrDriver ''invalid input syntax for type json'')
      | Some payload \<Rightarrow>
          (case update_returning (update_where current s) (update_set g s payload) d of
             Inl e \<Rightarrow> Inl e
           | Inr (Some updated, d') \<Rightarrow> Inr (updated, d')
           | Inr (None, d') \<Rightarrow>
               (case GetSchedule (s_TenantID current) (s_Name current) d' of
                  Inl readErr \<Rightarrow> Inl readErr
                | Inr _ \<Rightarrow> Inl ErrScheduleChanged)))"

definition DeleteSchedule :: "string \<Rightarrow> string \<Rightarrow> unit tx" where
  "DeleteSchedule tenantID name d =
     (if \<not> list_all pg_text [tenantID, name] then Inl bad_text
      else if list_ex (by_name tenantID name) (schedules d)
      then Inr ((), d\<lparr>schedules := filter (\<lambda>r. \<not> by_name tenantID name r) (schedules d)\<rparr>)
      else Inl ErrScheduleNotFound)"

definition status_where :: "Schedule \<Rightarrow> schedule_row \<Rightarrow> bool" where
  "status_where current r \<longleftrightarrow>
     by_name (s_TenantID current) (s_Name current) r \<and> sc_id r = s_ID current
     \<and> sc_version r = s_Version current \<and> sc_status r \<noteq> ''exhausted''"

definition status_set :: "pg \<Rightarrow> string \<Rightarrow> instant \<Rightarrow> instant \<Rightarrow> schedule_row \<Rightarrow> schedule_row" where
  "status_set g status nextDueAt now r =
     r\<lparr>sc_status := status,
       sc_next_due_at := (case nullableInstant nextDueAt of
          None \<Rightarrow> sc_next_due_at r | Some t \<Rightarrow> Some (ts3 g t)),
       sc_claim_owner := None, sc_claim_expires_at := None, sc_version := sc_version r + 1,
       sc_updated_at := ts3 g now\<rparr>"

definition SetScheduleStatus :: "pg \<Rightarrow> Schedule \<Rightarrow> string \<Rightarrow> instant \<Rightarrow> instant \<Rightarrow> Schedule tx" where
  "SetScheduleStatus g current status nextDueAt now d =
     (if \<not> list_all pg_text [s_TenantID current, s_Name current] then Inl bad_text
      else case update_returning (status_where current) (status_set g status nextDueAt now) d of
        Inl e \<Rightarrow> Inl e
      | Inr (Some updated, d') \<Rightarrow> Inr (updated, d')
      | Inr (None, d') \<Rightarrow>
          (case GetSchedule (s_TenantID current) (s_Name current) d' of
             Inl readErr \<Rightarrow> Inl readErr
           | Inr (latest, _) \<Rightarrow>
               if s_Status latest = ScheduleExhausted then Inl ErrScheduleExhausted
               else Inl ErrScheduleChanged))"

section \<open>Planner statements (due.go)\<close>

text \<open>
  \<^verbatim>\<open>FOR UPDATE SKIP LOCKED\<close>: \<open>locked\<close> tells the ids of the rows other transactions hold at that
  moment. The due rows are taken in the order of due instant and id, \<open>limit\<close> of them; the
  rows come back in table order (the server promises none).
\<close>

definition due_candidate :: "(string \<Rightarrow> bool) \<Rightarrow> instant \<Rightarrow> schedule_row \<Rightarrow> bool" where
  "due_candidate locked now r \<longleftrightarrow>
     sc_status r = ''active'' \<and>
     (case sc_next_due_at r of None \<Rightarrow> False | Some t \<Rightarrow> t \<le> now) \<and>
     (case sc_claim_expires_at r of None \<Rightarrow> True | Some t \<Rightarrow> t \<le> now) \<and>
     \<not> locked (sc_id r)"

definition due_order :: "schedule_row \<Rightarrow> int \<times> string" where
  "due_order r = ((case sc_next_due_at r of None \<Rightarrow> 0 | Some t \<Rightarrow> t), sc_id r)"

definition due_candidates :: "(string \<Rightarrow> bool) \<Rightarrow> instant \<Rightarrow> int \<Rightarrow> schedule_row list \<Rightarrow> schedule_row list" where
  "due_candidates locked now limit rows =
     take (nat limit) (sort_key due_order (filter (due_candidate locked now) rows))"

definition claim_set :: "pg \<Rightarrow> instant \<Rightarrow> string \<Rightarrow> instant \<Rightarrow> schedule_row \<Rightarrow> schedule_row" where
  "claim_set g now workerID claimExpiresAt r =
     r\<lparr>sc_claim_owner := Some workerID, sc_claim_expires_at := Some (ts3 g claimExpiresAt),
       sc_updated_at := ts3 g now\<rparr>"

definition ClaimDueSchedules ::
  "pg \<Rightarrow> (string \<Rightarrow> bool) \<Rightarrow> instant \<Rightarrow> string \<Rightarrow> instant \<Rightarrow> int \<Rightarrow> (Schedule list) tx" where
  "ClaimDueSchedules g locked now workerID claimExpiresAt limit d =
     (let ids = map sc_id (due_candidates locked now limit (schedules d));
          p = (\<lambda>r. sc_id r \<in> set ids);
          f = claim_set g now workerID claimExpiresAt
      in case upd_checked ck_schedule p f (schedules d) of
           Inl e \<Rightarrow> Inl e
         | Inr rows \<Rightarrow>
             Inr (map (\<lambda>r. scanSchedule (f r)) (filter p (schedules d)), d\<lparr>schedules := rows\<rparr>))"

definition HasOpenOccurrence :: "string \<Rightarrow> string \<Rightarrow> bool tx" where
  "HasOpenOccurrence tenantID scheduleID d =
     (if \<not> pg_text tenantID then Inl bad_text
      else Inr (list_ex (\<lambda>r. oc_tenant_id r = tenantID \<and> oc_schedule_id r = scheduleID
                   \<and> occurrence_open (oc_status r)) (occurrences d), d))"

definition new_occurrence :: "pg \<Rightarrow> Schedule \<Rightarrow> OccurrencePlan \<Rightarrow> nat \<Rightarrow> occurrence_row" where
  "new_occurrence g s plan n =
     \<lparr>oc_id = gen_random_uuid g n, oc_tenant_id = s_TenantID s, oc_schedule_id = s_ID s,
      oc_schedule_name = s_Name s, oc_scheduled_at = ts3 g (p_ScheduledAt plan),
      oc_observed_at = ts3 g (p_ObservedAt plan), oc_status = p_Status plan,
      oc_outcome_code = nullableString (p_OutcomeCode plan), oc_missed_count = p_MissedCount plan,
      oc_attempt_count = 0, oc_last_http_status = None, oc_last_error_code = None,
      oc_last_error_message = None, oc_created_at = ts3 g (p_ObservedAt plan),
      oc_updated_at = ts3 g (p_ObservedAt plan),
      oc_completed_at =
        (if p_Status plan = OccurrenceSucceeded \<or> p_Status plan = OccurrenceFailed
            \<or> p_Status plan = OccurrenceSkipped
         then Some (ts3 g (p_ObservedAt plan)) else None)\<rparr>"

definition same_occurrence :: "occurrence_row \<Rightarrow> occurrence_row \<Rightarrow> bool" where
  "same_occurrence row r \<longleftrightarrow>
     oc_tenant_id r = oc_tenant_id row \<and> oc_schedule_id r = oc_schedule_id row
     \<and> oc_scheduled_at r = oc_scheduled_at row"

text \<open>The result is the id of the new row, or none where the occurrence exists.\<close>

definition InsertOccurrence :: "pg \<Rightarrow> Schedule \<Rightarrow> OccurrencePlan \<Rightarrow> (string option) tx" where
  "InsertOccurrence g s plan d =
     (let row = new_occurrence g s plan (uuid_seq d)
      in if \<not> ck_occurrence row then Inl violated
         else if list_ex (same_occurrence row) (occurrences d) then Inr (None, d)
         else if list_ex (\<lambda>r. oc_id r = oc_id row) (occurrences d) then Inl violated
         else Inr (Some (oc_id row),
                d\<lparr>occurrences := occurrences d @ [row], uuid_seq := Suc (uuid_seq d)\<rparr>))"

definition new_outbox :: "pg \<Rightarrow> Schedule \<Rightarrow> string \<Rightarrow> OccurrencePlan \<Rightarrow> string \<Rightarrow> nat \<Rightarrow> outbox_row" where
  "new_outbox g s occurrenceID plan payload n =
     \<lparr>ob_id = gen_random_uuid g n, ob_tenant_id = s_TenantID s, ob_occurrence_id = occurrenceID,
      ob_schedule_id = s_ID s, ob_schedule_name = s_Name s, ob_scheduled_at = ts3 g (p_ScheduledAt plan),
      ob_target_url = s_TargetURL s, ob_target_method = s_Method s, ob_payload = payload,
      ob_status = ''pending'', ob_attempt_count = 0, ob_retry = s_Retry s,
      ob_next_attempt_at = ts3 g (p_ObservedAt plan), ob_first_attempt_at = None,
      ob_claim_owner = None, ob_claim_expires_at = None, ob_last_http_status = None,
      ob_last_error_code = None, ob_last_error_message = None,
      ob_created_at = ts3 g (p_ObservedAt plan), ob_updated_at = ts3 g (p_ObservedAt plan),
      ob_completed_at = None\<rparr>"

definition InsertDispatchOutbox :: "pg \<Rightarrow> Schedule \<Rightarrow> string \<Rightarrow> OccurrencePlan \<Rightarrow> unit tx" where
  "InsertDispatchOutbox g s occurrenceID plan d =
     (case jsonb g (s_Payload s) of
        None \<Rightarrow> Inl (ErrDriver ''invalid input syntax for type json'')
      | Some payload \<Rightarrow>
          let row = new_outbox g s occurrenceID plan payload (uuid_seq d)
          in if \<not> ck_outbox row then Inl violated
             else if list_ex (\<lambda>r. ob_tenant_id r = ob_tenant_id row \<and> ob_occurrence_id r = occurrenceID) (outbox d)
             then Inr ((), d)
             else if list_ex (\<lambda>r. ob_id r = ob_id row) (outbox d) then Inl violated
             else Inr ((), d\<lparr>outbox := outbox d @ [row], uuid_seq := Suc (uuid_seq d)\<rparr>))"

definition advance_where :: "Schedule \<Rightarrow> string \<Rightarrow> schedule_row \<Rightarrow> bool" where
  "advance_where s workerID r \<longleftrightarrow>
     sc_tenant_id r = s_TenantID s \<and> sc_id r = s_ID s \<and> sc_version r = s_Version s
     \<and> sc_claim_owner r = Some workerID"

definition advance_set :: "pg \<Rightarrow> instant \<Rightarrow> instant \<Rightarrow> schedule_row \<Rightarrow> schedule_row" where
  "advance_set g nextDueAt now r =
     r\<lparr>sc_next_due_at := map_option (ts3 g) (nullableInstant nextDueAt),
       sc_status := (if nullableInstant nextDueAt = None then ''exhausted'' else sc_status r),
       sc_claim_owner := None, sc_claim_expires_at := None, sc_version := sc_version r + 1,
       sc_updated_at := ts3 g now\<rparr>"

definition AdvanceSchedule :: "pg \<Rightarrow> Schedule \<Rightarrow> string \<Rightarrow> instant \<Rightarrow> instant \<Rightarrow> unit tx" where
  "AdvanceSchedule g s workerID nextDueAt now d =
     (if \<not> list_all pg_text [s_TenantID s, workerID] then Inl bad_text
      else case upd_checked ck_schedule (advance_where s workerID) (advance_set g nextDueAt now) (schedules d) of
        Inl e \<Rightarrow> Inl e
      | Inr rows \<Rightarrow>
          if affected (advance_where s workerID) (schedules d) \<noteq> 1 then Inl ErrClaimLost
          else Inr ((), d\<lparr>schedules := rows\<rparr>))"

definition release_where :: "Schedule \<Rightarrow> string \<Rightarrow> schedule_row \<Rightarrow> bool" where
  "release_where s workerID r \<longleftrightarrow>
     sc_tenant_id r = s_TenantID s \<and> sc_id r = s_ID s \<and> sc_claim_owner r = Some workerID"

definition release_set :: "pg \<Rightarrow> instant \<Rightarrow> schedule_row \<Rightarrow> schedule_row" where
  "release_set g now r =
     r\<lparr>sc_claim_owner := None, sc_claim_expires_at := None, sc_updated_at := ts3 g now\<rparr>"

definition ReleaseScheduleClaim :: "pg \<Rightarrow> Schedule \<Rightarrow> string \<Rightarrow> instant \<Rightarrow> unit tx" where
  "ReleaseScheduleClaim g s workerID now d =
     (if \<not> list_all pg_text [s_TenantID s, workerID] then Inl bad_text
      else case upd_checked ck_schedule (release_where s workerID) (release_set g now) (schedules d) of
        Inl e \<Rightarrow> Inl e
      | Inr rows \<Rightarrow>
          if affected (release_where s workerID) (schedules d) \<noteq> 1 then Inl ErrClaimLost
          else Inr ((), d\<lparr>schedules := rows\<rparr>))"

end
