(* ===== verification/Outbox.thy ===== *)
theory Outbox
  imports Store
begin

text \<open>
  The dispatch statements of \<^verbatim>\<open>internal/adapters/postgres/outbox.go\<close>: recovery of exhausted
  claims, claiming, the start of an attempt and the transition that records its outcome.
  The lemmas of this theory are the shape of each successful statement, which the proofs
  about planner, dispatcher and system use.
\<close>

section \<open>Recovery\<close>

definition exhausted_where :: "instant \<Rightarrow> outbox_row \<Rightarrow> bool" where
  "exhausted_where now r \<longleftrightarrow>
     ob_status r = ''dispatching'' \<and>
     (case ob_claim_expires_at r of None \<Rightarrow> False | Some t \<Rightarrow> t \<le> now) \<and>
     ob_attempt_count r \<ge> MaxAttempts (ob_retry r)"

definition recovery_message :: string where
  "recovery_message = ''worker claim expired after final dispatch attempt''"

definition exhausted_set :: "pg \<Rightarrow> instant \<Rightarrow> outbox_row \<Rightarrow> outbox_row" where
  "exhausted_set g now r =
     r\<lparr>ob_status := ''failed'', ob_next_attempt_at := ts3 g now, ob_claim_owner := None,
       ob_claim_expires_at := None, ob_last_error_code := Some CodeDispatchRecoveryExhausted,
       ob_last_error_message := Some recovery_message, ob_completed_at := Some (ts3 g now),
       ob_updated_at := ts3 g now\<rparr>"

definition occurrence_of :: "outbox_row \<Rightarrow> occurrence_row \<Rightarrow> bool" where
  "occurrence_of b r \<longleftrightarrow> oc_tenant_id r = ob_tenant_id b \<and> oc_id r = ob_occurrence_id b"

definition recovered_occurrence :: "pg \<Rightarrow> instant \<Rightarrow> outbox_row list \<Rightarrow> occurrence_row \<Rightarrow> occurrence_row" where
  "recovered_occurrence g now exhausted r =
     (case find (\<lambda>b. occurrence_of b r) exhausted of
        None \<Rightarrow> r
      | Some b \<Rightarrow>
          r\<lparr>oc_status := ''failed'', oc_outcome_code := Some CodeDispatchRecoveryExhausted,
            oc_attempt_count := ob_attempt_count b,
            oc_last_error_code := Some CodeDispatchRecoveryExhausted,
            oc_last_error_message := Some recovery_message,
            oc_completed_at := Some (ts3 g now), oc_updated_at := ts3 g now\<rparr>)"

definition RecoverExhaustedDispatches :: "pg \<Rightarrow> instant \<Rightarrow> unit tx" where
  "RecoverExhaustedDispatches g now d =
     (let exhausted = filter (exhausted_where now) (outbox d);
          hit = (\<lambda>r. list_ex (\<lambda>b. occurrence_of b r) exhausted)
      in case upd_checked ck_outbox (exhausted_where now) (exhausted_set g now) (outbox d) of
           Inl e \<Rightarrow> Inl e
         | Inr outbox' \<Rightarrow>
             (case upd_checked ck_occurrence hit (recovered_occurrence g now exhausted) (occurrences d) of
                Inl e \<Rightarrow> Inl e
              | Inr occurrences' \<Rightarrow> Inr ((), d\<lparr>outbox := outbox', occurrences := occurrences'\<rparr>)))"

section \<open>Claims\<close>

definition ready_candidate :: "(string \<Rightarrow> bool) \<Rightarrow> instant \<Rightarrow> outbox_row \<Rightarrow> bool" where
  "ready_candidate locked now r \<longleftrightarrow>
     ob_attempt_count r < MaxAttempts (ob_retry r) \<and>
     (((ob_status r = ''pending'' \<or> ob_status r = ''retrying'') \<and> ob_next_attempt_at r \<le> now)
      \<or> (ob_status r = ''dispatching'' \<and>
         (case ob_claim_expires_at r of None \<Rightarrow> False | Some t \<Rightarrow> t \<le> now))) \<and>
     \<not> locked (ob_id r)"

definition ready_order :: "outbox_row \<Rightarrow> int \<times> string" where
  "ready_order r = (ob_next_attempt_at r, ob_id r)"

definition ready_candidates :: "(string \<Rightarrow> bool) \<Rightarrow> instant \<Rightarrow> int \<Rightarrow> outbox_row list \<Rightarrow> outbox_row list" where
  "ready_candidates locked now limit rows =
     take (nat limit) (sort_key ready_order (filter (ready_candidate locked now) rows))"

definition dispatch_claim_set :: "pg \<Rightarrow> instant \<Rightarrow> string \<Rightarrow> instant \<Rightarrow> outbox_row \<Rightarrow> outbox_row" where
  "dispatch_claim_set g now workerID claimExpiresAt r =
     r\<lparr>ob_status := ''dispatching'', ob_claim_owner := Some workerID,
       ob_claim_expires_at := Some (ts3 g claimExpiresAt), ob_updated_at := ts3 g now\<rparr>"

definition ClaimDispatches ::
  "pg \<Rightarrow> (string \<Rightarrow> bool) \<Rightarrow> instant \<Rightarrow> string \<Rightarrow> instant \<Rightarrow> int \<Rightarrow> (DispatchWork list) tx" where
  "ClaimDispatches g locked now workerID claimExpiresAt limit d =
     (let ids = map ob_id (ready_candidates locked now limit (outbox d));
          p = (\<lambda>r. ob_id r \<in> set ids);
          f = dispatch_claim_set g now workerID claimExpiresAt
      in case upd_checked ck_outbox p f (outbox d) of
           Inl e \<Rightarrow> Inl e
         | Inr rows \<Rightarrow>
             Inr (map (\<lambda>r. scanDispatch (f r)) (filter p (outbox d)), d\<lparr>outbox := rows\<rparr>))"

section \<open>Attempts\<close>

definition begin_where :: "DispatchWork \<Rightarrow> string \<Rightarrow> instant \<Rightarrow> outbox_row \<Rightarrow> bool" where
  "begin_where work workerID now r \<longleftrightarrow>
     ob_tenant_id r = w_TenantID work \<and> ob_id r = w_ID work \<and> ob_claim_owner r = Some workerID
     \<and> ob_status r = ''dispatching''
     \<and> (case ob_claim_expires_at r of None \<Rightarrow> False | Some t \<Rightarrow> t > now)
     \<and> ob_attempt_count r < MaxAttempts (ob_retry r)"

definition begin_set :: "pg \<Rightarrow> instant \<Rightarrow> outbox_row \<Rightarrow> outbox_row" where
  "begin_set g now r =
     r\<lparr>ob_attempt_count := ob_attempt_count r + 1,
       ob_first_attempt_at := (case ob_first_attempt_at r of None \<Rightarrow> Some (ts3 g now) | Some t \<Rightarrow> Some t),
       ob_updated_at := ts3 g now\<rparr>"

definition occurrence_where :: "string \<Rightarrow> string \<Rightarrow> occurrence_row \<Rightarrow> bool" where
  "occurrence_where tenantID occurrenceID r \<longleftrightarrow> oc_tenant_id r = tenantID \<and> oc_id r = occurrenceID"

definition begin_occurrence :: "pg \<Rightarrow> int \<Rightarrow> instant \<Rightarrow> occurrence_row \<Rightarrow> occurrence_row" where
  "begin_occurrence g attempts now r =
     r\<lparr>oc_status := ''dispatching'', oc_attempt_count := attempts, oc_updated_at := ts3 g now\<rparr>"

definition BeginDispatch :: "pg \<Rightarrow> DispatchWork \<Rightarrow> string \<Rightarrow> instant \<Rightarrow> DispatchWork tx" where
  "BeginDispatch g work workerID now d =
     (let p = begin_where work workerID now
      in if \<not> list_all pg_text [w_TenantID work, workerID] then Inl bad_text
         else case upd_checked ck_outbox p (begin_set g now) (outbox d) of
           Inl e \<Rightarrow> Inl e
         | Inr rows \<Rightarrow>
             (case find p (outbox d) of
                None \<Rightarrow> Inl ErrClaimLost
              | Some r \<Rightarrow>
                  let started = scanDispatch (begin_set g now r);
                      q = occurrence_where (w_TenantID started) (w_OccurrenceID started)
                  in case upd_checked ck_occurrence q (begin_occurrence g (w_AttemptCount started) now) (occurrences d) of
                       Inl e \<Rightarrow> Inl e
                     | Inr occurrences' \<Rightarrow>
                         if affected q (occurrences d) \<noteq> 1 then Inl ErrClaimLost
                         else Inr (started, d\<lparr>outbox := rows, occurrences := occurrences'\<rparr>)))"

definition transition_where :: "DispatchWork \<Rightarrow> string \<Rightarrow> outbox_row \<Rightarrow> bool" where
  "transition_where work workerID r \<longleftrightarrow>
     ob_tenant_id r = w_TenantID work \<and> ob_id r = w_ID work \<and> ob_claim_owner r = Some workerID
     \<and> ob_status r = ''dispatching''"

text \<open>The recorded message is the error's text, cut to 1024 bytes.\<close>

definition result_message :: "DispatchResult \<Rightarrow> string" where
  "result_message result = (case r_Err result of None \<Rightarrow> [] | Some e \<Rightarrow> take 1024 (Error e))"

definition completed_param :: "pg \<Rightarrow> instant \<Rightarrow> instant option" where
  "completed_param g completedAt = (if IsZero completedAt then None else Some (ts3 g completedAt))"

definition transition_set ::
  "pg \<Rightarrow> string \<Rightarrow> DispatchResult \<Rightarrow> instant \<Rightarrow> instant \<Rightarrow> instant \<Rightarrow> outbox_row \<Rightarrow> outbox_row" where
  "transition_set g status result nextAttemptAt completedAt now r =
     r\<lparr>ob_status := status, ob_next_attempt_at := ts3 g nextAttemptAt, ob_claim_owner := None,
       ob_claim_expires_at := None, ob_last_http_status := nullableStatus (r_Status result),
       ob_last_error_code := nullableString (r_Code result),
       ob_last_error_message := nullableString (result_message result),
       ob_completed_at := completed_param g completedAt, ob_updated_at := ts3 g now\<rparr>"

definition transition_occurrence ::
  "pg \<Rightarrow> string \<Rightarrow> DispatchWork \<Rightarrow> DispatchResult \<Rightarrow> instant \<Rightarrow> instant \<Rightarrow> occurrence_row \<Rightarrow> occurrence_row" where
  "transition_occurrence g status work result completedAt now r =
     r\<lparr>oc_status := status, oc_outcome_code := nullableString (r_Code result),
       oc_attempt_count := w_AttemptCount work, oc_last_http_status := nullableStatus (r_Status result),
       oc_last_error_code := nullableString (r_Code result),
       oc_last_error_message := nullableString (result_message result),
       oc_completed_at := completed_param g completedAt, oc_updated_at := ts3 g now\<rparr>"

definition transitionDispatch ::
  "pg \<Rightarrow> DispatchWork \<Rightarrow> string \<Rightarrow> string \<Rightarrow> string \<Rightarrow> DispatchResult \<Rightarrow> instant \<Rightarrow> instant \<Rightarrow> instant \<Rightarrow> unit tx" where
  "transitionDispatch g work workerID outboxStatus occurrenceStatus result nextAttemptAt completedAt now d =
     (let p = transition_where work workerID;
          q = occurrence_where (w_TenantID work) (w_OccurrenceID work)
      in if \<not> list_all pg_text [w_TenantID work, workerID, r_Code result, result_message result] then Inl bad_text
         else case upd_checked ck_outbox p
                (transition_set g outboxStatus result nextAttemptAt completedAt now) (outbox d) of
           Inl e \<Rightarrow> Inl e
         | Inr rows \<Rightarrow>
             if affected p (outbox d) \<noteq> 1 then Inl ErrClaimLost
             else case upd_checked ck_occurrence q
                    (transition_occurrence g occurrenceStatus work result completedAt now) (occurrences d) of
               Inl e \<Rightarrow> Inl e
             | Inr occurrences' \<Rightarrow>
                 if affected q (occurrences d) \<noteq> 1 then Inl ErrClaimLost
                 else Inr ((), d\<lparr>outbox := rows, occurrences := occurrences'\<rparr>))"

definition messageError :: "string \<Rightarrow> goerr option" where
  "messageError message = (if message = [] then None else Some (ErrDriver message))"

definition DeferDispatch ::
  "pg \<Rightarrow> DispatchWork \<Rightarrow> string \<Rightarrow> instant \<Rightarrow> string \<Rightarrow> string \<Rightarrow> instant \<Rightarrow> unit tx" where
  "DeferDispatch g work workerID nextAttemptAt code message now =
     transitionDispatch g work workerID OutboxRetrying OccurrenceRetrying
       (zeroResult\<lparr>r_Code := code, r_Err := messageError message\<rparr>) nextAttemptAt 0 now"

definition CompleteDispatch :: "pg \<Rightarrow> DispatchWork \<Rightarrow> string \<Rightarrow> DispatchResult \<Rightarrow> instant \<Rightarrow> unit tx" where
  "CompleteDispatch g work workerID result now =
     transitionDispatch g work workerID OutboxSucceeded OccurrenceSucceeded result now now now"

definition RetryDispatch ::
  "pg \<Rightarrow> DispatchWork \<Rightarrow> string \<Rightarrow> DispatchResult \<Rightarrow> instant \<Rightarrow> instant \<Rightarrow> unit tx" where
  "RetryDispatch g work workerID result nextAttemptAt now =
     transitionDispatch g work workerID OutboxRetrying OccurrenceRetrying result nextAttemptAt 0 now"

definition FailDispatch :: "pg \<Rightarrow> DispatchWork \<Rightarrow> string \<Rightarrow> DispatchResult \<Rightarrow> instant \<Rightarrow> unit tx" where
  "FailDispatch g work workerID result now =
     transitionDispatch g work workerID OutboxFailed OccurrenceFailed result now now now"

end
