(* ===== verification/Invariants.thy ===== *)
theory Invariants
  imports Outbox
begin

text \<open>
  The invariants of the database and that every statement keeps them: the keys are unique
  and every row satisfies its constraints (\<open>db_wf\<close>), and outbox and occurrences agree
  (\<open>linked\<close>): every outbox row has its occurrence with a matching status, and every occurrence
  that was not skipped has its outbox row.
\<close>

section \<open>Keys and constraints\<close>

definition schedule_key :: "schedule_row \<Rightarrow> string \<times> string" where
  "schedule_key r = (sc_tenant_id r, sc_name r)"

definition occurrence_key :: "occurrence_row \<Rightarrow> string \<times> string \<times> instant" where
  "occurrence_key r = (oc_tenant_id r, oc_schedule_id r, oc_scheduled_at r)"

definition outbox_key :: "outbox_row \<Rightarrow> string \<times> string" where
  "outbox_key r = (ob_tenant_id r, ob_occurrence_id r)"

definition receipt_key3 :: "receipt_row \<Rightarrow> string \<times> string \<times> string" where
  "receipt_key3 r = (re_tenant_id r, re_command_scope r, re_idempotency_key r)"

lemmas key_defs = schedule_key_def occurrence_key_def outbox_key_def receipt_key3_def

definition schedules_wf :: "schedule_row list \<Rightarrow> bool" where
  "schedules_wf rows \<longleftrightarrow>
     distinct (map sc_id rows) \<and> distinct (map schedule_key rows) \<and> list_all ck_schedule rows"

definition occurrences_wf :: "occurrence_row list \<Rightarrow> bool" where
  "occurrences_wf rows \<longleftrightarrow>
     distinct (map oc_id rows) \<and> distinct (map occurrence_key rows) \<and> list_all ck_occurrence rows"

definition receipts_wf :: "receipt_row list \<Rightarrow> bool" where
  "receipts_wf rows \<longleftrightarrow>
     distinct (map re_id rows) \<and> distinct (map receipt_key3 rows) \<and> list_all ck_receipt rows"

definition outbox_wf :: "outbox_row list \<Rightarrow> bool" where
  "outbox_wf rows \<longleftrightarrow>
     distinct (map ob_id rows) \<and> distinct (map outbox_key rows) \<and> list_all ck_outbox rows"

definition db_wf :: "db \<Rightarrow> bool" where
  "db_wf d \<longleftrightarrow> schedules_wf (schedules d) \<and> occurrences_wf (occurrences d)
     \<and> receipts_wf (receipts d) \<and> outbox_wf (outbox d)"

lemmas table_wf_defs = schedules_wf_def occurrences_wf_def receipts_wf_def outbox_wf_def

lemma db_wf_empty: "db_wf empty_db"
  by (simp add: db_wf_def table_wf_defs empty_db_def)

text \<open>A checked update of columns outside the keys keeps a table well-formed.\<close>

lemma upd_checked_Inr:
  "upd_checked ck p f rows = Inr rows' \<longleftrightarrow> rows' = upd p f rows \<and> (\<forall>r \<in> set rows. p r \<longrightarrow> ck (f r))"
  by (auto simp: upd_checked_def list_all_iff)

lemma upd_checked_wf:
  assumes "upd_checked ck p f rows = Inr rows'"
    and "distinct (map i rows) \<and> distinct (map k rows) \<and> list_all ck rows"
    and "\<And>r. i (f r) = i r" and "\<And>r. k (f r) = k r"
  shows "distinct (map i rows') \<and> distinct (map k rows') \<and> list_all ck rows'"
proof -
  have r: "rows' = upd p f rows" and c: "\<forall>r \<in> set rows. p r \<longrightarrow> ck (f r)"
    using assms(1) by (simp_all add: upd_checked_Inr)
  have "map i rows' = map i rows" "map k rows' = map k rows"
    unfolding r by (simp_all add: map_upd_key assms(3,4))
  moreover have "list_all ck rows'"
    using assms(2) c unfolding r list_all_iff by (auto simp: in_upd_iff)
  ultimately show ?thesis using assms(2) by simp
qed

lemma affected_1_unique:
  assumes "affected p rows = 1"
  obtains r where "r \<in> set rows" and "p r" and "\<And>x. x \<in> set rows \<Longrightarrow> p x \<Longrightarrow> x = r"
proof -
  obtain r where r: "filter p rows = [r]"
    using assms by (auto simp: affected_def length_Suc_conv)
  then have "set (filter p rows) = {r}" by simp
  then show thesis by (intro that [of r]) auto
qed

section \<open>Shapes of the statements\<close>

lemma CreateSchedule_Inr:
  assumes "CreateSchedule g s d = Inr (created, d')"
  obtains row payload where "jsonb g (s_Payload s) = Some payload"
    and "row = new_schedule g s payload (uuid_seq d)" and "ck_schedule row"
    and "\<not> list_ex (by_name (s_TenantID s) (s_Name s)) (schedules d)"
    and "\<not> list_ex (\<lambda>r. sc_id r = sc_id row) (schedules d)"
    and "created = scanSchedule row"
    and "d' = d\<lparr>schedules := schedules d @ [row], uuid_seq := Suc (uuid_seq d)\<rparr>"
  using assms by (simp add: CreateSchedule_def Let_def split: option.splits if_splits)

lemma update_returning_Inr:
  "update_returning p f d = Inr (u, d') \<longleftrightarrow>
     u = map_option (\<lambda>r. scanSchedule (f r)) (find p (schedules d)) \<and>
     d' = d\<lparr>schedules := upd p f (schedules d)\<rparr> \<and> (\<forall>r \<in> set (schedules d). p r \<longrightarrow> ck_schedule (f r))"
  by (auto simp: update_returning_def upd_checked_Inr split: sum.splits)
    (auto simp: upd_checked_def list_all_iff split: if_splits)

lemma UpdateSchedule_Inr:
  assumes "UpdateSchedule g current s d = Inr (updated, d')"
  obtains row payload where "jsonb g (s_Payload s) = Some payload"
    and "row \<in> set (schedules d)" and "update_where current s row"
    and "updated = scanSchedule (update_set g s payload row)"
    and "upd_checked ck_schedule (update_where current s) (update_set g s payload) (schedules d)
           = Inr (schedules d')"
    and "d' = d\<lparr>schedules := schedules d'\<rparr>"
  using assms
  by (auto simp: UpdateSchedule_def update_returning_def GetSchedule_def
      dest: find_Some_in split: option.splits sum.splits if_splits prod.splits)

lemma SetScheduleStatus_Inr:
  assumes "SetScheduleStatus g current status nextDueAt now d = Inr (updated, d')"
  obtains row where "row \<in> set (schedules d)" and "status_where current row"
    and "updated = scanSchedule (status_set g status nextDueAt now row)"
    and "upd_checked ck_schedule (status_where current) (status_set g status nextDueAt now) (schedules d)
           = Inr (schedules d')"
    and "d' = d\<lparr>schedules := schedules d'\<rparr>"
  using assms
  by (auto simp: SetScheduleStatus_def update_returning_def GetSchedule_def
      dest: find_Some_in split: option.splits sum.splits if_splits prod.splits)

lemma DeleteSchedule_Inr:
  "DeleteSchedule tenantID name d = Inr (u, d') \<longleftrightarrow>
     list_all pg_text [tenantID, name] \<and> list_ex (by_name tenantID name) (schedules d) \<and>
     d' = d\<lparr>schedules := filter (\<lambda>r. \<not> by_name tenantID name r) (schedules d)\<rparr>"
  by (auto simp: DeleteSchedule_def)

lemma GetSchedule_Inr:
  "GetSchedule tenantID name d = Inr (s, d') \<longleftrightarrow>
     list_all pg_text [tenantID, name] \<and> d' = d \<and>
     (\<exists>r. find (by_name tenantID name) (schedules d) = Some r \<and> s = scanSchedule r)"
  by (auto simp: GetSchedule_def split: option.splits)

lemma InsertOccurrence_Inr:
  assumes "InsertOccurrence g s plan d = Inr (x, d')"
  obtains (exists) "x = None" "d' = d" "list_ex (same_occurrence (new_occurrence g s plan (uuid_seq d))) (occurrences d)"
  | (inserted) row where "row = new_occurrence g s plan (uuid_seq d)" "x = Some (oc_id row)"
      "ck_occurrence row" "\<not> list_ex (same_occurrence row) (occurrences d)"
      "\<not> list_ex (\<lambda>r. oc_id r = oc_id row) (occurrences d)"
      "d' = d\<lparr>occurrences := occurrences d @ [row], uuid_seq := Suc (uuid_seq d)\<rparr>"
  using assms by (simp add: InsertOccurrence_def Let_def split: if_splits)

lemma InsertDispatchOutbox_Inr:
  assumes "InsertDispatchOutbox g s occurrenceID plan d = Inr (u, d')"
  obtains (exists) "d' = d"
      "list_ex (\<lambda>r. ob_tenant_id r = s_TenantID s \<and> ob_occurrence_id r = occurrenceID) (outbox d)"
  | (inserted) row payload where "jsonb g (s_Payload s) = Some payload"
      "row = new_outbox g s occurrenceID plan payload (uuid_seq d)" "ck_outbox row"
      "\<not> list_ex (\<lambda>r. ob_tenant_id r = s_TenantID s \<and> ob_occurrence_id r = occurrenceID) (outbox d)"
      "\<not> list_ex (\<lambda>r. ob_id r = ob_id row) (outbox d)"
      "d' = d\<lparr>outbox := outbox d @ [row], uuid_seq := Suc (uuid_seq d)\<rparr>"
proof -
  obtain payload where p: "jsonb g (s_Payload s) = Some payload"
    using assms by (auto simp: InsertDispatchOutbox_def split: option.splits)
  have t: "ob_tenant_id (new_outbox g s occurrenceID plan payload (uuid_seq d)) = s_TenantID s"
    by (simp add: new_outbox_def)
  show thesis
    using assms p t that by (auto simp: InsertDispatchOutbox_def Let_def split: if_splits)
qed

lemma AdvanceSchedule_Inr:
  assumes "AdvanceSchedule g s workerID nextDueAt now d = Inr (u, d')"
  shows "affected (advance_where s workerID) (schedules d) = 1"
    and "upd_checked ck_schedule (advance_where s workerID) (advance_set g nextDueAt now) (schedules d)
          = Inr (schedules d')"
    and "d' = d\<lparr>schedules := schedules d'\<rparr>"
  using assms by (auto simp: AdvanceSchedule_def split: sum.splits if_splits)

lemma ReleaseScheduleClaim_Inr:
  assumes "ReleaseScheduleClaim g s workerID now d = Inr (u, d')"
  shows "affected (release_where s workerID) (schedules d) = 1"
    and "upd_checked ck_schedule (release_where s workerID) (release_set g now) (schedules d)
          = Inr (schedules d')"
    and "d' = d\<lparr>schedules := schedules d'\<rparr>"
  using assms by (auto simp: ReleaseScheduleClaim_def split: sum.splits if_splits)

lemma ClaimDueSchedules_Inr:
  assumes "ClaimDueSchedules g locked now workerID claimExpiresAt limit d = Inr (claimed, d')"
  shows "upd_checked ck_schedule (\<lambda>r. sc_id r \<in> set (map sc_id (due_candidates locked now limit (schedules d))))
      (claim_set g now workerID claimExpiresAt) (schedules d) = Inr (schedules d')"
    and "claimed = map (\<lambda>r. scanSchedule (claim_set g now workerID claimExpiresAt r))
      (filter (\<lambda>r. sc_id r \<in> set (map sc_id (due_candidates locked now limit (schedules d)))) (schedules d))"
    and "d' = d\<lparr>schedules := schedules d'\<rparr>"
  using assms by (auto simp: ClaimDueSchedules_def Let_def split: sum.splits)

lemma InsertCommandReceipt_Inr:
  assumes "InsertCommandReceipt g receipt d = Inr (u, d')"
  obtains row body where "result_jsonb g (rc_Result receipt) = Some body"
    and "row = new_receipt g receipt body (uuid_seq d)" and "ck_receipt row"
    and "\<forall>r \<in> set (receipts d). re_id r \<noteq> re_id row \<and>
      \<not> receipt_key (rc_TenantID receipt) (rc_CommandScope receipt) (rc_IdempotencyKey receipt) r"
    and "d' = d\<lparr>receipts := receipts d @ [row], uuid_seq := Suc (uuid_seq d)\<rparr>"
  using assms
  by (simp add: InsertCommandReceipt_def Let_def list_all_iff split: option.splits if_splits)

lemma RecoverExhaustedDispatches_Inr:
  assumes "RecoverExhaustedDispatches g now d = Inr (u, d')"
  shows "upd_checked ck_outbox (exhausted_where now) (exhausted_set g now) (outbox d) = Inr (outbox d')"
    and "upd_checked ck_occurrence (\<lambda>r. list_ex (\<lambda>b. occurrence_of b r) (filter (exhausted_where now) (outbox d)))
      (recovered_occurrence g now (filter (exhausted_where now) (outbox d))) (occurrences d) = Inr (occurrences d')"
    and "d' = d\<lparr>outbox := outbox d', occurrences := occurrences d'\<rparr>"
  using assms by (auto simp: RecoverExhaustedDispatches_def Let_def split: sum.splits)

lemma ClaimDispatches_Inr:
  assumes "ClaimDispatches g locked now workerID claimExpiresAt limit d = Inr (claimed, d')"
  shows "upd_checked ck_outbox (\<lambda>r. ob_id r \<in> set (map ob_id (ready_candidates locked now limit (outbox d))))
      (dispatch_claim_set g now workerID claimExpiresAt) (outbox d) = Inr (outbox d')"
    and "claimed = map (\<lambda>r. scanDispatch (dispatch_claim_set g now workerID claimExpiresAt r))
      (filter (\<lambda>r. ob_id r \<in> set (map ob_id (ready_candidates locked now limit (outbox d)))) (outbox d))"
    and "d' = d\<lparr>outbox := outbox d'\<rparr>"
  using assms by (auto simp: ClaimDispatches_def Let_def split: sum.splits)

lemma BeginDispatch_Inr:
  assumes "BeginDispatch g work workerID now d = Inr (started, d')"
  obtains row where "find (begin_where work workerID now) (outbox d) = Some row"
    and "started = scanDispatch (begin_set g now row)"
    and "upd_checked ck_outbox (begin_where work workerID now) (begin_set g now) (outbox d) = Inr (outbox d')"
    and "upd_checked ck_occurrence (occurrence_of row) (begin_occurrence g (ob_attempt_count row + 1) now) (occurrences d)
           = Inr (occurrences d')"
    and "affected (occurrence_of row) (occurrences d) = 1"
    and "d' = d\<lparr>outbox := outbox d', occurrences := occurrences d'\<rparr>"
proof -
  have q: "occurrence_where (w_TenantID (scanDispatch (begin_set g now r))) (w_OccurrenceID (scanDispatch (begin_set g now r)))
      = occurrence_of r" for r
    by (rule ext) (simp add: occurrence_where_def occurrence_of_def scanDispatch_def begin_set_def)
  have c: "w_AttemptCount (scanDispatch (begin_set g now r)) = ob_attempt_count r + 1" for r
    by (simp add: scanDispatch_def begin_set_def)
  show thesis
    using assms that by (auto simp: BeginDispatch_def Let_def q c split: sum.splits option.splits if_splits)
qed

lemma transitionDispatch_Inr:
  assumes "transitionDispatch g work workerID st ost result nextAt doneAt now d = Inr (u, d')"
  shows "affected (transition_where work workerID) (outbox d) = 1"
    and "affected (occurrence_where (w_TenantID work) (w_OccurrenceID work)) (occurrences d) = 1"
    and "upd_checked ck_outbox (transition_where work workerID) (transition_set g st result nextAt doneAt now) (outbox d)
          = Inr (outbox d')"
    and "upd_checked ck_occurrence (occurrence_where (w_TenantID work) (w_OccurrenceID work))
          (transition_occurrence g ost work result doneAt now) (occurrences d) = Inr (occurrences d')"
    and "d' = d\<lparr>outbox := outbox d', occurrences := occurrences d'\<rparr>"
  using assms by (auto simp: transitionDispatch_def Let_def split: sum.splits if_splits)

section \<open>Every statement keeps the tables well-formed\<close>

text \<open>No statement writes an id or a key column.\<close>

lemma schedule_sets_keys [simp]:
  "sc_id (update_set g s payload r) = sc_id r" "schedule_key (update_set g s payload r) = schedule_key r"
  "sc_id (status_set g st due now r) = sc_id r" "schedule_key (status_set g st due now r) = schedule_key r"
  "sc_id (claim_set g now w e r) = sc_id r" "schedule_key (claim_set g now w e r) = schedule_key r"
  "sc_id (advance_set g due now r) = sc_id r" "schedule_key (advance_set g due now r) = schedule_key r"
  "sc_id (release_set g now r) = sc_id r" "schedule_key (release_set g now r) = schedule_key r"
  by (simp_all add: schedule_key_def update_set_def status_set_def claim_set_def advance_set_def release_set_def)

lemma outbox_sets_keys [simp]:
  "ob_id (exhausted_set g now r) = ob_id r" "outbox_key (exhausted_set g now r) = outbox_key r"
  "ob_id (dispatch_claim_set g now w e r) = ob_id r" "outbox_key (dispatch_claim_set g now w e r) = outbox_key r"
  "ob_id (begin_set g now r) = ob_id r" "outbox_key (begin_set g now r) = outbox_key r"
  "ob_id (transition_set g st result nx dn now r) = ob_id r"
  "outbox_key (transition_set g st result nx dn now r) = outbox_key r"
  by (simp_all add: outbox_key_def exhausted_set_def dispatch_claim_set_def begin_set_def transition_set_def)

lemma occurrence_sets_keys [simp]:
  "oc_id (begin_occurrence g n now r) = oc_id r"
  "occurrence_key (begin_occurrence g n now r) = occurrence_key r"
  "oc_id (transition_occurrence g st work result dn now r) = oc_id r"
  "occurrence_key (transition_occurrence g st work result dn now r) = occurrence_key r"
  "oc_id (recovered_occurrence g now bs r) = oc_id r"
  "occurrence_key (recovered_occurrence g now bs r) = occurrence_key r"
  by (simp_all add: occurrence_key_def begin_occurrence_def transition_occurrence_def
      recovered_occurrence_def split: option.splits)

lemma schedules_wf_upd:
  assumes "upd_checked ck_schedule p f rows = Inr rows'" and "schedules_wf rows"
    and "\<And>r. sc_id (f r) = sc_id r" and "\<And>r. schedule_key (f r) = schedule_key r"
  shows "schedules_wf rows'"
  using upd_checked_wf [OF assms(1), of sc_id schedule_key] assms(2-4) by (simp add: schedules_wf_def)

lemma outbox_wf_upd:
  assumes "upd_checked ck_outbox p f rows = Inr rows'" and "outbox_wf rows"
    and "\<And>r. ob_id (f r) = ob_id r" and "\<And>r. outbox_key (f r) = outbox_key r"
  shows "outbox_wf rows'"
  using upd_checked_wf [OF assms(1), of ob_id outbox_key] assms(2-4) by (simp add: outbox_wf_def)

lemma occurrences_wf_upd:
  assumes "upd_checked ck_occurrence p f rows = Inr rows'" and "occurrences_wf rows"
    and "\<And>r. oc_id (f r) = oc_id r" and "\<And>r. occurrence_key (f r) = occurrence_key r"
  shows "occurrences_wf rows'"
  using upd_checked_wf [OF assms(1), of oc_id occurrence_key] assms(2-4) by (simp add: occurrences_wf_def)

lemma db_wf_schedules:
  assumes "db_wf d" and "d' = d\<lparr>schedules := schedules d'\<rparr>" and "schedules_wf (schedules d')"
  shows "db_wf d'"
proof -
  have "occurrences d' = occurrences d \<and> receipts d' = receipts d \<and> outbox d' = outbox d"
    by (subst (1 2 3) assms(2)) simp
  with assms show ?thesis by (simp add: db_wf_def)
qed

lemma db_wf_dispatch:
  assumes "db_wf d" and "d' = d\<lparr>outbox := outbox d', occurrences := occurrences d'\<rparr>"
    and "outbox_wf (outbox d')" and "occurrences_wf (occurrences d')"
  shows "db_wf d'"
proof -
  have "schedules d' = schedules d \<and> receipts d' = receipts d"
    by (subst (1 2) assms(2)) simp
  with assms show ?thesis by (simp add: db_wf_def)
qed

lemma CreateSchedule_wf: "CreateSchedule g s d = Inr (x, d') \<Longrightarrow> db_wf d \<Longrightarrow> db_wf d'"
  by (erule CreateSchedule_Inr)
    (auto simp: db_wf_def schedules_wf_def schedule_key_def by_name_def new_schedule_def list_ex_iff)

lemma UpdateSchedule_wf: "UpdateSchedule g current s d = Inr (x, d') \<Longrightarrow> db_wf d \<Longrightarrow> db_wf d'"
  by (erule UpdateSchedule_Inr, rule db_wf_schedules) (auto simp: db_wf_def intro: schedules_wf_upd)

lemma SetScheduleStatus_wf: "SetScheduleStatus g c st due now d = Inr (x, d') \<Longrightarrow> db_wf d \<Longrightarrow> db_wf d'"
  by (erule SetScheduleStatus_Inr, rule db_wf_schedules) (auto simp: db_wf_def intro: schedules_wf_upd)

lemma DeleteSchedule_wf: "DeleteSchedule t n d = Inr (x, d') \<Longrightarrow> db_wf d \<Longrightarrow> db_wf d'"
  by (auto simp: DeleteSchedule_Inr db_wf_def schedules_wf_def list_all_iff intro: distinct_map_filter)

lemma ClaimDueSchedules_wf:
  assumes "ClaimDueSchedules g locked now w e limit d = Inr (x, d')" and "db_wf d"
  shows "db_wf d'"
  using assms(2) ClaimDueSchedules_Inr(3) [OF assms(1)]
proof (rule db_wf_schedules)
  show "schedules_wf (schedules d')"
    using schedules_wf_upd [OF ClaimDueSchedules_Inr(1) [OF assms(1)]] assms(2) by (simp add: db_wf_def)
qed

lemma AdvanceSchedule_wf:
  assumes "AdvanceSchedule g s w due now d = Inr (x, d')" and "db_wf d"
  shows "db_wf d'"
  using assms(2) AdvanceSchedule_Inr(3) [OF assms(1)]
proof (rule db_wf_schedules)
  show "schedules_wf (schedules d')"
    using schedules_wf_upd [OF AdvanceSchedule_Inr(2) [OF assms(1)]] assms(2) by (simp add: db_wf_def)
qed

lemma ReleaseScheduleClaim_wf:
  assumes "ReleaseScheduleClaim g s w now d = Inr (x, d')" and "db_wf d"
  shows "db_wf d'"
  using assms(2) ReleaseScheduleClaim_Inr(3) [OF assms(1)]
proof (rule db_wf_schedules)
  show "schedules_wf (schedules d')"
    using schedules_wf_upd [OF ReleaseScheduleClaim_Inr(2) [OF assms(1)]] assms(2) by (simp add: db_wf_def)
qed

lemma InsertCommandReceipt_wf: "InsertCommandReceipt g r d = Inr (x, d') \<Longrightarrow> db_wf d \<Longrightarrow> db_wf d'"
  by (erule InsertCommandReceipt_Inr)
    (auto simp: db_wf_def receipts_wf_def receipt_key3_def receipt_key_def new_receipt_def)

lemma InsertOccurrence_wf: "InsertOccurrence g s plan d = Inr (x, d') \<Longrightarrow> db_wf d \<Longrightarrow> db_wf d'"
  by (erule InsertOccurrence_Inr)
    (auto simp: db_wf_def occurrences_wf_def occurrence_key_def same_occurrence_def list_ex_iff)

lemma InsertDispatchOutbox_wf: "InsertDispatchOutbox g s i plan d = Inr (x, d') \<Longrightarrow> db_wf d \<Longrightarrow> db_wf d'"
  by (erule InsertDispatchOutbox_Inr)
    (auto simp: db_wf_def outbox_wf_def outbox_key_def new_outbox_def list_ex_iff)

lemma RecoverExhaustedDispatches_wf:
  assumes "RecoverExhaustedDispatches g now d = Inr (x, d')" and "db_wf d"
  shows "db_wf d'"
  using assms(2) RecoverExhaustedDispatches_Inr(3) [OF assms(1)]
proof (rule db_wf_dispatch)
  show "outbox_wf (outbox d')"
    using outbox_wf_upd [OF RecoverExhaustedDispatches_Inr(1) [OF assms(1)]] assms(2) by (simp add: db_wf_def)
  show "occurrences_wf (occurrences d')"
    using occurrences_wf_upd [OF RecoverExhaustedDispatches_Inr(2) [OF assms(1)]] assms(2) by (simp add: db_wf_def)
qed

lemma ClaimDispatches_wf:
  assumes "ClaimDispatches g locked now w e limit d = Inr (x, d')" and "db_wf d"
  shows "db_wf d'"
proof -
  have "outbox_wf (outbox d')"
    using outbox_wf_upd [OF ClaimDispatches_Inr(1) [OF assms(1)]] assms(2) by (simp add: db_wf_def)
  moreover have "schedules d' = schedules d \<and> occurrences d' = occurrences d \<and> receipts d' = receipts d"
    by (subst (1 2 3) ClaimDispatches_Inr(3) [OF assms(1)]) simp
  ultimately show ?thesis using assms(2) by (simp add: db_wf_def)
qed

lemma BeginDispatch_wf: "BeginDispatch g work w now d = Inr (x, d') \<Longrightarrow> db_wf d \<Longrightarrow> db_wf d'"
  by (erule BeginDispatch_Inr, rule db_wf_dispatch)
    (auto simp: db_wf_def intro: outbox_wf_upd occurrences_wf_upd)

lemma transitionDispatch_wf:
  assumes "transitionDispatch g work w st ost result nx dn now d = Inr (x, d')" and "db_wf d"
  shows "db_wf d'"
  using assms(2) transitionDispatch_Inr(5) [OF assms(1)]
proof (rule db_wf_dispatch)
  show "outbox_wf (outbox d')"
    using outbox_wf_upd [OF transitionDispatch_Inr(3) [OF assms(1)]] assms(2) by (simp add: db_wf_def)
  show "occurrences_wf (occurrences d')"
    using occurrences_wf_upd [OF transitionDispatch_Inr(4) [OF assms(1)]] assms(2) by (simp add: db_wf_def)
qed

text \<open>A transaction keeps what its function keeps, whatever the connection does.\<close>

lemma WithinTx_cases:
  assumes "WithinTx fault run d = (r, d')"
  obtains (rolled_back) e where "r = Inl e" "d' = d"
  | (committed) a where "run d = Inr (a, d')" "r = Inr a \<or> (\<exists>e. r = Inl e \<and> fault = AckLost e)"
  using assms by (auto simp: WithinTx_def split: tx_fault.splits sum.splits)

lemma WithinTx_keeps:
  assumes "\<And>a d'. run d = Inr (a, d') \<Longrightarrow> P d'" and "P d"
  shows "P (snd (WithinTx fault run d))"
  using assms by (auto simp: WithinTx_def split: tx_fault.splits sum.splits)

end
