(* ===== verification/Links.thy ===== *)
theory Links
  imports Invariants
begin

text \<open>
  Outbox and occurrences agree. Every outbox row belongs to an occurrence of the same
  schedule and instant whose status matches it, and every occurrence that was not skipped
  has an outbox row: no occurrence is left open without work that will close it.
\<close>

section \<open>The invariant\<close>

definition status_link :: "string \<Rightarrow> string \<Rightarrow> bool" where
  "status_link b r \<longleftrightarrow>
     (if b = ''dispatching'' then occurrence_open r else r = b)"

definition link :: "outbox_row \<Rightarrow> occurrence_row \<Rightarrow> bool" where
  "link b r \<longleftrightarrow> occurrence_of b r \<and> oc_schedule_id r = ob_schedule_id b
     \<and> oc_schedule_name r = ob_schedule_name b \<and> oc_scheduled_at r = ob_scheduled_at b"

definition linked :: "db \<Rightarrow> bool" where
  "linked d \<longleftrightarrow>
     (\<forall>b \<in> set (outbox d). \<exists>r \<in> set (occurrences d). link b r \<and> status_link (ob_status b) (oc_status r)) \<and>
     (\<forall>r \<in> set (occurrences d). oc_status r \<noteq> ''skipped'' \<longrightarrow> (\<exists>b \<in> set (outbox d). occurrence_of b r))"

text \<open>The columns that no update of a dispatch writes.\<close>

definition outbox_identity :: "outbox_row \<Rightarrow> outbox_row \<Rightarrow> bool" where
  "outbox_identity b b' \<longleftrightarrow> ob_id b' = ob_id b \<and> ob_tenant_id b' = ob_tenant_id b
     \<and> ob_occurrence_id b' = ob_occurrence_id b \<and> ob_schedule_id b' = ob_schedule_id b
     \<and> ob_schedule_name b' = ob_schedule_name b \<and> ob_scheduled_at b' = ob_scheduled_at b
     \<and> ob_target_url b' = ob_target_url b \<and> ob_target_method b' = ob_target_method b
     \<and> ob_payload b' = ob_payload b \<and> ob_retry b' = ob_retry b"

definition occurrence_identity :: "occurrence_row \<Rightarrow> occurrence_row \<Rightarrow> bool" where
  "occurrence_identity r r' \<longleftrightarrow> oc_id r' = oc_id r \<and> oc_tenant_id r' = oc_tenant_id r
     \<and> oc_schedule_id r' = oc_schedule_id r \<and> oc_schedule_name r' = oc_schedule_name r
     \<and> oc_scheduled_at r' = oc_scheduled_at r"

lemma outbox_sets_identity [simp]:
  "outbox_identity r (exhausted_set g now r)"
  "outbox_identity r (dispatch_claim_set g now w e r)"
  "outbox_identity r (begin_set g now r)"
  "outbox_identity r (transition_set g st result nx dn now r)"
  "outbox_identity r r"
  by (simp_all add: outbox_identity_def exhausted_set_def dispatch_claim_set_def begin_set_def
      transition_set_def)

lemma occurrence_sets_identity [simp]:
  "occurrence_identity r (begin_occurrence g n now r)"
  "occurrence_identity r (transition_occurrence g st work result dn now r)"
  "occurrence_identity r (recovered_occurrence g now bs r)"
  "occurrence_identity r r"
  by (simp_all add: occurrence_identity_def begin_occurrence_def transition_occurrence_def
      recovered_occurrence_def split: option.splits)

lemma link_identity:
  "outbox_identity b b' \<Longrightarrow> occurrence_identity r r' \<Longrightarrow> link b' r' \<longleftrightarrow> link b r"
  "outbox_identity b b' \<Longrightarrow> occurrence_identity r r' \<Longrightarrow> occurrence_of b' r' \<longleftrightarrow> occurrence_of b r"
  by (auto simp: link_def occurrence_of_def outbox_identity_def occurrence_identity_def)

lemma link_occurrence_of: "link b r \<Longrightarrow> occurrence_of b r"
  by (simp add: link_def)

text \<open>By the unique keys an outbox row has one occurrence and an occurrence one outbox row.\<close>

lemma occurrence_of_unique:
  assumes "db_wf d" and "b \<in> set (outbox d)" "b' \<in> set (outbox d)" and "occurrence_of b r" "occurrence_of b' r"
  shows "b = b'"
  using assms distinct_map_inj [of outbox_key "outbox d" b b']
  by (auto simp: db_wf_def outbox_wf_def occurrence_of_def outbox_key_def)

lemma occurrence_of_unique':
  assumes "db_wf d" and "r \<in> set (occurrences d)" "r' \<in> set (occurrences d)" and "occurrence_of b r" "occurrence_of b r'"
  shows "r = r'"
  using assms distinct_map_inj [of oc_id "occurrences d" r r']
  by (auto simp: db_wf_def occurrences_wf_def occurrence_of_def)

section \<open>Updates of both tables\<close>

lemma linked_upd:
  assumes l: "linked d"
    and d': "outbox d' = upd p f (outbox d)" "occurrences d' = upd q h (occurrences d)"
    and f: "\<And>b. outbox_identity b (f b)" and h: "\<And>r. occurrence_identity r (h r)"
    and st: "\<And>b r. \<lbrakk>b \<in> set (outbox d); r \<in> set (occurrences d); occurrence_of b r;
        status_link (ob_status b) (oc_status r)\<rbrakk> \<Longrightarrow>
        status_link (ob_status (if p b then f b else b)) (oc_status (if q r then h r else r))"
    and sk: "\<And>r. r \<in> set (occurrences d) \<Longrightarrow> q r \<Longrightarrow> \<exists>b \<in> set (outbox d). occurrence_of b r"
  shows "linked d'"
proof -
  let ?f = "\<lambda>b. if p b then f b else b" and ?h = "\<lambda>r. if q r then h r else r"
  have idf: "outbox_identity b (?f b)" and idh: "occurrence_identity r (?h r)" for b r
    using f h by simp_all
  have so: "set (outbox d') = ?f ` set (outbox d)" and sr: "set (occurrences d') = ?h ` set (occurrences d)"
    unfolding d' upd_def by simp_all
  show ?thesis
    unfolding linked_def so sr
  proof (intro conjI ballI impI)
    fix b' assume "b' \<in> ?f ` set (outbox d)"
    then obtain b where b: "b \<in> set (outbox d)" "b' = ?f b" by blast
    with l obtain r where r: "r \<in> set (occurrences d)" "link b r" "status_link (ob_status b) (oc_status r)"
      by (auto simp: linked_def)
    have "link b' (?h r)" using link_identity(1) [OF idf idh] r(2) b(2) by simp
    moreover have "status_link (ob_status b') (oc_status (?h r))"
      using st [OF b(1) r(1) link_occurrence_of [OF r(2)] r(3)] b(2) by simp
    ultimately show "\<exists>r' \<in> ?h ` set (occurrences d). link b' r' \<and> status_link (ob_status b') (oc_status r')"
      using r(1) by blast
  next
    fix r' assume "r' \<in> ?h ` set (occurrences d)" and ns: "oc_status r' \<noteq> ''skipped''"
    then obtain r where r: "r \<in> set (occurrences d)" "r' = ?h r" by blast
    have "\<exists>b \<in> set (outbox d). occurrence_of b r"
    proof (cases "q r")
      case True
      with sk r show ?thesis by blast
    next
      case False
      with ns r l show ?thesis by (auto simp: linked_def)
    qed
    then show "\<exists>b' \<in> ?f ` set (outbox d). occurrence_of b' r'"
      using link_identity(2) [OF idf idh] r(2) by blast
  qed
qed

lemma linked_frame:
  "outbox d' = outbox d \<Longrightarrow> occurrences d' = occurrences d \<Longrightarrow> linked d' = linked d"
  by (simp add: linked_def)

section \<open>Every dispatch statement keeps the agreement\<close>

lemma RecoverExhaustedDispatches_linked:
  assumes op: "RecoverExhaustedDispatches g now d = Inr (x, d')" and wf: "db_wf d" and l: "linked d"
  shows "linked d'"
proof (rule linked_upd [OF l])
  let ?ex = "filter (exhausted_where now) (outbox d)"
  let ?q = "\<lambda>r. list_ex (\<lambda>b. occurrence_of b r) ?ex"
  show "outbox d' = upd (exhausted_where now) (exhausted_set g now) (outbox d)"
    and "occurrences d' = upd ?q (recovered_occurrence g now ?ex) (occurrences d)"
    using RecoverExhaustedDispatches_Inr(1,2) [OF op] by (simp_all add: upd_checked_Inr)
  show "\<exists>b \<in> set (outbox d). occurrence_of b r" if "?q r" for r
    using that by (auto simp: list_ex_iff)
  fix b r
  assume b: "b \<in> set (outbox d)" and r: "r \<in> set (occurrences d)" and o: "occurrence_of b r"
    and s: "status_link (ob_status b) (oc_status r)"
  have hit: "?q r \<longleftrightarrow> exhausted_where now b"
  proof
    assume "?q r"
    then obtain b' where b': "b' \<in> set (outbox d)" "exhausted_where now b'" "occurrence_of b' r"
      by (auto simp: list_ex_iff)
    have "b' = b" using occurrence_of_unique [OF wf b'(1) b b'(3) o] .
    with b' show "exhausted_where now b" by simp
  qed (use b o in \<open>auto simp: list_ex_iff\<close>)
  have fd: "exhausted_where now b \<Longrightarrow> find (\<lambda>b. occurrence_of b r) ?ex \<noteq> None"
    using b o by (auto simp: find_None_iff)
  show "status_link (ob_status (if exhausted_where now b then exhausted_set g now b else b))
      (oc_status (if ?q r then recovered_occurrence g now ?ex r else r))"
    using s fd by (auto simp: hit status_link_def exhausted_set_def recovered_occurrence_def
        split: option.splits)
qed auto

lemma claimed_open:
  assumes "db_wf d" and "b \<in> set (outbox d)"
    and "ob_id b \<in> set (map ob_id (ready_candidates locked now limit (outbox d)))"
  shows "occurrence_open (ob_status b) \<and> ob_attempt_count b < MaxAttempts (ob_retry b)"
proof -
  obtain c where c: "c \<in> set (ready_candidates locked now limit (outbox d))" "ob_id c = ob_id b"
    using assms(3) by auto
  then have "c \<in> set (filter (ready_candidate locked now) (outbox d))"
    unfolding ready_candidates_def by (auto dest!: in_set_takeD)
  moreover from this c assms have "c = b"
    using distinct_map_inj [of ob_id "outbox d" c b] by (auto simp: db_wf_def outbox_wf_def)
  ultimately show ?thesis by (auto simp: ready_candidate_def occurrence_open_def)
qed

lemma ClaimDispatches_linked:
  assumes op: "ClaimDispatches g locked now w e limit d = Inr (x, d')" and wf: "db_wf d" and l: "linked d"
  shows "linked d'"
proof (rule linked_upd [OF l])
  let ?p = "\<lambda>r. ob_id r \<in> set (map ob_id (ready_candidates locked now limit (outbox d)))"
  show "outbox d' = upd ?p (dispatch_claim_set g now w e) (outbox d)"
    using ClaimDispatches_Inr(1) [OF op] by (simp add: upd_checked_Inr)
  show "occurrences d' = upd (\<lambda>_. False) id (occurrences d)"
    by (subst ClaimDispatches_Inr(3) [OF op]) (simp add: upd_none)
  fix b r
  assume b: "b \<in> set (outbox d)" and s: "status_link (ob_status b) (oc_status r)"
  show "status_link (ob_status (if ?p b then dispatch_claim_set g now w e b else b))
      (oc_status (if False then id r else r))"
  proof (cases "?p b")
    case True
    have o: "occurrence_open (ob_status b)" using claimed_open [OF wf b True] by simp
    have "ob_status (if ?p b then dispatch_claim_set g now w e b else b) = ''dispatching''"
      unfolding if_P [OF True] by (simp add: dispatch_claim_set_def)
    with s o show ?thesis by (auto simp: status_link_def split: if_splits)
  next
    case False
    show ?thesis unfolding if_not_P [OF False] using s by simp
  qed
qed auto

lemma BeginDispatch_linked:
  assumes op: "BeginDispatch g work w now d = Inr (x, d')" and wf: "db_wf d" and l: "linked d"
  shows "linked d'"
  using op
proof (rule BeginDispatch_Inr)
  fix row
  assume row: "find (begin_where work w now) (outbox d) = Some row"
    and u: "upd_checked ck_outbox (begin_where work w now) (begin_set g now) (outbox d) = Inr (outbox d')"
      "upd_checked ck_occurrence (occurrence_of row) (begin_occurrence g (ob_attempt_count row + 1) now) (occurrences d)
           = Inr (occurrences d')"
  have in_row: "row \<in> set (outbox d)" "begin_where work w now row" using find_Some_in [OF row] by auto
  show ?thesis
  proof (rule linked_upd [OF l])
    show "outbox d' = upd (begin_where work w now) (begin_set g now) (outbox d)"
      "occurrences d' = upd (occurrence_of row) (begin_occurrence g (ob_attempt_count row + 1) now) (occurrences d)"
      using u by (simp_all add: upd_checked_Inr)
    show "\<exists>b \<in> set (outbox d). occurrence_of b r" if "occurrence_of row r" for r
      using that in_row by blast
    fix b r
    assume b: "b \<in> set (outbox d)" and o: "occurrence_of b r" and s: "status_link (ob_status b) (oc_status r)"
    have "ob_status b = ''dispatching''" if "occurrence_of row r"
      using occurrence_of_unique [OF wf b in_row(1) o that] in_row(2) by (simp add: begin_where_def)
    with s show "status_link (ob_status (if begin_where work w now b then begin_set g now b else b))
        (oc_status (if occurrence_of row r then begin_occurrence g (ob_attempt_count row + 1) now r else r))"
      by (auto simp: status_link_def begin_set_def begin_occurrence_def occurrence_open_def)
  qed auto
qed

text \<open>
  A work item in memory belongs to the outbox row with its id. Rows are never deleted and
  their identity is never written, so it stays that way.
\<close>

definition work_of :: "db \<Rightarrow> DispatchWork \<Rightarrow> bool" where
  "work_of d w \<longleftrightarrow> (\<exists>b \<in> set (outbox d). ob_id b = w_ID w \<and> ob_tenant_id b = w_TenantID w
     \<and> ob_occurrence_id b = w_OccurrenceID w \<and> ob_schedule_id b = w_ScheduleID w
     \<and> ob_schedule_name b = w_ScheduleName w \<and> NormalizeInstant (ob_scheduled_at b) = w_ScheduledAt w
     \<and> ob_target_url b = w_TargetURL w \<and> ob_target_method b = w_Method w \<and> ob_payload b = w_Payload w
     \<and> ob_retry b = w_Retry w)"

lemma transitionDispatch_linked:
  assumes op: "transitionDispatch g work w st st result nx dn now d = Inr (x, d')"
    and wf: "db_wf d" and l: "linked d" and work: "work_of d work" and st: "st \<noteq> ''dispatching''"
  shows "linked d'"
proof -
  let ?p = "transition_where work w" and ?q = "occurrence_where (w_TenantID work) (w_OccurrenceID work)"
  obtain row where row: "row \<in> set (outbox d)" "?p row"
    using transitionDispatch_Inr(1) [OF op] by (rule affected_1_unique)
  obtain c where c: "c \<in> set (outbox d)" "ob_id c = w_ID work" "ob_occurrence_id c = w_OccurrenceID work"
    using work by (auto simp: work_of_def)
  have "c = row"
    using distinct_map_inj [of ob_id "outbox d" c row] c row wf
    by (auto simp: db_wf_def outbox_wf_def transition_where_def)
  then have q: "?q r \<longleftrightarrow> occurrence_of row r" for r
    using c row(2) by (auto simp: occurrence_where_def occurrence_of_def transition_where_def)
  have p: "b \<in> set (outbox d) \<Longrightarrow> ?p b \<longleftrightarrow> b = row" for b
    using distinct_map_inj [of ob_id "outbox d" b row] row wf
    by (auto simp: db_wf_def outbox_wf_def transition_where_def)
  show ?thesis
  proof (rule linked_upd [OF l])
    show "outbox d' = upd ?p (transition_set g st result nx dn now) (outbox d)"
      "occurrences d' = upd ?q (transition_occurrence g st work result dn now) (occurrences d)"
      using transitionDispatch_Inr(3,4) [OF op] by (simp_all add: upd_checked_Inr)
    show "\<exists>b \<in> set (outbox d). occurrence_of b r" if "?q r" for r
      using that row by (auto simp: q)
    fix b r
    assume b: "b \<in> set (outbox d)" and o: "occurrence_of b r" and s: "status_link (ob_status b) (oc_status r)"
    have "?q r \<longleftrightarrow> b = row"
      unfolding q using occurrence_of_unique [OF wf b row(1) o] o by blast
    with s show "status_link (ob_status (if ?p b then transition_set g st result nx dn now b else b))
        (oc_status (if ?q r then transition_occurrence g st work result dn now r else r))"
      using st by (auto simp: p [OF b] status_link_def transition_set_def transition_occurrence_def)
  qed auto
qed

lemmas dispatch_transitions = DeferDispatch_def CompleteDispatch_def RetryDispatch_def FailDispatch_def

section \<open>What never goes away\<close>

text \<open>
  \<open>grows d d'\<close>: no outbox row and no occurrence of \<open>d\<close> is missing in \<open>d'\<close>, their identities are
  the same, attempts are not forgotten, rows in a final state have not changed at all, and
  receipts have only been appended.
\<close>

definition grows :: "db \<Rightarrow> db \<Rightarrow> bool" where
  "grows d d' \<longleftrightarrow>
     (\<forall>b \<in> set (outbox d). \<exists>b' \<in> set (outbox d'). outbox_identity b b'
        \<and> ob_attempt_count b \<le> ob_attempt_count b' \<and> (outbox_final (ob_status b) \<longrightarrow> b' = b)) \<and>
     (\<forall>r \<in> set (occurrences d). \<exists>r' \<in> set (occurrences d'). occurrence_identity r r'
        \<and> (\<not> occurrence_open (oc_status r) \<longrightarrow> r' = r)) \<and>
     (\<exists>new. receipts d' = receipts d @ new)"

lemma growsI:
  assumes "\<And>b. b \<in> set (outbox d) \<Longrightarrow> \<exists>b' \<in> set (outbox d'). outbox_identity b b'
        \<and> ob_attempt_count b \<le> ob_attempt_count b' \<and> (outbox_final (ob_status b) \<longrightarrow> b' = b)"
    and "\<And>r. r \<in> set (occurrences d) \<Longrightarrow> \<exists>r' \<in> set (occurrences d'). occurrence_identity r r'
        \<and> (\<not> occurrence_open (oc_status r) \<longrightarrow> r' = r)"
    and "\<exists>new. receipts d' = receipts d @ new"
  shows "grows d d'"
  using assms by (simp add: grows_def)

lemma growsD:
  assumes "grows d d'"
  shows "b \<in> set (outbox d) \<Longrightarrow> \<exists>b' \<in> set (outbox d'). outbox_identity b b'
        \<and> ob_attempt_count b \<le> ob_attempt_count b' \<and> (outbox_final (ob_status b) \<longrightarrow> b' = b)"
    and "r \<in> set (occurrences d) \<Longrightarrow> \<exists>r' \<in> set (occurrences d'). occurrence_identity r r'
        \<and> (\<not> occurrence_open (oc_status r) \<longrightarrow> r' = r)"
    and "\<exists>new. receipts d' = receipts d @ new"
  using assms by (simp_all add: grows_def)

lemma grows_append:
  assumes "\<exists>bs. outbox d' = outbox d @ bs" and "\<exists>rs. occurrences d' = occurrences d @ rs"
    and "\<exists>new. receipts d' = receipts d @ new"
  shows "grows d d'"
proof (rule growsI)
  show "\<exists>b' \<in> set (outbox d'). outbox_identity b b' \<and> ob_attempt_count b \<le> ob_attempt_count b'
      \<and> (outbox_final (ob_status b) \<longrightarrow> b' = b)" if "b \<in> set (outbox d)" for b
    using that assms(1) by (intro bexI [of _ b]) auto
  show "\<exists>r' \<in> set (occurrences d'). occurrence_identity r r' \<and> (\<not> occurrence_open (oc_status r) \<longrightarrow> r' = r)"
    if "r \<in> set (occurrences d)" for r
    using that assms(2) by (intro bexI [of _ r]) auto
qed (rule assms(3))

lemma grows_refl [simp]: "grows d d"
  by (rule grows_append) simp_all

lemma outbox_identity_trans: "outbox_identity a b \<Longrightarrow> outbox_identity b c \<Longrightarrow> outbox_identity a c"
  by (simp add: outbox_identity_def)

lemma occurrence_identity_trans:
  "occurrence_identity a b \<Longrightarrow> occurrence_identity b c \<Longrightarrow> occurrence_identity a c"
  by (simp add: occurrence_identity_def)

lemma grows_trans:
  assumes 1: "grows a b" and 2: "grows b c"
  shows "grows a c"
proof (rule growsI)
  fix x assume "x \<in> set (outbox a)"
  then obtain y where y: "y \<in> set (outbox b)" "outbox_identity x y" "ob_attempt_count x \<le> ob_attempt_count y"
      "outbox_final (ob_status x) \<longrightarrow> y = x"
    using growsD(1) [OF 1] by blast
  then obtain z where z: "z \<in> set (outbox c)" "outbox_identity y z" "ob_attempt_count y \<le> ob_attempt_count z"
      "outbox_final (ob_status y) \<longrightarrow> z = y"
    using growsD(1) [OF 2] by blast
  have "outbox_identity x z" using y(2) z(2) by (rule outbox_identity_trans)
  with y z show "\<exists>z \<in> set (outbox c). outbox_identity x z \<and> ob_attempt_count x \<le> ob_attempt_count z
      \<and> (outbox_final (ob_status x) \<longrightarrow> z = x)"
    by (intro bexI [of _ z]) auto
next
  fix x assume "x \<in> set (occurrences a)"
  then obtain y where y: "y \<in> set (occurrences b)" "occurrence_identity x y"
      "\<not> occurrence_open (oc_status x) \<longrightarrow> y = x"
    using growsD(2) [OF 1] by blast
  then obtain z where z: "z \<in> set (occurrences c)" "occurrence_identity y z"
      "\<not> occurrence_open (oc_status y) \<longrightarrow> z = y"
    using growsD(2) [OF 2] by blast
  have "occurrence_identity x z" using y(2) z(2) by (rule occurrence_identity_trans)
  with y z show "\<exists>z \<in> set (occurrences c). occurrence_identity x z \<and> (\<not> occurrence_open (oc_status x) \<longrightarrow> z = x)"
    by (intro bexI [of _ z]) auto
next
  show "\<exists>new. receipts c = receipts a @ new"
    using growsD(3) [OF 1] growsD(3) [OF 2] by auto
qed

lemma grows_same_dispatch:
  "outbox d' = outbox d \<Longrightarrow> occurrences d' = occurrences d \<Longrightarrow> receipts d' = receipts d \<Longrightarrow> grows d d'"
  by (rule grows_append) simp_all

lemma grows_upd:
  assumes "outbox d' = upd p f (outbox d)" and "occurrences d' = upd q h (occurrences d)"
    and "receipts d' = receipts d"
    and "\<And>b. outbox_identity b (f b)" and "\<And>r. occurrence_identity r (h r)"
    and "\<And>b. ob_attempt_count b \<le> ob_attempt_count (f b)"
    and fin: "\<And>b. b \<in> set (outbox d) \<Longrightarrow> p b \<Longrightarrow> \<not> outbox_final (ob_status b)"
    and op: "\<And>r. r \<in> set (occurrences d) \<Longrightarrow> q r \<Longrightarrow> occurrence_open (oc_status r)"
  shows "grows d d'"
proof (rule growsI)
  fix b assume b: "b \<in> set (outbox d)"
  let ?b = "if p b then f b else b"
  have "?b \<in> set (outbox d')" using b by (auto simp: assms(1) in_upd_iff)
  moreover have "outbox_identity b ?b \<and> ob_attempt_count b \<le> ob_attempt_count ?b
      \<and> (outbox_final (ob_status b) \<longrightarrow> ?b = b)"
    using assms(4,6) fin [OF b] by auto
  ultimately show "\<exists>b' \<in> set (outbox d'). outbox_identity b b'
        \<and> ob_attempt_count b \<le> ob_attempt_count b' \<and> (outbox_final (ob_status b) \<longrightarrow> b' = b)" by blast
next
  fix r assume r: "r \<in> set (occurrences d)"
  let ?r = "if q r then h r else r"
  have "?r \<in> set (occurrences d')" using r by (auto simp: assms(2) in_upd_iff)
  moreover have "occurrence_identity r ?r \<and> (\<not> occurrence_open (oc_status r) \<longrightarrow> ?r = r)"
    using assms(5) op [OF r] by auto
  ultimately show "\<exists>r' \<in> set (occurrences d'). occurrence_identity r r'
        \<and> (\<not> occurrence_open (oc_status r) \<longrightarrow> r' = r)" by blast
qed (use assms(3) in simp)

lemma work_of_grows: "work_of d w \<Longrightarrow> grows d d' \<Longrightarrow> work_of d' w"
  unfolding work_of_def by (elim bexE, frule (1) growsD(1)) (auto simp: outbox_identity_def)

lemma linked_open:
  assumes "linked d" and "db_wf d" and "b \<in> set (outbox d)" and "ob_status b = ''dispatching''"
    and "r \<in> set (occurrences d)" and "occurrence_of b r"
  shows "occurrence_open (oc_status r)"
proof -
  obtain r' where "r' \<in> set (occurrences d)" "link b r'" "status_link (ob_status b) (oc_status r')"
    using assms(1,3) by (auto simp: linked_def)
  with assms occurrence_of_unique' [OF assms(2,5), of r' b] show ?thesis
    by (auto simp: status_link_def dest: link_occurrence_of)
qed

lemma dispatching_not_final [simp]: "\<not> outbox_final ''dispatching''"
  by (simp add: outbox_final_def)

lemma RecoverExhaustedDispatches_grows:
  assumes op: "RecoverExhaustedDispatches g now d = Inr (x, d')" and wf: "db_wf d" and l: "linked d"
  shows "grows d d'"
proof (rule grows_upd)
  let ?ex = "filter (exhausted_where now) (outbox d)"
  show "outbox d' = upd (exhausted_where now) (exhausted_set g now) (outbox d)"
    and "occurrences d' = upd (\<lambda>r. list_ex (\<lambda>b. occurrence_of b r) ?ex) (recovered_occurrence g now ?ex) (occurrences d)"
    using RecoverExhaustedDispatches_Inr(1,2) [OF op] by (simp_all add: upd_checked_Inr)
  show "receipts d' = receipts d" by (subst RecoverExhaustedDispatches_Inr(3) [OF op]) simp
  show "ob_attempt_count b \<le> ob_attempt_count (exhausted_set g now b)" for b by (simp add: exhausted_set_def)
  show "\<not> outbox_final (ob_status b)" if "exhausted_where now b" for b
    using that by (simp add: exhausted_where_def)
  show "occurrence_open (oc_status r)" if "r \<in> set (occurrences d)" "list_ex (\<lambda>b. occurrence_of b r) ?ex" for r
    using that linked_open [OF l wf] by (auto simp: list_ex_iff exhausted_where_def)
qed simp_all

lemma open_not_final: "occurrence_open s \<Longrightarrow> \<not> outbox_final s"
  by (auto simp: occurrence_open_def outbox_final_def)

lemma ClaimDispatches_grows:
  assumes op: "ClaimDispatches g locked now w e limit d = Inr (x, d')" and wf: "db_wf d"
  shows "grows d d'"
proof (rule grows_upd)
  let ?p = "\<lambda>r. ob_id r \<in> set (map ob_id (ready_candidates locked now limit (outbox d)))"
  show "outbox d' = upd ?p (dispatch_claim_set g now w e) (outbox d)"
    using ClaimDispatches_Inr(1) [OF op] by (simp add: upd_checked_Inr)
  show "occurrences d' = upd (\<lambda>_. False) id (occurrences d)" "receipts d' = receipts d"
    by (subst ClaimDispatches_Inr(3) [OF op], simp add: upd_none)+
  show "\<not> outbox_final (ob_status b)" if "b \<in> set (outbox d)" "?p b" for b
    using claimed_open [OF wf that] open_not_final by blast
qed (simp_all add: dispatch_claim_set_def outbox_identity_def)

lemma BeginDispatch_grows:
  assumes op: "BeginDispatch g work w now d = Inr (x, d')" and wf: "db_wf d" and l: "linked d"
  shows "grows d d'"
  using op
proof (rule BeginDispatch_Inr)
  fix row
  assume row: "find (begin_where work w now) (outbox d) = Some row"
    and u: "upd_checked ck_outbox (begin_where work w now) (begin_set g now) (outbox d) = Inr (outbox d')"
      "upd_checked ck_occurrence (occurrence_of row) (begin_occurrence g (ob_attempt_count row + 1) now) (occurrences d)
           = Inr (occurrences d')"
    and d': "d' = d\<lparr>outbox := outbox d', occurrences := occurrences d'\<rparr>"
  have in_row: "row \<in> set (outbox d)" "ob_status row = ''dispatching''"
    using find_Some_in [OF row] by (auto simp: begin_where_def)
  show ?thesis
  proof (rule grows_upd)
    show "outbox d' = upd (begin_where work w now) (begin_set g now) (outbox d)"
      "occurrences d' = upd (occurrence_of row) (begin_occurrence g (ob_attempt_count row + 1) now) (occurrences d)"
      using u by (simp_all add: upd_checked_Inr)
    show "receipts d' = receipts d" by (subst d') simp
    show "occurrence_open (oc_status r)" if "r \<in> set (occurrences d)" "occurrence_of row r" for r
      using linked_open [OF l wf in_row that] .
  qed (simp_all add: begin_set_def begin_where_def outbox_identity_def)
qed

lemma transitionDispatch_grows:
  assumes op: "transitionDispatch g work w st ost result nx dn now d = Inr (x, d')"
    and wf: "db_wf d" and l: "linked d" and work: "work_of d work"
  shows "grows d d'"
proof (rule grows_upd)
  let ?p = "transition_where work w" and ?q = "occurrence_where (w_TenantID work) (w_OccurrenceID work)"
  show "outbox d' = upd ?p (transition_set g st result nx dn now) (outbox d)"
    "occurrences d' = upd ?q (transition_occurrence g ost work result dn now) (occurrences d)"
    using transitionDispatch_Inr(3,4) [OF op] by (simp_all add: upd_checked_Inr)
  show "receipts d' = receipts d" by (subst transitionDispatch_Inr(5) [OF op]) simp
  show "\<not> outbox_final (ob_status b)" if "?p b" for b
    using that by (simp add: transition_where_def)
  obtain row where row: "row \<in> set (outbox d)" "?p row"
    using transitionDispatch_Inr(1) [OF op] by (rule affected_1_unique)
  obtain c where c: "c \<in> set (outbox d)" "ob_id c = w_ID work" "ob_occurrence_id c = w_OccurrenceID work"
    using work by (auto simp: work_of_def)
  have "c = row"
    using distinct_map_inj [of ob_id "outbox d" c row] c row wf
    by (auto simp: db_wf_def outbox_wf_def transition_where_def)
  with c row show "occurrence_open (oc_status r)" if "r \<in> set (occurrences d)" "?q r" for r
    using that linked_open [OF l wf row(1) _ that(1)]
    by (auto simp: occurrence_where_def occurrence_of_def transition_where_def)
qed (simp_all add: transition_set_def outbox_identity_def)

end
