(* ===== verification/Commands.thy ===== *)
theory Commands
  imports Outbox
begin

text \<open>
  The command service of \<^verbatim>\<open>internal/application/commands.go\<close>: preparing a command, applying it
  and executing it once per idempotency key. A transaction runs at READ COMMITTED: what other
  transactions commit between the last read and the write of a command is the parameter
  \<open>other\<close>, a function on the database. The clock is read once by \<^verbatim>\<open>apply\<close> (\<open>now\<close>) and once
  for the receipt (\<open>stamp\<close>).
\<close>

record Command =
  cmd_Operation :: CommandOperation
  cmd_TenantID :: string
  cmd_Name :: string
  cmd_CommandScope :: string
  cmd_IdempotencyKey :: string
  cmd_RequestDigest :: string
  cmd_RequestID :: string
  cmd_Schedule :: Schedule

section \<open>Operations\<close>

definition scheduleResult :: "string \<Rightarrow> Schedule \<Rightarrow> CommandResult" where
  "scheduleResult code schedule =
     \<lparr>c_Code = code, c_Name = s_Name schedule, c_Schedule = Some schedule\<rparr>"

definition codeResult :: "string \<Rightarrow> Command \<Rightarrow> CommandResult" where
  "codeResult code command = \<lparr>c_Code = code, c_Name = cmd_Name command, c_Schedule = None\<rparr>"

definition Get :: "tx_fault \<Rightarrow> string \<Rightarrow> string \<Rightarrow> db \<Rightarrow> Schedule res \<times> db" where
  "Get fault tenantID name d =
     (case ValidateTenantID tenantID of
        Some err \<Rightarrow> (Inl (ErrJoin ErrInvalidCommand err), d)
      | None \<Rightarrow>
          if \<not> IsValidScheduleName name then (Inl ErrInvalidCommand, d)
          else WithinTx fault (GetSchedule tenantID name) d)"

definition trimmed :: "Command \<Rightarrow> Command" where
  "trimmed c =
     c\<lparr>cmd_TenantID := TrimSpace (cmd_TenantID c), cmd_Name := TrimSpace (cmd_Name c),
       cmd_CommandScope := TrimSpace (cmd_CommandScope c), cmd_RequestID := TrimSpace (cmd_RequestID c)\<rparr>"

definition prepare :: "golib \<Rightarrow> Command \<Rightarrow> Command res" where
  "prepare g command =
     (let c = trimmed command in
      case ValidateTenantID (cmd_TenantID c) of
        Some err \<Rightarrow> Inl (ErrJoin ErrInvalidCommand err)
      | None \<Rightarrow>
      if \<not> IsValidScheduleName (cmd_Name c)
         \<or> cmd_CommandScope c = [] \<or> length (cmd_CommandScope c) > 256
         \<or> cmd_IdempotencyKey c = [] \<or> length (cmd_IdempotencyKey c) > 256
         \<or> cmd_RequestID c = [] \<or> length (cmd_RequestID c) > 128
         \<or> \<not> digestPattern (cmd_RequestDigest c)
      then Inl ErrInvalidCommand
      else if cmd_Operation c = CommandCreate \<or> cmd_Operation c = CommandUpdate then
        (case Normalized g ((cmd_Schedule c)\<lparr>s_TenantID := cmd_TenantID c, s_Name := cmd_Name c\<rparr>) of
           Inl err \<Rightarrow> Inl (ErrJoin ErrInvalidCommand err)
         | Inr normalized \<Rightarrow>
             if s_Status normalized = ScheduleExhausted then Inl ErrInvalidCommand
             else (case (if IsZero (s_RunAt normalized)
                         then Validate (LoadLocation g) (s_Rule normalized) (s_Timezone normalized)
                         else None) of
                     Some err \<Rightarrow> Inl (ErrJoin ErrInvalidCommand err)
                   | None \<Rightarrow> Inr (c\<lparr>cmd_Schedule := normalized\<rparr>)))
      else if cmd_Operation c = CommandDelete \<or> cmd_Operation c = CommandPause
              \<or> cmd_Operation c = CommandResume
      then Inr c
      else Inl ErrInvalidCommand)"

text \<open>
  The schedule a create or an update writes. \<open>current\<close> is the row an update has read (the
  zero schedule for a create): the same \<^verbatim>\<open>run_at\<close> keeps the due instant and an exhausted status,
  another one must lie in the future, a rule gives its next instant.
\<close>

definition scheduleToWrite :: "golib \<Rightarrow> Command \<Rightarrow> Schedule \<Rightarrow> instant \<Rightarrow> Schedule res" where
  "scheduleToWrite g command current now =
     (let s = cmd_Schedule command in
      case (if cmd_Operation command = CommandUpdate \<and> \<not> IsZero (s_RunAt s) \<and> s_RunAt s = s_RunAt current then
              Inr (s\<lparr>s_NextDueAt := s_NextDueAt current,
                     s_Status := (if s_Status current = ScheduleExhausted then ScheduleExhausted else s_Status s)\<rparr>)
            else if \<not> IsZero (s_RunAt s) then
              (if \<not> s_RunAt s > now then Inl ErrInvalidCommand
               else Inr (s\<lparr>s_NextDueAt := s_RunAt s\<rparr>))
            else (case Next (LoadLocation g) (s_Rule s) (s_Timezone s) now of
                    Inl err \<Rightarrow> Inl (ErrJoin ErrInvalidCommand err)
                  | Inr t \<Rightarrow> Inr (s\<lparr>s_NextDueAt := t\<rparr>))) of
        Inl err \<Rightarrow> Inl err
      | Inr s' \<Rightarrow> Inr (s'\<lparr>s_CreatedAt := now, s_UpdatedAt := now\<rparr>))"

definition applyCreate :: "golib \<Rightarrow> pg \<Rightarrow> (db \<Rightarrow> db) \<Rightarrow> Command \<Rightarrow> instant \<Rightarrow> CommandResult tx" where
  "applyCreate g store other command now d =
     (case scheduleToWrite g command zeroSchedule now of
        Inl err \<Rightarrow> Inl err
      | Inr s \<Rightarrow>
          (case CreateSchedule store s (other d) of
             Inl err \<Rightarrow> if errors_Is err ErrScheduleAlreadyExists
                        then Inr (codeResult ResultAlreadyExists command, other d) else Inl err
           | Inr (created, d') \<Rightarrow> Inr (scheduleResult ResultRegistered created, d')))"

definition applyUpdate :: "golib \<Rightarrow> pg \<Rightarrow> (db \<Rightarrow> db) \<Rightarrow> Command \<Rightarrow> instant \<Rightarrow> CommandResult tx" where
  "applyUpdate g store other command now d =
     (case GetSchedule (cmd_TenantID command) (cmd_Name command) d of
        Inl err \<Rightarrow> if errors_Is err ErrScheduleNotFound
                   then Inr (codeResult ResultNotFound command, d) else Inl err
      | Inr (current, _) \<Rightarrow>
          (case scheduleToWrite g command current now of
             Inl err \<Rightarrow> Inl err
           | Inr s \<Rightarrow>
               (case UpdateSchedule store current s (other d) of
                  Inl err \<Rightarrow> if errors_Is err ErrScheduleNotFound
                             then Inr (codeResult ResultNotFound command, other d)
                             else if errors_Is err ErrScheduleChanged
                             then Inr (codeResult ResultChanged command, other d) else Inl err
                | Inr (updated, d') \<Rightarrow> Inr (scheduleResult ResultUpdated updated, d'))))"

definition applyDelete :: "(db \<Rightarrow> db) \<Rightarrow> Command \<Rightarrow> CommandResult tx" where
  "applyDelete other command d =
     (case DeleteSchedule (cmd_TenantID command) (cmd_Name command) (other d) of
        Inl err \<Rightarrow> if errors_Is err ErrScheduleNotFound
                   then Inr (codeResult ResultNotFound command, other d) else Inl err
      | Inr (_, d') \<Rightarrow> Inr (codeResult ResultDeleted command, d'))"

text \<open>The due instant a resume writes; a pause writes none.\<close>

definition resumeDue :: "golib \<Rightarrow> Command \<Rightarrow> Schedule \<Rightarrow> instant \<Rightarrow> instant res" where
  "resumeDue g command current now =
     (if cmd_Operation command = CommandResume then
        (if IsZero (s_RunAt current)
         then Next (LoadLocation g) (s_Rule current) (s_Timezone current) now
         else Inr (s_RunAt current))
      else Inr 0)"

definition applyStatus :: "golib \<Rightarrow> pg \<Rightarrow> (db \<Rightarrow> db) \<Rightarrow> Command \<Rightarrow> instant \<Rightarrow> CommandResult tx" where
  "applyStatus g store other command now d =
     (let resume = cmd_Operation command = CommandResume;
          status = (if resume then ScheduleActive else SchedulePaused);
          code = (if resume then ResultResumed else ResultPaused)
      in case GetSchedule (cmd_TenantID command) (cmd_Name command) d of
        Inl err \<Rightarrow> if errors_Is err ErrScheduleNotFound
                   then Inr (codeResult ResultNotFound command, d) else Inl err
      | Inr (current, _) \<Rightarrow>
          if s_Status current = ScheduleExhausted then Inr (codeResult ResultExhausted command, d)
          else case resumeDue g command current now of
            Inl err \<Rightarrow> Inl err
          | Inr nextDueAt \<Rightarrow>
              (case SetScheduleStatus store current status nextDueAt now (other d) of
                 Inl err \<Rightarrow>
                   if errors_Is err ErrScheduleNotFound then Inr (codeResult ResultNotFound command, other d)
                   else if errors_Is err ErrScheduleExhausted then Inr (codeResult ResultExhausted command, other d)
                   else if errors_Is err ErrScheduleChanged then Inr (codeResult ResultChanged command, other d)
                   else Inl err
               | Inr (updated, d') \<Rightarrow> Inr (scheduleResult code updated, d')))"

definition apply_command :: "golib \<Rightarrow> pg \<Rightarrow> (db \<Rightarrow> db) \<Rightarrow> instant \<Rightarrow> Command \<Rightarrow> CommandResult tx" where
  "apply_command g store other now0 command d =
     (let now = NormalizeInstant now0 in
      if cmd_Operation command = CommandCreate then applyCreate g store other command now d
      else if cmd_Operation command = CommandUpdate then applyUpdate g store other command now d
      else if cmd_Operation command = CommandDelete then applyDelete other command d
      else if cmd_Operation command = CommandPause \<or> cmd_Operation command = CommandResume
      then applyStatus g store other command now d
      else Inl ErrInvalidCommand)"

definition newReceipt :: "Command \<Rightarrow> CommandResult \<Rightarrow> instant \<Rightarrow> CommandReceipt" where
  "newReceipt prepared result stamp =
     \<lparr>rc_TenantID = cmd_TenantID prepared, rc_CommandScope = cmd_CommandScope prepared,
      rc_IdempotencyKey = cmd_IdempotencyKey prepared, rc_RequestDigest = cmd_RequestDigest prepared,
      rc_RequestID = cmd_RequestID prepared, rc_Result = result,
      rc_CreatedAt = NormalizeInstant stamp\<rparr>"

text \<open>The function \<^verbatim>\<open>Execute\<close> hands to \<^verbatim>\<open>WithinTx\<close>.\<close>

definition execute_tx ::
  "golib \<Rightarrow> pg \<Rightarrow> (db \<Rightarrow> db) \<Rightarrow> instant \<Rightarrow> instant \<Rightarrow> Command \<Rightarrow> CommandReceipt tx" where
  "execute_tx g store other now stamp prepared d =
     (case LockCommandIdentity (cmd_TenantID prepared) (cmd_CommandScope prepared) (cmd_IdempotencyKey prepared) d of
        Inl err \<Rightarrow> Inl err
      | Inr (_, d1) \<Rightarrow>
      (case FindCommandReceipt (cmd_TenantID prepared) (cmd_CommandScope prepared) (cmd_IdempotencyKey prepared) d1 of
         Inl err \<Rightarrow> Inl err
       | Inr (Some prior, d2) \<Rightarrow>
           if rc_RequestDigest prior \<noteq> cmd_RequestDigest prepared then Inl ErrIdempotencyConflict
           else Inr (prior, d2)
       | Inr (None, d2) \<Rightarrow>
           (case apply_command g store other now prepared d2 of
              Inl err \<Rightarrow> Inl err
            | Inr (result, d3) \<Rightarrow>
                let receipt = newReceipt prepared result stamp
                in case InsertCommandReceipt store receipt d3 of
                     Inl err \<Rightarrow> Inl err
                   | Inr (_, d4) \<Rightarrow> Inr (receipt, d4))))"

definition Execute ::
  "golib \<Rightarrow> pg \<Rightarrow> tx_fault \<Rightarrow> (db \<Rightarrow> db) \<Rightarrow> instant \<Rightarrow> instant \<Rightarrow> Command \<Rightarrow> db \<Rightarrow> CommandReceipt res \<times> db" where
  "Execute g store fault other now stamp command d =
     (case prepare g command of
        Inl err \<Rightarrow> (Inl err, d)
      | Inr prepared \<Rightarrow> WithinTx fault (execute_tx g store other now stamp prepared) d)"

end
