(* ===== verification/CommandProps.thy ===== *)
theory CommandProps
  imports Commands Links
begin

text \<open>
  What executing commands guarantees: a command runs once per idempotency key and every
  later request with that key and digest gets the recorded receipt, an update or a change of
  status only writes the version it has read, a command touches the schedule it names and no
  other row, and the database invariants are kept.
\<close>

section \<open>Once per key: the contract\<close>

text \<open>
  The contract of a command executor over a receipt log: a key that has a receipt is answered
  from it and changes nothing, a successful execution leaves a receipt for its key, and what
  comes later keeps receipts.
\<close>

locale idempotent_commands =
  fixes exec :: "'c \<Rightarrow> 'd \<Rightarrow> goerr + ('r \<times> 'd)"
    and key :: "'c \<Rightarrow> 'k"
    and digest :: "'c \<Rightarrow> 's"
    and lookup :: "'k \<Rightarrow> 'd \<Rightarrow> 'r option"
    and rdigest :: "'r \<Rightarrow> 's"
    and same :: "'r \<Rightarrow> 'r \<Rightarrow> bool"
    and valid :: "'k \<Rightarrow> bool"
    and later :: "'d \<Rightarrow> 'd \<Rightarrow> bool"
  assumes found: "valid (key c) \<Longrightarrow> lookup (key c) d = Some r \<Longrightarrow>
      exec c d = (if rdigest r = digest c then Inr (r, d) else Inl ErrIdempotencyConflict)"
    and recorded: "exec c d = Inr (r, d') \<Longrightarrow>
      valid (key c) \<and> (\<exists>r'. lookup (key c) d' = Some r' \<and> rdigest r' = digest c \<and> same r r')"
    and kept: "later d d' \<Longrightarrow> lookup k d = Some r \<Longrightarrow> lookup k d' = Some r"
begin

lemma replay:
  assumes "exec c d = Inr (r, d1)" and "later d1 d2" and "key c' = key c" and "digest c' = digest c"
  shows "\<exists>r'. exec c' d2 = Inr (r', d2) \<and> same r r'"
proof -
  obtain r' where "valid (key c)" "lookup (key c) d1 = Some r'" "rdigest r' = digest c" "same r r'"
    using recorded [OF assms(1)] by blast
  with kept [OF assms(2)] found [of c' d2 r'] assms(3,4) show ?thesis by auto
qed

lemma conflict:
  assumes "exec c d = Inr (r, d1)" and "later d1 d2" and "key c' = key c" and "digest c' \<noteq> digest c"
  shows "exec c' d2 = Inl ErrIdempotencyConflict"
proof -
  obtain r' where "valid (key c)" "lookup (key c) d1 = Some r'" "rdigest r' = digest c"
    using recorded [OF assms(1)] by blast
  with kept [OF assms(2)] found [of c' d2 r'] assms(3,4) show ?thesis by auto
qed

end

section \<open>The receipt table\<close>

definition command_key :: "Command \<Rightarrow> string \<times> string \<times> string" where
  "command_key c = (cmd_TenantID c, cmd_CommandScope c, cmd_IdempotencyKey c)"

definition lookup_receipt :: "string \<times> string \<times> string \<Rightarrow> db \<Rightarrow> CommandReceipt option" where
  "lookup_receipt k d = (case k of (t, s, i) \<Rightarrow> map_option receipt_of (find (receipt_key t s i) (receipts d)))"

definition key_text :: "string \<times> string \<times> string \<Rightarrow> bool" where
  "key_text k \<longleftrightarrow> (case k of (t, s, i) \<Rightarrow>
     pg_text (t @ CHR 0x1f # s @ CHR 0x1f # i) \<and> list_all pg_text [t, s, i])"

text \<open>A recorded receipt is the one returned, with the result as the database prints it.\<close>

definition same_receipt :: "pg \<Rightarrow> CommandReceipt \<Rightarrow> CommandReceipt \<Rightarrow> bool" where
  "same_receipt g r r' \<longleftrightarrow> r' = r \<or>
     (\<exists>body. result_jsonb g (rc_Result r) = Some body \<and>
        r' = r\<lparr>rc_Result := body, rc_CreatedAt := NormalizeInstant (ts3 g (rc_CreatedAt r))\<rparr>)"

definition receipts_kept :: "db \<Rightarrow> db \<Rightarrow> bool" where
  "receipts_kept d d' \<longleftrightarrow> (\<exists>new. receipts d' = receipts d @ new)"

lemma receipts_kept_grows: "grows d d' \<Longrightarrow> receipts_kept d d'"
  by (simp add: receipts_kept_def growsD(3))

lemma execute_tx_found:
  assumes "key_text (command_key c)" and "lookup_receipt (command_key c) d = Some r"
  shows "execute_tx g store other now stamp c d =
    (if rc_RequestDigest r = cmd_RequestDigest c then Inr (r, d) else Inl ErrIdempotencyConflict)"
  using assms
  by (auto simp: execute_tx_def LockCommandIdentity_def FindCommandReceipt_def command_key_def
      key_text_def lookup_receipt_def)

lemma execute_tx_cases:
  assumes "execute_tx g store other now stamp c d = Inr (r, d')"
  obtains (replayed) "key_text (command_key c)" "lookup_receipt (command_key c) d = Some r" "d' = d"
      "rc_RequestDigest r = cmd_RequestDigest c"
  | (applied) result d3 where "key_text (command_key c)" "lookup_receipt (command_key c) d = None"
      "apply_command g store other now c d = Inr (result, d3)" "r = newReceipt c result stamp"
      "InsertCommandReceipt store r d3 = Inr ((), d')"
  using assms
  by (auto simp: execute_tx_def LockCommandIdentity_def FindCommandReceipt_def command_key_def
      key_text_def lookup_receipt_def Let_def split: if_splits option.splits sum.splits)

lemma InsertCommandReceipt_lookup:
  assumes "InsertCommandReceipt store r d = Inr (u, d')"
  shows "\<exists>r'. lookup_receipt (rc_TenantID r, rc_CommandScope r, rc_IdempotencyKey r) d' = Some r'
    \<and> rc_RequestDigest r' = rc_RequestDigest r \<and> same_receipt store r r'"
  using assms
proof (rule InsertCommandReceipt_Inr)
  fix row body
  assume a: "result_jsonb store (rc_Result r) = Some body" "row = new_receipt store r body (uuid_seq d)"
    "\<forall>x \<in> set (receipts d). re_id x \<noteq> re_id row \<and>
      \<not> receipt_key (rc_TenantID r) (rc_CommandScope r) (rc_IdempotencyKey r) x"
    "d' = d\<lparr>receipts := receipts d @ [row], uuid_seq := Suc (uuid_seq d)\<rparr>"
  then have "find (receipt_key (rc_TenantID r) (rc_CommandScope r) (rc_IdempotencyKey r)) (receipts d') = Some row"
    by (simp add: find_append receipt_key_def new_receipt_def find_None_all [THEN iffD2])
  with a(1,2) show ?thesis
    by (auto simp: lookup_receipt_def same_receipt_def receipt_of_def new_receipt_def)
qed

interpretation commands: idempotent_commands
  "\<lambda>(other, now, stamp, c). execute_tx g store other now stamp c"
  "\<lambda>(other, now, stamp, c). command_key c"
  "\<lambda>(other, now, stamp, c). cmd_RequestDigest c"
  lookup_receipt rc_RequestDigest "same_receipt store" key_text receipts_kept
  for g store
proof unfold_locales
  show "(case c of (other, now, stamp, c) \<Rightarrow> execute_tx g store other now stamp c) d
      = (if rc_RequestDigest r = (case c of (other, now, stamp, c) \<Rightarrow> cmd_RequestDigest c)
         then Inr (r, d) else Inl ErrIdempotencyConflict)"
    if "key_text (case c of (other, now, stamp, c) \<Rightarrow> command_key c)"
      and "lookup_receipt (case c of (other, now, stamp, c) \<Rightarrow> command_key c) d = Some r" for c d r
    using that by (auto simp: execute_tx_found split: prod.splits)
next
  show "key_text (case c of (other, now, stamp, c) \<Rightarrow> command_key c) \<and>
      (\<exists>r'. lookup_receipt (case c of (other, now, stamp, c) \<Rightarrow> command_key c) d' = Some r' \<and>
        rc_RequestDigest r' = (case c of (other, now, stamp, c) \<Rightarrow> cmd_RequestDigest c) \<and> same_receipt store r r')"
    if "(case c of (other, now, stamp, c) \<Rightarrow> execute_tx g store other now stamp c) d = Inr (r, d')" for c d r d'
  proof -
    obtain other now stamp cc where c: "c = (other, now, stamp, cc)" by (cases c) auto
    with that have "execute_tx g store other now stamp cc d = Inr (r, d')" by simp
    then have "key_text (command_key cc) \<and> (\<exists>r'. lookup_receipt (command_key cc) d' = Some r' \<and>
        rc_RequestDigest r' = cmd_RequestDigest cc \<and> same_receipt store r r')"
    proof (cases rule: execute_tx_cases)
      case replayed
      then show ?thesis by (auto simp: same_receipt_def)
    next
      case (applied result d3)
      from InsertCommandReceipt_lookup [OF applied(5)] applied(1,4) show ?thesis
        by (auto simp: newReceipt_def command_key_def)
    qed
    then show ?thesis by (simp add: c)
  qed
next
  show "lookup_receipt k d' = Some r" if "receipts_kept d d'" and "lookup_receipt k d = Some r" for d d' k r
    using that by (auto simp: receipts_kept_def lookup_receipt_def find_append split: prod.splits)
qed

section \<open>What a command writes\<close>

lemma applyStatus_cases:
  assumes "applyStatus g store other c now d = Inr (result, d')"
  obtains (none) "d' = d \<or> d' = other d"
      "c_Code result \<in> {ResultAlreadyExists, ResultNotFound, ResultExhausted, ResultChanged}"
  | (status) st due current x where
      "st = (if cmd_Operation c = CommandResume then ScheduleActive else SchedulePaused)"
      "GetSchedule (cmd_TenantID c) (cmd_Name c) d = Inr (current, d)"
      "s_Status current \<noteq> ScheduleExhausted"
      "resumeDue g c current now = Inr due"
      "SetScheduleStatus store current st due now (other d) = Inr (x, d')"
      "result = scheduleResult (if cmd_Operation c = CommandResume then ResultResumed else ResultPaused) x"
proof (cases "GetSchedule (cmd_TenantID c) (cmd_Name c) d")
  case (Inl err)
  with assms none show thesis
    by (auto simp: applyStatus_def codeResult_def Let_def split: if_splits)
next
  case (Inr y)
  then obtain current where cur: "GetSchedule (cmd_TenantID c) (cmd_Name c) d = Inr (current, d)"
    by (cases y) (auto simp: GetSchedule_Inr)
  show thesis
  proof (cases "s_Status current = ScheduleExhausted")
    case True
    with assms cur none show thesis by (auto simp: applyStatus_def codeResult_def Let_def)
  next
    case False
    let ?st = "if cmd_Operation c = CommandResume then ScheduleActive else SchedulePaused"
    obtain due where due: "resumeDue g c current now = Inr due"
      using assms cur False by (auto simp: applyStatus_def Let_def split: sum.splits)
    show thesis
    proof (cases "SetScheduleStatus store current ?st due now (other d)")
      case (Inl err)
      with assms cur due False none show thesis
        by (auto simp: applyStatus_def codeResult_def Let_def split: if_splits)
    next
      case (Inr z)
      with assms cur due False status [OF refl cur False due, of "fst z"] show thesis
        by (cases z) (simp add: applyStatus_def Let_def)
    qed
  qed
qed

text \<open>The statement a command ran on the database \<open>e\<close> it found at its write.\<close>

lemma apply_cases:
  assumes "apply_command g store other now c d = Inr (result, d')"
  obtains (none) "d' = d \<or> d' = other d"
      "c_Code result \<in> {ResultAlreadyExists, ResultNotFound, ResultExhausted, ResultChanged}"
  | (created) s x where "cmd_Operation c = CommandCreate"
      "scheduleToWrite g c zeroSchedule (NormalizeInstant now) = Inr s"
      "CreateSchedule store s (other d) = Inr (x, d')" "result = scheduleResult ResultRegistered x"
  | (updated) s current x where "cmd_Operation c = CommandUpdate"
      "GetSchedule (cmd_TenantID c) (cmd_Name c) d = Inr (current, d)"
      "scheduleToWrite g c current (NormalizeInstant now) = Inr s"
      "UpdateSchedule store current s (other d) = Inr (x, d')" "result = scheduleResult ResultUpdated x"
  | (deleted) "cmd_Operation c = CommandDelete"
      "DeleteSchedule (cmd_TenantID c) (cmd_Name c) (other d) = Inr ((), d')"
      "result = codeResult ResultDeleted c"
  | (status) st due current x where "cmd_Operation c = CommandPause \<or> cmd_Operation c = CommandResume"
      "st = (if cmd_Operation c = CommandResume then ScheduleActive else SchedulePaused)"
      "GetSchedule (cmd_TenantID c) (cmd_Name c) d = Inr (current, d)"
      "s_Status current \<noteq> ScheduleExhausted"
      "resumeDue g c current (NormalizeInstant now) = Inr due"
      "SetScheduleStatus store current st due (NormalizeInstant now) (other d) = Inr (x, d')"
      "result = scheduleResult (if cmd_Operation c = CommandResume then ResultResumed else ResultPaused) x"
proof -
  consider "cmd_Operation c = CommandCreate" | "cmd_Operation c = CommandUpdate"
    | "cmd_Operation c = CommandDelete" | "cmd_Operation c = CommandPause \<or> cmd_Operation c = CommandResume"
    using assms by (auto simp: apply_command_def Let_def split: if_splits)
  then show thesis
  proof cases
    case 1
    with assms none created show thesis
      by (auto simp: apply_command_def applyCreate_def codeResult_def split: sum.splits if_splits)
  next
    case 2
    then have "applyUpdate g store other c (NormalizeInstant now) d = Inr (result, d')"
      using assms by (simp add: apply_command_def)
    with 2 none updated show thesis
      by (auto simp: applyUpdate_def codeResult_def GetSchedule_Inr split: sum.splits if_splits)
  next
    case 3
    with assms none deleted show thesis
      by (auto simp: apply_command_def applyDelete_def codeResult_def split: sum.splits if_splits)
  next
    case 4
    then have a: "applyStatus g store other c (NormalizeInstant now) d = Inr (result, d')"
      using assms by (auto simp: apply_command_def Let_def)
    from a show thesis
      by (rule applyStatus_cases) (use 4 none status in blast)+
  qed
qed

text \<open>Rows of \<open>e\<close> that are not the named schedule are those of \<open>d'\<close>.\<close>

definition only_schedule :: "string \<Rightarrow> string \<Rightarrow> db \<Rightarrow> db \<Rightarrow> bool" where
  "only_schedule tenantID name e d' \<longleftrightarrow>
     filter (\<lambda>r. \<not> by_name tenantID name r) (schedules d') = filter (\<lambda>r. \<not> by_name tenantID name r) (schedules e)
     \<and> occurrences d' = occurrences e \<and> outbox d' = outbox e \<and> receipts d' = receipts e"

lemma filter_upd_none:
  assumes "\<And>r. p r \<Longrightarrow> \<not> k r" and "\<And>r. k (f r) = k r"
  shows "filter k (upd p f rows) = filter k rows"
  using assms by (induction rows) auto

lemma by_name_key: "by_name t n r \<longleftrightarrow> schedule_key r = (t, n)"
  by (simp add: by_name_def schedule_key_def)

lemma only_schedule_upd:
  assumes "d' = e\<lparr>schedules := schedules d'\<rparr>"
    and "upd_checked ck_schedule p f (schedules e) = Inr (schedules d')"
    and "\<And>r. p r \<Longrightarrow> by_name t n r" and "\<And>r. schedule_key (f r) = schedule_key r"
  shows "only_schedule t n e d'"
proof -
  have f: "occurrences d' = occurrences e \<and> outbox d' = outbox e \<and> receipts d' = receipts e"
    by (subst (1 2 3) assms(1)) simp
  have "schedules d' = upd p f (schedules e)" using assms(2) by (simp add: upd_checked_Inr)
  then have "filter (\<lambda>r. \<not> by_name t n r) (schedules d') = filter (\<lambda>r. \<not> by_name t n r) (schedules e)"
    using assms(3,4) filter_upd_none [of p "\<lambda>r. \<not> by_name t n r" f "schedules e"]
    by (simp add: by_name_key)
  with f show ?thesis by (simp add: only_schedule_def)
qed

lemma scheduleToWrite_name:
  "scheduleToWrite g c current now = Inr s \<Longrightarrow> s_TenantID s = s_TenantID (cmd_Schedule c) \<and> s_Name s = s_Name (cmd_Schedule c)"
  by (auto simp: scheduleToWrite_def Let_def split: sum.splits if_splits)

definition names_itself :: "Command \<Rightarrow> bool" where
  "names_itself c \<longleftrightarrow> (cmd_Operation c = CommandCreate \<or> cmd_Operation c = CommandUpdate \<longrightarrow>
     s_TenantID (cmd_Schedule c) = cmd_TenantID c \<and> s_Name (cmd_Schedule c) = cmd_Name c)"

lemma GetSchedule_by_name:
  "GetSchedule t n d = Inr (s, d') \<Longrightarrow> s_TenantID s = t \<and> s_Name s = n"
  by (auto simp: GetSchedule_Inr scanSchedule_def by_name_def dest: find_Some_in)

lemma apply_only_schedule:
  assumes "apply_command g store other now c d = Inr (result, d')" and "names_itself c"
  shows "d' = d \<or> only_schedule (cmd_TenantID c) (cmd_Name c) (other d) d'"
  using assms(1)
proof (cases rule: apply_cases)
  case none
  then show ?thesis by (auto simp: only_schedule_def)
next
  case (created s x)
  then show ?thesis using assms(2) scheduleToWrite_name [OF created(2)]
    by (auto elim!: CreateSchedule_Inr simp: only_schedule_def names_itself_def by_name_def new_schedule_def)
next
  case (updated s current x)
  from updated(4) show ?thesis
  proof (rule UpdateSchedule_Inr)
    fix payload
    assume "upd_checked ck_schedule (update_where current s) (update_set store s payload) (schedules (other d)) = Inr (schedules d')"
      "d' = (other d)\<lparr>schedules := schedules d'\<rparr>"
    from only_schedule_upd [OF this(2,1)] assms(2) updated(1) scheduleToWrite_name [OF updated(3)]
    show ?thesis by (simp add: update_where_def names_itself_def)
  qed
next
  case deleted
  then show ?thesis by (auto simp: DeleteSchedule_Inr only_schedule_def)
next
  case (status st due current x)
  from status(6) show ?thesis
  proof (rule SetScheduleStatus_Inr)
    assume "upd_checked ck_schedule (status_where current) (status_set store st due (NormalizeInstant now)) (schedules (other d)) = Inr (schedules d')"
      "d' = (other d)\<lparr>schedules := schedules d'\<rparr>"
    from only_schedule_upd [OF this(2,1)] GetSchedule_by_name [OF status(3)] show ?thesis
      by (simp add: status_where_def)
  qed
qed

lemma Normalized_names:
  "Normalized g s = Inr s' \<Longrightarrow> s_TenantID s' = TrimSpace (s_TenantID s) \<and> s_Name s' = TrimSpace (s_Name s)"
  by (auto simp: Normalized_def Let_def withScheduleDefaults_def normalizeInstants_def split: option.splits sum.splits)

lemma prepare_cases:
  assumes "prepare g c = Inr p"
  obtains (other) "p = trimmed c" "cmd_Operation c \<noteq> CommandCreate" "cmd_Operation c \<noteq> CommandUpdate"
  | (writes) n where "p = (trimmed c)\<lparr>cmd_Schedule := n\<rparr>"
      "Normalized g ((cmd_Schedule c)\<lparr>s_TenantID := TrimSpace (cmd_TenantID c), s_Name := TrimSpace (cmd_Name c)\<rparr>) = Inr n"
      "s_Status n \<noteq> ScheduleExhausted"
      "s_RunAt n = 0 \<longrightarrow> Validate (LoadLocation g) (s_Rule n) (s_Timezone n) = None"
proof -
  have t: "cmd_Operation (trimmed c) = cmd_Operation c" "cmd_Schedule (trimmed c) = cmd_Schedule c"
    "cmd_TenantID (trimmed c) = TrimSpace (cmd_TenantID c)" "cmd_Name (trimmed c) = TrimSpace (cmd_Name c)"
    by (simp_all add: trimmed_def)
  show thesis
  proof (cases "cmd_Operation c = CommandCreate \<or> cmd_Operation c = CommandUpdate")
    case True
    with assms writes show thesis
      unfolding prepare_def Let_def t by (auto simp: IsZero_def split: option.splits sum.splits if_splits)
  next
    case False
    with assms other show thesis
      unfolding prepare_def Let_def t by (simp split: option.splits if_splits)
  qed
qed

lemma prepare_names: "prepare g c = Inr p \<Longrightarrow> names_itself p"
  by (erule prepare_cases) (auto simp: names_itself_def trimmed_def dest!: Normalized_names)

lemma prepare_identity:
  "prepare g c = Inr p \<Longrightarrow> cmd_TenantID p = TrimSpace (cmd_TenantID c) \<and> cmd_Name p = TrimSpace (cmd_Name c)
    \<and> cmd_Operation p = cmd_Operation c"
  by (erule prepare_cases) (auto simp: trimmed_def)

section \<open>The invariants\<close>

lemma apply_wf:
  assumes "apply_command g store other now c d = Inr (result, d')" and "db_wf d" and "db_wf (other d)"
  shows "db_wf d'"
  using assms(1)
  by (cases rule: apply_cases)
    (use assms(2,3) in \<open>auto dest: CreateSchedule_wf UpdateSchedule_wf DeleteSchedule_wf SetScheduleStatus_wf\<close>)

lemma only_schedule_dispatch: "only_schedule t n e d' \<Longrightarrow> grows e d' \<and> linked d' = linked e"
  using linked_frame [of d' e] grows_same_dispatch [of d' e] by (simp add: only_schedule_def)

lemma InsertCommandReceipt_grows: "InsertCommandReceipt g r d = Inr (x, d') \<Longrightarrow> grows d d' \<and> linked d' = linked d"
  by (erule InsertCommandReceipt_Inr) (auto intro!: grows_append simp: linked_def)

lemma execute_tx_keeps:
  assumes "execute_tx g store other now stamp c d = Inr (r, d')" and "names_itself c"
    and "db_wf d" "linked d" and "db_wf (other d)" "linked (other d)" "grows d (other d)"
  shows "db_wf d' \<and> linked d' \<and> grows d d'"
  using assms(1)
proof (cases rule: execute_tx_cases)
  case (applied result d3)
  have "db_wf d3" using apply_wf [OF applied(3) assms(3,5)] .
  moreover have "linked d3 \<and> grows d d3"
    using apply_only_schedule [OF applied(3) assms(2)] only_schedule_dispatch assms(4,6,7)
    by (auto intro: grows_trans)
  ultimately show ?thesis
    using InsertCommandReceipt_grows [OF applied(5)] InsertCommandReceipt_wf [OF applied(5)]
    by (auto intro: grows_trans)
qed (use assms in simp)

end
