(* ===== verification/ServiceProps.thy ===== *)
theory ServiceProps
  imports CommandProps
begin

text \<open>
  The command service seen from its callers: what a created schedule reads back as, and what
  happens when another transaction changes the schedule between a command's read and its
  write.
\<close>

section \<open>A created schedule reads back\<close>

lemma ts3_aligned: "pg_documented g \<Longrightarrow> Millisecond dvd t \<Longrightarrow> ts3 g t = t"
  by (simp add: pg_documented_def)

lemma scan_new_schedule:
  assumes g: "pg_documented g"
    and al: "Millisecond dvd s_RunAt s" "Millisecond dvd s_NextDueAt s" "Millisecond dvd s_CreatedAt s"
    and "s_UpdatedAt s = s_CreatedAt s"
  shows "scanSchedule (new_schedule g s payload n) =
    s\<lparr>s_ID := gen_random_uuid g n, s_Payload := payload, s_Version := 1, s_ClaimOwner := [], s_ClaimExpiresAt := 0\<rparr>"
proof -
  have rule: "(case nullableString (s_Rule s) of None \<Rightarrow> [] | Some rule \<Rightarrow> rule) = s_Rule s"
    by (simp add: nullableString_def)
  have run: "(case nullableInstant (s_RunAt s) of None \<Rightarrow> 0 | Some t \<Rightarrow> (NormalizeInstant \<circ> ts3 g) t) = s_RunAt s"
    by (simp add: nullableInstant_def IsZero_def ts3_aligned [OF g] NormalizeInstant_id al)
  show ?thesis
    by (rule Schedule.equality)
      (simp_all add: scanSchedule_def new_schedule_def rule run ts3_aligned [OF g] al NormalizeInstant_id assms(5))
qed

lemma scheduleToWrite_create:
  assumes "scheduleToWrite g c zeroSchedule now = Inr s" and "cmd_Operation c = CommandCreate"
    and "Millisecond dvd s_RunAt (cmd_Schedule c)"
  obtains t where "s = (cmd_Schedule c)\<lparr>s_NextDueAt := t, s_CreatedAt := now, s_UpdatedAt := now\<rparr>"
    and "now < t" and "Millisecond dvd t"
  using assms
  by (auto simp: scheduleToWrite_def Let_def dest: Next_later Next_aligned split: if_splits sum.splits)

lemma Normalized_aligned:
  "Normalized g s = Inr n \<Longrightarrow> Millisecond dvd s_RunAt n"
  by (auto simp: Normalized_def Let_def normalizeInstants_def split: option.splits sum.splits)

lemma find_by_name_new:
  assumes "\<not> list_ex (by_name t n) rows" and "by_name t n row"
  shows "find (by_name t n) (rows @ [row]) = Some row"
proof -
  have "find (by_name t n) rows = None" using assms(1) by (simp add: find_None_all list_ex_iff)
  with assms(2) show ?thesis by (simp add: find_append)
qed

lemma created_reads_back:
  assumes g: "pg_documented store" and p: "prepare g c = Inr p" and op: "cmd_Operation c = CommandCreate"
    and a: "apply_command g store other now p d = Inr (result, d')" and code: "c_Code result = ResultRegistered"
    and utf: "pg_text (TrimSpace (cmd_TenantID c))" "pg_text (TrimSpace (cmd_Name c))"
  obtains n s payload t where
    "Normalized g ((cmd_Schedule c)\<lparr>s_TenantID := TrimSpace (cmd_TenantID c), s_Name := TrimSpace (cmd_Name c)\<rparr>) = Inr n"
    and "jsonb store (s_Payload n) = Some payload" and "NormalizeInstant now < t"
    and "s = n\<lparr>s_ID := gen_random_uuid store (uuid_seq (other d)), s_Payload := payload, s_NextDueAt := t, s_Version := 1,
          s_CreatedAt := NormalizeInstant now, s_UpdatedAt := NormalizeInstant now, s_ClaimOwner := [],
          s_ClaimExpiresAt := 0\<rparr>"
    and "c_Schedule result = Some s"
    and "GetSchedule (TrimSpace (cmd_TenantID c)) (TrimSpace (cmd_Name c)) d' = Inr (s, d')"
proof -
  have opp: "cmd_Operation p = CommandCreate" using prepare_identity [OF p] op by simp
  obtain n where n: "Normalized g ((cmd_Schedule c)\<lparr>s_TenantID := TrimSpace (cmd_TenantID c), s_Name := TrimSpace (cmd_Name c)\<rparr>) = Inr n"
    and pn: "cmd_Schedule p = n"
    using p by (cases rule: prepare_cases) (use op in auto)
  have names: "s_TenantID n = TrimSpace (cmd_TenantID c)" "s_Name n = TrimSpace (cmd_Name c)"
    using Normalized_names [OF n] by simp_all
  from a obtain s0 x where w: "scheduleToWrite g p zeroSchedule (NormalizeInstant now) = Inr s0"
    and cr: "CreateSchedule store s0 (other d) = Inr (x, d')" and res: "result = scheduleResult ResultRegistered x"
    by (cases rule: apply_cases) (use opp code in \<open>auto simp: result_literals\<close>)
  obtain t where s0: "s0 = n\<lparr>s_NextDueAt := t, s_CreatedAt := NormalizeInstant now, s_UpdatedAt := NormalizeInstant now\<rparr>"
    and t: "NormalizeInstant now < t" "Millisecond dvd t"
    using scheduleToWrite_create [OF w opp] Normalized_aligned [OF n] pn by metis
  from cr obtain row payload where pl: "jsonb store (s_Payload s0) = Some payload"
    and row: "row = new_schedule store s0 payload (uuid_seq (other d))"
    and fresh: "\<not> list_ex (by_name (s_TenantID s0) (s_Name s0)) (schedules (other d))"
    and x: "x = scanSchedule row"
    and d': "d' = (other d)\<lparr>schedules := schedules (other d) @ [row], uuid_seq := Suc (uuid_seq (other d))\<rparr>"
    by (rule CreateSchedule_Inr)
  have "x = s0\<lparr>s_ID := gen_random_uuid store (uuid_seq (other d)), s_Payload := payload, s_Version := 1,
      s_ClaimOwner := [], s_ClaimExpiresAt := 0\<rparr>"
    unfolding x row by (rule scan_new_schedule [OF g]) (use t Normalized_aligned [OF n] in \<open>simp_all add: s0\<close>)
  moreover have "find (by_name (s_TenantID s0) (s_Name s0)) (schedules d') = Some row"
    unfolding d' using find_by_name_new [OF fresh, of row] by (simp add: row by_name_def new_schedule_def)
  then have "GetSchedule (TrimSpace (cmd_TenantID c)) (TrimSpace (cmd_Name c)) d' = Inr (x, d')"
    using utf names x by (simp add: GetSchedule_Inr s0)
  ultimately show thesis using n pl t res by (intro that [of n payload t x]) (simp_all add: s0 scheduleResult_def)
qed

section \<open>Concurrent changes\<close>

text \<open>An update whose schedule has got another version in the meantime writes nothing.\<close>

lemma UpdateSchedule_stale:
  assumes "db_wf e" and "row \<in> set (schedules e)" and "by_name (s_TenantID current) (s_Name current) row"
    and "s_TenantID s = s_TenantID current" "s_Name s = s_Name current"
    and "\<not> (sc_id row = s_ID current \<and> sc_version row = s_Version current)"
    and "jsonb g (s_Payload s) = Some payload" and "list_all pg_text [s_TenantID current, s_Name current]"
  shows "UpdateSchedule g current s e = Inl ErrScheduleChanged"
proof -
  have uniq: "r = row" if "r \<in> set (schedules e)" "by_name (s_TenantID current) (s_Name current) r" for r
    using distinct_map_inj [of schedule_key "schedules e" r row] assms(1-3) that
    by (simp add: by_name_key db_wf_def schedules_wf_def)
  have none: "\<forall>r \<in> set (schedules e). \<not> update_where current s r"
    using uniq assms(4-6) by (auto simp: update_where_def)
  then have u: "update_returning (update_where current s) (update_set g s payload) e
      = Inr (None, e\<lparr>schedules := upd (update_where current s) (update_set g s payload) (schedules e)\<rparr>)"
    by (simp add: update_returning_Inr find_None_all)
  have same: "upd (update_where current s) (update_set g s payload) (schedules e) = schedules e"
    using none by (intro upd_none) blast
  have "find (by_name (s_TenantID current) (s_Name current)) (schedules e) \<noteq> None"
    using assms(2,3) by (auto simp: find_None_all)
  with u same assms(7,8) show ?thesis
    by (auto simp: UpdateSchedule_def GetSchedule_def split: option.splits)
qed

lemma stale_update_detected:
  assumes p: "names_itself p" and op: "cmd_Operation p = CommandUpdate"
    and old: "GetSchedule (cmd_TenantID p) (cmd_Name p) d = Inr (old, d)"
    and wf: "db_wf (other d)"
    and row: "row \<in> set (schedules (other d))" "by_name (cmd_TenantID p) (cmd_Name p) row"
    and changed: "\<not> (sc_id row = s_ID old \<and> sc_version row = s_Version old)"
    and a: "apply_command g store other now p d = Inr (result, d')"
  shows "c_Code result = ResultChanged \<and> d' = other d"
proof -
  have au: "applyUpdate g store other p (NormalizeInstant now) d = Inr (result, d')"
    using a op by (simp add: apply_command_def Let_def)
  then obtain s where s: "scheduleToWrite g p old (NormalizeInstant now) = Inr s"
    using old by (auto simp: applyUpdate_def split: sum.splits)
  have names: "s_TenantID s = cmd_TenantID p" "s_Name s = cmd_Name p"
      "s_TenantID old = cmd_TenantID p" "s_Name old = cmd_Name p"
    using scheduleToWrite_name [OF s] p op GetSchedule_by_name [OF old] by (simp_all add: names_itself_def)
  show ?thesis
  proof (cases "jsonb store (s_Payload s)")
    case None
    with au old s show ?thesis by (simp add: applyUpdate_def UpdateSchedule_def)
  next
    case (Some payload)
    have "list_all pg_text [s_TenantID old, s_Name old]" using old names by (simp add: GetSchedule_Inr)
    then have "UpdateSchedule store old s (other d) = Inl ErrScheduleChanged"
      using row changed names Some wf by (intro UpdateSchedule_stale) simp_all
    with au old s show ?thesis by (auto simp: applyUpdate_def codeResult_def)
  qed
qed

text \<open>An update that did write found the version it had read and left the next one.\<close>

lemma update_wrote:
  assumes op: "cmd_Operation p = CommandUpdate" and wf: "db_wf (other d)"
    and a: "apply_command g store other now p d = Inr (result, d')" and code: "c_Code result = ResultUpdated"
  obtains old row where "GetSchedule (cmd_TenantID p) (cmd_Name p) d = Inr (old, d)"
    and "row \<in> set (schedules (other d))" and "sc_id row = s_ID old" and "sc_version row = s_Version old"
    and "\<exists>new \<in> set (schedules d'). sc_id new = sc_id row \<and> sc_version new = sc_version row + 1
           \<and> c_Schedule result = Some (scanSchedule new)"
proof -
  from a obtain s current x where cur: "GetSchedule (cmd_TenantID p) (cmd_Name p) d = Inr (current, d)"
    and u: "UpdateSchedule store current s (other d) = Inr (x, d')" and r: "result = scheduleResult ResultUpdated x"
    by (cases rule: apply_cases) (use op code in \<open>auto simp: result_literals scheduleResult_def\<close>)
  from u obtain row payload where row: "row \<in> set (schedules (other d))" "update_where current s row"
      "x = scanSchedule (update_set store s payload row)"
      "upd_checked ck_schedule (update_where current s) (update_set store s payload) (schedules (other d)) = Inr (schedules d')"
    by (rule UpdateSchedule_Inr)
  have "update_set store s payload row \<in> set (schedules d')"
    using row by (auto simp: upd_checked_Inr in_upd_iff)
  with row r cur show thesis
    by (intro that [of current row])
      (auto simp: update_where_def scheduleResult_def update_set_def intro!: bexI [of _ "update_set store s payload row"])
qed

end
