(* ===== verification/Planner.thy ===== *)
theory Planner
  imports Outbox
begin

text \<open>
  The planner of \<^verbatim>\<open>internal/application/planner.go\<close>: from a claimed schedule to the occurrences it
  owes, under its misfire and overlap policies, and to its next due instant. The recurrence
  port's functions are arguments of \<^verbatim>\<open>planSchedule\<close>; the lemmas about it are proved in the
  locale of that port.
\<close>

section \<open>Plans\<close>

definition dispatchPlan :: "instant \<Rightarrow> instant \<Rightarrow> OccurrencePlan" where
  "dispatchPlan scheduledAt observedAt =
     \<lparr>p_ScheduledAt = NormalizeInstant scheduledAt, p_ObservedAt = NormalizeInstant observedAt,
      p_Status = OccurrencePending, p_OutcomeCode = [], p_MissedCount = 1, p_Dispatch = True\<rparr>"

definition skippedPlan :: "instant \<Rightarrow> instant \<Rightarrow> string \<Rightarrow> OccurrencePlan" where
  "skippedPlan scheduledAt observedAt code =
     \<lparr>p_ScheduledAt = scheduledAt, p_ObservedAt = observedAt, p_Status = OccurrenceSkipped,
      p_OutcomeCode = code, p_MissedCount = 1, p_Dispatch = False\<rparr>"

text \<open>
  The loop of \<^verbatim>\<open>boundedCatchUp\<close>; the first argument is the number of plans still allowed, the
  limit less the plans made.
\<close>

fun catch_up_loop ::
  "(instant \<Rightarrow> instant res) \<Rightarrow> instant \<Rightarrow> nat \<Rightarrow> OccurrencePlan list \<Rightarrow> instant
    \<Rightarrow> (OccurrencePlan list \<times> instant) res" where
  "catch_up_loop nxt now 0 plans candidate = Inr (plans, candidate)"
| "catch_up_loop nxt now (Suc n) plans candidate =
     (if candidate > now then Inr (plans, candidate)
      else case nxt candidate of
        Inl err \<Rightarrow> Inl err
      | Inr t \<Rightarrow> catch_up_loop nxt now n (plans @ [dispatchPlan candidate now]) t)"

definition boundedCatchUp ::
  "(instant \<Rightarrow> instant res) \<Rightarrow> (instant \<Rightarrow> instant \<Rightarrow> instant res) \<Rightarrow> Schedule \<Rightarrow> instant \<Rightarrow> instant
    \<Rightarrow> (OccurrencePlan list \<times> instant) res" where
  "boundedCatchUp nxt nxtAfter schedule due now =
     (case catch_up_loop nxt now (nat (s_CatchUpLimit schedule)) [] due of
        Inl err \<Rightarrow> Inl err
      | Inr (plans, candidate) \<Rightarrow>
          if \<not> candidate > now then
            (case nxtAfter candidate now of
               Inl err \<Rightarrow> Inl err
             | Inr t \<Rightarrow> Inr (plans @ [skippedPlan candidate now CodeMisfireBoundExceeded], t))
          else Inr (plans, candidate))"

definition planSchedule ::
  "(string \<Rightarrow> string \<Rightarrow> instant \<Rightarrow> instant res) \<Rightarrow> (string \<Rightarrow> string \<Rightarrow> instant \<Rightarrow> instant \<Rightarrow> instant res)
    \<Rightarrow> Schedule \<Rightarrow> instant \<Rightarrow> (OccurrencePlan list \<times> instant) res" where
  "planSchedule next nextAfter schedule now0 =
     (let now = NormalizeInstant now0;
          due = NormalizeInstant (s_NextDueAt schedule);
          nxt = next (s_Rule schedule) (s_Timezone schedule);
          nxtAfter = nextAfter (s_Rule schedule) (s_Timezone schedule)
      in if IsZero due \<or> due > now then Inr ([], due)
         else if \<not> IsZero (s_RunAt schedule) then
           (if due < now \<and> s_MisfirePolicy schedule = MisfireSkip
            then Inr ([(dispatchPlan due now)\<lparr>p_Dispatch := False, p_Status := OccurrenceSkipped,
                         p_OutcomeCode := CodeMisfireSkipped\<rparr>], 0)
            else Inr ([dispatchPlan due now], 0))
         else if due = now then
           (case nxt due of Inl err \<Rightarrow> Inl err | Inr t \<Rightarrow> Inr ([dispatchPlan due now], t))
         else if s_MisfirePolicy schedule = MisfireSkip then
           (case nxtAfter due now of
              Inl err \<Rightarrow> Inl err | Inr t \<Rightarrow> Inr ([skippedPlan due now CodeMisfireSkipped], t))
         else if s_MisfirePolicy schedule = MisfireFireOnce then
           (case nxtAfter due now of Inl err \<Rightarrow> Inl err | Inr t \<Rightarrow> Inr ([dispatchPlan due now], t))
         else if s_MisfirePolicy schedule = MisfireCatchUpBounded then
           boundedCatchUp nxt nxtAfter schedule due now
         else Inl (Err ''unsupported misfire policy %q'' [s_MisfirePolicy schedule]))"

section \<open>Materialisation\<close>

definition effectivePlan :: "bool \<Rightarrow> OccurrencePlan \<Rightarrow> OccurrencePlan" where
  "effectivePlan openOccurrence plan =
     (if p_Dispatch plan \<and> openOccurrence
      then plan\<lparr>p_Dispatch := False, p_Status := OccurrenceSkipped, p_OutcomeCode := CodeOverlapBlocked\<rparr>
      else plan)"

fun insertPlans :: "pg \<Rightarrow> Schedule \<Rightarrow> bool \<Rightarrow> OccurrencePlan list \<Rightarrow> unit tx" where
  "insertPlans g schedule openOccurrence [] d = Inr ((), d)"
| "insertPlans g schedule openOccurrence (sourcePlan # plans) d =
     (let plan = effectivePlan openOccurrence sourcePlan
      in case InsertOccurrence g schedule plan d of
           Inl err \<Rightarrow> Inl err
         | Inr (None, d1) \<Rightarrow> insertPlans g schedule openOccurrence plans d1
         | Inr (Some occurrenceID, d1) \<Rightarrow>
             if \<not> p_Dispatch plan then insertPlans g schedule openOccurrence plans d1
             else (case InsertDispatchOutbox g schedule occurrenceID plan d1 of
                     Inl err \<Rightarrow> Inl err
                   | Inr (_, d2) \<Rightarrow>
                       insertPlans g schedule
                         (if s_OverlapPolicy schedule = OverlapForbid then True else openOccurrence) plans d2))"

definition materialize_tx ::
  "pg \<Rightarrow> string \<Rightarrow> Schedule \<Rightarrow> OccurrencePlan list \<Rightarrow> instant \<Rightarrow> instant \<Rightarrow> unit tx" where
  "materialize_tx g workerID schedule plans nextDueAt now d =
     (case (if s_OverlapPolicy schedule = OverlapForbid
            then HasOpenOccurrence (s_TenantID schedule) (s_ID schedule) d
            else Inr (False, d)) of
        Inl err \<Rightarrow> Inl err
      | Inr (openOccurrence, d1) \<Rightarrow>
          (case insertPlans g schedule openOccurrence plans d1 of
             Inl err \<Rightarrow> Inl err
           | Inr (_, d2) \<Rightarrow> AdvanceSchedule g schedule workerID nextDueAt now d2))"

definition materialize ::
  "tzdb \<Rightarrow> pg \<Rightarrow> tx_fault \<Rightarrow> string \<Rightarrow> Schedule \<Rightarrow> instant \<Rightarrow> db \<Rightarrow> goerr option \<times> db" where
  "materialize tz g fault workerID schedule now d =
     (case planSchedule (Next tz) (NextAfter tz) schedule now of
        Inl err \<Rightarrow>
          (case WithinTx fault (ReleaseScheduleClaim g schedule workerID now) d of
             (r, d') \<Rightarrow> (errors_Join (Some err) (err_of r), d'))
      | Inr (plans, nextDueAt) \<Rightarrow>
          (case WithinTx fault (materialize_tx g workerID schedule plans nextDueAt now) d of
             (r, d') \<Rightarrow> (err_of r, d')))"

section \<open>A planner cycle\<close>

record Planner =
  pl_workerID :: string
  pl_claimTTL :: duration
  pl_batchSize :: int

definition DefaultClaimTTL :: duration where "DefaultClaimTTL = 2 * Minute"
definition DefaultBatchSize :: int where "DefaultBatchSize = 100"

text \<open>The constructor's checks; the store, clock and recurrence it is given are not nil.\<close>

definition NewPlanner :: "string \<Rightarrow> duration \<Rightarrow> int \<Rightarrow> Planner res" where
  "NewPlanner workerID claimTTL batchSize =
     (if workerID = [] then Inl ErrInvalidDependencies
      else Inr \<lparr>pl_workerID = workerID,
                pl_claimTTL = (if claimTTL \<le> 0 then DefaultClaimTTL else claimTTL),
                pl_batchSize = (if batchSize \<le> 0 then DefaultBatchSize else batchSize)\<rparr>)"

text \<open>
  The claimed schedules are materialised one by one, every failure is joined to the result
  and the loop goes on; \<open>faults\<close> holds what the connection does to each transaction.
\<close>

fun materializeAll ::
  "tzdb \<Rightarrow> pg \<Rightarrow> (nat \<Rightarrow> tx_fault) \<Rightarrow> string \<Rightarrow> instant \<Rightarrow> nat \<Rightarrow> Schedule list \<Rightarrow> goerr option \<Rightarrow> db
    \<Rightarrow> goerr option \<times> db" where
  "materializeAll tz g faults workerID now i [] runErr d = (runErr, d)"
| "materializeAll tz g faults workerID now i (schedule # rest) runErr d =
     (case materialize tz g (faults i) workerID schedule now d of
        (None, d') \<Rightarrow> materializeAll tz g faults workerID now (Suc i) rest runErr d'
      | (Some err, d') \<Rightarrow>
          materializeAll tz g faults workerID now (Suc i) rest
            (errors_Join runErr (Some (ErrWrap ''materialize schedule %s/%s: %w''
               [s_TenantID schedule, s_Name schedule] err))) d')"

definition Planner_Run ::
  "tzdb \<Rightarrow> pg \<Rightarrow> Planner \<Rightarrow> (string \<Rightarrow> bool) \<Rightarrow> (nat \<Rightarrow> tx_fault) \<Rightarrow> instant \<Rightarrow> db \<Rightarrow> goerr option \<times> db" where
  "Planner_Run tz g p locked faults clockNow d =
     (let now = NormalizeInstant clockNow in
      case WithinTx (faults 0)
             (ClaimDueSchedules g locked now (pl_workerID p) (now + pl_claimTTL p) (pl_batchSize p)) d of
        (Inl err, d') \<Rightarrow> (Some (ErrWrap ''claim due schedules: %w'' [] err), d')
      | (Inr claimed, d') \<Rightarrow> materializeAll tz g faults (pl_workerID p) now 1 claimed None d')"

end
