(* ===== verification/PlannerProps.thy ===== *)
theory PlannerProps
  imports Planner
begin

text \<open>
  What a plan is, for every recurrence port that keeps its contract: the occurrences of the
  schedule in order, from the due instant on and none after the present one, bounded by the
  catch-up limit, and a next due instant in the future.
\<close>

section \<open>Chains of occurrences\<close>

text \<open>
  \<open>chain nxt c ts c'\<close>: from \<open>c\<close> on, \<open>ts\<close> are the successive occurrences and \<open>c'\<close> is the one
  after them.
\<close>

fun chain :: "(instant \<Rightarrow> instant res) \<Rightarrow> instant \<Rightarrow> instant list \<Rightarrow> instant \<Rightarrow> bool" where
  "chain nxt c [] c' \<longleftrightarrow> c = c'"
| "chain nxt c (t # ts) c' \<longleftrightarrow> t = c \<and> (case nxt c of Inl _ \<Rightarrow> False | Inr u \<Rightarrow> chain nxt u ts c')"

lemma catch_up_loop_chain:
  assumes "catch_up_loop nxt now n plans c = Inr (ps, c')"
  obtains ts where "ps = plans @ map (\<lambda>t. dispatchPlan t now) ts" and "length ts \<le> n"
    and "chain nxt c ts c'" and "\<forall>t \<in> set ts. t \<le> now" and "c' \<le> now \<Longrightarrow> length ts = n"
proof -
  have "\<exists>ts. ps = plans @ map (\<lambda>t. dispatchPlan t now) ts \<and> length ts \<le> n \<and> chain nxt c ts c'
      \<and> (\<forall>t \<in> set ts. t \<le> now) \<and> (c' \<le> now \<longrightarrow> length ts = n)"
    using assms
  proof (induction nxt now n plans c rule: catch_up_loop.induct)
    case (1 nxt now plans candidate)
    then show ?case by (intro exI [of _ "[]"]) simp
  next
    case (2 nxt now n plans candidate)
    show ?case
    proof (cases "candidate > now")
      case True
      with 2 show ?thesis by (intro exI [of _ "[]"]) simp
    next
      case False
      with 2(2) obtain u where u: "nxt candidate = Inr u"
        and "catch_up_loop nxt now n (plans @ [dispatchPlan candidate now]) u = Inr (ps, c')"
        by (auto split: sum.splits)
      from 2(1) [OF False u this(2)] obtain ts where
        "ps = (plans @ [dispatchPlan candidate now]) @ map (\<lambda>t. dispatchPlan t now) ts"
        "length ts \<le> n" "chain nxt u ts c'" "\<forall>t \<in> set ts. t \<le> now" "c' \<le> now \<longrightarrow> length ts = n"
        by blast
      with False u show ?thesis by (intro exI [of _ "candidate # ts"]) simp
    qed
  qed
  with that show ?thesis by blast
qed

lemma chain_bounds:
  assumes "chain nxt c ts c'" and "\<And>t u. nxt t = Inr u \<Longrightarrow> t < u"
  shows "c \<le> c' \<and> (\<forall>t \<in> set ts. c \<le> t \<and> t < c') \<and> sorted_wrt (<) (ts @ [c'])"
  using assms(1)
proof (induction ts arbitrary: c)
  case (Cons t ts)
  then obtain u where u: "t = c" "nxt c = Inr u" "chain nxt u ts c'" by (auto split: sum.splits)
  from Cons.IH [OF u(3)] assms(2) [OF u(2)] u(1) show ?case by (auto simp: sorted_wrt_append)
qed simp

lemma chain_aligned:
  assumes "chain nxt c ts c'" and "\<And>t u. nxt t = Inr u \<Longrightarrow> Millisecond dvd u" and "Millisecond dvd c"
  shows "Millisecond dvd c' \<and> (\<forall>t \<in> set ts. Millisecond dvd t)"
  using assms(1,3)
proof (induction ts arbitrary: c)
  case (Cons t ts)
  then obtain u where "t = c" "nxt c = Inr u" "chain nxt u ts c'" by (auto split: sum.splits)
  with Cons assms(2) show ?case by auto
qed simp

section \<open>The fields of a plan\<close>

lemma dispatchPlan_simps [simp]:
  "p_ScheduledAt (dispatchPlan t now) = NormalizeInstant t"
  "p_ObservedAt (dispatchPlan t now) = NormalizeInstant now"
  "p_Status (dispatchPlan t now) = OccurrencePending"
  "p_OutcomeCode (dispatchPlan t now) = []"
  "p_MissedCount (dispatchPlan t now) = 1"
  "p_Dispatch (dispatchPlan t now)"
  by (simp_all add: dispatchPlan_def)

lemma skippedPlan_simps [simp]:
  "p_ScheduledAt (skippedPlan t now code) = t"
  "p_ObservedAt (skippedPlan t now code) = now"
  "p_Status (skippedPlan t now code) = OccurrenceSkipped"
  "p_OutcomeCode (skippedPlan t now code) = code"
  "p_MissedCount (skippedPlan t now code) = 1"
  "\<not> p_Dispatch (skippedPlan t now code)"
  by (simp_all add: skippedPlan_def)

text \<open>A plan as the store expects it: pending and to be dispatched, or skipped.\<close>

definition plan_ok :: "OccurrencePlan \<Rightarrow> bool" where
  "plan_ok p \<longleftrightarrow> p_MissedCount p = 1 \<and>
     (if p_Dispatch p then p_Status p = OccurrencePending else p_Status p = OccurrenceSkipped)"

lemma plan_ok_simps [simp]: "plan_ok (dispatchPlan t now)" "plan_ok (skippedPlan t now code)"
  by (simp_all add: plan_ok_def)

lemma effectivePlan_simps [simp]:
  "p_ScheduledAt (effectivePlan b p) = p_ScheduledAt p"
  "p_ObservedAt (effectivePlan b p) = p_ObservedAt p"
  "p_MissedCount (effectivePlan b p) = p_MissedCount p"
  "p_Dispatch (effectivePlan b p) \<longleftrightarrow> p_Dispatch p \<and> \<not> b"
  by (auto simp: effectivePlan_def)

lemma plan_ok_effective: "plan_ok p \<Longrightarrow> plan_ok (effectivePlan b p)"
  by (simp add: plan_ok_def effectivePlan_def)

section \<open>Plans for a recurring schedule\<close>

text \<open>The plans of a recurring schedule that is due, by cases.\<close>

lemma planSchedule_cases:
  assumes "planSchedule next nextAfter s now = Inr (plans, nextDue)"
    and "s_RunAt s = 0"
    and "NormalizeInstant (s_NextDueAt s) = due" and "NormalizeInstant now = n" and "due \<noteq> 0" and "due \<le> n"
  obtains
    (on_time) "due = n" "next (s_Rule s) (s_Timezone s) due = Inr nextDue" "plans = [dispatchPlan due n]"
  | (skip) "due < n" "s_MisfirePolicy s = MisfireSkip"
      "nextAfter (s_Rule s) (s_Timezone s) due n = Inr nextDue"
      "plans = [skippedPlan due n CodeMisfireSkipped]"
  | (fire_once) "due < n" "s_MisfirePolicy s = MisfireFireOnce"
      "nextAfter (s_Rule s) (s_Timezone s) due n = Inr nextDue" "plans = [dispatchPlan due n]"
  | (caught_up) ts where "due < n" "s_MisfirePolicy s = MisfireCatchUpBounded"
      "chain (next (s_Rule s) (s_Timezone s)) due ts nextDue" "n < nextDue"
      "length ts \<le> nat (s_CatchUpLimit s)" "\<forall>t \<in> set ts. t \<le> n"
      "plans = map (\<lambda>t. dispatchPlan t n) ts"
  | (bounded) ts c where "due < n" "s_MisfirePolicy s = MisfireCatchUpBounded"
      "chain (next (s_Rule s) (s_Timezone s)) due ts c" "c \<le> n"
      "length ts = nat (s_CatchUpLimit s)" "\<forall>t \<in> set ts. t \<le> n"
      "plans = map (\<lambda>t. dispatchPlan t n) ts @ [skippedPlan c n CodeMisfireBoundExceeded]"
      "nextAfter (s_Rule s) (s_Timezone s) c n = Inr nextDue"
proof (cases "s_MisfirePolicy s = MisfireCatchUpBounded \<and> due < n")
  case True
  with assms have b: "boundedCatchUp (next (s_Rule s) (s_Timezone s)) (nextAfter (s_Rule s) (s_Timezone s))
      s due n = Inr (plans, nextDue)"
    by (auto simp: planSchedule_def Let_def IsZero_def)
  then obtain ps c where l: "catch_up_loop (next (s_Rule s) (s_Timezone s)) n (nat (s_CatchUpLimit s)) [] due
      = Inr (ps, c)"
    by (auto simp: boundedCatchUp_def split: sum.splits)
  then obtain ts where ts: "ps = map (\<lambda>t. dispatchPlan t n) ts" "length ts \<le> nat (s_CatchUpLimit s)"
    "chain (next (s_Rule s) (s_Timezone s)) due ts c" "\<forall>t \<in> set ts. t \<le> n"
    "c \<le> n \<Longrightarrow> length ts = nat (s_CatchUpLimit s)"
    by (auto elim: catch_up_loop_chain)
  show ?thesis
  proof (cases "c \<le> n")
    case cn: True
    with b l ts True show ?thesis
      by (intro bounded [of ts c]) (auto simp: boundedCatchUp_def split: sum.splits)
  next
    case False
    with b l ts True show ?thesis
      by (intro caught_up [of ts]) (auto simp: boundedCatchUp_def)
  qed
next
  case False
  with assms on_time skip fire_once show ?thesis
    by (auto simp: planSchedule_def Let_def IsZero_def split: sum.splits if_splits)
qed

context recurrence_port
begin

abbreviation planned :: "Schedule \<Rightarrow> instant \<Rightarrow> (OccurrencePlan list \<times> instant) res" where
  "planned \<equiv> planSchedule port_next port_next_after"

lemma plan_next_due:
  assumes p: "planned s now = Inr (plans, nextDue)"
    and r: "s_RunAt s = 0"
    and due: "NormalizeInstant (s_NextDueAt s) \<noteq> 0" "NormalizeInstant (s_NextDueAt s) \<le> NormalizeInstant now"
    and span: "NormalizeInstant now - NormalizeInstant (s_NextDueAt s) \<le> safe_span"
  shows "NormalizeInstant now < nextDue \<and> Millisecond dvd nextDue"
  using p r refl refl due
proof (cases rule: planSchedule_cases)
  case on_time
  then show ?thesis using next_later next_aligned by metis
next
  case skip
  then show ?thesis using span by (auto intro: next_after_aligned dest: next_after_later)
next
  case fire_once
  then show ?thesis using span by (auto intro: next_after_aligned dest: next_after_later)
next
  case (caught_up ts)
  then show ?thesis using chain_aligned [OF caught_up(3)] by (auto intro: next_aligned)
next
  case (bounded ts c)
  have "NormalizeInstant (s_NextDueAt s) \<le> c" using chain_bounds [OF bounded(3) next_later] by simp
  moreover have "Millisecond dvd c" using chain_aligned [OF bounded(3) next_aligned] by simp
  ultimately show ?thesis using bounded span by (auto intro: next_after_aligned dest: next_after_later)
qed

lemma plan_shape:
  assumes p: "planned s now = Inr (plans, nextDue)"
    and r: "s_RunAt s = 0"
    and due: "NormalizeInstant (s_NextDueAt s) \<noteq> 0" "NormalizeInstant (s_NextDueAt s) \<le> NormalizeInstant now"
    and limit: "1 \<le> s_CatchUpLimit s"
  shows "plans \<noteq> [] \<and> p_ScheduledAt (hd plans) = NormalizeInstant (s_NextDueAt s)
    \<and> sorted_wrt (<) (map p_ScheduledAt plans)
    \<and> (\<forall>p \<in> set plans. NormalizeInstant (s_NextDueAt s) \<le> p_ScheduledAt p
         \<and> p_ScheduledAt p \<le> NormalizeInstant now \<and> p_ObservedAt p = NormalizeInstant now \<and> plan_ok p)
    \<and> length (filter p_Dispatch plans) \<le> nat (s_CatchUpLimit s)
    \<and> length plans \<le> Suc (nat (s_CatchUpLimit s))"
proof -
  have norm: "map (p_ScheduledAt \<circ> (\<lambda>t. dispatchPlan t n)) ts = ts" if "\<forall>t \<in> set ts. Millisecond dvd t" for ts n
    using that by (induction ts) (auto simp: NormalizeInstant_id)
  have disp: "filter p_Dispatch (map (\<lambda>t. dispatchPlan t n) ts) = map (\<lambda>t. dispatchPlan t n) ts" for ts n
    by (induction ts) auto
  have hd_chain: "ts \<noteq> [] \<Longrightarrow> hd ts = c" if "chain nxt c ts c'" for nxt c ts c'
    using that by (cases ts) auto
  show ?thesis
    using p r refl refl due
  proof (cases rule: planSchedule_cases)
    case (caught_up ts)
    note al = chain_aligned [OF caught_up(3) next_aligned, simplified]
    note bo = chain_bounds [OF caught_up(3) next_later, simplified sorted_wrt_append]
    have "ts \<noteq> []" using caught_up(1,3,4) due by auto
    with caught_up al bo hd_chain [OF caught_up(3)] show ?thesis
      by (auto simp: norm disp hd_map NormalizeInstant_id)
  next
    case (bounded ts c)
    note al = chain_aligned [OF bounded(3) next_aligned, simplified]
    note bo = chain_bounds [OF bounded(3) next_later, simplified sorted_wrt_append]
    have "ts \<noteq> []" using bounded(5) limit by auto
    with bounded al bo hd_chain [OF bounded(3)] show ?thesis
      by (auto simp: norm disp hd_map NormalizeInstant_id sorted_wrt_append hd_append)
  qed (use limit in auto)
qed

end

end
