(* ===== verification/Materialize.thy ===== *)
theory Materialize
  imports PlannerProps Links
begin

text \<open>
  Materialisation of a plan in the database: it keeps the invariants, records every planned
  occurrence, lets at most one occurrence of a schedule that forbids overlap be open, and
  leaves nothing behind when the claim has been lost.
\<close>

section \<open>One plan\<close>

lemma new_occurrence_simps [simp]:
  "oc_id (new_occurrence g s p n) = gen_random_uuid g n"
  "oc_tenant_id (new_occurrence g s p n) = s_TenantID s"
  "oc_schedule_id (new_occurrence g s p n) = s_ID s"
  "oc_schedule_name (new_occurrence g s p n) = s_Name s"
  "oc_scheduled_at (new_occurrence g s p n) = ts3 g (p_ScheduledAt p)"
  "oc_status (new_occurrence g s p n) = p_Status p"
  by (simp_all add: new_occurrence_def)

lemma new_outbox_simps [simp]:
  "ob_id (new_outbox g s i p payload n) = gen_random_uuid g n"
  "ob_tenant_id (new_outbox g s i p payload n) = s_TenantID s"
  "ob_occurrence_id (new_outbox g s i p payload n) = i"
  "ob_schedule_id (new_outbox g s i p payload n) = s_ID s"
  "ob_schedule_name (new_outbox g s i p payload n) = s_Name s"
  "ob_scheduled_at (new_outbox g s i p payload n) = ts3 g (p_ScheduledAt p)"
  "ob_status (new_outbox g s i p payload n) = ''pending''"
  "ob_attempt_count (new_outbox g s i p payload n) = 0"
  by (simp_all add: new_outbox_def)

lemma linked_skip:
  "linked d \<Longrightarrow> oc_status row = ''skipped'' \<Longrightarrow> linked (d\<lparr>occurrences := occurrences d @ [row], uuid_seq := n\<rparr>)"
  by (fastforce simp: linked_def)

text \<open>The occurrence and its outbox row are inserted together.\<close>

lemma linked_pair:
  assumes l: "linked d" and fresh: "\<not> list_ex (\<lambda>r. oc_id r = oc_id row) (occurrences d)"
    and row: "row = new_occurrence g s plan k" "p_Status plan = OccurrencePending"
    and ins: "InsertDispatchOutbox g s (oc_id row) plan (d\<lparr>occurrences := occurrences d @ [row], uuid_seq := n\<rparr>)
      = Inr (u, d')"
  shows "linked d'"
  using ins
proof (cases rule: InsertDispatchOutbox_Inr)
  case exists
  then have False
    using l fresh by (fastforce simp: list_ex_iff linked_def link_def occurrence_of_def)
  then show ?thesis ..
next
  case (inserted b payload)
  have "link b row \<and> status_link (ob_status b) (oc_status row)"
    using inserted(2) row by (simp add: link_def occurrence_of_def status_link_def OccurrencePending_def)
  moreover have "occurrence_of b row" using inserted(2) row by (simp add: occurrence_of_def)
  ultimately show ?thesis using l inserted(6) by (fastforce simp: linked_def)
qed

lemma InsertOccurrence_grows: "InsertOccurrence g s plan d = Inr (x, d') \<Longrightarrow> grows d d' \<and> schedules d' = schedules d"
  by (erule InsertOccurrence_Inr) (auto intro: grows_append)

lemma InsertDispatchOutbox_grows:
  "InsertDispatchOutbox g s i plan d = Inr (x, d') \<Longrightarrow> grows d d' \<and> schedules d' = schedules d"
  by (erule InsertDispatchOutbox_Inr) (auto intro: grows_append)

section \<open>All plans\<close>

text \<open>
  The cases of one round of \<^verbatim>\<open>insertPlans\<close>: the occurrence exists, it is recorded as skipped, or
  it is recorded with its outbox row.
\<close>

lemma insertPlans_Cons:
  assumes "insertPlans g s b (p # plans) d = Inr (u, d')"
  obtains (exists) "list_ex (same_occurrence (new_occurrence g s (effectivePlan b p) (uuid_seq d))) (occurrences d)"
      "insertPlans g s b plans d = Inr (u, d')"
  | (skipped) row d1 where "row = new_occurrence g s (effectivePlan b p) (uuid_seq d)"
      "\<not> p_Dispatch (effectivePlan b p)"
      "InsertOccurrence g s (effectivePlan b p) d = Inr (Some (oc_id row), d1)"
      "d1 = d\<lparr>occurrences := occurrences d @ [row], uuid_seq := Suc (uuid_seq d)\<rparr>"
      "insertPlans g s b plans d1 = Inr (u, d')"
  | (dispatched) row d1 d2 where "row = new_occurrence g s (effectivePlan b p) (uuid_seq d)"
      "p_Dispatch (effectivePlan b p)"
      "InsertOccurrence g s (effectivePlan b p) d = Inr (Some (oc_id row), d1)"
      "\<not> list_ex (\<lambda>r. oc_id r = oc_id row) (occurrences d)"
      "d1 = d\<lparr>occurrences := occurrences d @ [row], uuid_seq := Suc (uuid_seq d)\<rparr>"
      "InsertDispatchOutbox g s (oc_id row) (effectivePlan b p) d1 = Inr ((), d2)"
      "insertPlans g s (if s_OverlapPolicy s = OverlapForbid then True else b) plans d2 = Inr (u, d')"
proof -
  obtain x d1 where i: "InsertOccurrence g s (effectivePlan b p) d = Inr (x, d1)"
    using assms by (auto simp: Let_def split: sum.splits)
  from i show thesis
  proof (cases rule: InsertOccurrence_Inr)
    case exists
    with assms i show thesis by (intro that(1)) (simp_all add: Let_def)
  next
    case (inserted row)
    show thesis
    proof (cases "p_Dispatch (effectivePlan b p)")
      case False
      with assms i inserted show thesis by (intro that(2) [of row d1]) (simp_all add: Let_def)
    next
      case True
      with assms i inserted obtain d2 where
        "InsertDispatchOutbox g s (oc_id row) (effectivePlan b p) d1 = Inr ((), d2)"
        "insertPlans g s (if s_OverlapPolicy s = OverlapForbid then True else b) plans d2 = Inr (u, d')"
        by (auto simp: Let_def split: sum.splits)
      with i inserted True show thesis by (intro that(3) [of row d1 d2]) simp_all
    qed
  qed
qed

lemma insertPlans_keeps:
  assumes "insertPlans g s b plans d = Inr (u, d')" and "list_all plan_ok plans"
    and "db_wf d" and "linked d"
  shows "db_wf d' \<and> linked d' \<and> grows d d' \<and> schedules d' = schedules d"
  using assms
proof (induction plans arbitrary: b d)
  case (Cons p plans)
  note ok = plan_ok_effective [of p b]
  from Cons.prems(1) show ?case
  proof (cases rule: insertPlans_Cons)
    case exists
    with Cons show ?thesis by auto
  next
    case (skipped row d1)
    have "linked d1"
      using linked_skip [OF Cons.prems(4)] skipped(1,2,4) ok Cons.prems(2)
      by (simp add: plan_ok_def OccurrenceSkipped_def)
    with Cons.IH [OF skipped(5)] Cons.prems InsertOccurrence_wf [OF skipped(3)]
      InsertOccurrence_grows [OF skipped(3)]
    show ?thesis by (auto intro: grows_trans)
  next
    case (dispatched row d1 d2)
    have "linked d2"
      using linked_pair [OF Cons.prems(4) dispatched(4) dispatched(1) _ dispatched(6) [unfolded dispatched(5)]]
        dispatched(2) ok Cons.prems(2) by (simp add: plan_ok_def)
    moreover have "db_wf d2"
      using Cons.prems(3) InsertOccurrence_wf [OF dispatched(3)] InsertDispatchOutbox_wf [OF dispatched(6)] by blast
    moreover have "grows d d2 \<and> schedules d2 = schedules d"
      using InsertOccurrence_grows [OF dispatched(3)] InsertDispatchOutbox_grows [OF dispatched(6)]
      by (auto intro: grows_trans)
    ultimately show ?thesis using Cons.IH [OF dispatched(7)] Cons.prems(2) by (auto intro: grows_trans)
  qed
qed simp

section \<open>Overlap\<close>

definition open_occurrences :: "string \<Rightarrow> string \<Rightarrow> db \<Rightarrow> occurrence_row list" where
  "open_occurrences tenantID scheduleID d =
     filter (\<lambda>r. oc_tenant_id r = tenantID \<and> oc_schedule_id r = scheduleID \<and> occurrence_open (oc_status r))
       (occurrences d)"

lemma HasOpenOccurrence_iff:
  "HasOpenOccurrence t i d = Inr (b, d') \<Longrightarrow> d' = d \<and> (b \<longleftrightarrow> open_occurrences t i d \<noteq> [])"
  by (auto simp: HasOpenOccurrence_def open_occurrences_def list_ex_iff filter_empty_conv split: if_splits)

lemma open_occurrences_frame [simp]:
  "open_occurrences t i (d\<lparr>outbox := x\<rparr>) = open_occurrences t i d"
  "open_occurrences t i (d\<lparr>uuid_seq := n\<rparr>) = open_occurrences t i d"
  "open_occurrences t i (d\<lparr>schedules := y\<rparr>) = open_occurrences t i d"
  by (simp_all add: open_occurrences_def)

lemma InsertDispatchOutbox_open:
  "InsertDispatchOutbox g s i plan d = Inr (x, d') \<Longrightarrow> open_occurrences t j d' = open_occurrences t j d"
  by (erule InsertDispatchOutbox_Inr) (auto simp: open_occurrences_def)

lemma status_open [simp]: "occurrence_open OccurrencePending" "\<not> occurrence_open OccurrenceSkipped"
  by (simp_all add: occurrence_open_def status_literals)

text \<open>
  While an occurrence is open nothing more is opened; otherwise a schedule that forbids
  overlap opens one at most.
\<close>

lemma insertPlans_overlap:
  assumes "insertPlans g s b plans d = Inr (u, d')" and "list_all plan_ok plans"
    and "s_OverlapPolicy s = OverlapForbid"
  shows "if b then open_occurrences (s_TenantID s) (s_ID s) d' = open_occurrences (s_TenantID s) (s_ID s) d
    else length (open_occurrences (s_TenantID s) (s_ID s) d') \<le> Suc (length (open_occurrences (s_TenantID s) (s_ID s) d))"
  using assms
proof (induction plans arbitrary: b d)
  case (Cons p plans)
  note ok = plan_ok_effective [of p b]
  from Cons.prems(1) show ?case
  proof (cases rule: insertPlans_Cons)
    case exists
    with Cons show ?thesis by auto
  next
    case (skipped row d1)
    have "open_occurrences (s_TenantID s) (s_ID s) d1 = open_occurrences (s_TenantID s) (s_ID s) d"
      using skipped(1,2,4) ok Cons.prems(2) by (simp add: open_occurrences_def plan_ok_def)
    with Cons.IH [OF skipped(5)] Cons.prems(2,3) show ?thesis by (cases b) simp_all
  next
    case (dispatched row d1 d2)
    have "length (open_occurrences (s_TenantID s) (s_ID s) d1)
        \<le> Suc (length (open_occurrences (s_TenantID s) (s_ID s) d))"
      using dispatched(5) by (simp add: open_occurrences_def)
    moreover have "\<not> b" using dispatched(2) by simp
    ultimately show ?thesis
      using Cons.IH [OF dispatched(7)] Cons.prems(2,3) InsertDispatchOutbox_open [OF dispatched(6)] by simp
  qed
qed simp

lemma AdvanceSchedule_dispatch:
  assumes "AdvanceSchedule g s w due now d = Inr (x, d')"
  shows "occurrences d' = occurrences d" "outbox d' = outbox d" "receipts d' = receipts d"
  by (subst AdvanceSchedule_Inr(3) [OF assms], simp)+

lemma materialize_tx_Inr:
  assumes "materialize_tx g w s plans due now d = Inr (u, d')"
  obtains b d2 where "insertPlans g s b plans d = Inr ((), d2)"
    and "AdvanceSchedule g s w due now d2 = Inr (u, d')"
    and "s_OverlapPolicy s = OverlapForbid \<Longrightarrow> b \<longleftrightarrow> open_occurrences (s_TenantID s) (s_ID s) d \<noteq> []"
  using assms HasOpenOccurrence_iff [of "s_TenantID s" "s_ID s" d]
  by (auto simp: materialize_tx_def split: sum.splits if_splits)

lemma materialize_tx_keeps:
  assumes "materialize_tx g w s plans due now d = Inr (u, d')" and "list_all plan_ok plans"
    and "db_wf d" and "linked d"
  shows "db_wf d' \<and> linked d' \<and> grows d d'"
  using assms(1)
proof (rule materialize_tx_Inr)
  fix b d2
  assume i: "insertPlans g s b plans d = Inr ((), d2)" and a: "AdvanceSchedule g s w due now d2 = Inr (u, d')"
  from insertPlans_keeps [OF i assms(2-4)] AdvanceSchedule_wf [OF a] AdvanceSchedule_dispatch [OF a]
  show ?thesis by (auto simp: linked_frame [of d' d2] intro: grows_trans grows_same_dispatch)
qed

lemma materialize_tx_overlap:
  assumes "materialize_tx g w s plans due now d = Inr (u, d')" and "list_all plan_ok plans"
    and "s_OverlapPolicy s = OverlapForbid"
  shows "length (open_occurrences (s_TenantID s) (s_ID s) d')
    \<le> max 1 (length (open_occurrences (s_TenantID s) (s_ID s) d))"
  using assms(1)
proof (rule materialize_tx_Inr)
  fix b d2
  assume i: "insertPlans g s b plans d = Inr ((), d2)" and a: "AdvanceSchedule g s w due now d2 = Inr (u, d')"
    and b: "s_OverlapPolicy s = OverlapForbid \<Longrightarrow> b \<longleftrightarrow> open_occurrences (s_TenantID s) (s_ID s) d \<noteq> []"
  have "open_occurrences (s_TenantID s) (s_ID s) d' = open_occurrences (s_TenantID s) (s_ID s) d2"
    using AdvanceSchedule_dispatch [OF a] by (simp add: open_occurrences_def)
  with insertPlans_overlap [OF i assms(2,3)] b [OF assms(3)] show ?thesis
    by (auto split: if_splits)
qed

end
