(* ===== verification/Dispatcher.thy ===== *)
theory Dispatcher
  imports Planner
begin

text \<open>
  The dispatcher of \<^verbatim>\<open>internal/application/dispatcher.go\<close>: one claimed work item from the optional
  lease over the attempt to the outcome that is recorded, the exponential backoff with full
  jitter, and the dispatch cycle. The processor's cycle (\<^verbatim>\<open>processor.go\<close>) runs the planner and
  then the dispatcher. What the lease store, the target, the random source, the clock and the
  connection answer while one item is processed is the record \<open>world\<close>.
\<close>

datatype lease_answer = NoLeaseStore | LeaseGranted | LeaseContended | LeaseFailed goerr

record world =
  at_lease :: lease_answer
  at_begin :: instant
  at_start :: instant
  at_end :: instant
  at_persist :: instant
  target_answer :: "DispatchWork \<Rightarrow> DispatchResult"
  attempt_error :: "goerr option"
  random_answer :: "int \<Rightarrow> int res"
  fault_begin :: tx_fault
  fault_persist :: tx_fault

section \<open>Backoff and jitter\<close>

definition coordinationRetryDelay :: duration where "coordinationRetryDelay = Second"
definition DefaultDispatchTimeout :: duration where "DefaultDispatchTimeout = 30 * Second"

text \<open>
  \<^verbatim>\<open>time.Duration(1) << n\<close> is a 64-bit shift, a zero multiplier makes the division panic; the
  products are 64-bit products.
\<close>

definition retryBackoff :: "RetryPolicy \<Rightarrow> int \<Rightarrow> duration res" where
  "retryBackoff policy failedAttempt =
     (let base = int64 (BackoffSeconds policy * Second);
          maximum = int64 (MaxBackoffSeconds policy * Second)
      in if base \<ge> maximum then Inr maximum
         else let multiplier = int64 (2 ^ nat (max (failedAttempt - 1) 0))
              in if multiplier = 0 then Inl (ErrPanic ''integer divide by zero'')
                 else if base > int64 (go_quot maximum multiplier) then Inr maximum
                 else Inr (min (int64 (base * multiplier)) maximum))"

definition fullJitter :: "(int \<Rightarrow> int res) \<Rightarrow> duration \<Rightarrow> duration res" where
  "fullJitter random ceiling =
     (if ceiling \<le> 0 then Inr 0
      else case random (int64 (ceiling + 1)) of
        Inl err \<Rightarrow> Inl err
      | Inr value \<Rightarrow>
          if value < 0 \<or> value > ceiling
          then Inl (Err ''random source returned a value outside the requested range'' [])
          else Inr value)"

definition boundedError :: "goerr option \<Rightarrow> string" where
  "boundedError err = (case err of None \<Rightarrow> [] | Some e \<Rightarrow> take 1024 (Error e))"

section \<open>One work item\<close>

definition normalizeAttemptResult :: "DispatchResult \<Rightarrow> goerr option \<Rightarrow> DispatchResult" where
  "normalizeAttemptResult result attemptErr =
     (case attemptErr of
        None \<Rightarrow> result
      | Some e \<Rightarrow>
          let result1 = (if r_Err result = None then result\<lparr>r_Err := Some e\<rparr> else result)
          in if errors_Is e ErrContextCanceled then result1\<lparr>r_Code := CodeCancelled\<rparr>
             else if errors_Is e ErrDeadlineExceeded then result1\<lparr>r_Code := CodeTargetTimeout\<rparr>
             else result1)"

text \<open>What \<^verbatim>\<open>persistResult\<close> decides for a result, before the transaction that records it.\<close>

datatype decision =
    Complete
  | Fail DispatchResult
  | Retry instant
  | Panic string

definition persistDecision :: "(int \<Rightarrow> int res) \<Rightarrow> instant \<Rightarrow> DispatchWork \<Rightarrow> DispatchResult \<Rightarrow> decision" where
  "persistDecision random now work result =
     (if Succeeded result then Complete
      else if \<not> RetryableDispatch result \<or> w_AttemptCount work \<ge> MaxAttempts (w_Retry work) then Fail result
      else
        let firstAttemptAt = (if IsZero (w_FirstAttemptAt work) then now else w_FirstAttemptAt work);
            deadline = firstAttemptAt + int64 (MaxRetryWindowSeconds (w_Retry work) * Second);
            remaining = Sub deadline now
        in if remaining \<le> 0 then Fail result
           else case retryBackoff (w_Retry work) (w_AttemptCount work) of
             Inl err \<Rightarrow> Panic (Error err)
           | Inr backoff \<Rightarrow>
               let ceiling = (if backoff > remaining then remaining else backoff)
               in case fullJitter random ceiling of
                    Inl err \<Rightarrow>
                      Fail (result\<lparr>r_Err := Some (ErrWrap ''scheduler retry jitter failed: %w'' [] err),
                                   r_Code := ''SCHEDULER_RETRY_JITTER_UNAVAILABLE''\<rparr>)
                  | Inr delay \<Rightarrow>
                      if \<not> now + delay < deadline then Fail result else Retry (now + delay))"

definition persistResult ::
  "pg \<Rightarrow> string \<Rightarrow> world \<Rightarrow> DispatchWork \<Rightarrow> DispatchResult \<Rightarrow> db \<Rightarrow> goerr option \<times> db" where
  "persistResult g workerID w work result d =
     (let now = NormalizeInstant (at_persist w)
      in case persistDecision (random_answer w) now work result of
           Complete \<Rightarrow> apfst err_of (WithinTx (fault_persist w) (CompleteDispatch g work workerID result now) d)
         | Fail result' \<Rightarrow> apfst err_of (WithinTx (fault_persist w) (FailDispatch g work workerID result' now) d)
         | Retry nextAttemptAt \<Rightarrow>
             apfst err_of (WithinTx (fault_persist w) (RetryDispatch g work workerID result nextAttemptAt now) d)
         | Panic m \<Rightarrow> (Some (ErrPanic m), d))"

text \<open>The outcome of the attempt: the target's answer with the context's error and the duration.\<close>

definition attemptResult :: "world \<Rightarrow> DispatchWork \<Rightarrow> DispatchResult" where
  "attemptResult w work =
     (normalizeAttemptResult (target_answer w work) (attempt_error w))
       \<lparr>r_Duration := max 0 (Sub (at_end w) (at_start w))\<rparr>"

definition contendedMessage :: string where
  "contendedMessage = ''another scheduler instance holds the optional coordination lease''"

text \<open>
  \<^verbatim>\<open>process\<close>: the third component of the result is the work handed to the target, if the attempt
  was made.
\<close>

definition deferItem ::
  "pg \<Rightarrow> string \<Rightarrow> world \<Rightarrow> DispatchWork \<Rightarrow> string \<Rightarrow> string \<Rightarrow> db \<Rightarrow> goerr option \<times> db" where
  "deferItem g workerID w claimed code message d =
     (let now = NormalizeInstant (at_begin w)
      in apfst err_of (WithinTx (fault_persist w)
           (DeferDispatch g claimed workerID (now + coordinationRetryDelay) code message now) d))"

definition beginItem :: "pg \<Rightarrow> string \<Rightarrow> world \<Rightarrow> DispatchWork \<Rightarrow> db \<Rightarrow> DispatchWork res \<times> db" where
  "beginItem g workerID w claimed d =
     WithinTx (fault_begin w) (BeginDispatch g claimed workerID (NormalizeInstant (at_begin w))) d"

definition process ::
  "pg \<Rightarrow> string \<Rightarrow> world \<Rightarrow> DispatchWork \<Rightarrow> db \<Rightarrow> goerr option \<times> db \<times> DispatchWork option" where
  "process g workerID w claimed d =
     (case at_lease w of
        LeaseFailed err \<Rightarrow>
          (case deferItem g workerID w claimed CodeCoordinationUnavailable (boundedError (Some err)) d of
             (e, d') \<Rightarrow> (e, d', None))
      | LeaseContended \<Rightarrow>
          (case deferItem g workerID w claimed CodeCoordinationContended contendedMessage d of
             (e, d') \<Rightarrow> (e, d', None))
      | _ \<Rightarrow>
          (case beginItem g workerID w claimed d of
             (Inl err, d1) \<Rightarrow> (Some err, d1, None)
           | (Inr work, d1) \<Rightarrow>
               (case persistResult g workerID w work (attemptResult w work) d1 of
                  (e, d2) \<Rightarrow> (e, d2, Some work))))"

section \<open>A dispatch cycle\<close>

record Dispatcher =
  di_workerID :: string
  di_claimTTL :: duration
  di_dispatchTimeout :: duration
  di_batchSize :: int

text \<open>The constructor's checks; the interfaces it is given are not nil.\<close>

definition NewDispatcher :: "string \<Rightarrow> duration \<Rightarrow> duration \<Rightarrow> int \<Rightarrow> Dispatcher res" where
  "NewDispatcher workerID claimTTL dispatchTimeout batchSize =
     (if workerID = [] then Inl ErrInvalidDependencies
      else Inr \<lparr>di_workerID = workerID,
                di_claimTTL = (if claimTTL \<le> 0 then DefaultClaimTTL else claimTTL),
                di_dispatchTimeout = (if dispatchTimeout \<le> 0 then DefaultDispatchTimeout else dispatchTimeout),
                di_batchSize = (if batchSize \<le> 0 then DefaultBatchSize else batchSize)\<rparr>)"

definition claim_tx ::
  "pg \<Rightarrow> (string \<Rightarrow> bool) \<Rightarrow> Dispatcher \<Rightarrow> instant \<Rightarrow> (DispatchWork list) tx" where
  "claim_tx g locked p now d =
     (case RecoverExhaustedDispatches g now d of
        Inl err \<Rightarrow> Inl err
      | Inr (_, d1) \<Rightarrow> ClaimDispatches g locked now (di_workerID p) (now + di_claimTTL p) (di_batchSize p) d1)"

fun processAll ::
  "pg \<Rightarrow> string \<Rightarrow> (nat \<Rightarrow> world) \<Rightarrow> nat \<Rightarrow> DispatchWork list \<Rightarrow> goerr option \<Rightarrow> db
    \<Rightarrow> goerr option \<times> db \<times> DispatchWork list" where
  "processAll g workerID worlds i [] runErr d = (runErr, d, [])"
| "processAll g workerID worlds i (work # rest) runErr d =
     (case process g workerID (worlds i) work d of
        (e, d', sent) \<Rightarrow>
          (case processAll g workerID worlds (Suc i) rest
                  (errors_Join runErr (map_option (ErrWrap ''dispatch outbox %s: %w'' [w_ID work]) e)) d' of
             (e', d'', sents) \<Rightarrow>
               (e', d'', (case sent of None \<Rightarrow> sents | Some s \<Rightarrow> s # sents))))"

definition Dispatcher_Run ::
  "pg \<Rightarrow> Dispatcher \<Rightarrow> (string \<Rightarrow> bool) \<Rightarrow> tx_fault \<Rightarrow> (nat \<Rightarrow> world) \<Rightarrow> instant \<Rightarrow> db
    \<Rightarrow> goerr option \<times> db \<times> DispatchWork list" where
  "Dispatcher_Run g p locked fault worlds clockNow d =
     (let now = NormalizeInstant clockNow in
      case WithinTx fault (claim_tx g locked p now) d of
        (Inl err, d') \<Rightarrow> (Some (ErrWrap ''claim dispatch outbox: %w'' [] err), d', [])
      | (Inr workItems, d') \<Rightarrow> processAll g (di_workerID p) worlds 0 workItems None d')"

text \<open>\<^verbatim>\<open>Processor.RunCycle\<close>: a planner that fails does not keep the dispatcher from running.\<close>

definition RunCycle ::
  "tzdb \<Rightarrow> pg \<Rightarrow> Planner \<Rightarrow> Dispatcher \<Rightarrow> (string \<Rightarrow> bool) \<Rightarrow> (nat \<Rightarrow> tx_fault) \<Rightarrow> instant
    \<Rightarrow> (string \<Rightarrow> bool) \<Rightarrow> tx_fault \<Rightarrow> (nat \<Rightarrow> world) \<Rightarrow> instant \<Rightarrow> db
    \<Rightarrow> goerr option \<times> db \<times> DispatchWork list" where
  "RunCycle tz g pl di locked1 faults now1 locked2 fault worlds now2 d =
     (case Planner_Run tz g pl locked1 faults now1 d of
        (planErr, d1) \<Rightarrow>
          (case Dispatcher_Run g di locked2 fault worlds now2 d1 of
             (dispatchErr, d2, sent) \<Rightarrow> (errors_Join planErr dispatchErr, d2, sent)))"

end
