(* ===== verification/DispatchProps.thy ===== *)
theory DispatchProps
  imports Dispatcher Links
begin

text \<open>
  The dispatcher's arithmetic and its effect on the database: the 64-bit backoff is the
  exponential one for every valid policy, a retry lies inside the retry window and within the
  backoff, and every transaction of a work item keeps the database invariants.
\<close>

section \<open>Backoff\<close>

lemma int64_seconds: "0 \<le> n \<Longrightarrow> n \<le> 86400 \<Longrightarrow> int64 (n * Second) = n * Second"
  by (rule int64_id) (auto simp: Second_def)

lemma int64_power: "n \<le> 62 \<Longrightarrow> int64 (2 ^ n) = 2 ^ n"
proof (rule int64_id)
  show "- (2 ^ 63) \<le> (2 :: int) ^ n" by (rule order.trans [of _ 0]) simp_all
  show "(2 :: int) ^ n < 2 ^ 63" if "n \<le> 62" using that by (intro power_strict_increasing) simp_all
qed

lemma over_quotient:
  assumes "0 < (m :: int)" and "a div m < b"
  shows "a < b * m"
proof -
  have "a < (a div m + 1) * m"
    using pos_mod_bound [OF assms(1), of a] div_mult_mod_eq [of a m] unfolding distrib_right by linarith
  also have "\<dots> \<le> b * m" using assms by (intro mult_right_mono) simp_all
  finally show ?thesis .
qed

lemma under_quotient:
  assumes "0 < (m :: int)" and "\<not> a div m < b"
  shows "b * m \<le> a"
proof -
  have "b * m \<le> (a div m) * m" using assms by (intro mult_right_mono) simp_all
  also have "\<dots> \<le> a"
    using pos_mod_sign [OF assms(1), of a] div_mult_mod_eq [of a m] by linarith
  finally show ?thesis .
qed

text \<open>The backoff before the next attempt is the base doubled per failed attempt, capped.\<close>

lemma retryBackoff_exact:
  assumes "retry_ok p" and "1 \<le> n" and "n \<le> 63"
  shows "retryBackoff p n =
    Inr (min (BackoffSeconds p * 2 ^ nat (n - 1)) (MaxBackoffSeconds p) * Second)"
proof -
  let ?B = "BackoffSeconds p * Second" and ?M = "MaxBackoffSeconds p * Second" and ?m = "(2 :: int) ^ nat (n - 1)"
  have ok: "1 \<le> BackoffSeconds p" "BackoffSeconds p \<le> MaxBackoffSeconds p" "MaxBackoffSeconds p \<le> 3600"
    using assms(1) by (simp_all add: retry_ok_def)
  have b: "int64 ?B = ?B" and m: "int64 ?M = ?M" using ok by (simp_all add: int64_seconds)
  have mu: "int64 ?m = ?m" using assms(2,3) by (intro int64_power) simp
  have mx: "max (n - 1) 0 = n - 1" using assms(2) by simp
  have S: "0 < Second" by (simp add: Second_def)
  have M: "0 \<le> ?M" "?M \<le> 3600000000000" using ok by (simp_all add: Second_def)
  have q: "go_quot ?M ?m = ?M div ?m" using M by (intro go_quot_nonneg) simp_all
  have qr: "0 \<le> ?M div ?m" "?M div ?m \<le> ?M"
    using M zdiv_mono2 [of ?M 1 ?m] by (simp_all add: pos_imp_zdiv_nonneg_iff)
  have iq: "int64 (?M div ?m) = ?M div ?m" by (rule int64_id) (use qr M in auto)
  have mul: "min (BackoffSeconds p * ?m) (MaxBackoffSeconds p) * Second = min (?B * ?m) ?M"
    using S by (simp add: min_def mult.commute mult.left_commute)
  show ?thesis
  proof (cases "?M div ?m < ?B")
    case True
    then have "?M < ?B * ?m" by (rule over_quotient [rotated]) simp
    moreover have "?m \<noteq> 0" by simp
    ultimately show ?thesis
      using True by (simp add: retryBackoff_def Let_def b m mu mx q iq mul)
  next
    case False
    then have le: "?B * ?m \<le> ?M" by (rule under_quotient [rotated]) simp
    have "0 \<le> ?B * ?m" using ok S by simp
    then have ib: "int64 (?B * ?m) = ?B * ?m" using le M by (intro int64_id) auto
    have "?B * 1 \<le> ?B * ?m" using ok S by (intro mult_left_mono) simp_all
    with le have cap: "?M \<le> ?B \<Longrightarrow> ?B * ?m = ?M" by linarith
    have "?m \<noteq> 0" by simp
    with False le cap show ?thesis
      by (auto simp: retryBackoff_def Let_def b m mu mx q iq mul ib)
  qed
qed

lemma fullJitter_range:
  assumes "fullJitter random ceiling = Inr delay" and "0 \<le> ceiling"
  shows "0 \<le> delay \<and> delay \<le> ceiling"
  using assms by (auto simp: fullJitter_def split: if_splits sum.splits)

section \<open>Decisions\<close>

text \<open>The end of the retry window of a work item.\<close>

definition retry_deadline :: "instant \<Rightarrow> DispatchWork \<Rightarrow> instant" where
  "retry_deadline now work =
     (if IsZero (w_FirstAttemptAt work) then now else w_FirstAttemptAt work)
     + MaxRetryWindowSeconds (w_Retry work) * Second"

lemma persistDecision_Retry:
  assumes "persistDecision random now work result = Retry t" and "retry_ok (w_Retry work)"
    and "1 \<le> w_AttemptCount work" and "w_AttemptCount work \<le> 63"
  shows "\<not> Succeeded result \<and> RetryableDispatch result \<and> w_AttemptCount work < MaxAttempts (w_Retry work)
    \<and> now \<le> t \<and> t < retry_deadline now work
    \<and> t \<le> now + min (BackoffSeconds (w_Retry work) * 2 ^ nat (w_AttemptCount work - 1))
                   (MaxBackoffSeconds (w_Retry work)) * Second"
proof -
  let ?w = "w_Retry work"
  let ?bound = "min (BackoffSeconds ?w * 2 ^ nat (w_AttemptCount work - 1)) (MaxBackoffSeconds ?w) * Second"
  have win: "int64 (MaxRetryWindowSeconds ?w * Second) = MaxRetryWindowSeconds ?w * Second"
    using assms(2) by (intro int64_seconds) (simp_all add: retry_ok_def)
  note bo = retryBackoff_exact [OF assms(2-4)]
  let ?rem = "Sub (retry_deadline now work) now"
  let ?ceil = "if ?bound > ?rem then ?rem else ?bound"
  have ns: "\<not> Succeeded result" "RetryableDispatch result" "w_AttemptCount work < MaxAttempts ?w"
    and rem: "0 < ?rem"
    using assms(1) by (auto simp: persistDecision_def Let_def win retry_deadline_def split: if_splits)
  obtain delay where d: "fullJitter random ?ceil = Inr delay" and t: "t = now + delay"
      "now + delay < retry_deadline now work"
    using assms(1) ns rem bo
    by (auto simp: persistDecision_def Let_def win retry_deadline_def split: if_splits sum.splits)
  have "0 \<le> ?bound" using assms(2) by (simp add: retry_ok_def Second_def)
  then have "0 \<le> delay \<and> delay \<le> ?ceil" using d rem by (intro fullJitter_range) auto
  then have "0 \<le> delay" "delay \<le> ?bound" by (auto split: if_splits)
  with ns t show ?thesis by simp
qed

lemma persistDecision_no_panic:
  assumes "retry_ok (w_Retry work)" and "1 \<le> w_AttemptCount work" and "w_AttemptCount work \<le> 63"
  shows "persistDecision random now work result \<noteq> Panic m"
  using retryBackoff_exact [OF assms]
  by (auto simp: persistDecision_def Let_def split: sum.splits)

section \<open>The transactions of a work item\<close>

lemma transition_keeps:
  assumes "transitionDispatch g work w st st result nx dn now d = Inr (x, d')"
    and "db_wf d" "linked d" "work_of d work" "st \<noteq> ''dispatching''"
  shows "db_wf d' \<and> linked d' \<and> grows d d'"
  using transitionDispatch_wf [OF assms(1,2)] transitionDispatch_linked [OF assms]
    transitionDispatch_grows [OF assms(1-4)] by blast

lemma terminal_literals [simp]:
  "OutboxRetrying = OccurrenceRetrying" "OutboxSucceeded = OccurrenceSucceeded" "OutboxFailed = OccurrenceFailed"
  "OccurrenceRetrying \<noteq> ''dispatching''" "OccurrenceSucceeded \<noteq> ''dispatching''" "OccurrenceFailed \<noteq> ''dispatching''"
  by (simp_all add: status_literals)

definition db_ok :: "db \<Rightarrow> db \<Rightarrow> bool" where
  "db_ok d d' \<longleftrightarrow> db_wf d' \<and> linked d' \<and> grows d d'"

lemma db_ok_refl: "db_wf d \<Longrightarrow> linked d \<Longrightarrow> db_ok d d"
  by (simp add: db_ok_def)

lemma deferItem_ok:
  assumes "db_wf d" "linked d" "work_of d work"
  shows "db_ok d (snd (deferItem g w wd work code message d))"
  unfolding deferItem_def Let_def snd_apfst DeferDispatch_def
  by (rule WithinTx_keeps)
    (use assms in \<open>auto simp: db_ok_def dest: transition_keeps\<close>)

lemma persistResult_ok:
  assumes "db_wf d" "linked d" "work_of d work"
  shows "db_ok d (snd (persistResult g w wd work result d))"
proof -
  have "db_ok d (snd (WithinTx f (transitionDispatch g work w st st r nx dn now) d))"
    if "st \<noteq> ''dispatching''" for f st r nx dn now
    by (rule WithinTx_keeps) (use assms that in \<open>auto simp: db_ok_def dest: transition_keeps\<close>)
  then show ?thesis
    using db_ok_refl [OF assms(1,2)]
    by (auto simp: persistResult_def Let_def CompleteDispatch_def FailDispatch_def RetryDispatch_def
        split: decision.splits)
qed

lemma BeginDispatch_ok:
  assumes "BeginDispatch g work w now d = Inr (x, d')" and "db_wf d" "linked d"
  shows "db_ok d d'"
  using BeginDispatch_wf [OF assms(1,2)] BeginDispatch_linked [OF assms] BeginDispatch_grows [OF assms]
  by (simp add: db_ok_def)

lemma claim_tx_Inr:
  assumes "claim_tx g locked p now d = Inr (x, d')"
  obtains d1 where "RecoverExhaustedDispatches g now d = Inr ((), d1)"
    and "ClaimDispatches g locked now (di_workerID p) (now + di_claimTTL p) (di_batchSize p) d1 = Inr (x, d')"
  using assms by (auto simp: claim_tx_def split: sum.splits)

lemma claim_tx_ok:
  assumes "claim_tx g locked p now d = Inr (x, d')" and "db_wf d" "linked d"
  shows "db_ok d d'"
  using assms(1)
proof (rule claim_tx_Inr)
  fix d1
  assume r: "RecoverExhaustedDispatches g now d = Inr ((), d1)"
    and c: "ClaimDispatches g locked now (di_workerID p) (now + di_claimTTL p) (di_batchSize p) d1 = Inr (x, d')"
  have 1: "db_wf d1" "linked d1" "grows d d1"
    using RecoverExhaustedDispatches_wf [OF r assms(2)] RecoverExhaustedDispatches_linked [OF r assms(2,3)]
      RecoverExhaustedDispatches_grows [OF r assms(2,3)] by simp_all
  with ClaimDispatches_wf [OF c 1(1)] ClaimDispatches_linked [OF c 1(1,2)] ClaimDispatches_grows [OF c 1(1)]
  show ?thesis by (auto simp: db_ok_def intro: grows_trans)
qed

lemma scanDispatch_work_of: "b \<in> set (outbox d) \<Longrightarrow> outbox_identity b c \<Longrightarrow> work_of d (scanDispatch c)"
  by (auto simp: work_of_def scanDispatch_def outbox_identity_def)

lemma claim_tx_work:
  assumes "claim_tx g locked p now d = Inr (works, d')" and "db_wf d" "linked d"
  shows "\<forall>x \<in> set works. work_of d' x"
  using assms(1)
proof (rule claim_tx_Inr)
  fix d1
  assume r: "RecoverExhaustedDispatches g now d = Inr ((), d1)"
    and c: "ClaimDispatches g locked now (di_workerID p) (now + di_claimTTL p) (di_batchSize p) d1 = Inr (works, d')"
  have "grows d1 d'" using ClaimDispatches_grows [OF c RecoverExhaustedDispatches_wf [OF r assms(2)]] .
  moreover have "\<forall>x \<in> set works. work_of d1 x"
    using ClaimDispatches_Inr(2) [OF c] by (auto intro: scanDispatch_work_of)
  ultimately show ?thesis by (blast intro: work_of_grows)
qed

lemma BeginDispatch_row:
  assumes "BeginDispatch g work w now d = Inr (x, d')"
  obtains b where "b \<in> set (outbox d)" and "begin_where work w now b" and "x = scanDispatch (begin_set g now b)"
    and "begin_set g now b \<in> set (outbox d')" and "w_ID x = ob_id b"
    and "ob_attempt_count (begin_set g now b) = ob_attempt_count b + 1"
  using assms
proof (rule BeginDispatch_Inr)
  fix b
  assume f: "find (begin_where work w now) (outbox d) = Some b" and x: "x = scanDispatch (begin_set g now b)"
    and u: "upd_checked ck_outbox (begin_where work w now) (begin_set g now) (outbox d) = Inr (outbox d')"
  note b = find_Some_in [OF f]
  have "begin_set g now b \<in> set (outbox d')" using u b by (auto simp: upd_checked_Inr in_upd_iff)
  then show thesis using b x by (intro that [of b]) (simp_all add: scanDispatch_def begin_set_def)
qed

end
