(* ===== verification/System.thy ===== *)
theory System
  imports CommandProps Materialize DispatchProps
begin

text \<open>
  The running system: any number of scheduler processes over one database, interleaved at
  the granularity of transactions. The state holds the database and what the processes have
  in memory; a step is a command, a claim, a materialisation, a deferral, the start of an
  attempt, the call of the target, the recording of its outcome, or a crash that loses the
  memory of a worker. Connections may fail at any transaction, and lose the acknowledgement
  of one that was committed.
\<close>

section \<open>The state and its steps\<close>

record sys =
  sys_db :: db
  planning :: "(string \<times> instant \<times> Schedule) list"
  claimed :: "(string \<times> DispatchWork) list"
  started :: "(string \<times> DispatchWork) list"
  answered :: "(string \<times> DispatchWork) list"
  calls :: "DispatchWork list"

definition init_sys :: sys where
  "init_sys = \<lparr>sys_db = empty_db, planning = [], claimed = [], started = [], answered = [], calls = []\<rparr>"

definition values_of :: "'a list res \<Rightarrow> 'a list" where
  "values_of r = (case r of Inl _ \<Rightarrow> [] | Inr xs \<Rightarrow> xs)"

definition forget :: "string \<Rightarrow> sys \<Rightarrow> sys" where
  "forget w s = s\<lparr>planning := filter (\<lambda>x. fst x \<noteq> w) (planning s), claimed := filter (\<lambda>x. fst x \<noteq> w) (claimed s),
     started := filter (\<lambda>x. fst x \<noteq> w) (started s), answered := filter (\<lambda>x. fst x \<noteq> w) (answered s)\<rparr>"

inductive step :: "golib \<Rightarrow> pg \<Rightarrow> sys \<Rightarrow> sys \<Rightarrow> bool" for g store where
  command:
    "Execute g store fault id now stamp c (sys_db s) = (r, d') \<Longrightarrow> step g store s (s\<lparr>sys_db := d'\<rparr>)"
| claim_due:
    "WithinTx fault (ClaimDueSchedules store locked (NormalizeInstant now) w (NormalizeInstant now + ttl) n) (sys_db s) = (r, d')
     \<Longrightarrow> step g store s (s\<lparr>sys_db := d',
           planning := map (\<lambda>x. (w, NormalizeInstant now, x)) (values_of r) @ planning s\<rparr>)"
| plan:
    "(w, now, x) \<in> set (planning s) \<Longrightarrow> materialize (LoadLocation g) store fault w x now (sys_db s) = (e, d')
     \<Longrightarrow> step g store s (s\<lparr>sys_db := d', planning := remove1 (w, now, x) (planning s)\<rparr>)"
| claim_work:
    "WithinTx fault (claim_tx store locked p (NormalizeInstant now)) (sys_db s) = (r, d')
     \<Longrightarrow> step g store s (s\<lparr>sys_db := d', claimed := map (Pair (di_workerID p)) (values_of r) @ claimed s\<rparr>)"
| defer_work:
    "(w, x) \<in> set (claimed s) \<Longrightarrow> deferItem store w wd x code message (sys_db s) = (e, d')
     \<Longrightarrow> step g store s (s\<lparr>sys_db := d', claimed := remove1 (w, x) (claimed s)\<rparr>)"
| begin_fails:
    "(w, x) \<in> set (claimed s) \<Longrightarrow> beginItem store w wd x (sys_db s) = (Inl e, d')
     \<Longrightarrow> step g store s (s\<lparr>sys_db := d', claimed := remove1 (w, x) (claimed s)\<rparr>)"
| begin_work:
    "(w, x) \<in> set (claimed s) \<Longrightarrow> beginItem store w wd x (sys_db s) = (Inr y, d')
     \<Longrightarrow> step g store s (s\<lparr>sys_db := d', claimed := remove1 (w, x) (claimed s), started := (w, y) # started s\<rparr>)"
| call_target:
    "(w, x) \<in> set (started s)
     \<Longrightarrow> step g store s (s\<lparr>started := remove1 (w, x) (started s), answered := (w, x) # answered s,
           calls := x # calls s\<rparr>)"
| persist:
    "(w, x) \<in> set (answered s) \<Longrightarrow> persistResult store w wd x (attemptResult wd x) (sys_db s) = (e, d')
     \<Longrightarrow> step g store s (s\<lparr>sys_db := d', answered := remove1 (w, x) (answered s)\<rparr>)"
| crash: "step g store s (forget w s)"

definition reachable :: "golib \<Rightarrow> pg \<Rightarrow> sys \<Rightarrow> bool" where
  "reachable g store s \<longleftrightarrow> (step g store)\<^sup>*\<^sup>* init_sys s"

lemma reachable_step: "reachable g store s \<Longrightarrow> step g store s s' \<Longrightarrow> reachable g store s'"
  by (simp add: reachable_def)

section \<open>The transactions of a step\<close>

lemma planSchedule_plan_ok:
  assumes "planSchedule next nextAfter s now = Inr (plans, due)"
  shows "list_all plan_ok plans"
proof (cases "s_RunAt s = 0 \<and> NormalizeInstant (s_NextDueAt s) \<noteq> 0 \<and> NormalizeInstant (s_NextDueAt s) \<le> NormalizeInstant now")
  case True
  with assms show ?thesis
    by (elim conjE planSchedule_cases [OF assms _ refl refl]) (auto simp: list_all_iff)
next
  case False
  with assms show ?thesis
    by (auto simp: planSchedule_def Let_def IsZero_def plan_ok_def split: if_splits)
qed

lemma materialize_ok:
  assumes "materialize tz g fault w s now d = (e, d')" and "db_wf d" "linked d"
  shows "db_ok d d'"
proof (cases "planSchedule (Next tz) (NextAfter tz) s now")
  case (Inl err)
  have "db_ok d (snd (WithinTx fault (ReleaseScheduleClaim g s w now) d))"
  proof (rule WithinTx_keeps)
    fix a d1 assume r: "ReleaseScheduleClaim g s w now d = Inr (a, d1)"
    have f: "outbox d1 = outbox d \<and> occurrences d1 = occurrences d \<and> receipts d1 = receipts d"
      by (subst (1 2 3) ReleaseScheduleClaim_Inr(3) [OF r]) simp
    with ReleaseScheduleClaim_wf [OF r] linked_frame [of d1 d] grows_same_dispatch [of d1 d] assms(2,3)
    show "db_ok d d1" by (simp add: db_ok_def)
  qed (rule db_ok_refl [OF assms(2,3)])
  with Inl assms(1) show ?thesis by (auto simp: materialize_def split: prod.splits)
next
  case (Inr pd)
  obtain plans due where p: "planSchedule (Next tz) (NextAfter tz) s now = Inr (plans, due)"
    using Inr by (cases pd) simp
  have "db_ok d (snd (WithinTx fault (materialize_tx g w s plans due now) d))"
  proof (rule WithinTx_keeps)
    show "db_ok d d1" if "materialize_tx g w s plans due now d = Inr (a, d1)" for a d1
      using materialize_tx_keeps [OF that planSchedule_plan_ok [OF p] assms(2,3)] by (simp add: db_ok_def)
  qed (rule db_ok_refl [OF assms(2,3)])
  with p assms(1) show ?thesis by (auto simp: materialize_def split: prod.splits)
qed

lemma Execute_ok:
  assumes "Execute g store fault id now stamp c d = (r, d')" and "db_wf d" "linked d"
  shows "db_ok d d'"
proof (cases "prepare g c")
  case (Inl e)
  with assms show ?thesis by (simp add: Execute_def db_ok_refl)
next
  case (Inr p)
  have "db_ok d (snd (WithinTx fault (execute_tx g store id now stamp p) d))"
  proof (rule WithinTx_keeps)
    show "db_ok d d1" if "execute_tx g store id now stamp p d = Inr (a, d1)" for a d1
      using execute_tx_keeps [OF that prepare_names [OF Inr]] assms(2,3) by (simp add: db_ok_def)
  qed (rule db_ok_refl [OF assms(2,3)])
  with Inr assms(1) show ?thesis by (simp add: Execute_def)
qed

lemma claim_due_ok:
  assumes "WithinTx fault (ClaimDueSchedules store locked now w e n) d = (r, d')" and "db_wf d" "linked d"
  shows "db_ok d d'"
proof -
  have "db_ok d (snd (WithinTx fault (ClaimDueSchedules store locked now w e n) d))"
  proof (rule WithinTx_keeps)
    fix a d1 assume r: "ClaimDueSchedules store locked now w e n d = Inr (a, d1)"
    have f: "outbox d1 = outbox d \<and> occurrences d1 = occurrences d \<and> receipts d1 = receipts d"
      by (subst (1 2 3) ClaimDueSchedules_Inr(3) [OF r]) simp
    with ClaimDueSchedules_wf [OF r] linked_frame [of d1 d] grows_same_dispatch [of d1 d] assms(2,3)
    show "db_ok d d1" by (simp add: db_ok_def)
  qed (rule db_ok_refl [OF assms(2,3)])
  with assms(1) show ?thesis by simp
qed

lemma claim_work_ok:
  assumes "WithinTx fault (claim_tx store locked p now) d = (r, d')" and "db_wf d" "linked d"
  shows "db_ok d d' \<and> (\<forall>x \<in> set (values_of r). work_of d' x)"
  using assms(1)
proof (cases rule: WithinTx_cases)
  case (rolled_back e)
  then show ?thesis using db_ok_refl [OF assms(2,3)] by (simp add: values_of_def)
next
  case (committed a)
  from claim_tx_ok [OF committed(1) assms(2,3)] claim_tx_work [OF committed(1) assms(2,3)] committed(2)
  show ?thesis by (auto simp: values_of_def)
qed

lemma begin_ok:
  assumes "beginItem store w wd x d = (r, d')" and "db_wf d" "linked d"
  shows "db_ok d d'"
proof -
  have "db_ok d (snd (WithinTx (fault_begin wd) (BeginDispatch store x w (NormalizeInstant (at_begin wd))) d))"
    by (rule WithinTx_keeps) (use BeginDispatch_ok assms(2,3) db_ok_refl in blast)+
  with assms(1) show ?thesis by (simp add: beginItem_def)
qed

lemma begin_row:
  assumes "beginItem store w wd x d = (Inr y, d')"
  obtains b c where "b \<in> set (outbox d)" and "c \<in> set (outbox d')" and "outbox_identity b c"
    and "y = scanDispatch c" and "ob_attempt_count c = ob_attempt_count b + 1"
proof -
  from assms have "BeginDispatch store x w (NormalizeInstant (at_begin wd)) d = Inr (y, d')"
    unfolding beginItem_def by (cases rule: WithinTx_cases) auto
  then show thesis by (rule BeginDispatch_row) (rule that, auto)
qed

section \<open>The invariant\<close>

text \<open>The calls made and the attempts begun for an outbox row.\<close>

definition uses :: "sys \<Rightarrow> string \<Rightarrow> nat" where
  "uses s i = length (filter (\<lambda>x. w_ID x = i) (calls s)) + length (filter (\<lambda>x. w_ID (snd x) = i) (started s))"

definition held :: "sys \<Rightarrow> DispatchWork set" where
  "held s = snd ` set (claimed s) \<union> snd ` set (started s) \<union> snd ` set (answered s) \<union> set (calls s)"

definition sys_inv :: "sys \<Rightarrow> bool" where
  "sys_inv s \<longleftrightarrow> db_wf (sys_db s) \<and> linked (sys_db s)
     \<and> (\<forall>x \<in> held s. work_of (sys_db s) x)
     \<and> (\<forall>b \<in> set (outbox (sys_db s)). int (uses s (ob_id b)) \<le> ob_attempt_count b)"

lemma sys_inv_init: "sys_inv init_sys"
  by (simp add: sys_inv_def init_sys_def db_wf_empty linked_def held_def) (simp add: empty_db_def)

lemma uses_none:
  assumes "\<forall>x \<in> held s. work_of d x" and "\<forall>b \<in> set (outbox d). ob_id b \<noteq> i"
  shows "uses s i = 0"
  using assms by (fastforce simp: uses_def held_def work_of_def filter_empty_conv)

text \<open>A transaction of another kind: the database grows, the attempts in use do not.\<close>

lemma sys_inv_keeps:
  assumes inv: "sys_inv s" and ok: "db_ok (sys_db s) (sys_db s')"
    and held: "\<forall>x \<in> held s'. x \<in> held s \<or> work_of (sys_db s') x"
    and uses: "\<And>i. uses s' i \<le> uses s i"
  shows "sys_inv s'"
proof -
  let ?d = "sys_db s" and ?d' = "sys_db s'"
  have wf': "db_wf ?d'" "linked ?d'" and gr: "grows ?d ?d'" using ok by (simp_all add: db_ok_def)
  have h: "\<forall>x \<in> held s. work_of ?d x" using inv by (simp add: sys_inv_def)
  have "\<forall>x \<in> held s'. work_of ?d' x" using held h gr by (blast intro: work_of_grows)
  moreover have "int (uses s' (ob_id b')) \<le> ob_attempt_count b'" if b': "b' \<in> set (outbox ?d')" for b'
  proof (cases "\<exists>b \<in> set (outbox ?d). ob_id b = ob_id b'")
    case True
    then obtain b where b: "b \<in> set (outbox ?d)" "ob_id b = ob_id b'" by blast
    then obtain c where c: "c \<in> set (outbox ?d')" "outbox_identity b c" "ob_attempt_count b \<le> ob_attempt_count c"
      using growsD(1) [OF gr] by blast
    have "c = b'"
      using distinct_map_inj [of ob_id "outbox ?d'" c b'] wf' b b' c
      by (simp add: db_wf_def outbox_wf_def outbox_identity_def)
    moreover have "int (uses s (ob_id b)) \<le> ob_attempt_count b" using inv b(1) by (simp add: sys_inv_def)
    ultimately show ?thesis using c(3) b(2) uses [of "ob_id b'"] by simp
  next
    case False
    then have "uses s (ob_id b') = 0" by (intro uses_none [OF h]) auto
    moreover have "0 \<le> ob_attempt_count b'"
      using wf' b' by (auto simp: db_wf_def outbox_wf_def list_all_iff ck_outbox_def)
    ultimately show ?thesis using uses [of "ob_id b'"] by simp
  qed
  ultimately show ?thesis using wf' by (simp add: sys_inv_def)
qed

lemma remove1_subset: "set (remove1 x xs) \<subseteq> set xs"
  by (rule set_remove1_subset)

lemma length_filter_remove1: "length (filter p (remove1 x xs)) \<le> length (filter p xs)"
  by (induction xs) auto

lemma length_filter_remove1_in:
  "x \<in> set xs \<Longrightarrow> p x \<Longrightarrow> Suc (length (filter p (remove1 x xs))) = length (filter p xs)"
  by (induction xs) auto

lemma filter_remove1_other: "\<not> p x \<Longrightarrow> filter p (remove1 x xs) = filter p xs"
  by (induction xs) auto

lemma length_filter_filter: "length (filter p (filter q xs)) \<le> length (filter p xs)"
  by (induction xs) auto

lemma begin_keeps:
  assumes inv: "sys_inv s" and bw: "beginItem store w wd x (sys_db s) = (Inr y, d')"
    and s': "s' = s\<lparr>sys_db := d', claimed := cs, started := (w, y) # started s\<rparr>" "set cs \<subseteq> set (claimed s)"
  shows "sys_inv s'"
proof -
  let ?d = "sys_db s"
  have wf: "db_wf ?d" "linked ?d" and h: "\<forall>x \<in> held s. work_of ?d x" using inv by (simp_all add: sys_inv_def)
  have ok: "db_ok ?d d'" using begin_ok [OF bw wf] .
  let ?t = "s\<lparr>sys_db := d', claimed := cs\<rparr>"
  have t: "sys_inv ?t"
    by (rule sys_inv_keeps [OF inv]) (use ok s'(2) in \<open>auto simp: held_def uses_def\<close>)
  obtain b c where bc: "b \<in> set (outbox ?d)" "c \<in> set (outbox d')" "outbox_identity b c" "y = scanDispatch c"
    "ob_attempt_count c = ob_attempt_count b + 1"
    using bw by (rule begin_row)
  have wd': "db_wf d'" using ok by (simp add: db_ok_def)
  have y: "w_ID y = ob_id c" "ob_id c = ob_id b" using bc by (simp_all add: scanDispatch_def outbox_identity_def)
  have u: "uses s' i = (if i = ob_id c then Suc (uses ?t i) else uses ?t i)" for i
    using s'(1) y by (simp add: uses_def)
  have ut: "uses ?t i = uses s i" for i by (simp add: uses_def)
  have "int (uses s' (ob_id b')) \<le> ob_attempt_count b'" if b': "b' \<in> set (outbox d')" for b'
  proof (cases "ob_id b' = ob_id c")
    case True
    then have "b' = c"
      using distinct_map_inj [of ob_id "outbox d'" b' c] wd' b' bc(2) by (simp add: db_wf_def outbox_wf_def)
    moreover have "int (uses s (ob_id b)) \<le> ob_attempt_count b" using inv bc(1) by (simp add: sys_inv_def)
    ultimately show ?thesis using bc(5) y by (simp add: u ut)
  next
    case False
    with t b' show ?thesis by (simp add: u sys_inv_def)
  qed
  moreover have "\<forall>x \<in> held s'. work_of d' x"
    using t bc(2,4) s'(1) by (auto simp: sys_inv_def held_def intro: scanDispatch_work_of)
  ultimately show ?thesis using t s'(1) by (simp add: sys_inv_def)
qed

lemma sys_inv_step:
  assumes "step g store s s'" and inv: "sys_inv s"
  shows "sys_inv s' \<and> db_ok (sys_db s) (sys_db s')"
  using assms(1)
proof cases
  have wf: "db_wf (sys_db s)" "linked (sys_db s)" using inv by (simp_all add: sys_inv_def)
  have h: "\<forall>x \<in> held s. work_of (sys_db s) x" using inv by (simp add: sys_inv_def)
  note refl_ok = db_ok_refl [OF wf]
  {
    case (command fault now stamp c r d')
    have ok: "db_ok (sys_db s) d'" using Execute_ok [OF command(2) wf] .
    show ?thesis unfolding command(1)
      by (rule conjI, rule sys_inv_keeps [OF inv]) (use ok in \<open>auto simp: held_def uses_def\<close>)
  next
    case (claim_due fault locked now w ttl n r d')
    have ok: "db_ok (sys_db s) d'" using claim_due_ok [OF claim_due(2) wf] .
    show ?thesis unfolding claim_due(1)
      by (rule conjI, rule sys_inv_keeps [OF inv]) (use ok in \<open>auto simp: held_def uses_def\<close>)
  next
    case (plan w now x fault e d')
    have ok: "db_ok (sys_db s) d'" using materialize_ok [OF plan(3) wf] .
    show ?thesis unfolding plan(1)
      by (rule conjI, rule sys_inv_keeps [OF inv]) (use ok in \<open>auto simp: held_def uses_def\<close>)
  next
    case (claim_work fault locked p now r d')
    note ok = claim_work_ok [OF claim_work(2) wf]
    show ?thesis unfolding claim_work(1)
      by (rule conjI, rule sys_inv_keeps [OF inv]) (use ok in \<open>auto simp: held_def uses_def\<close>)
  next
    case (defer_work w x wd code message e d')
    have "x \<in> held s" using defer_work(2) by (force simp: held_def)
    then have ok: "db_ok (sys_db s) d'"
      using deferItem_ok [OF wf, of x store w wd code message] h defer_work(3) by simp
    show ?thesis unfolding defer_work(1)
      by (rule conjI, rule sys_inv_keeps [OF inv])
        (use ok remove1_subset in \<open>fastforce simp: held_def uses_def\<close>)+
  next
    case (begin_fails w x wd e d')
    have ok: "db_ok (sys_db s) d'" using begin_ok [OF begin_fails(3) wf] .
    show ?thesis unfolding begin_fails(1)
      by (rule conjI, rule sys_inv_keeps [OF inv])
        (use ok remove1_subset in \<open>fastforce simp: held_def uses_def\<close>)+
  next
    case (begin_work w x wd y d')
    show ?thesis
      using begin_keeps [OF inv begin_work(3) begin_work(1) remove1_subset] begin_ok [OF begin_work(3) wf]
      by (simp add: begin_work(1))
  next
    case (call_target w x)
    have "uses s' i = uses s i" for i
      using length_filter_remove1_in [OF call_target(2), of "\<lambda>x. w_ID (snd x) = i"]
        filter_remove1_other [of "\<lambda>x. w_ID (snd x) = i" "(w, x)" "started s"]
      by (auto simp: call_target(1) uses_def)
    moreover have "\<forall>y \<in> held s'. y \<in> held s"
      using call_target(2) remove1_subset [of "(w, x)" "started s"] by (force simp: call_target(1) held_def)
    ultimately have "sys_inv s'"
      by (intro sys_inv_keeps [OF inv]) (use refl_ok in \<open>auto simp: call_target(1)\<close>)
    then show ?thesis using refl_ok by (simp add: call_target(1))
  next
    case (persist w x wd e d')
    have "x \<in> held s" using persist(2) by (force simp: held_def)
    then have ok: "db_ok (sys_db s) d'"
      using persistResult_ok [OF wf, of x store w wd "attemptResult wd x"] h persist(3) by simp
    show ?thesis unfolding persist(1)
      by (rule conjI, rule sys_inv_keeps [OF inv])
        (use ok remove1_subset in \<open>fastforce simp: held_def uses_def\<close>)+
  next
    case (crash w)
    have "uses s' i \<le> uses s i" for i
      using length_filter_filter [of "\<lambda>x. w_ID (snd x) = i"] by (simp add: crash uses_def forget_def)
    then have "sys_inv s'"
      by (intro sys_inv_keeps [OF inv]) (use refl_ok in \<open>auto simp: crash forget_def held_def\<close>)
    then show ?thesis using refl_ok by (simp add: crash forget_def)
  }
qed

lemma reachable_inv: "reachable g store s \<Longrightarrow> sys_inv s"
  unfolding reachable_def
  by (induction rule: rtranclp_induct) (use sys_inv_init sys_inv_step in blast)+

lemma steps_grow:
  assumes "(step g store)\<^sup>*\<^sup>* s s'" and "sys_inv s"
  shows "sys_inv s' \<and> grows (sys_db s) (sys_db s')"
  using assms(1)
proof (induction rule: rtranclp_induct)
  case (step y z)
  with sys_inv_step [OF step(2)] show ?case by (auto simp: db_ok_def intro: grows_trans)
qed (simp add: assms(2))

end
