(* ===== verification/Claims.thy ===== *)
theory Claims
  imports System
begin

text \<open>
  Claims: which rows a claim takes and in which order, that two workers never hold the same
  unexpired claim, that a lost claim stops an attempt or a materialisation, and what a
  successful materialisation leaves in the schedule's row.
\<close>

section \<open>Which rows are claimed\<close>

lemma take_sorted_le:
  assumes "sorted (map f xs)" and "x \<in> set (take n xs)" and "y \<in> set xs" and "y \<notin> set (take n xs)"
  shows "f x \<le> f y"
proof -
  have "xs = take n xs @ drop n xs" by simp
  then have "sorted (map f (take n xs) @ map f (drop n xs))" using assms(1) by (metis map_append)
  moreover have "y \<in> set (drop n xs)" using assms(3,4) by (metis \<open>xs = _\<close> Un_iff set_append)
  ultimately show ?thesis using assms(2) by (auto simp: sorted_append)
qed

lemma due_candidates_facts:
  assumes "r \<in> set (due_candidates locked now limit rows)"
  shows "r \<in> set rows" and "due_candidate locked now r"
  using assms by (auto simp: due_candidates_def dest!: in_set_takeD)

lemma due_candidates_length: "length (due_candidates locked now limit rows) \<le> nat limit"
  by (simp add: due_candidates_def)

lemma due_candidates_oldest:
  assumes "r \<in> set (due_candidates locked now limit rows)"
    and "q \<in> set rows" "due_candidate locked now q" "q \<notin> set (due_candidates locked now limit rows)"
  shows "due_order r \<le> due_order q"
  using assms unfolding due_candidates_def
  by (intro take_sorted_le [of due_order "sort_key due_order (filter (due_candidate locked now) rows)" r "nat limit" q])
    simp_all

text \<open>The claimed rows are exactly the candidates.\<close>

lemma ClaimDueSchedules_rows:
  assumes "ClaimDueSchedules g locked now w e limit d = Inr (taken, d')" and "db_wf d"
  shows "set taken = (\<lambda>r. scanSchedule (claim_set g now w e r)) ` set (due_candidates locked now limit (schedules d))"
proof -
  let ?C = "due_candidates locked now limit (schedules d)"
  have dist: "distinct (map sc_id (schedules d))" using assms(2) by (simp add: db_wf_def schedules_wf_def)
  have "{r \<in> set (schedules d). sc_id r \<in> sc_id ` set ?C} = set ?C"
    using due_candidates_facts(1) distinct_map_inj [OF dist] by blast
  then show ?thesis using ClaimDueSchedules_Inr(2) [OF assms(1)] by simp
qed

section \<open>Claims exclude each other\<close>

lemma claimed_schedule_blocked:
  assumes "ClaimDueSchedules g l1 now w e n d = Inr (taken, d1)" and "db_wf d"
    and "x \<in> set taken" and "r \<in> set (schedules d1)" and "sc_id r = s_ID x" and "now' < ts3 g e"
  shows "\<not> due_candidate l2 now' r"
proof -
  let ?p = "\<lambda>r. sc_id r \<in> set (map sc_id (due_candidates l1 now n (schedules d)))"
  let ?f = "claim_set g now w e"
  have d1: "schedules d1 = upd ?p ?f (schedules d)"
    using ClaimDueSchedules_Inr(1) [OF assms(1)] by (simp add: upd_checked_Inr)
  obtain q where q: "q \<in> set (schedules d)" "?p q" "x = scanSchedule (?f q)"
    using assms(3) ClaimDueSchedules_Inr(2) [OF assms(1)] by auto
  obtain r0 where r0: "r0 \<in> set (schedules d)" "r = (if ?p r0 then ?f r0 else r0)"
    using assms(4) unfolding d1 in_upd_iff by blast
  have "sc_id r0 = sc_id q" using r0(2) q(3) assms(5) by (simp add: scanSchedule_def split: if_splits)
  then have "?p r0" using q(2) by simp
  then have "r = ?f r0" using r0(2) by (simp only: if_True)
  then show ?thesis using assms(6) by (simp add: due_candidate_def claim_set_def)
qed

lemma claimed_work_blocked:
  assumes "ClaimDispatches g l1 now w e n d = Inr (works, d1)" and "db_wf d"
    and "x \<in> set works" and "b \<in> set (outbox d1)" and "ob_id b = w_ID x" and "now' < ts3 g e"
  shows "\<not> ready_candidate l2 now' b"
proof -
  let ?p = "\<lambda>r. ob_id r \<in> set (map ob_id (ready_candidates l1 now n (outbox d)))"
  let ?f = "dispatch_claim_set g now w e"
  have d1: "outbox d1 = upd ?p ?f (outbox d)"
    using ClaimDispatches_Inr(1) [OF assms(1)] by (simp add: upd_checked_Inr)
  obtain q where q: "q \<in> set (outbox d)" "?p q" "x = scanDispatch (?f q)"
    using assms(3) ClaimDispatches_Inr(2) [OF assms(1)] by auto
  obtain r0 where r0: "r0 \<in> set (outbox d)" "b = (if ?p r0 then ?f r0 else r0)"
    using assms(4) unfolding d1 in_upd_iff by blast
  have "ob_id r0 = ob_id q" using r0(2) q(3) assms(5) by (simp add: scanDispatch_def split: if_splits)
  then have "?p r0" using q(2) by simp
  then have "b = ?f r0" using r0(2) by (simp only: if_True)
  then show ?thesis using assms(6) by (simp add: ready_candidate_def dispatch_claim_set_def)
qed

lemma ClaimDispatches_ready:
  assumes "ClaimDispatches g l now w e n d = Inr (works, d')" and "db_wf d" and "x \<in> set works"
  obtains b where "b \<in> set (outbox d)" and "ready_candidate l now b" and "x = scanDispatch (dispatch_claim_set g now w e b)"
proof -
  obtain b where b: "b \<in> set (outbox d)" "x = scanDispatch (dispatch_claim_set g now w e b)"
      "ob_id b \<in> set (map ob_id (ready_candidates l now n (outbox d)))"
    using assms(3) ClaimDispatches_Inr(2) [OF assms(1)] by auto
  then obtain c where c: "c \<in> set (ready_candidates l now n (outbox d))" "ob_id c = ob_id b" by auto
  then have rc: "ready_candidate l now c" "c \<in> set (outbox d)"
    unfolding ready_candidates_def by (auto dest!: in_set_takeD)
  have "c = b" using distinct_map_inj [of ob_id "outbox d" c b] assms(2) b c rc by (simp add: db_wf_def outbox_wf_def)
  with b rc show thesis by (intro that) simp_all
qed

lemma ClaimDispatches_exclusive:
  assumes "ClaimDispatches g l1 now w e n d = Inr (xs, d1)" and "db_wf d"
    and "ClaimDispatches g l2 now' w' e' n' d1 = Inr (ys, d2)" and "now' < ts3 g e"
  shows "w_ID ` set xs \<inter> w_ID ` set ys = {}"
proof -
  have wf1: "db_wf d1" using ClaimDispatches_wf [OF assms(1,2)] .
  have False if xy: "x \<in> set xs" "y \<in> set ys" "w_ID x = w_ID y" for x y
  proof -
    obtain b where b: "b \<in> set (outbox d1)" "ready_candidate l2 now' b"
        "y = scanDispatch (dispatch_claim_set g now' w' e' b)"
      using assms(3) wf1 xy(2) by (rule ClaimDispatches_ready)
    have "ob_id b = w_ID x" using b(3) xy(3) by (simp add: scanDispatch_def dispatch_claim_set_def)
    from claimed_work_blocked [OF assms(1,2) xy(1) b(1) this assms(4), of l2] b(2) show False by simp
  qed
  then show ?thesis by blast
qed

lemma ClaimDueSchedules_exclusive:
  assumes "ClaimDueSchedules g l1 now w e n d = Inr (xs, d1)" and "db_wf d"
    and "ClaimDueSchedules g l2 now' w' e' n' d1 = Inr (ys, d2)" and "now' < ts3 g e"
  shows "s_ID ` set xs \<inter> s_ID ` set ys = {}"
proof -
  have wf1: "db_wf d1" using ClaimDueSchedules_wf [OF assms(1,2)] .
  have False if xy: "x \<in> set xs" "y \<in> set ys" "s_ID x = s_ID y" for x y
  proof -
    obtain r where r: "r \<in> set (due_candidates l2 now' n' (schedules d1))"
        "y = scanSchedule (claim_set g now' w' e' r)"
      using ClaimDueSchedules_rows [OF assms(3) wf1] xy(2) by auto
    have "sc_id r = s_ID x" using r(2) xy(3) by (simp add: scanSchedule_def claim_set_def)
    from claimed_schedule_blocked [OF assms(1,2) xy(1) due_candidates_facts(1) [OF r(1)] this assms(4), of l2]
      due_candidates_facts(2) [OF r(1)] show False by simp
  qed
  then show ?thesis by blast
qed

section \<open>Lost claims\<close>

lemma BeginDispatch_lost:
  assumes "\<forall>b \<in> set (outbox d). ob_id b = w_ID x \<longrightarrow>
      ob_claim_owner b \<noteq> Some w \<or> ob_status b \<noteq> ''dispatching''
      \<or> (\<exists>t. ob_claim_expires_at b = Some t \<and> t \<le> now)"
    and "pg_text (w_TenantID x)" and "pg_text w"
  shows "BeginDispatch g x w now d = Inl ErrClaimLost"
proof -
  have none: "\<forall>b \<in> set (outbox d). \<not> begin_where x w now b"
    using assms(1) by (auto simp: begin_where_def split: option.splits)
  then have "upd_checked ck_outbox (begin_where x w now) (begin_set g now) (outbox d)
      = Inr (upd (begin_where x w now) (begin_set g now) (outbox d))"
    by (simp add: upd_checked_Inr)
  moreover have "find (begin_where x w now) (outbox d) = None" using none by (simp add: find_None_all)
  ultimately show ?thesis using assms(2,3) by (simp add: BeginDispatch_def Let_def)
qed

text \<open>A materialisation whose claim or version is gone changes nothing.\<close>

lemma materialize_lost:
  assumes "materialize tz g fault w s now d = (e, d')"
    and "planSchedule (Next tz) (NextAfter tz) s now = Inr (plans, due)"
    and "db_wf d" and "linked d"
    and "\<forall>r \<in> set (schedules d). sc_id r = s_ID s \<longrightarrow> sc_version r \<noteq> s_Version s \<or> sc_claim_owner r \<noteq> Some w"
  shows "d' = d \<and> e \<noteq> None"
proof -
  have no: "materialize_tx g w s plans due now d \<noteq> Inr (u, d1)" for u d1
  proof
    assume "materialize_tx g w s plans due now d = Inr (u, d1)"
    then obtain b d2 where i: "insertPlans g s b plans d = Inr ((), d2)"
      and a: "AdvanceSchedule g s w due now d2 = Inr (u, d1)" by (rule materialize_tx_Inr)
    have "schedules d2 = schedules d"
      using insertPlans_keeps [OF i planSchedule_plan_ok [OF assms(2)] assms(3,4)] by simp
    moreover obtain r where "r \<in> set (schedules d2)" "advance_where s w r"
      using AdvanceSchedule_Inr(1) [OF a] by (rule affected_1_unique)
    ultimately show False using assms(5) by (auto simp: advance_where_def)
  qed
  have "WithinTx fault (materialize_tx g w s plans due now) d = (r, d1) \<Longrightarrow> d1 = d \<and> (\<exists>x. r = Inl x)" for r d1
    by (erule WithinTx_cases) (use no in auto)
  with assms(1,2) show ?thesis by (auto simp: materialize_def split: prod.splits)
qed

section \<open>What a materialisation leaves\<close>

lemma materialize_tx_row:
  assumes "materialize_tx g w s plans due now d = Inr (u, d')" and "list_all plan_ok plans"
    and "db_wf d" and "linked d"
  obtains r where "r \<in> set (schedules d)" and "advance_where s w r"
    and "advance_set g due now r \<in> set (schedules d')"
    and "\<forall>r' \<in> set (schedules d'). sc_id r' = s_ID s \<longrightarrow> r' = advance_set g due now r"
  using assms(1)
proof (rule materialize_tx_Inr)
  fix b d2
  assume i: "insertPlans g s b plans d = Inr ((), d2)" and a: "AdvanceSchedule g s w due now d2 = Inr (u, d')"
  have s2: "schedules d2 = schedules d" using insertPlans_keeps [OF i assms(2-4)] by simp
  obtain r where r: "r \<in> set (schedules d)" "advance_where s w r"
    using AdvanceSchedule_Inr(1) [OF a] unfolding s2 by (rule affected_1_unique)
  have d': "schedules d' = upd (advance_where s w) (advance_set g due now) (schedules d)"
    using AdvanceSchedule_Inr(2) [OF a] by (simp add: upd_checked_Inr s2)
  have dist: "distinct (map sc_id (schedules d))" using assms(3) by (simp add: db_wf_def schedules_wf_def)
  have "r' = advance_set g due now r" if r': "r' \<in> set (schedules d')" "sc_id r' = s_ID s" for r'
  proof -
    obtain q where q: "q \<in> set (schedules d)" "r' = (if advance_where s w q then advance_set g due now q else q)"
      using r'(1) unfolding d' in_upd_iff by blast
    have "sc_id q = sc_id r" using q(2) r'(2) r(2) by (auto simp: advance_where_def split: if_splits)
    then have "q = r" using distinct_map_inj [OF dist q(1) r(1)] by blast
    with q(2) r(2) show ?thesis by simp
  qed
  moreover have "advance_set g due now r \<in> set (schedules d')" using r by (auto simp: d' in_upd_iff)
  ultimately show thesis using r by (intro that) blast+
qed

lemma materialize_success:
  assumes "materialize tz g fault w s now d = (None, d')"
  obtains plans due where "planSchedule (Next tz) (NextAfter tz) s now = Inr (plans, due)"
    and "materialize_tx g w s plans due now d = Inr ((), d')"
proof (cases "planSchedule (Next tz) (NextAfter tz) s now")
  case (Inl err)
  with assms show thesis by (auto simp: materialize_def split: prod.splits)
next
  case (Inr pd)
  obtain plans due where p: "pd = (plans, due)" by (cases pd)
  obtain r where "WithinTx fault (materialize_tx g w s plans due now) d = (Inr r, d')"
    using assms Inr p by (auto simp: materialize_def err_of_def split: prod.splits sum.splits)
  then have "materialize_tx g w s plans due now d = Inr (r, d')" by (cases rule: WithinTx_cases) auto
  with Inr p show thesis by (intro that [of plans due]) simp_all
qed

text \<open>Every planned occurrence is recorded.\<close>

lemma insertPlans_recorded:
  assumes "insertPlans g s b plans d = Inr (u, d')" and "list_all plan_ok plans" and "db_wf d" "linked d"
  shows "\<forall>p \<in> set plans. \<exists>r \<in> set (occurrences d').
    occurrence_key r = (s_TenantID s, s_ID s, ts3 g (p_ScheduledAt p))"
  using assms
proof (induction plans arbitrary: b d)
  case (Cons p plans)
  have keep: "\<exists>r' \<in> set (occurrences d'). occurrence_key r' = k"
    if "r \<in> set (occurrences e)" "occurrence_key r = k" "grows e d'" for r k e
    using growsD(2) [OF that(3,1)] that(2) by (auto simp: occurrence_identity_def occurrence_key_def)
  let ?k = "(s_TenantID s, s_ID s, ts3 g (p_ScheduledAt p))"
  from Cons.prems(1) show ?case
  proof (cases rule: insertPlans_Cons)
    case exists
    then obtain r where "r \<in> set (occurrences d)" "occurrence_key r = ?k"
      by (auto simp: list_ex_iff same_occurrence_def occurrence_key_def)
    with keep insertPlans_keeps [OF exists(2) _ Cons.prems(3,4)] Cons exists(2) show ?thesis by auto
  next
    case (skipped row d1)
    have row: "row \<in> set (occurrences d1)" "occurrence_key row = ?k"
      using skipped(1,4) by (simp_all add: occurrence_key_def)
    have 1: "db_wf d1" "linked d1"
      using InsertOccurrence_wf [OF skipped(3) Cons.prems(3)] linked_skip [OF Cons.prems(4)]
        skipped(1,2,4) plan_ok_effective [of p b] Cons.prems(2)
      by (simp_all add: plan_ok_def OccurrenceSkipped_def)
    with keep [OF row] insertPlans_keeps [OF skipped(5) _ 1] Cons skipped(5) show ?thesis by auto
  next
    case (dispatched row d1 d2)
    have row: "row \<in> set (occurrences d1)" "occurrence_key row = ?k"
      using dispatched(1,5) by (simp_all add: occurrence_key_def)
    have 2: "db_wf d2" "linked d2"
      using InsertDispatchOutbox_wf [OF dispatched(6) InsertOccurrence_wf [OF dispatched(3) Cons.prems(3)]]
        linked_pair [OF Cons.prems(4) dispatched(4) dispatched(1) _ dispatched(6) [unfolded dispatched(5)]]
        dispatched(2) plan_ok_effective [of p b] Cons.prems(2) by (simp_all add: plan_ok_def)
    have "grows d1 d'"
      using insertPlans_keeps [OF dispatched(7) _ 2] Cons.prems(2) InsertDispatchOutbox_grows [OF dispatched(6)]
      by (auto intro: grows_trans)
    with keep [OF row] Cons.IH [OF dispatched(7) _ 2] Cons.prems(2) show ?thesis by auto
  qed
qed simp

end
