(* ===== verification/Demo.thy ===== *)
theory Demo
  imports System
begin

text \<open>
  A concrete run that the examples of the properties use: a library with one time zone and
  one parsed URL, a database server with readable ids, and a schedule that is created, falls
  due, is materialised and dispatched.
\<close>

section \<open>The parameters\<close>

definition demo_url :: string where "demo_url = ''http://example.com/hook''"

definition demo_lib :: golib where
  "demo_lib =
     \<lparr>LoadLocation = (\<lambda>n. if n = ''UTC'' then Some (\<lambda>_. 0) else None),
      url_Parse = (\<lambda>u. if u = demo_url
        then Some \<lparr>Scheme = ''http'', UserSet = False, Host = ''example.com'', Fragment = []\<rparr> else None),
      netip_ParseAddr = (\<lambda>_. None)\<rparr>"

definition demo_pg :: pg where
  "demo_pg =
     \<lparr>gen_random_uuid = (\<lambda>n. replicate (Suc n) (CHR ''a'')), jsonb = Some,
      ts3 = (\<lambda>t. Truncate t Millisecond), result_jsonb = Some\<rparr>"

lemma demo_pg_documented: "pg_documented demo_pg"
  by (simp add: pg_documented_def demo_pg_def Truncate_dvd Truncate_id)

definition demo_start :: instant where "demo_start = 63800000000 * Second"

definition demo_digest :: string where
  "demo_digest = ''sha256:'' @ replicate 64 (CHR ''0'')"

definition demo_schedule :: Schedule where
  "demo_schedule = zeroSchedule\<lparr>s_Rule := ''@every 1m'', s_TargetURL := demo_url,
     s_Retry := zeroRetry\<lparr>MaxAttempts := 3\<rparr>\<rparr>"

definition demo_command :: "CommandOperation \<Rightarrow> string \<Rightarrow> Command" where
  "demo_command op key =
     \<lparr>cmd_Operation = op, cmd_TenantID = ''acme'', cmd_Name = ''job'', cmd_CommandScope = ''schedules'',
      cmd_IdempotencyKey = key, cmd_RequestDigest = demo_digest, cmd_RequestID = ''req-1'',
      cmd_Schedule = demo_schedule\<rparr>"

definition demo_create :: Command where "demo_create = demo_command CommandCreate ''key-1''"

section \<open>The run\<close>

definition demo_db1 :: db where
  "demo_db1 = snd (Execute demo_lib demo_pg NoFault id demo_start demo_start demo_create empty_db)"

lemma demo_db1_eval [code]:
  "demo_db1 =
     \<lparr>schedules =
     [\<lparr>sc_id = ''a'', sc_tenant_id = ''acme'', sc_name = ''job'',
     sc_schedule_rule = Some ''@every 1m'', sc_run_at = None,
     sc_timezone = ''UTC'',
     sc_target_url = ''http://example.com/hook'',
     sc_target_method = ''POST'', sc_payload = ''{}'',
     sc_status = ''active'', sc_misfire_policy = ''fire_once'',
     sc_catch_up_limit = 1, sc_overlap_policy = ''forbid'',
     sc_retry =
     \<lparr>MaxAttempts = 3, BackoffSeconds = 1, MaxBackoffSeconds = 3600,
     MaxRetryWindowSeconds = 3600\<rparr>,
     sc_next_due_at = Some 63800000060000000000,
     sc_claim_owner = None, sc_claim_expires_at = None,
     sc_version = 1, sc_created_at = 63800000000000000000,
     sc_updated_at = 63800000000000000000\<rparr>],
     occurrences = [],
     receipts =
     [\<lparr>re_id = ''aa'', re_tenant_id = ''acme'',
     re_command_scope = ''schedules'',
     re_idempotency_key = ''key-1'',
     re_request_digest =
     ''sha256:0000000000000000000000000000000000000000000000000000000000000000'',
     re_request_id = ''req-1'', re_result_code = ''registered'',
     re_result_body =
     \<lparr>c_Code = ''registered'', c_Name = ''job'',
     c_Schedule =
     Some
     \<lparr>s_ID = ''a'', s_TenantID = ''acme'', s_Name = ''job'',
     s_Rule = ''@every 1m'', s_RunAt = 0,
     s_Timezone = ''UTC'',
     s_TargetURL = ''http://example.com/hook'',
     s_Method = ''POST'', s_Payload = ''{}'',
     s_Retry =
     \<lparr>MaxAttempts = 3, BackoffSeconds = 1,
     MaxBackoffSeconds = 3600,
     MaxRetryWindowSeconds = 3600\<rparr>,
     s_MisfirePolicy = ''fire_once'', s_CatchUpLimit = 1,
     s_OverlapPolicy = ''forbid'', s_Status = ''active'',
     s_NextDueAt = 63800000060000000000, s_Version = 1,
     s_CreatedAt = 63800000000000000000,
     s_UpdatedAt = 63800000000000000000,
     s_ClaimOwner = [], s_ClaimExpiresAt = 0\<rparr>\<rparr>,
     re_created_at = 63800000000000000000\<rparr>],
     outbox = [], uuid_seq = 2\<rparr>"
  by code_simp

definition demo_due :: instant where "demo_due = demo_start + Minute"

definition demo_claim :: "Schedule list res \<times> db" where
  "demo_claim = WithinTx NoFault (ClaimDueSchedules demo_pg (\<lambda>_. False) (NormalizeInstant demo_due) ''w1''
     (NormalizeInstant demo_due + DefaultClaimTTL) 100) demo_db1"

lemma demo_claim_eval [code]:
  "demo_claim =
     (Inr [\<lparr>s_ID = ''a'', s_TenantID = ''acme'', s_Name = ''job'',
     s_Rule = ''@every 1m'', s_RunAt = 0, s_Timezone = ''UTC'',
     s_TargetURL = ''http://example.com/hook'', s_Method = ''POST'',
     s_Payload = ''{}'',
     s_Retry =
     \<lparr>MaxAttempts = 3, BackoffSeconds = 1,
     MaxBackoffSeconds = 3600, MaxRetryWindowSeconds = 3600\<rparr>,
     s_MisfirePolicy = ''fire_once'', s_CatchUpLimit = 1,
     s_OverlapPolicy = ''forbid'', s_Status = ''active'',
     s_NextDueAt = 63800000060000000000, s_Version = 1,
     s_CreatedAt = 63800000000000000000,
     s_UpdatedAt = 63800000060000000000, s_ClaimOwner = ''w1'',
     s_ClaimExpiresAt = 63800000180000000000\<rparr>],
     \<lparr>schedules =
     [\<lparr>sc_id = ''a'', sc_tenant_id = ''acme'', sc_name = ''job'',
     sc_schedule_rule = Some ''@every 1m'', sc_run_at = None,
     sc_timezone = ''UTC'',
     sc_target_url = ''http://example.com/hook'',
     sc_target_method = ''POST'', sc_payload = ''{}'',
     sc_status = ''active'', sc_misfire_policy = ''fire_once'',
     sc_catch_up_limit = 1, sc_overlap_policy = ''forbid'',
     sc_retry =
     \<lparr>MaxAttempts = 3, BackoffSeconds = 1,
     MaxBackoffSeconds = 3600, MaxRetryWindowSeconds = 3600\<rparr>,
     sc_next_due_at = Some 63800000060000000000,
     sc_claim_owner = Some ''w1'',
     sc_claim_expires_at = Some 63800000180000000000, sc_version = 1,
     sc_created_at = 63800000000000000000,
     sc_updated_at = 63800000060000000000\<rparr>],
     occurrences = [],
     receipts =
     [\<lparr>re_id = ''aa'', re_tenant_id = ''acme'',
     re_command_scope = ''schedules'',
     re_idempotency_key = ''key-1'',
     re_request_digest =
     ''sha256:0000000000000000000000000000000000000000000000000000000000000000'',
     re_request_id = ''req-1'', re_result_code = ''registered'',
     re_result_body =
     \<lparr>c_Code = ''registered'', c_Name = ''job'',
     c_Schedule =
     Some
     \<lparr>s_ID = ''a'', s_TenantID = ''acme'',
     s_Name = ''job'', s_Rule = ''@every 1m'',
     s_RunAt = 0, s_Timezone = ''UTC'',
     s_TargetURL = ''http://example.com/hook'',
     s_Method = ''POST'', s_Payload = ''{}'',
     s_Retry =
     \<lparr>MaxAttempts = 3, BackoffSeconds = 1,
     MaxBackoffSeconds = 3600,
     MaxRetryWindowSeconds = 3600\<rparr>,
     s_MisfirePolicy = ''fire_once'',
     s_CatchUpLimit = 1, s_OverlapPolicy = ''forbid'',
     s_Status = ''active'',
     s_NextDueAt = 63800000060000000000, s_Version = 1,
     s_CreatedAt = 63800000000000000000,
     s_UpdatedAt = 63800000000000000000,
     s_ClaimOwner = [], s_ClaimExpiresAt = 0\<rparr>\<rparr>,
     re_created_at = 63800000000000000000\<rparr>],
     outbox = [], uuid_seq = 2\<rparr>)"
  by code_simp

definition demo_claimed :: Schedule where "demo_claimed = hd (values_of (fst demo_claim))"

lemma demo_claimed_eval [code]:
  "demo_claimed =
     \<lparr>s_ID = ''a'', s_TenantID = ''acme'', s_Name = ''job'',
     s_Rule = ''@every 1m'', s_RunAt = 0, s_Timezone = ''UTC'',
     s_TargetURL = ''http://example.com/hook'', s_Method = ''POST'',
     s_Payload = ''{}'',
     s_Retry =
     \<lparr>MaxAttempts = 3, BackoffSeconds = 1, MaxBackoffSeconds = 3600,
     MaxRetryWindowSeconds = 3600\<rparr>,
     s_MisfirePolicy = ''fire_once'', s_CatchUpLimit = 1,
     s_OverlapPolicy = ''forbid'', s_Status = ''active'',
     s_NextDueAt = 63800000060000000000, s_Version = 1,
     s_CreatedAt = 63800000000000000000,
     s_UpdatedAt = 63800000060000000000, s_ClaimOwner = ''w1'',
     s_ClaimExpiresAt = 63800000180000000000\<rparr>"
  by code_simp

definition demo_db3 :: db where
  "demo_db3 = snd (materialize (LoadLocation demo_lib) demo_pg NoFault ''w1'' demo_claimed
     (NormalizeInstant demo_due) (snd demo_claim))"

lemma demo_db3_eval [code]:
  "demo_db3 =
     \<lparr>schedules =
     [\<lparr>sc_id = ''a'', sc_tenant_id = ''acme'', sc_name = ''job'',
     sc_schedule_rule = Some ''@every 1m'', sc_run_at = None,
     sc_timezone = ''UTC'',
     sc_target_url = ''http://example.com/hook'',
     sc_target_method = ''POST'', sc_payload = ''{}'',
     sc_status = ''active'', sc_misfire_policy = ''fire_once'',
     sc_catch_up_limit = 1, sc_overlap_policy = ''forbid'',
     sc_retry =
     \<lparr>MaxAttempts = 3, BackoffSeconds = 1, MaxBackoffSeconds = 3600,
     MaxRetryWindowSeconds = 3600\<rparr>,
     sc_next_due_at = Some 63800000120000000000,
     sc_claim_owner = None, sc_claim_expires_at = None,
     sc_version = 2, sc_created_at = 63800000000000000000,
     sc_updated_at = 63800000060000000000\<rparr>],
     occurrences =
     [\<lparr>oc_id = ''aaa'', oc_tenant_id = ''acme'', oc_schedule_id = ''a'',
     oc_schedule_name = ''job'',
     oc_scheduled_at = 63800000060000000000,
     oc_observed_at = 63800000060000000000, oc_status = ''pending'',
     oc_outcome_code = None, oc_missed_count = 1,
     oc_attempt_count = 0, oc_last_http_status = None,
     oc_last_error_code = None, oc_last_error_message = None,
     oc_created_at = 63800000060000000000,
     oc_updated_at = 63800000060000000000, oc_completed_at = None\<rparr>],
     receipts =
     [\<lparr>re_id = ''aa'', re_tenant_id = ''acme'',
     re_command_scope = ''schedules'',
     re_idempotency_key = ''key-1'',
     re_request_digest =
     ''sha256:0000000000000000000000000000000000000000000000000000000000000000'',
     re_request_id = ''req-1'', re_result_code = ''registered'',
     re_result_body =
     \<lparr>c_Code = ''registered'', c_Name = ''job'',
     c_Schedule =
     Some
     \<lparr>s_ID = ''a'', s_TenantID = ''acme'', s_Name = ''job'',
     s_Rule = ''@every 1m'', s_RunAt = 0,
     s_Timezone = ''UTC'',
     s_TargetURL = ''http://example.com/hook'',
     s_Method = ''POST'', s_Payload = ''{}'',
     s_Retry =
     \<lparr>MaxAttempts = 3, BackoffSeconds = 1,
     MaxBackoffSeconds = 3600,
     MaxRetryWindowSeconds = 3600\<rparr>,
     s_MisfirePolicy = ''fire_once'', s_CatchUpLimit = 1,
     s_OverlapPolicy = ''forbid'', s_Status = ''active'',
     s_NextDueAt = 63800000060000000000, s_Version = 1,
     s_CreatedAt = 63800000000000000000,
     s_UpdatedAt = 63800000000000000000,
     s_ClaimOwner = [], s_ClaimExpiresAt = 0\<rparr>\<rparr>,
     re_created_at = 63800000000000000000\<rparr>],
     outbox =
     [\<lparr>ob_id = ''aaaa'', ob_tenant_id = ''acme'',
     ob_occurrence_id = ''aaa'', ob_schedule_id = ''a'',
     ob_schedule_name = ''job'',
     ob_scheduled_at = 63800000060000000000,
     ob_target_url = ''http://example.com/hook'',
     ob_target_method = ''POST'', ob_payload = ''{}'',
     ob_status = ''pending'', ob_attempt_count = 0,
     ob_retry =
     \<lparr>MaxAttempts = 3, BackoffSeconds = 1,
     MaxBackoffSeconds = 3600, MaxRetryWindowSeconds = 3600\<rparr>,
     ob_next_attempt_at = 63800000060000000000,
     ob_first_attempt_at = None, ob_claim_owner = None,
     ob_claim_expires_at = None, ob_last_http_status = None,
     ob_last_error_code = None, ob_last_error_message = None,
     ob_created_at = 63800000060000000000,
     ob_updated_at = 63800000060000000000, ob_completed_at = None\<rparr>],
     uuid_seq = 4\<rparr>"
  by code_simp

definition demo_dispatcher :: Dispatcher where
  "demo_dispatcher = \<lparr>di_workerID = ''w1'', di_claimTTL = DefaultClaimTTL,
     di_dispatchTimeout = DefaultDispatchTimeout, di_batchSize = DefaultBatchSize\<rparr>"

definition demo_work_claim :: "DispatchWork list res \<times> db" where
  "demo_work_claim = WithinTx NoFault (claim_tx demo_pg (\<lambda>_. False) demo_dispatcher (NormalizeInstant demo_due)) demo_db3"

lemma demo_work_claim_eval [code]:
  "demo_work_claim =
     (Inr [\<lparr>w_ID = ''aaaa'', w_TenantID = ''acme'', w_OccurrenceID = ''aaa'',
     w_ScheduleID = ''a'', w_ScheduleName = ''job'',
     w_ScheduledAt = 63800000060000000000,
     w_TargetURL = ''http://example.com/hook'', w_Method = ''POST'',
     w_Payload = ''{}'', w_Status = ''dispatching'',
     w_AttemptCount = 0,
     w_Retry =
     \<lparr>MaxAttempts = 3, BackoffSeconds = 1,
     MaxBackoffSeconds = 3600, MaxRetryWindowSeconds = 3600\<rparr>,
     w_NextAttemptAt = 63800000060000000000, w_FirstAttemptAt = 0,
     w_CreatedAt = 63800000060000000000\<rparr>],
     \<lparr>schedules =
     [\<lparr>sc_id = ''a'', sc_tenant_id = ''acme'', sc_name = ''job'',
     sc_schedule_rule = Some ''@every 1m'', sc_run_at = None,
     sc_timezone = ''UTC'',
     sc_target_url = ''http://example.com/hook'',
     sc_target_method = ''POST'', sc_payload = ''{}'',
     sc_status = ''active'', sc_misfire_policy = ''fire_once'',
     sc_catch_up_limit = 1, sc_overlap_policy = ''forbid'',
     sc_retry =
     \<lparr>MaxAttempts = 3, BackoffSeconds = 1,
     MaxBackoffSeconds = 3600, MaxRetryWindowSeconds = 3600\<rparr>,
     sc_next_due_at = Some 63800000120000000000,
     sc_claim_owner = None, sc_claim_expires_at = None,
     sc_version = 2, sc_created_at = 63800000000000000000,
     sc_updated_at = 63800000060000000000\<rparr>],
     occurrences =
     [\<lparr>oc_id = ''aaa'', oc_tenant_id = ''acme'',
     oc_schedule_id = ''a'', oc_schedule_name = ''job'',
     oc_scheduled_at = 63800000060000000000,
     oc_observed_at = 63800000060000000000,
     oc_status = ''pending'', oc_outcome_code = None,
     oc_missed_count = 1, oc_attempt_count = 0,
     oc_last_http_status = None, oc_last_error_code = None,
     oc_last_error_message = None,
     oc_created_at = 63800000060000000000,
     oc_updated_at = 63800000060000000000,
     oc_completed_at = None\<rparr>],
     receipts =
     [\<lparr>re_id = ''aa'', re_tenant_id = ''acme'',
     re_command_scope = ''schedules'',
     re_idempotency_key = ''key-1'',
     re_request_digest =
     ''sha256:0000000000000000000000000000000000000000000000000000000000000000'',
     re_request_id = ''req-1'', re_result_code = ''registered'',
     re_result_body =
     \<lparr>c_Code = ''registered'', c_Name = ''job'',
     c_Schedule =
     Some
     \<lparr>s_ID = ''a'', s_TenantID = ''acme'',
     s_Name = ''job'', s_Rule = ''@every 1m'',
     s_RunAt = 0, s_Timezone = ''UTC'',
     s_TargetURL = ''http://example.com/hook'',
     s_Method = ''POST'', s_Payload = ''{}'',
     s_Retry =
     \<lparr>MaxAttempts = 3, BackoffSeconds = 1,
     MaxBackoffSeconds = 3600,
     MaxRetryWindowSeconds = 3600\<rparr>,
     s_MisfirePolicy = ''fire_once'',
     s_CatchUpLimit = 1, s_OverlapPolicy = ''forbid'',
     s_Status = ''active'',
     s_NextDueAt = 63800000060000000000, s_Version = 1,
     s_CreatedAt = 63800000000000000000,
     s_UpdatedAt = 63800000000000000000,
     s_ClaimOwner = [], s_ClaimExpiresAt = 0\<rparr>\<rparr>,
     re_created_at = 63800000000000000000\<rparr>],
     outbox =
     [\<lparr>ob_id = ''aaaa'', ob_tenant_id = ''acme'',
     ob_occurrence_id = ''aaa'', ob_schedule_id = ''a'',
     ob_schedule_name = ''job'',
     ob_scheduled_at = 63800000060000000000,
     ob_target_url = ''http://example.com/hook'',
     ob_target_method = ''POST'', ob_payload = ''{}'',
     ob_status = ''dispatching'', ob_attempt_count = 0,
     ob_retry =
     \<lparr>MaxAttempts = 3, BackoffSeconds = 1,
     MaxBackoffSeconds = 3600, MaxRetryWindowSeconds = 3600\<rparr>,
     ob_next_attempt_at = 63800000060000000000,
     ob_first_attempt_at = None, ob_claim_owner = Some ''w1'',
     ob_claim_expires_at = Some 63800000180000000000,
     ob_last_http_status = None, ob_last_error_code = None,
     ob_last_error_message = None,
     ob_created_at = 63800000060000000000,
     ob_updated_at = 63800000060000000000,
     ob_completed_at = None\<rparr>],
     uuid_seq = 4\<rparr>)"
  by code_simp

definition demo_world :: world where
  "demo_world =
     \<lparr>at_lease = NoLeaseStore, at_begin = demo_due, at_start = demo_due, at_end = demo_due + Second,
      at_persist = demo_due + Second, target_answer = (\<lambda>_. zeroResult\<lparr>r_Status := 204\<rparr>),
      attempt_error = None, random_answer = (\<lambda>_. Inr 0), fault_begin = NoFault, fault_persist = NoFault\<rparr>"

definition demo_work :: DispatchWork where "demo_work = hd (values_of (fst demo_work_claim))"

lemma demo_work_eval [code]:
  "demo_work =
     \<lparr>w_ID = ''aaaa'', w_TenantID = ''acme'', w_OccurrenceID = ''aaa'',
     w_ScheduleID = ''a'', w_ScheduleName = ''job'',
     w_ScheduledAt = 63800000060000000000,
     w_TargetURL = ''http://example.com/hook'', w_Method = ''POST'',
     w_Payload = ''{}'', w_Status = ''dispatching'', w_AttemptCount = 0,
     w_Retry =
     \<lparr>MaxAttempts = 3, BackoffSeconds = 1, MaxBackoffSeconds = 3600,
     MaxRetryWindowSeconds = 3600\<rparr>,
     w_NextAttemptAt = 63800000060000000000, w_FirstAttemptAt = 0,
     w_CreatedAt = 63800000060000000000\<rparr>"
  by code_simp

definition demo_begin :: "DispatchWork res \<times> db" where
  "demo_begin = beginItem demo_pg ''w1'' demo_world demo_work (snd demo_work_claim)"

lemma demo_begin_eval [code]:
  "demo_begin =
     (Inr \<lparr>w_ID = ''aaaa'', w_TenantID = ''acme'', w_OccurrenceID = ''aaa'',
     w_ScheduleID = ''a'', w_ScheduleName = ''job'',
     w_ScheduledAt = 63800000060000000000,
     w_TargetURL = ''http://example.com/hook'', w_Method = ''POST'',
     w_Payload = ''{}'', w_Status = ''dispatching'',
     w_AttemptCount = 1,
     w_Retry =
     \<lparr>MaxAttempts = 3, BackoffSeconds = 1,
     MaxBackoffSeconds = 3600, MaxRetryWindowSeconds = 3600\<rparr>,
     w_NextAttemptAt = 63800000060000000000,
     w_FirstAttemptAt = 63800000060000000000,
     w_CreatedAt = 63800000060000000000\<rparr>,
     \<lparr>schedules =
     [\<lparr>sc_id = ''a'', sc_tenant_id = ''acme'', sc_name = ''job'',
     sc_schedule_rule = Some ''@every 1m'', sc_run_at = None,
     sc_timezone = ''UTC'',
     sc_target_url = ''http://example.com/hook'',
     sc_target_method = ''POST'', sc_payload = ''{}'',
     sc_status = ''active'', sc_misfire_policy = ''fire_once'',
     sc_catch_up_limit = 1, sc_overlap_policy = ''forbid'',
     sc_retry =
     \<lparr>MaxAttempts = 3, BackoffSeconds = 1,
     MaxBackoffSeconds = 3600, MaxRetryWindowSeconds = 3600\<rparr>,
     sc_next_due_at = Some 63800000120000000000,
     sc_claim_owner = None, sc_claim_expires_at = None,
     sc_version = 2, sc_created_at = 63800000000000000000,
     sc_updated_at = 63800000060000000000\<rparr>],
     occurrences =
     [\<lparr>oc_id = ''aaa'', oc_tenant_id = ''acme'',
     oc_schedule_id = ''a'', oc_schedule_name = ''job'',
     oc_scheduled_at = 63800000060000000000,
     oc_observed_at = 63800000060000000000,
     oc_status = ''dispatching'', oc_outcome_code = None,
     oc_missed_count = 1, oc_attempt_count = 1,
     oc_last_http_status = None, oc_last_error_code = None,
     oc_last_error_message = None,
     oc_created_at = 63800000060000000000,
     oc_updated_at = 63800000060000000000,
     oc_completed_at = None\<rparr>],
     receipts =
     [\<lparr>re_id = ''aa'', re_tenant_id = ''acme'',
     re_command_scope = ''schedules'',
     re_idempotency_key = ''key-1'',
     re_request_digest =
     ''sha256:0000000000000000000000000000000000000000000000000000000000000000'',
     re_request_id = ''req-1'', re_result_code = ''registered'',
     re_result_body =
     \<lparr>c_Code = ''registered'', c_Name = ''job'',
     c_Schedule =
     Some
     \<lparr>s_ID = ''a'', s_TenantID = ''acme'',
     s_Name = ''job'', s_Rule = ''@every 1m'',
     s_RunAt = 0, s_Timezone = ''UTC'',
     s_TargetURL = ''http://example.com/hook'',
     s_Method = ''POST'', s_Payload = ''{}'',
     s_Retry =
     \<lparr>MaxAttempts = 3, BackoffSeconds = 1,
     MaxBackoffSeconds = 3600,
     MaxRetryWindowSeconds = 3600\<rparr>,
     s_MisfirePolicy = ''fire_once'',
     s_CatchUpLimit = 1, s_OverlapPolicy = ''forbid'',
     s_Status = ''active'',
     s_NextDueAt = 63800000060000000000, s_Version = 1,
     s_CreatedAt = 63800000000000000000,
     s_UpdatedAt = 63800000000000000000,
     s_ClaimOwner = [], s_ClaimExpiresAt = 0\<rparr>\<rparr>,
     re_created_at = 63800000000000000000\<rparr>],
     outbox =
     [\<lparr>ob_id = ''aaaa'', ob_tenant_id = ''acme'',
     ob_occurrence_id = ''aaa'', ob_schedule_id = ''a'',
     ob_schedule_name = ''job'',
     ob_scheduled_at = 63800000060000000000,
     ob_target_url = ''http://example.com/hook'',
     ob_target_method = ''POST'', ob_payload = ''{}'',
     ob_status = ''dispatching'', ob_attempt_count = 1,
     ob_retry =
     \<lparr>MaxAttempts = 3, BackoffSeconds = 1,
     MaxBackoffSeconds = 3600, MaxRetryWindowSeconds = 3600\<rparr>,
     ob_next_attempt_at = 63800000060000000000,
     ob_first_attempt_at = Some 63800000060000000000,
     ob_claim_owner = Some ''w1'',
     ob_claim_expires_at = Some 63800000180000000000,
     ob_last_http_status = None, ob_last_error_code = None,
     ob_last_error_message = None,
     ob_created_at = 63800000060000000000,
     ob_updated_at = 63800000060000000000,
     ob_completed_at = None\<rparr>],
     uuid_seq = 4\<rparr>)"
  by code_simp

definition demo_started :: DispatchWork where
  "demo_started = (case fst demo_begin of Inr y \<Rightarrow> y | Inl _ \<Rightarrow> demo_work)"

lemma demo_started_eval [code]:
  "demo_started =
     \<lparr>w_ID = ''aaaa'', w_TenantID = ''acme'', w_OccurrenceID = ''aaa'',
     w_ScheduleID = ''a'', w_ScheduleName = ''job'',
     w_ScheduledAt = 63800000060000000000,
     w_TargetURL = ''http://example.com/hook'', w_Method = ''POST'',
     w_Payload = ''{}'', w_Status = ''dispatching'', w_AttemptCount = 1,
     w_Retry =
     \<lparr>MaxAttempts = 3, BackoffSeconds = 1, MaxBackoffSeconds = 3600,
     MaxRetryWindowSeconds = 3600\<rparr>,
     w_NextAttemptAt = 63800000060000000000,
     w_FirstAttemptAt = 63800000060000000000,
     w_CreatedAt = 63800000060000000000\<rparr>"
  by code_simp

definition demo_db6 :: db where
  "demo_db6 = snd (persistResult demo_pg ''w1'' demo_world demo_started (attemptResult demo_world demo_started) (snd demo_begin))"

lemma demo_db6_eval [code]:
  "demo_db6 =
     \<lparr>schedules =
     [\<lparr>sc_id = ''a'', sc_tenant_id = ''acme'', sc_name = ''job'',
     sc_schedule_rule = Some ''@every 1m'', sc_run_at = None,
     sc_timezone = ''UTC'',
     sc_target_url = ''http://example.com/hook'',
     sc_target_method = ''POST'', sc_payload = ''{}'',
     sc_status = ''active'', sc_misfire_policy = ''fire_once'',
     sc_catch_up_limit = 1, sc_overlap_policy = ''forbid'',
     sc_retry =
     \<lparr>MaxAttempts = 3, BackoffSeconds = 1, MaxBackoffSeconds = 3600,
     MaxRetryWindowSeconds = 3600\<rparr>,
     sc_next_due_at = Some 63800000120000000000,
     sc_claim_owner = None, sc_claim_expires_at = None,
     sc_version = 2, sc_created_at = 63800000000000000000,
     sc_updated_at = 63800000060000000000\<rparr>],
     occurrences =
     [\<lparr>oc_id = ''aaa'', oc_tenant_id = ''acme'', oc_schedule_id = ''a'',
     oc_schedule_name = ''job'',
     oc_scheduled_at = 63800000060000000000,
     oc_observed_at = 63800000060000000000,
     oc_status = ''succeeded'', oc_outcome_code = None,
     oc_missed_count = 1, oc_attempt_count = 1,
     oc_last_http_status = Some 204, oc_last_error_code = None,
     oc_last_error_message = None,
     oc_created_at = 63800000060000000000,
     oc_updated_at = 63800000061000000000,
     oc_completed_at = Some 63800000061000000000\<rparr>],
     receipts =
     [\<lparr>re_id = ''aa'', re_tenant_id = ''acme'',
     re_command_scope = ''schedules'',
     re_idempotency_key = ''key-1'',
     re_request_digest =
     ''sha256:0000000000000000000000000000000000000000000000000000000000000000'',
     re_request_id = ''req-1'', re_result_code = ''registered'',
     re_result_body =
     \<lparr>c_Code = ''registered'', c_Name = ''job'',
     c_Schedule =
     Some
     \<lparr>s_ID = ''a'', s_TenantID = ''acme'', s_Name = ''job'',
     s_Rule = ''@every 1m'', s_RunAt = 0,
     s_Timezone = ''UTC'',
     s_TargetURL = ''http://example.com/hook'',
     s_Method = ''POST'', s_Payload = ''{}'',
     s_Retry =
     \<lparr>MaxAttempts = 3, BackoffSeconds = 1,
     MaxBackoffSeconds = 3600,
     MaxRetryWindowSeconds = 3600\<rparr>,
     s_MisfirePolicy = ''fire_once'', s_CatchUpLimit = 1,
     s_OverlapPolicy = ''forbid'', s_Status = ''active'',
     s_NextDueAt = 63800000060000000000, s_Version = 1,
     s_CreatedAt = 63800000000000000000,
     s_UpdatedAt = 63800000000000000000,
     s_ClaimOwner = [], s_ClaimExpiresAt = 0\<rparr>\<rparr>,
     re_created_at = 63800000000000000000\<rparr>],
     outbox =
     [\<lparr>ob_id = ''aaaa'', ob_tenant_id = ''acme'',
     ob_occurrence_id = ''aaa'', ob_schedule_id = ''a'',
     ob_schedule_name = ''job'',
     ob_scheduled_at = 63800000060000000000,
     ob_target_url = ''http://example.com/hook'',
     ob_target_method = ''POST'', ob_payload = ''{}'',
     ob_status = ''succeeded'', ob_attempt_count = 1,
     ob_retry =
     \<lparr>MaxAttempts = 3, BackoffSeconds = 1,
     MaxBackoffSeconds = 3600, MaxRetryWindowSeconds = 3600\<rparr>,
     ob_next_attempt_at = 63800000061000000000,
     ob_first_attempt_at = Some 63800000060000000000,
     ob_claim_owner = None, ob_claim_expires_at = None,
     ob_last_http_status = Some 204, ob_last_error_code = None,
     ob_last_error_message = None,
     ob_created_at = 63800000060000000000,
     ob_updated_at = 63800000061000000000,
     ob_completed_at = Some 63800000061000000000\<rparr>],
     uuid_seq = 4\<rparr>"
  by code_simp

section \<open>The states of the run\<close>

definition demo_s1 :: sys where "demo_s1 = init_sys\<lparr>sys_db := demo_db1\<rparr>"
definition demo_s2 :: sys where
  "demo_s2 = demo_s1\<lparr>sys_db := snd demo_claim, planning := [(''w1'', NormalizeInstant demo_due, demo_claimed)]\<rparr>"
definition demo_s3 :: sys where "demo_s3 = demo_s2\<lparr>sys_db := demo_db3, planning := []\<rparr>"
definition demo_s4 :: sys where
  "demo_s4 = demo_s3\<lparr>sys_db := snd demo_work_claim, claimed := [(''w1'', demo_work)]\<rparr>"
definition demo_s5 :: sys where
  "demo_s5 = demo_s4\<lparr>sys_db := snd demo_begin, claimed := [], started := [(''w1'', demo_started)]\<rparr>"
definition demo_s6 :: sys where
  "demo_s6 = demo_s5\<lparr>started := [], answered := [(''w1'', demo_started)], calls := [demo_started]\<rparr>"
definition demo_s7 :: sys where "demo_s7 = demo_s6\<lparr>sys_db := demo_db6, answered := []\<rparr>"

lemmas demo_states = demo_s1_def demo_s2_def demo_s3_def demo_s4_def demo_s5_def demo_s6_def demo_s7_def init_sys_def

lemma demo_values:
  "values_of (fst demo_claim) = [demo_claimed]" "values_of (fst demo_work_claim) = [demo_work]"
  "fst demo_begin = Inr demo_started"
  by code_simp+

lemma demo_step1: "step demo_lib demo_pg init_sys demo_s1"
proof -
  have "step demo_lib demo_pg init_sys (init_sys\<lparr>sys_db := demo_db1\<rparr>)"
    by (rule step.command [where r = "fst (Execute demo_lib demo_pg NoFault id demo_start demo_start demo_create empty_db)"])
      (simp add: demo_db1_def init_sys_def)
  then show ?thesis by (simp add: demo_s1_def)
qed

lemma demo_step2: "step demo_lib demo_pg demo_s1 demo_s2"
proof -
  have "step demo_lib demo_pg demo_s1 (demo_s1\<lparr>sys_db := snd demo_claim,
      planning := map (\<lambda>x. (''w1'', NormalizeInstant demo_due, x)) (values_of (fst demo_claim)) @ planning demo_s1\<rparr>)"
    by (rule step.claim_due) (simp add: demo_claim_def demo_s1_def)
  then show ?thesis by (simp add: demo_values demo_states)
qed

lemma demo_step3: "step demo_lib demo_pg demo_s2 demo_s3"
proof -
  have "step demo_lib demo_pg demo_s2 (demo_s2\<lparr>sys_db := demo_db3,
      planning := remove1 (''w1'', NormalizeInstant demo_due, demo_claimed) (planning demo_s2)\<rparr>)"
    by (rule step.plan [where e = "fst (materialize (LoadLocation demo_lib) demo_pg NoFault ''w1'' demo_claimed
          (NormalizeInstant demo_due) (snd demo_claim))"])
      (simp_all add: demo_states demo_db3_def)
  then show ?thesis by (simp add: demo_states)
qed

lemma demo_step4: "step demo_lib demo_pg demo_s3 demo_s4"
proof -
  have "step demo_lib demo_pg demo_s3 (demo_s3\<lparr>sys_db := snd demo_work_claim,
      claimed := map (Pair (di_workerID demo_dispatcher)) (values_of (fst demo_work_claim)) @ claimed demo_s3\<rparr>)"
    by (rule step.claim_work) (simp add: demo_work_claim_def demo_states)
  then show ?thesis by (simp add: demo_values demo_states demo_dispatcher_def)
qed

lemma demo_step5: "step demo_lib demo_pg demo_s4 demo_s5"
proof -
  have "beginItem demo_pg ''w1'' demo_world demo_work (sys_db demo_s4) = (Inr demo_started, snd demo_begin)"
    using demo_values(3) by (simp add: demo_begin_def demo_states prod_eq_iff)
  then have "step demo_lib demo_pg demo_s4 (demo_s4\<lparr>sys_db := snd demo_begin,
      claimed := remove1 (''w1'', demo_work) (claimed demo_s4), started := (''w1'', demo_started) # started demo_s4\<rparr>)"
    by (rule step.begin_work [rotated]) (simp add: demo_states)
  then show ?thesis by (simp add: demo_states)
qed

lemma demo_step6: "step demo_lib demo_pg demo_s5 demo_s6"
proof -
  have "step demo_lib demo_pg demo_s5 (demo_s5\<lparr>started := remove1 (''w1'', demo_started) (started demo_s5),
      answered := (''w1'', demo_started) # answered demo_s5, calls := demo_started # calls demo_s5\<rparr>)"
    by (rule step.call_target) (simp add: demo_states)
  then show ?thesis by (simp add: demo_states)
qed

lemma demo_step7: "step demo_lib demo_pg demo_s6 demo_s7"
proof -
  have "step demo_lib demo_pg demo_s6 (demo_s6\<lparr>sys_db := demo_db6,
      answered := remove1 (''w1'', demo_started) (answered demo_s6)\<rparr>)"
    by (rule step.persist [where wd = demo_world and
          e = "fst (persistResult demo_pg ''w1'' demo_world demo_started (attemptResult demo_world demo_started) (snd demo_begin))"])
      (simp_all add: demo_states demo_db6_def)
  then show ?thesis by (simp add: demo_states)
qed

lemmas demo_steps = demo_step1 demo_step2 demo_step3 demo_step4 demo_step5 demo_step6 demo_step7

lemma demo_init: "reachable demo_lib demo_pg init_sys"
  by (simp add: reachable_def)

lemma demo_reachable3: "reachable demo_lib demo_pg demo_s3"
  by (rule reachable_step [OF reachable_step [OF reachable_step [OF demo_init demo_step1] demo_step2] demo_step3])

lemma demo_reachable6: "reachable demo_lib demo_pg demo_s6"
  by (rule reachable_step [OF reachable_step [OF reachable_step [OF demo_reachable3 demo_step4] demo_step5] demo_step6])

lemma demo_reachable7: "reachable demo_lib demo_pg demo_s7"
  by (rule reachable_step [OF demo_reachable6 demo_step7])

end
