(* ===== verification/Samples.thy ===== *)
theory Samples
  imports Demo Claims ServiceProps CronText
begin

text \<open>
  More concrete inputs for the examples of the properties: a repeated and a conflicting
  command, an update that is overtaken, plans under bounded catch-up, a one-time schedule, and
  a database with due schedules and ready work.
\<close>

definition the_Inr :: "'a \<Rightarrow> 'a res \<Rightarrow> 'a" where
  "the_Inr x r = (case r of Inr y \<Rightarrow> y | Inl _ \<Rightarrow> x)"

section \<open>Commands\<close>

definition demo_prepared :: Command where
  "demo_prepared = the_Inr demo_create (prepare demo_lib demo_create)"

lemma demo_prepared_eval [code]:
  "demo_prepared =
     \<lparr>cmd_Operation = ''create'', cmd_TenantID = ''acme'',
     cmd_Name = ''job'', cmd_CommandScope = ''schedules'',
     cmd_IdempotencyKey = ''key-1'',
     cmd_RequestDigest =
     ''sha256:0000000000000000000000000000000000000000000000000000000000000000'',
     cmd_RequestID = ''req-1'',
     cmd_Schedule =
     \<lparr>s_ID = [], s_TenantID = ''acme'', s_Name = ''job'',
     s_Rule = ''@every 1m'', s_RunAt = 0, s_Timezone = ''UTC'',
     s_TargetURL = ''http://example.com/hook'', s_Method = ''POST'',
     s_Payload = ''{}'',
     s_Retry =
     \<lparr>MaxAttempts = 3, BackoffSeconds = 1,
     MaxBackoffSeconds = 3600, MaxRetryWindowSeconds = 3600\<rparr>,
     s_MisfirePolicy = ''fire_once'', s_CatchUpLimit = 1,
     s_OverlapPolicy = ''forbid'', s_Status = ''active'',
     s_NextDueAt = 0, s_Version = 0, s_CreatedAt = 0,
     s_UpdatedAt = 0, s_ClaimOwner = [], s_ClaimExpiresAt = 0\<rparr>\<rparr>"
  by code_simp

definition demo_receipt :: CommandReceipt where
  "demo_receipt = newReceipt demo_prepared (re_result_body (hd (receipts demo_db1))) demo_start"

lemma demo_receipt_eval [code]:
  "demo_receipt =
     \<lparr>rc_TenantID = ''acme'', rc_CommandScope = ''schedules'',
     rc_IdempotencyKey = ''key-1'',
     rc_RequestDigest =
     ''sha256:0000000000000000000000000000000000000000000000000000000000000000'',
     rc_RequestID = ''req-1'',
     rc_Result =
     \<lparr>c_Code = ''registered'', c_Name = ''job'',
     c_Schedule =
     Some
     \<lparr>s_ID = ''a'', s_TenantID = ''acme'', s_Name = ''job'',
     s_Rule = ''@every 1m'', s_RunAt = 0, s_Timezone = ''UTC'',
     s_TargetURL = ''http://example.com/hook'',
     s_Method = ''POST'', s_Payload = ''{}'',
     s_Retry =
     \<lparr>MaxAttempts = 3, BackoffSeconds = 1,
     MaxBackoffSeconds = 3600,
     MaxRetryWindowSeconds = 3600\<rparr>,
     s_MisfirePolicy = ''fire_once'', s_CatchUpLimit = 1,
     s_OverlapPolicy = ''forbid'', s_Status = ''active'',
     s_NextDueAt = 63800000060000000000, s_Version = 1,
     s_CreatedAt = 63800000000000000000,
     s_UpdatedAt = 63800000000000000000, s_ClaimOwner = [],
     s_ClaimExpiresAt = 0\<rparr>\<rparr>,
     rc_CreatedAt = 63800000000000000000\<rparr>"
  by code_simp

definition demo_conflicting :: Command where
  "demo_conflicting = demo_create\<lparr>cmd_RequestDigest := ''sha256:'' @ replicate 64 (CHR ''1'')\<rparr>"

definition demo_update :: Command where "demo_update = demo_command CommandUpdate ''key-2''"

definition demo_prepared_update :: Command where
  "demo_prepared_update = the_Inr demo_update (prepare demo_lib demo_update)"

lemma demo_prepared_update_eval [code]:
  "demo_prepared_update =
     \<lparr>cmd_Operation = ''update'', cmd_TenantID = ''acme'',
     cmd_Name = ''job'', cmd_CommandScope = ''schedules'',
     cmd_IdempotencyKey = ''key-2'',
     cmd_RequestDigest =
     ''sha256:0000000000000000000000000000000000000000000000000000000000000000'',
     cmd_RequestID = ''req-1'',
     cmd_Schedule =
     \<lparr>s_ID = [], s_TenantID = ''acme'', s_Name = ''job'',
     s_Rule = ''@every 1m'', s_RunAt = 0, s_Timezone = ''UTC'',
     s_TargetURL = ''http://example.com/hook'', s_Method = ''POST'',
     s_Payload = ''{}'',
     s_Retry =
     \<lparr>MaxAttempts = 3, BackoffSeconds = 1,
     MaxBackoffSeconds = 3600, MaxRetryWindowSeconds = 3600\<rparr>,
     s_MisfirePolicy = ''fire_once'', s_CatchUpLimit = 1,
     s_OverlapPolicy = ''forbid'', s_Status = ''active'',
     s_NextDueAt = 0, s_Version = 0, s_CreatedAt = 0,
     s_UpdatedAt = 0, s_ClaimOwner = [], s_ClaimExpiresAt = 0\<rparr>\<rparr>"
  by code_simp

definition demo_overtaken :: "db \<Rightarrow> db" where
  "demo_overtaken d = d\<lparr>schedules := map (\<lambda>r. r\<lparr>sc_version := 2\<rparr>) (schedules d)\<rparr>"

section \<open>Plans\<close>

definition demo_behind :: Schedule where
  "demo_behind = demo_claimed\<lparr>s_MisfirePolicy := MisfireCatchUpBounded, s_CatchUpLimit := 2\<rparr>"

definition demo_late :: instant where "demo_late = demo_due + 5 * Minute"

definition demo_planned :: "OccurrencePlan list \<times> instant" where
  "demo_planned = the_Inr ([], 0)
     (planSchedule (Next (LoadLocation demo_lib)) (NextAfter (LoadLocation demo_lib)) demo_behind demo_late)"

lemma demo_planned_eval [code]:
  "demo_planned =
     ([\<lparr>p_ScheduledAt = 63800000060000000000,
     p_ObservedAt = 63800000360000000000, p_Status = ''pending'',
     p_OutcomeCode = [], p_MissedCount = 1, p_Dispatch = True\<rparr>,
     \<lparr>p_ScheduledAt = 63800000120000000000,
     p_ObservedAt = 63800000360000000000, p_Status = ''pending'',
     p_OutcomeCode = [], p_MissedCount = 1, p_Dispatch = True\<rparr>,
     \<lparr>p_ScheduledAt = 63800000180000000000,
     p_ObservedAt = 63800000360000000000, p_Status = ''skipped'',
     p_OutcomeCode = ''SCHEDULER_MISFIRE_BOUND_EXCEEDED'',
     p_MissedCount = 1, p_Dispatch = False\<rparr>],
     63800000420000000000)"
  by code_simp

section \<open>A one-time schedule\<close>

definition demo_once :: Command where
  "demo_once = (demo_command CommandCreate ''key-1'')\<lparr>cmd_Schedule :=
     zeroSchedule\<lparr>s_RunAt := demo_due, s_TargetURL := demo_url\<rparr>\<rparr>"

definition demo_once_db1 :: db where
  "demo_once_db1 = snd (Execute demo_lib demo_pg NoFault id demo_start demo_start demo_once empty_db)"

lemma demo_once_db1_eval [code]:
  "demo_once_db1 =
     \<lparr>schedules =
     [\<lparr>sc_id = ''a'', sc_tenant_id = ''acme'', sc_name = ''job'',
     sc_schedule_rule = None, sc_run_at = Some 63800000060000000000,
     sc_timezone = ''UTC'',
     sc_target_url = ''http://example.com/hook'',
     sc_target_method = ''POST'', sc_payload = ''{}'',
     sc_status = ''active'', sc_misfire_policy = ''fire_once'',
     sc_catch_up_limit = 1, sc_overlap_policy = ''forbid'',
     sc_retry =
     \<lparr>MaxAttempts = 1, BackoffSeconds = 1, MaxBackoffSeconds = 3600,
     MaxRetryWindowSeconds = 3600\<rparr>,
     sc_next_due_at = Some 63800000060000000000,
     sc_claim_owner = None, sc_claim_expires_at = None,
     sc_version = 1, sc_created_at = 63800000000000000000,
     sc_updated_at = 63800000000000000000\<rparr>],
     occurrences = [],
     receipts =
     [\<lparr>re_id = ''aa'', re_tenant_id = ''acme'',
     re_command_scope = ''schedules'',
     re_idempotency_key = ''key-1'',
     re_request_digest =
     ''sha256:0000000000000000000000000000000000000000000000000000000000000000'',
     re_request_id = ''req-1'', re_result_code = ''registered'',
     re_result_body =
     \<lparr>c_Code = ''registered'', c_Name = ''job'',
     c_Schedule =
     Some
     \<lparr>s_ID = ''a'', s_TenantID = ''acme'', s_Name = ''job'',
     s_Rule = [], s_RunAt = 63800000060000000000,
     s_Timezone = ''UTC'',
     s_TargetURL = ''http://example.com/hook'',
     s_Method = ''POST'', s_Payload = ''{}'',
     s_Retry =
     \<lparr>MaxAttempts = 1, BackoffSeconds = 1,
     MaxBackoffSeconds = 3600,
     MaxRetryWindowSeconds = 3600\<rparr>,
     s_MisfirePolicy = ''fire_once'', s_CatchUpLimit = 1,
     s_OverlapPolicy = ''forbid'', s_Status = ''active'',
     s_NextDueAt = 63800000060000000000, s_Version = 1,
     s_CreatedAt = 63800000000000000000,
     s_UpdatedAt = 63800000000000000000,
     s_ClaimOwner = [], s_ClaimExpiresAt = 0\<rparr>\<rparr>,
     re_created_at = 63800000000000000000\<rparr>],
     outbox = [], uuid_seq = 2\<rparr>"
  by code_simp

definition demo_once_claim :: "Schedule list res \<times> db" where
  "demo_once_claim = WithinTx NoFault (ClaimDueSchedules demo_pg (\<lambda>_. False) demo_due ''w1''
     (demo_due + DefaultClaimTTL) 100) demo_once_db1"

lemma demo_once_claim_eval [code]:
  "demo_once_claim =
     (Inr [\<lparr>s_ID = ''a'', s_TenantID = ''acme'', s_Name = ''job'',
     s_Rule = [], s_RunAt = 63800000060000000000,
     s_Timezone = ''UTC'',
     s_TargetURL = ''http://example.com/hook'', s_Method = ''POST'',
     s_Payload = ''{}'',
     s_Retry =
     \<lparr>MaxAttempts = 1, BackoffSeconds = 1,
     MaxBackoffSeconds = 3600, MaxRetryWindowSeconds = 3600\<rparr>,
     s_MisfirePolicy = ''fire_once'', s_CatchUpLimit = 1,
     s_OverlapPolicy = ''forbid'', s_Status = ''active'',
     s_NextDueAt = 63800000060000000000, s_Version = 1,
     s_CreatedAt = 63800000000000000000,
     s_UpdatedAt = 63800000060000000000, s_ClaimOwner = ''w1'',
     s_ClaimExpiresAt = 63800000180000000000\<rparr>],
     \<lparr>schedules =
     [\<lparr>sc_id = ''a'', sc_tenant_id = ''acme'', sc_name = ''job'',
     sc_schedule_rule = None, sc_run_at = Some 63800000060000000000,
     sc_timezone = ''UTC'',
     sc_target_url = ''http://example.com/hook'',
     sc_target_method = ''POST'', sc_payload = ''{}'',
     sc_status = ''active'', sc_misfire_policy = ''fire_once'',
     sc_catch_up_limit = 1, sc_overlap_policy = ''forbid'',
     sc_retry =
     \<lparr>MaxAttempts = 1, BackoffSeconds = 1,
     MaxBackoffSeconds = 3600, MaxRetryWindowSeconds = 3600\<rparr>,
     sc_next_due_at = Some 63800000060000000000,
     sc_claim_owner = Some ''w1'',
     sc_claim_expires_at = Some 63800000180000000000, sc_version = 1,
     sc_created_at = 63800000000000000000,
     sc_updated_at = 63800000060000000000\<rparr>],
     occurrences = [],
     receipts =
     [\<lparr>re_id = ''aa'', re_tenant_id = ''acme'',
     re_command_scope = ''schedules'',
     re_idempotency_key = ''key-1'',
     re_request_digest =
     ''sha256:0000000000000000000000000000000000000000000000000000000000000000'',
     re_request_id = ''req-1'', re_result_code = ''registered'',
     re_result_body =
     \<lparr>c_Code = ''registered'', c_Name = ''job'',
     c_Schedule =
     Some
     \<lparr>s_ID = ''a'', s_TenantID = ''acme'',
     s_Name = ''job'', s_Rule = [],
     s_RunAt = 63800000060000000000,
     s_Timezone = ''UTC'',
     s_TargetURL = ''http://example.com/hook'',
     s_Method = ''POST'', s_Payload = ''{}'',
     s_Retry =
     \<lparr>MaxAttempts = 1, BackoffSeconds = 1,
     MaxBackoffSeconds = 3600,
     MaxRetryWindowSeconds = 3600\<rparr>,
     s_MisfirePolicy = ''fire_once'',
     s_CatchUpLimit = 1, s_OverlapPolicy = ''forbid'',
     s_Status = ''active'',
     s_NextDueAt = 63800000060000000000, s_Version = 1,
     s_CreatedAt = 63800000000000000000,
     s_UpdatedAt = 63800000000000000000,
     s_ClaimOwner = [], s_ClaimExpiresAt = 0\<rparr>\<rparr>,
     re_created_at = 63800000000000000000\<rparr>],
     outbox = [], uuid_seq = 2\<rparr>)"
  by code_simp

definition demo_once_claimed :: Schedule where "demo_once_claimed = hd (values_of (fst demo_once_claim))"

lemma demo_once_claimed_eval [code]:
  "demo_once_claimed =
     \<lparr>s_ID = ''a'', s_TenantID = ''acme'', s_Name = ''job'', s_Rule = [],
     s_RunAt = 63800000060000000000, s_Timezone = ''UTC'',
     s_TargetURL = ''http://example.com/hook'', s_Method = ''POST'',
     s_Payload = ''{}'',
     s_Retry =
     \<lparr>MaxAttempts = 1, BackoffSeconds = 1, MaxBackoffSeconds = 3600,
     MaxRetryWindowSeconds = 3600\<rparr>,
     s_MisfirePolicy = ''fire_once'', s_CatchUpLimit = 1,
     s_OverlapPolicy = ''forbid'', s_Status = ''active'',
     s_NextDueAt = 63800000060000000000, s_Version = 1,
     s_CreatedAt = 63800000000000000000,
     s_UpdatedAt = 63800000060000000000, s_ClaimOwner = ''w1'',
     s_ClaimExpiresAt = 63800000180000000000\<rparr>"
  by code_simp

definition demo_once_db3 :: db where
  "demo_once_db3 = snd (materialize (LoadLocation demo_lib) demo_pg NoFault ''w1'' demo_once_claimed
     demo_due (snd demo_once_claim))"

lemma demo_once_db3_eval [code]:
  "demo_once_db3 =
     \<lparr>schedules =
     [\<lparr>sc_id = ''a'', sc_tenant_id = ''acme'', sc_name = ''job'',
     sc_schedule_rule = None, sc_run_at = Some 63800000060000000000,
     sc_timezone = ''UTC'',
     sc_target_url = ''http://example.com/hook'',
     sc_target_method = ''POST'', sc_payload = ''{}'',
     sc_status = ''exhausted'', sc_misfire_policy = ''fire_once'',
     sc_catch_up_limit = 1, sc_overlap_policy = ''forbid'',
     sc_retry =
     \<lparr>MaxAttempts = 1, BackoffSeconds = 1, MaxBackoffSeconds = 3600,
     MaxRetryWindowSeconds = 3600\<rparr>,
     sc_next_due_at = None, sc_claim_owner = None,
     sc_claim_expires_at = None, sc_version = 2,
     sc_created_at = 63800000000000000000,
     sc_updated_at = 63800000060000000000\<rparr>],
     occurrences =
     [\<lparr>oc_id = ''aaa'', oc_tenant_id = ''acme'', oc_schedule_id = ''a'',
     oc_schedule_name = ''job'',
     oc_scheduled_at = 63800000060000000000,
     oc_observed_at = 63800000060000000000, oc_status = ''pending'',
     oc_outcome_code = None, oc_missed_count = 1,
     oc_attempt_count = 0, oc_last_http_status = None,
     oc_last_error_code = None, oc_last_error_message = None,
     oc_created_at = 63800000060000000000,
     oc_updated_at = 63800000060000000000, oc_completed_at = None\<rparr>],
     receipts =
     [\<lparr>re_id = ''aa'', re_tenant_id = ''acme'',
     re_command_scope = ''schedules'',
     re_idempotency_key = ''key-1'',
     re_request_digest =
     ''sha256:0000000000000000000000000000000000000000000000000000000000000000'',
     re_request_id = ''req-1'', re_result_code = ''registered'',
     re_result_body =
     \<lparr>c_Code = ''registered'', c_Name = ''job'',
     c_Schedule =
     Some
     \<lparr>s_ID = ''a'', s_TenantID = ''acme'', s_Name = ''job'',
     s_Rule = [], s_RunAt = 63800000060000000000,
     s_Timezone = ''UTC'',
     s_TargetURL = ''http://example.com/hook'',
     s_Method = ''POST'', s_Payload = ''{}'',
     s_Retry =
     \<lparr>MaxAttempts = 1, BackoffSeconds = 1,
     MaxBackoffSeconds = 3600,
     MaxRetryWindowSeconds = 3600\<rparr>,
     s_MisfirePolicy = ''fire_once'', s_CatchUpLimit = 1,
     s_OverlapPolicy = ''forbid'', s_Status = ''active'',
     s_NextDueAt = 63800000060000000000, s_Version = 1,
     s_CreatedAt = 63800000000000000000,
     s_UpdatedAt = 63800000000000000000,
     s_ClaimOwner = [], s_ClaimExpiresAt = 0\<rparr>\<rparr>,
     re_created_at = 63800000000000000000\<rparr>],
     outbox =
     [\<lparr>ob_id = ''aaaa'', ob_tenant_id = ''acme'',
     ob_occurrence_id = ''aaa'', ob_schedule_id = ''a'',
     ob_schedule_name = ''job'',
     ob_scheduled_at = 63800000060000000000,
     ob_target_url = ''http://example.com/hook'',
     ob_target_method = ''POST'', ob_payload = ''{}'',
     ob_status = ''pending'', ob_attempt_count = 0,
     ob_retry =
     \<lparr>MaxAttempts = 1, BackoffSeconds = 1,
     MaxBackoffSeconds = 3600, MaxRetryWindowSeconds = 3600\<rparr>,
     ob_next_attempt_at = 63800000060000000000,
     ob_first_attempt_at = None, ob_claim_owner = None,
     ob_claim_expires_at = None, ob_last_http_status = None,
     ob_last_error_code = None, ob_last_error_message = None,
     ob_created_at = 63800000060000000000,
     ob_updated_at = 63800000060000000000, ob_completed_at = None\<rparr>],
     uuid_seq = 4\<rparr>"
  by code_simp

section \<open>Two claims of each kind\<close>

definition demo_later :: instant where "demo_later = demo_start + 3 * Minute"

definition demo_due_claim :: "instant \<Rightarrow> string \<Rightarrow> db \<Rightarrow> Schedule list \<times> db" where
  "demo_due_claim now w d = the_Inr ([], d) (ClaimDueSchedules demo_pg (\<lambda>_. False) now w (now + DefaultClaimTTL) 100 d)"

definition demo_ready_claim :: "instant \<Rightarrow> string \<Rightarrow> db \<Rightarrow> DispatchWork list \<times> db" where
  "demo_ready_claim now w d = the_Inr ([], d) (ClaimDispatches demo_pg (\<lambda>_. False) now w (now + DefaultClaimTTL) 100 d)"

definition demo_c1 :: "Schedule list \<times> db" where "demo_c1 = demo_due_claim demo_later ''w1'' demo_db3"

lemma demo_c1_eval [code]:
  "demo_c1 =
     ([\<lparr>s_ID = ''a'', s_TenantID = ''acme'', s_Name = ''job'',
     s_Rule = ''@every 1m'', s_RunAt = 0, s_Timezone = ''UTC'',
     s_TargetURL = ''http://example.com/hook'', s_Method = ''POST'',
     s_Payload = ''{}'',
     s_Retry =
     \<lparr>MaxAttempts = 3, BackoffSeconds = 1, MaxBackoffSeconds = 3600,
     MaxRetryWindowSeconds = 3600\<rparr>,
     s_MisfirePolicy = ''fire_once'', s_CatchUpLimit = 1,
     s_OverlapPolicy = ''forbid'', s_Status = ''active'',
     s_NextDueAt = 63800000120000000000, s_Version = 2,
     s_CreatedAt = 63800000000000000000,
     s_UpdatedAt = 63800000180000000000, s_ClaimOwner = ''w1'',
     s_ClaimExpiresAt = 63800000300000000000\<rparr>],
     \<lparr>schedules =
     [\<lparr>sc_id = ''a'', sc_tenant_id = ''acme'', sc_name = ''job'',
     sc_schedule_rule = Some ''@every 1m'', sc_run_at = None,
     sc_timezone = ''UTC'',
     sc_target_url = ''http://example.com/hook'',
     sc_target_method = ''POST'', sc_payload = ''{}'',
     sc_status = ''active'', sc_misfire_policy = ''fire_once'',
     sc_catch_up_limit = 1, sc_overlap_policy = ''forbid'',
     sc_retry =
     \<lparr>MaxAttempts = 3, BackoffSeconds = 1,
     MaxBackoffSeconds = 3600, MaxRetryWindowSeconds = 3600\<rparr>,
     sc_next_due_at = Some 63800000120000000000,
     sc_claim_owner = Some ''w1'',
     sc_claim_expires_at = Some 63800000300000000000, sc_version = 2,
     sc_created_at = 63800000000000000000,
     sc_updated_at = 63800000180000000000\<rparr>],
     occurrences =
     [\<lparr>oc_id = ''aaa'', oc_tenant_id = ''acme'',
     oc_schedule_id = ''a'', oc_schedule_name = ''job'',
     oc_scheduled_at = 63800000060000000000,
     oc_observed_at = 63800000060000000000,
     oc_status = ''pending'', oc_outcome_code = None,
     oc_missed_count = 1, oc_attempt_count = 0,
     oc_last_http_status = None, oc_last_error_code = None,
     oc_last_error_message = None,
     oc_created_at = 63800000060000000000,
     oc_updated_at = 63800000060000000000,
     oc_completed_at = None\<rparr>],
     receipts =
     [\<lparr>re_id = ''aa'', re_tenant_id = ''acme'',
     re_command_scope = ''schedules'',
     re_idempotency_key = ''key-1'',
     re_request_digest =
     ''sha256:0000000000000000000000000000000000000000000000000000000000000000'',
     re_request_id = ''req-1'', re_result_code = ''registered'',
     re_result_body =
     \<lparr>c_Code = ''registered'', c_Name = ''job'',
     c_Schedule =
     Some
     \<lparr>s_ID = ''a'', s_TenantID = ''acme'',
     s_Name = ''job'', s_Rule = ''@every 1m'',
     s_RunAt = 0, s_Timezone = ''UTC'',
     s_TargetURL = ''http://example.com/hook'',
     s_Method = ''POST'', s_Payload = ''{}'',
     s_Retry =
     \<lparr>MaxAttempts = 3, BackoffSeconds = 1,
     MaxBackoffSeconds = 3600,
     MaxRetryWindowSeconds = 3600\<rparr>,
     s_MisfirePolicy = ''fire_once'',
     s_CatchUpLimit = 1, s_OverlapPolicy = ''forbid'',
     s_Status = ''active'',
     s_NextDueAt = 63800000060000000000, s_Version = 1,
     s_CreatedAt = 63800000000000000000,
     s_UpdatedAt = 63800000000000000000,
     s_ClaimOwner = [], s_ClaimExpiresAt = 0\<rparr>\<rparr>,
     re_created_at = 63800000000000000000\<rparr>],
     outbox =
     [\<lparr>ob_id = ''aaaa'', ob_tenant_id = ''acme'',
     ob_occurrence_id = ''aaa'', ob_schedule_id = ''a'',
     ob_schedule_name = ''job'',
     ob_scheduled_at = 63800000060000000000,
     ob_target_url = ''http://example.com/hook'',
     ob_target_method = ''POST'', ob_payload = ''{}'',
     ob_status = ''pending'', ob_attempt_count = 0,
     ob_retry =
     \<lparr>MaxAttempts = 3, BackoffSeconds = 1,
     MaxBackoffSeconds = 3600, MaxRetryWindowSeconds = 3600\<rparr>,
     ob_next_attempt_at = 63800000060000000000,
     ob_first_attempt_at = None, ob_claim_owner = None,
     ob_claim_expires_at = None, ob_last_http_status = None,
     ob_last_error_code = None, ob_last_error_message = None,
     ob_created_at = 63800000060000000000,
     ob_updated_at = 63800000060000000000,
     ob_completed_at = None\<rparr>],
     uuid_seq = 4\<rparr>)"
  by code_simp

definition demo_c2 :: "Schedule list \<times> db" where "demo_c2 = demo_due_claim (demo_later + Second) ''w2'' (snd demo_c1)"

lemma demo_c2_eval [code]:
  "demo_c2 =
     ([],
     \<lparr>schedules =
     [\<lparr>sc_id = ''a'', sc_tenant_id = ''acme'', sc_name = ''job'',
     sc_schedule_rule = Some ''@every 1m'', sc_run_at = None,
     sc_timezone = ''UTC'',
     sc_target_url = ''http://example.com/hook'',
     sc_target_method = ''POST'', sc_payload = ''{}'',
     sc_status = ''active'', sc_misfire_policy = ''fire_once'',
     sc_catch_up_limit = 1, sc_overlap_policy = ''forbid'',
     sc_retry =
     \<lparr>MaxAttempts = 3, BackoffSeconds = 1,
     MaxBackoffSeconds = 3600, MaxRetryWindowSeconds = 3600\<rparr>,
     sc_next_due_at = Some 63800000120000000000,
     sc_claim_owner = Some ''w1'',
     sc_claim_expires_at = Some 63800000300000000000, sc_version = 2,
     sc_created_at = 63800000000000000000,
     sc_updated_at = 63800000180000000000\<rparr>],
     occurrences =
     [\<lparr>oc_id = ''aaa'', oc_tenant_id = ''acme'',
     oc_schedule_id = ''a'', oc_schedule_name = ''job'',
     oc_scheduled_at = 63800000060000000000,
     oc_observed_at = 63800000060000000000,
     oc_status = ''pending'', oc_outcome_code = None,
     oc_missed_count = 1, oc_attempt_count = 0,
     oc_last_http_status = None, oc_last_error_code = None,
     oc_last_error_message = None,
     oc_created_at = 63800000060000000000,
     oc_updated_at = 63800000060000000000,
     oc_completed_at = None\<rparr>],
     receipts =
     [\<lparr>re_id = ''aa'', re_tenant_id = ''acme'',
     re_command_scope = ''schedules'',
     re_idempotency_key = ''key-1'',
     re_request_digest =
     ''sha256:0000000000000000000000000000000000000000000000000000000000000000'',
     re_request_id = ''req-1'', re_result_code = ''registered'',
     re_result_body =
     \<lparr>c_Code = ''registered'', c_Name = ''job'',
     c_Schedule =
     Some
     \<lparr>s_ID = ''a'', s_TenantID = ''acme'',
     s_Name = ''job'', s_Rule = ''@every 1m'',
     s_RunAt = 0, s_Timezone = ''UTC'',
     s_TargetURL = ''http://example.com/hook'',
     s_Method = ''POST'', s_Payload = ''{}'',
     s_Retry =
     \<lparr>MaxAttempts = 3, BackoffSeconds = 1,
     MaxBackoffSeconds = 3600,
     MaxRetryWindowSeconds = 3600\<rparr>,
     s_MisfirePolicy = ''fire_once'',
     s_CatchUpLimit = 1, s_OverlapPolicy = ''forbid'',
     s_Status = ''active'',
     s_NextDueAt = 63800000060000000000, s_Version = 1,
     s_CreatedAt = 63800000000000000000,
     s_UpdatedAt = 63800000000000000000,
     s_ClaimOwner = [], s_ClaimExpiresAt = 0\<rparr>\<rparr>,
     re_created_at = 63800000000000000000\<rparr>],
     outbox =
     [\<lparr>ob_id = ''aaaa'', ob_tenant_id = ''acme'',
     ob_occurrence_id = ''aaa'', ob_schedule_id = ''a'',
     ob_schedule_name = ''job'',
     ob_scheduled_at = 63800000060000000000,
     ob_target_url = ''http://example.com/hook'',
     ob_target_method = ''POST'', ob_payload = ''{}'',
     ob_status = ''pending'', ob_attempt_count = 0,
     ob_retry =
     \<lparr>MaxAttempts = 3, BackoffSeconds = 1,
     MaxBackoffSeconds = 3600, MaxRetryWindowSeconds = 3600\<rparr>,
     ob_next_attempt_at = 63800000060000000000,
     ob_first_attempt_at = None, ob_claim_owner = None,
     ob_claim_expires_at = None, ob_last_http_status = None,
     ob_last_error_code = None, ob_last_error_message = None,
     ob_created_at = 63800000060000000000,
     ob_updated_at = 63800000060000000000,
     ob_completed_at = None\<rparr>],
     uuid_seq = 4\<rparr>)"
  by code_simp

definition demo_c3 :: "DispatchWork list \<times> db" where "demo_c3 = demo_ready_claim demo_later ''w1'' (snd demo_c2)"

lemma demo_c3_eval [code]:
  "demo_c3 =
     ([\<lparr>w_ID = ''aaaa'', w_TenantID = ''acme'', w_OccurrenceID = ''aaa'',
     w_ScheduleID = ''a'', w_ScheduleName = ''job'',
     w_ScheduledAt = 63800000060000000000,
     w_TargetURL = ''http://example.com/hook'', w_Method = ''POST'',
     w_Payload = ''{}'', w_Status = ''dispatching'', w_AttemptCount = 0,
     w_Retry =
     \<lparr>MaxAttempts = 3, BackoffSeconds = 1, MaxBackoffSeconds = 3600,
     MaxRetryWindowSeconds = 3600\<rparr>,
     w_NextAttemptAt = 63800000060000000000, w_FirstAttemptAt = 0,
     w_CreatedAt = 63800000060000000000\<rparr>],
     \<lparr>schedules =
     [\<lparr>sc_id = ''a'', sc_tenant_id = ''acme'', sc_name = ''job'',
     sc_schedule_rule = Some ''@every 1m'', sc_run_at = None,
     sc_timezone = ''UTC'',
     sc_target_url = ''http://example.com/hook'',
     sc_target_method = ''POST'', sc_payload = ''{}'',
     sc_status = ''active'', sc_misfire_policy = ''fire_once'',
     sc_catch_up_limit = 1, sc_overlap_policy = ''forbid'',
     sc_retry =
     \<lparr>MaxAttempts = 3, BackoffSeconds = 1,
     MaxBackoffSeconds = 3600, MaxRetryWindowSeconds = 3600\<rparr>,
     sc_next_due_at = Some 63800000120000000000,
     sc_claim_owner = Some ''w1'',
     sc_claim_expires_at = Some 63800000300000000000, sc_version = 2,
     sc_created_at = 63800000000000000000,
     sc_updated_at = 63800000180000000000\<rparr>],
     occurrences =
     [\<lparr>oc_id = ''aaa'', oc_tenant_id = ''acme'',
     oc_schedule_id = ''a'', oc_schedule_name = ''job'',
     oc_scheduled_at = 63800000060000000000,
     oc_observed_at = 63800000060000000000,
     oc_status = ''pending'', oc_outcome_code = None,
     oc_missed_count = 1, oc_attempt_count = 0,
     oc_last_http_status = None, oc_last_error_code = None,
     oc_last_error_message = None,
     oc_created_at = 63800000060000000000,
     oc_updated_at = 63800000060000000000,
     oc_completed_at = None\<rparr>],
     receipts =
     [\<lparr>re_id = ''aa'', re_tenant_id = ''acme'',
     re_command_scope = ''schedules'',
     re_idempotency_key = ''key-1'',
     re_request_digest =
     ''sha256:0000000000000000000000000000000000000000000000000000000000000000'',
     re_request_id = ''req-1'', re_result_code = ''registered'',
     re_result_body =
     \<lparr>c_Code = ''registered'', c_Name = ''job'',
     c_Schedule =
     Some
     \<lparr>s_ID = ''a'', s_TenantID = ''acme'',
     s_Name = ''job'', s_Rule = ''@every 1m'',
     s_RunAt = 0, s_Timezone = ''UTC'',
     s_TargetURL = ''http://example.com/hook'',
     s_Method = ''POST'', s_Payload = ''{}'',
     s_Retry =
     \<lparr>MaxAttempts = 3, BackoffSeconds = 1,
     MaxBackoffSeconds = 3600,
     MaxRetryWindowSeconds = 3600\<rparr>,
     s_MisfirePolicy = ''fire_once'',
     s_CatchUpLimit = 1, s_OverlapPolicy = ''forbid'',
     s_Status = ''active'',
     s_NextDueAt = 63800000060000000000, s_Version = 1,
     s_CreatedAt = 63800000000000000000,
     s_UpdatedAt = 63800000000000000000,
     s_ClaimOwner = [], s_ClaimExpiresAt = 0\<rparr>\<rparr>,
     re_created_at = 63800000000000000000\<rparr>],
     outbox =
     [\<lparr>ob_id = ''aaaa'', ob_tenant_id = ''acme'',
     ob_occurrence_id = ''aaa'', ob_schedule_id = ''a'',
     ob_schedule_name = ''job'',
     ob_scheduled_at = 63800000060000000000,
     ob_target_url = ''http://example.com/hook'',
     ob_target_method = ''POST'', ob_payload = ''{}'',
     ob_status = ''dispatching'', ob_attempt_count = 0,
     ob_retry =
     \<lparr>MaxAttempts = 3, BackoffSeconds = 1,
     MaxBackoffSeconds = 3600, MaxRetryWindowSeconds = 3600\<rparr>,
     ob_next_attempt_at = 63800000060000000000,
     ob_first_attempt_at = None, ob_claim_owner = Some ''w1'',
     ob_claim_expires_at = Some 63800000300000000000,
     ob_last_http_status = None, ob_last_error_code = None,
     ob_last_error_message = None,
     ob_created_at = 63800000060000000000,
     ob_updated_at = 63800000180000000000,
     ob_completed_at = None\<rparr>],
     uuid_seq = 4\<rparr>)"
  by code_simp

definition demo_c4 :: "DispatchWork list \<times> db" where "demo_c4 = demo_ready_claim (demo_later + Second) ''w2'' (snd demo_c3)"

lemma demo_c4_eval [code]:
  "demo_c4 =
     ([],
     \<lparr>schedules =
     [\<lparr>sc_id = ''a'', sc_tenant_id = ''acme'', sc_name = ''job'',
     sc_schedule_rule = Some ''@every 1m'', sc_run_at = None,
     sc_timezone = ''UTC'',
     sc_target_url = ''http://example.com/hook'',
     sc_target_method = ''POST'', sc_payload = ''{}'',
     sc_status = ''active'', sc_misfire_policy = ''fire_once'',
     sc_catch_up_limit = 1, sc_overlap_policy = ''forbid'',
     sc_retry =
     \<lparr>MaxAttempts = 3, BackoffSeconds = 1,
     MaxBackoffSeconds = 3600, MaxRetryWindowSeconds = 3600\<rparr>,
     sc_next_due_at = Some 63800000120000000000,
     sc_claim_owner = Some ''w1'',
     sc_claim_expires_at = Some 63800000300000000000, sc_version = 2,
     sc_created_at = 63800000000000000000,
     sc_updated_at = 63800000180000000000\<rparr>],
     occurrences =
     [\<lparr>oc_id = ''aaa'', oc_tenant_id = ''acme'',
     oc_schedule_id = ''a'', oc_schedule_name = ''job'',
     oc_scheduled_at = 63800000060000000000,
     oc_observed_at = 63800000060000000000,
     oc_status = ''pending'', oc_outcome_code = None,
     oc_missed_count = 1, oc_attempt_count = 0,
     oc_last_http_status = None, oc_last_error_code = None,
     oc_last_error_message = None,
     oc_created_at = 63800000060000000000,
     oc_updated_at = 63800000060000000000,
     oc_completed_at = None\<rparr>],
     receipts =
     [\<lparr>re_id = ''aa'', re_tenant_id = ''acme'',
     re_command_scope = ''schedules'',
     re_idempotency_key = ''key-1'',
     re_request_digest =
     ''sha256:0000000000000000000000000000000000000000000000000000000000000000'',
     re_request_id = ''req-1'', re_result_code = ''registered'',
     re_result_body =
     \<lparr>c_Code = ''registered'', c_Name = ''job'',
     c_Schedule =
     Some
     \<lparr>s_ID = ''a'', s_TenantID = ''acme'',
     s_Name = ''job'', s_Rule = ''@every 1m'',
     s_RunAt = 0, s_Timezone = ''UTC'',
     s_TargetURL = ''http://example.com/hook'',
     s_Method = ''POST'', s_Payload = ''{}'',
     s_Retry =
     \<lparr>MaxAttempts = 3, BackoffSeconds = 1,
     MaxBackoffSeconds = 3600,
     MaxRetryWindowSeconds = 3600\<rparr>,
     s_MisfirePolicy = ''fire_once'',
     s_CatchUpLimit = 1, s_OverlapPolicy = ''forbid'',
     s_Status = ''active'',
     s_NextDueAt = 63800000060000000000, s_Version = 1,
     s_CreatedAt = 63800000000000000000,
     s_UpdatedAt = 63800000000000000000,
     s_ClaimOwner = [], s_ClaimExpiresAt = 0\<rparr>\<rparr>,
     re_created_at = 63800000000000000000\<rparr>],
     outbox =
     [\<lparr>ob_id = ''aaaa'', ob_tenant_id = ''acme'',
     ob_occurrence_id = ''aaa'', ob_schedule_id = ''a'',
     ob_schedule_name = ''job'',
     ob_scheduled_at = 63800000060000000000,
     ob_target_url = ''http://example.com/hook'',
     ob_target_method = ''POST'', ob_payload = ''{}'',
     ob_status = ''dispatching'', ob_attempt_count = 0,
     ob_retry =
     \<lparr>MaxAttempts = 3, BackoffSeconds = 1,
     MaxBackoffSeconds = 3600, MaxRetryWindowSeconds = 3600\<rparr>,
     ob_next_attempt_at = 63800000060000000000,
     ob_first_attempt_at = None, ob_claim_owner = Some ''w1'',
     ob_claim_expires_at = Some 63800000300000000000,
     ob_last_http_status = None, ob_last_error_code = None,
     ob_last_error_message = None,
     ob_created_at = 63800000060000000000,
     ob_updated_at = 63800000180000000000,
     ob_completed_at = None\<rparr>],
     uuid_seq = 4\<rparr>)"
  by code_simp

end
