(* ===== verification/JsonKeys.thy ===== *)
theory JsonKeys
  imports JsonText Decimal
begin

text \<open>
  The duplicate-key check that \<^verbatim>\<open>internal/transport/http/json.go\<close>,
  \<^verbatim>\<open>internal/config/target_allowlist.go\<close> and \<^verbatim>\<open>internal/application/json_validation.go\<close> each
  carry a copy of, as a walk over the tokens of \<^verbatim>\<open>json.Decoder\<close>, and the decoding of an object
  into its members with their raw texts. Errors that arise inside \<^verbatim>\<open>encoding/json\<close> have
  abbreviated texts. The walk decodes every number as a \<^verbatim>\<open>float64\<close>, so it also refuses a
  number that is out of range.

  The theorem is what the check is for: in a text that passes it, it makes no difference
  whether the first or the last of equal keys is kept.
\<close>

section \<open>The range of a number\<close>

definition float_limit :: int where
  "float_limit = 2 ^ 1024 - 2 ^ 970"

text \<open>\<^verbatim>\<open>strconv.ParseFloat\<close> stops to accumulate the exponent at 10000.\<close>

fun cap_exponent :: "int \<Rightarrow> string \<Rightarrow> int" where
  "cap_exponent e [] = e"
| "cap_exponent e (c # cs) = cap_exponent (if e < 10000 then 10 * e + digit_val c else e) cs"

definition float_in_range :: "string \<Rightarrow> bool" where
  "float_in_range t \<longleftrightarrow>
     (let (i, r) = span_digits (TrimPrefix t ''-'');
          (f, r2) = (if HasPrefix r ''.'' then span_digits (tl r) else ([], r));
          signed = HasPrefix (tl r2) ''-'' \<or> HasPrefix (tl r2) ''+'';
          e = cap_exponent 0 (if signed then tl (tl r2) else tl r2);
          x = (if r2 = [] then 0 else if HasPrefix (tl r2) ''-'' then - e else e) - int (length f);
          m = digits_val 0 (i @ f)
      in if 0 \<le> x then m * 10 ^ nat x < float_limit else m < float_limit * 10 ^ nat (- x))"

section \<open>The walk\<close>

definition json_syntax :: goerr where "json_syntax = Err ''invalid JSON'' []"
definition object_open :: goerr where "object_open = Err ''JSON object is not closed'' []"
definition array_open :: goerr where "array_open = Err ''JSON array is not closed'' []"

text \<open>
  \<open>walk_value\<close> is \<^verbatim>\<open>walkJSON\<close> where a value is expected, \<open>walk_members\<close> and \<open>walk_elements\<close> are its
  loops at \<^verbatim>\<open>decoder.More()\<close>, \<open>walk_key\<close> is the body of the first loop from the key on. The flag
  says whether no member or element was read yet: later ones follow a comma.
\<close>

fun walk_value :: "nat \<Rightarrow> string \<Rightarrow> string res"
  and walk_members :: "nat \<Rightarrow> bool \<Rightarrow> string list \<Rightarrow> string \<Rightarrow> string res"
  and walk_key :: "nat \<Rightarrow> string list \<Rightarrow> string \<Rightarrow> string res"
  and walk_elements :: "nat \<Rightarrow> bool \<Rightarrow> string \<Rightarrow> string res" where
  "walk_value 0 s = Inl json_syntax"
| "walk_value (Suc n) s =
     (case skip_ws s of
        [] \<Rightarrow> Inl json_syntax
      | c # r \<Rightarrow>
          if c = CHR 0x22 then (case parse_str r of None \<Rightarrow> Inl json_syntax | Some (_, r') \<Rightarrow> Inr r')
          else if c = CHR ''{'' then walk_members n True [] r
          else if c = CHR ''['' then walk_elements n True r
          else if HasPrefix (c # r) ''true'' then Inr (drop 4 (c # r))
          else if HasPrefix (c # r) ''false'' then Inr (drop 5 (c # r))
          else if HasPrefix (c # r) ''null'' then Inr (drop 4 (c # r))
          else (case parse_num (c # r) of
                  None \<Rightarrow> Inl json_syntax
                | Some (t, r') \<Rightarrow>
                    if float_in_range t then Inr r'
                    else Inl (Err ''json: cannot unmarshal number %s into Go value of type float64'' [t])))"
| "walk_members 0 fresh seen s = Inl json_syntax"
| "walk_members (Suc n) fresh seen s =
     (case skip_ws s of
        [] \<Rightarrow> Inl object_open
      | c # r \<Rightarrow>
          if c = CHR ''}'' then Inr r
          else if c = CHR '']'' then Inl object_open
          else if fresh then walk_key n seen (c # r)
          else if c = CHR '','' then walk_key n seen r
          else Inl json_syntax)"
| "walk_key 0 seen s = Inl json_syntax"
| "walk_key (Suc n) seen s =
     (if \<not> HasPrefix (skip_ws s) [CHR 0x22] then Inl json_syntax
      else case parse_str (tl (skip_ws s)) of
        None \<Rightarrow> Inl json_syntax
      | Some (key, r1) \<Rightarrow>
          if key \<in> set seen then Inl (Err ''duplicate JSON object key %q'' [key])
          else if \<not> HasPrefix (skip_ws r1) '':'' then Inl json_syntax
          else case walk_value n (tl (skip_ws r1)) of
            Inl err \<Rightarrow> Inl err
          | Inr r2 \<Rightarrow> walk_members n False (key # seen) r2)"
| "walk_elements 0 fresh s = Inl json_syntax"
| "walk_elements (Suc n) fresh s =
     (case skip_ws s of
        [] \<Rightarrow> Inl array_open
      | c # r \<Rightarrow>
          if c = CHR '']'' then Inr r
          else if c = CHR ''}'' then Inl array_open
          else if \<not> fresh \<and> c \<noteq> CHR '','' then Inl json_syntax
          else case walk_value n (if fresh then c # r else r) of
            Inl err \<Rightarrow> Inl err
          | Inr r2 \<Rightarrow> walk_elements n False r2)"

definition walkJSON :: "string \<Rightarrow> string res" where
  "walkJSON s = walk_value (Suc (3 * length s)) s"

text \<open>The packages \<^verbatim>\<open>config\<close> and \<^verbatim>\<open>transporthttp\<close> have the same function once more.\<close>

definition config_walkJSON :: "string \<Rightarrow> string res" where "config_walkJSON = walkJSON"
definition transport_walkJSON :: "string \<Rightarrow> string res" where "transport_walkJSON = walkJSON"

text \<open>After the value there must be nothing but white space.\<close>

definition no_trailing :: "string res \<Rightarrow> goerr option" where
  "no_trailing walked =
     (case walked of
        Inl err \<Rightarrow> Some err
      | Inr r \<Rightarrow>
          if skip_ws r = [] then None
          else (case parse_value (Suc (length r)) maxNestingDepth r of
                  Some _ \<Rightarrow> Some (Err ''trailing JSON'' [])
                | None \<Rightarrow> Some json_syntax))"

definition ensureNoDuplicateJSONKeys :: "string \<Rightarrow> goerr option" where
  "ensureNoDuplicateJSONKeys body = no_trailing (walkJSON body)"

definition config_ensureNoDuplicateJSONKeys :: "string \<Rightarrow> goerr option" where
  "config_ensureNoDuplicateJSONKeys body = no_trailing (config_walkJSON body)"

definition ensureNoDuplicateKeys :: "string \<Rightarrow> goerr option" where
  "ensureNoDuplicateKeys body = no_trailing (transport_walkJSON body)"

section \<open>Objects with the raw texts of their members\<close>

text \<open>
  The members of an object in the order of the text, each with its value and the text of its
  value; a \<^verbatim>\<open>map[string]json.RawMessage\<close> and the fields of a struct are filled from them.
\<close>

type_synonym member = "string \<times> json \<times> string"

fun members_of :: "nat \<Rightarrow> nat \<Rightarrow> string \<Rightarrow> member list option" where
  "members_of 0 d s = None"
| "members_of (Suc n) d s =
     (if \<not> HasPrefix (skip_ws s) [CHR 0x22] then None
      else case parse_str (tl (skip_ws s)) of
        None \<Rightarrow> None
      | Some (k, r1) \<Rightarrow>
          if \<not> HasPrefix (skip_ws r1) '':'' then None
          else let t = skip_ws (tl (skip_ws r1))
          in case parse_value n d t of
            None \<Rightarrow> None
          | Some (v, r2) \<Rightarrow>
              let m = (k, v, take (length t - length r2) t)
              in if HasPrefix (skip_ws r2) '','' then map_option ((#) m) (members_of n d (tl (skip_ws r2)))
                 else if HasPrefix (skip_ws r2) ''}'' then Some [m]
                 else None)"

text \<open>
  \<^verbatim>\<open>decodeSingleJSON\<close> into a map or a struct: \<^verbatim>\<open>None\<close> when the text is not a single JSON object
  (an error, or \<^verbatim>\<open>null\<close>, which leaves a map nil).
\<close>

definition decodeObject :: "string \<Rightarrow> member list option" where
  "decodeObject body =
     (case json_decode body of
        Some (JObj _) \<Rightarrow>
          (let t = tl (skip_ws body)
           in if HasPrefix (skip_ws t) ''}'' then Some [] else members_of (length body) (maxNestingDepth - 1) t)
      | _ \<Rightarrow> None)"

definition raw_field :: "string \<Rightarrow> member list \<Rightarrow> string option" where
  "raw_field k ms = map_option snd (map_of (rev ms) k)"

section \<open>Keeping the first of equal keys\<close>

definition put_new :: "string \<Rightarrow> json \<Rightarrow> (string \<times> json) list \<Rightarrow> (string \<times> json) list" where
  "put_new k v kvs = (if k \<in> fst ` set kvs then kvs else put k v kvs)"

text \<open>The decoder of \<^verbatim>\<open>Json\<close> with \<open>put_new\<close> in the place of \<open>put\<close>.\<close>

fun first_value :: "nat \<Rightarrow> nat \<Rightarrow> string \<Rightarrow> (json \<times> string) option"
  and first_members ::
    "nat \<Rightarrow> nat \<Rightarrow> (string \<times> json) list \<Rightarrow> string \<Rightarrow> (json \<times> string) option"
  and first_elements :: "nat \<Rightarrow> nat \<Rightarrow> json list \<Rightarrow> string \<Rightarrow> (json \<times> string) option" where
  "first_value 0 d s = None"
| "first_value (Suc n) d s0 =
     (case skip_ws s0 of
        [] \<Rightarrow> None
      | c # r \<Rightarrow>
          if c = CHR ''{'' then
            (if d = 0 then None
             else if HasPrefix (skip_ws r) ''}'' then Some (JObj [], tl (skip_ws r))
             else first_members n (d - 1) [] r)
          else if c = CHR ''['' then
            (if d = 0 then None
             else if HasPrefix (skip_ws r) '']'' then Some (JArr [], tl (skip_ws r))
             else first_elements n (d - 1) [] r)
          else parse_value (Suc n) d s0)"
| "first_members 0 d acc s = None"
| "first_members (Suc n) d acc s =
     (if \<not> HasPrefix (skip_ws s) [CHR 0x22] then None
      else case parse_str (tl (skip_ws s)) of
        None \<Rightarrow> None
      | Some (k, r1) \<Rightarrow>
          if \<not> HasPrefix (skip_ws r1) '':'' then None
          else case first_value n d (tl (skip_ws r1)) of
            None \<Rightarrow> None
          | Some (v, r2) \<Rightarrow>
              if HasPrefix (skip_ws r2) '','' then first_members n d (put_new k v acc) (tl (skip_ws r2))
              else if HasPrefix (skip_ws r2) ''}'' then Some (JObj (put_new k v acc), tl (skip_ws r2))
              else None)"
| "first_elements 0 d acc s = None"
| "first_elements (Suc n) d acc s =
     (case first_value n d s of
        None \<Rightarrow> None
      | Some (v, r2) \<Rightarrow>
          if HasPrefix (skip_ws r2) '','' then first_elements n d (v # acc) (tl (skip_ws r2))
          else if HasPrefix (skip_ws r2) '']'' then Some (JArr (rev (v # acc)), tl (skip_ws r2))
          else None)"

definition first_decode :: "string \<Rightarrow> json option" where
  "first_decode s =
     (case first_value (Suc (length s)) maxNestingDepth s of
        Some (v, r) \<Rightarrow> if skip_ws r = [] then Some v else None
      | None \<Rightarrow> None)"


section \<open>What a successful walk says\<close>

lemma skip_ws_idem [simp]: "skip_ws (skip_ws s) = skip_ws s"
  unfolding skip_ws_def by (rule dropWhile_idem)

lemma walk_value_skip [simp]: "walk_value n (skip_ws s) = walk_value n s"
  by (cases n) simp_all

lemma walk_key_skip [simp]: "walk_key n seen (skip_ws s) = walk_key n seen s"
  by (cases n) simp_all

lemma walk_value_object:
  assumes "walk_value n s = Inr r'" and "skip_ws s = CHR ''{'' # t"
  obtains k where "walk_members k True [] t = Inr r'"
  using assms by (cases n) auto

lemma walk_value_array:
  assumes "walk_value n s = Inr r'" and "skip_ws s = CHR ''['' # t"
  obtains k where "walk_elements k True t = Inr r'"
  using assms by (cases n) auto

lemma walk_members_start:
  assumes "walk_members n True seen s = Inr r'" and "\<not> HasPrefix (skip_ws s) ''}''"
  obtains k where "walk_key k seen s = Inr r'"
proof (cases n)
  case (Suc k)
  obtain c r where cr: "skip_ws s = c # r" using assms Suc by (auto split: list.splits)
  have "walk_key k seen (c # r) = Inr r'" using assms Suc cr by (auto simp: HasPrefix_Cons split: if_splits)
  then show ?thesis using that cr walk_key_skip [of k seen s] by simp
qed (use assms in simp)

lemma walk_members_next:
  assumes "walk_members n False seen s = Inr r'" and "HasPrefix (skip_ws s) '',''"
  obtains k where "walk_key k seen (tl (skip_ws s)) = Inr r'"
  using assms by (cases n) (auto simp: HasPrefix_Cons split: list.splits if_splits)

lemma walk_members_close:
  "walk_members n fresh seen s = Inr r' \<Longrightarrow> HasPrefix (skip_ws s) ''}'' \<Longrightarrow> r' = tl (skip_ws s)"
  by (cases n) (auto simp: HasPrefix_Cons split: list.splits if_splits)

lemma walk_elements_start:
  assumes "walk_elements n True s = Inr r'" and "\<not> HasPrefix (skip_ws s) '']''"
  obtains k r1 where "walk_value k s = Inr r1" and "walk_elements k False r1 = Inr r'"
proof (cases n)
  case (Suc k)
  obtain c r where cr: "skip_ws s = c # r" using assms Suc by (auto split: list.splits)
  obtain r1 where "walk_value k (c # r) = Inr r1" "walk_elements k False r1 = Inr r'"
    using assms Suc cr by (auto simp: HasPrefix_Cons split: if_splits sum.splits)
  then show ?thesis using that [of k r1] cr walk_value_skip [of k s] by simp
qed (use assms in simp)

lemma walk_elements_next:
  assumes "walk_elements n False s = Inr r'" and "HasPrefix (skip_ws s) '',''"
  obtains k r1 where "walk_value k (tl (skip_ws s)) = Inr r1" and "walk_elements k False r1 = Inr r'"
  using assms by (cases n) (auto simp: HasPrefix_Cons split: list.splits if_splits sum.splits)

lemma walk_elements_close:
  "walk_elements n fresh s = Inr r' \<Longrightarrow> HasPrefix (skip_ws s) '']'' \<Longrightarrow> r' = tl (skip_ws s)"
  by (cases n) (auto simp: HasPrefix_Cons split: list.splits if_splits)

lemma walk_key_parts:
  assumes "walk_key n seen s = Inr r'" and "parse_str (tl (skip_ws s)) = Some (k, r1)"
  obtains j r2 where "k \<notin> set seen" and "walk_value j (tl (skip_ws r1)) = Inr r2"
    and "walk_members j False (k # seen) r2 = Inr r'"
  using assms by (cases n) (auto split: if_splits sum.splits)

lemma walk_value_flat:
  assumes "walk_value n s = Inr r'" and "skip_ws s = c # t" and "c \<noteq> CHR ''{''" and "c \<noteq> CHR ''[''"
    and "parse_value (Suc m) d s = Some (v, r)"
  shows "r' = r"
  using assms by (cases n) (auto simp: parse_value.simps split: if_splits option.splits)

lemma prefix_comma_close: "HasPrefix s '','' \<Longrightarrow> \<not> HasPrefix s ''}'' \<and> \<not> HasPrefix s '']''"
  by (cases s) (auto simp: HasPrefix_def)

lemma put_new_fresh: "fst ` set acc \<subseteq> set seen \<Longrightarrow> k \<notin> set seen \<Longrightarrow> put_new k v acc = put k v acc"
  by (auto simp: put_new_def)

section \<open>First and last key agree\<close>

lemma walk_first:
  "parse_value m d s = Some (v, r) \<Longrightarrow> walk_value n s = Inr r' \<Longrightarrow> first_value m d s = Some (v, r) \<and> r' = r"
  "parse_members m d acc s = Some (v, r) \<Longrightarrow> walk_key n seen s = Inr r' \<Longrightarrow> fst ` set acc \<subseteq> set seen \<Longrightarrow>
     first_members m d acc s = Some (v, r) \<and> r' = r"
  "parse_elements m d vs s = Some (v, r) \<Longrightarrow> walk_value n s = Inr r1 \<Longrightarrow> walk_elements n2 False r1 = Inr r' \<Longrightarrow>
     first_elements m d vs s = Some (v, r) \<and> r' = r"
proof (induction m d s and m d acc s and m d vs s
    arbitrary: v r n r' and v r n r' seen and v r n r' r1 n2
    rule: parse_value_parse_members_parse_elements.induct)
  case (2 m d s0)
  obtain c t where sk: "skip_ws s0 = c # t" using 2(3) by (auto simp: parse_value.simps split: list.splits)
  consider (obj) "c = CHR ''{''" | (arr) "c = CHR ''[''" | (flat) "c \<noteq> CHR ''{''" "c \<noteq> CHR ''[''" by blast
  then show ?case
  proof cases
    case obj
    obtain k where w: "walk_members k True [] t = Inr r'" using walk_value_object [OF 2(4)] sk obj by auto
    show ?thesis
    proof (cases "HasPrefix (skip_ws t) ''}''")
      case True
      then show ?thesis using 2(3) sk obj walk_members_close [OF w True]
        by (auto simp: parse_value.simps split: if_splits)
    next
      case False
      obtain j where j: "walk_key j [] t = Inr r'" using walk_members_start [OF w False] .
      have d: "d \<noteq> 0" and p: "parse_members m (d - 1) [] t = Some (v, r)"
        using 2(3) sk obj False by (auto simp: parse_value.simps split: if_splits)
      have "first_members m (d - 1) [] t = Some (v, r) \<and> r' = r"
        by (rule 2(1) [OF sk _ obj d False p j]) (simp_all add: obj)
      then show ?thesis using sk obj False d by simp
    qed
  next
    case arr
    obtain k where w: "walk_elements k True t = Inr r'" using walk_value_array [OF 2(4)] sk arr by auto
    show ?thesis
    proof (cases "HasPrefix (skip_ws t) '']''")
      case True
      then show ?thesis using 2(3) sk arr walk_elements_close [OF w True]
        by (auto simp: parse_value.simps split: if_splits)
    next
      case False
      obtain j r1 where j: "walk_value j t = Inr r1" "walk_elements j False r1 = Inr r'"
        using walk_elements_start [OF w False] .
      have d: "d \<noteq> 0" and p: "parse_elements m (d - 1) [] t = Some (v, r)"
        using 2(3) sk arr False by (auto simp: parse_value.simps split: if_splits)
      have "first_elements m (d - 1) [] t = Some (v, r) \<and> r' = r"
        by (rule 2(2) [OF sk _ _ arr d False p j]) (simp_all add: arr)
      then show ?thesis using sk arr False d by simp
    qed
  next
    case flat
    then show ?thesis using walk_value_flat [OF 2(4) sk flat 2(3)] 2(3) sk by simp
  qed
next
  case (4 m d acc s)
  obtain k r1 v1 r2 where q: "HasPrefix (skip_ws s) [CHR 0x22]" "parse_str (tl (skip_ws s)) = Some (k, r1)"
      "HasPrefix (skip_ws r1) '':''" and pv: "parse_value m d (tl (skip_ws r1)) = Some (v1, r2)"
    using 4(3) by (auto simp: parse_members.simps split: if_splits option.splits)
  obtain j r2' where w: "k \<notin> set seen" "walk_value j (tl (skip_ws r1)) = Inr r2'"
      "walk_members j False (k # seen) r2' = Inr r'"
    using walk_key_parts [OF 4(4) q(2)] .
  have v1: "first_value m d (tl (skip_ws r1)) = Some (v1, r2) \<and> r2' = r2"
    by (rule 4(1) [OF _ q(2) refl _ pv w(2)]) (simp_all add: q)
  have same: "put_new k v1 acc = put k v1 acc" using 4(5) w(1) by (rule put_new_fresh)
  show ?case
  proof (cases "HasPrefix (skip_ws r2) '',''")
    case True
    have pm: "parse_members m d (put k v1 acc) (tl (skip_ws r2)) = Some (v, r)"
      using 4(3) q pv True by (simp add: parse_members.simps)
    obtain i where i: "walk_key i (k # seen) (tl (skip_ws r2)) = Inr r'"
      using walk_members_next [OF w(3)] v1 True by auto
    have sub: "fst ` set (put k v1 acc) \<subseteq> set (k # seen)" using put_keys [of k v1 acc] 4(5) by auto
    have "first_members m d (put k v1 acc) (tl (skip_ws r2)) = Some (v, r) \<and> r' = r"
      by (rule 4(2) [OF _ q(2) refl _ pv refl True pm i sub]) (simp_all add: q)
    then show ?thesis using q v1 True same by simp
  next
    case False
    with 4(3) q pv have e: "HasPrefix (skip_ws r2) ''}''" "v = JObj (put k v1 acc)" "r = tl (skip_ws r2)"
      by (auto simp: parse_members.simps split: if_splits)
    then show ?thesis using walk_members_close [OF w(3)] q v1 False same by simp
  qed
next
  case (6 m d acc s)
  from 6(3) obtain v1 r2 where pv: "parse_value m d s = Some (v1, r2)"
    by (auto simp: parse_elements.simps split: option.splits)
  note v1 = 6(1) [OF pv 6(4)]
  show ?case
  proof (cases "HasPrefix (skip_ws r2) '',''")
    case True
    with 6(3) pv have pe: "parse_elements m d (v1 # acc) (tl (skip_ws r2)) = Some (v, r)"
      by (simp add: parse_elements.simps)
    obtain i r3 where i: "walk_value i (tl (skip_ws r2)) = Inr r3" "walk_elements i False r3 = Inr r'"
      using walk_elements_next [OF 6(5)] v1 True by auto
    show ?thesis using 6(2) [OF pv refl True pe i] v1 True by simp
  next
    case False
    with 6(3) pv have e: "HasPrefix (skip_ws r2) '']''" "v = JArr (rev (v1 # acc))" "r = tl (skip_ws r2)"
      by (auto simp: parse_elements.simps split: if_splits)
    then show ?thesis using walk_elements_close [OF 6(5)] v1 False by simp
  qed
qed (simp_all add: parse_value.simps parse_members.simps parse_elements.simps)

text \<open>Which of equal keys is kept has no influence on where the text ends.\<close>

lemma first_shape:
  "map_option snd (first_value m d s) = map_option snd (parse_value m d s)"
  "map_option snd (first_members m d acc s) = map_option snd (parse_members m d acc' s)"
  "map_option snd (first_elements m d vs s) = map_option snd (parse_elements m d vs' s)"
proof (induction m arbitrary: d s acc acc' vs vs')
  case (Suc m)
  have none: "first_value m d x = None \<longleftrightarrow> parse_value m d x = None" for d x
    using Suc.IH(1) [of d x] by (metis option.map_disc_iff)
  have some: "\<exists>a'. parse_value m d x = Some (a', b)" if "first_value m d x = Some (a, b)" for d x a b
    using Suc.IH(1) [of d x] that by (cases "parse_value m d x") auto
  {
    case 1
    show ?case
      using Suc.IH(2) Suc.IH(3)
      by (cases "skip_ws s") (auto simp: parse_value.simps)
  next
    case 2
    show ?case
    proof (cases "\<exists>k r1 v r2. parse_str (tl (skip_ws s)) = Some (k, r1) \<and> first_value m d (tl (skip_ws r1)) = Some (v, r2)")
      case True
      then obtain k r1 v r2 v' where "parse_str (tl (skip_ws s)) = Some (k, r1)"
          "first_value m d (tl (skip_ws r1)) = Some (v, r2)" "parse_value m d (tl (skip_ws r1)) = Some (v', r2)"
        using some by metis
      then show ?thesis
        using Suc.IH(2) [of d "put_new k v acc" "tl (skip_ws r2)" "put k v' acc'"]
        by (simp add: parse_members.simps)
    next
      case False
      then show ?thesis by (auto simp: parse_members.simps none split: option.splits)
    qed
  next
    case 3
    show ?case
    proof (cases "first_value m d s")
      case (Some p)
      then obtain v r2 v' where "first_value m d s = Some (v, r2)" "parse_value m d s = Some (v', r2)"
        using some by (cases p) fastforce
      then show ?thesis
        using Suc.IH(3) [of d "v # vs" "tl (skip_ws r2)" "v' # vs'"] by (simp add: parse_elements.simps)
    qed (use none [of d s] in \<open>simp add: parse_elements.simps\<close>)
  }
qed (simp_all add: parse_value.simps parse_members.simps parse_elements.simps)

theorem unique_keys_decode: "ensureNoDuplicateKeys body = None \<Longrightarrow> first_decode body = json_decode body"
proof -
  assume "ensureNoDuplicateKeys body = None"
  then obtain r' where w: "walk_value (Suc (3 * length body)) body = Inr r'"
    by (auto simp: ensureNoDuplicateKeys_def no_trailing_def transport_walkJSON_def walkJSON_def split: sum.splits)
  show ?thesis
  proof (cases "parse_value (Suc (length body)) maxNestingDepth body")
    case None
    then have "first_value (Suc (length body)) maxNestingDepth body = None"
      using first_shape(1) [of "Suc (length body)" maxNestingDepth body] by (metis option.map_disc_iff)
    with None show ?thesis by (simp add: first_decode_def json_decode_def del: first_value.simps)
  next
    case (Some p)
    then show ?thesis using walk_first(1) [of "Suc (length body)" maxNestingDepth body "fst p" "snd p", OF _ w]
      by (simp add: first_decode_def json_decode_def del: first_value.simps)
  qed
qed

end
