(* ===== verification/Requests.thy ===== *)
theory Requests
  imports Domain JsonText JsonKeys
begin

text \<open>
  Requests of the HTTP interface: \<^verbatim>\<open>internal/transport/http/routing.go\<close> (paths, methods, request
  and idempotency ids, media types) and \<^verbatim>\<open>json.go\<close> (the body of a command). A request is a record
  of what the handlers read of \<^verbatim>\<open>http.Request\<close>; its body is the bytes that arrive and the error,
  if any, that ends them. \<^verbatim>\<open>mime.ParseMediaType\<close> and the order in which \<^verbatim>\<open>range\<close> visits the keys
  of a map are parameters. Texts of errors from inside \<^verbatim>\<open>encoding/json\<close> are abbreviated.
\<close>

record weblib =
  ParseMediaType :: "string \<Rightarrow> string option"
  range_keys :: "string list \<Rightarrow> string list"

record http_request =
  rq_Method :: string
  rq_Path :: string
  rq_RawQuery :: string
  rq_ForceQuery :: bool
  rq_Header :: "string \<Rightarrow> string"
  rq_Body :: "(string \<times> goerr option) option"

section \<open>Routing\<close>

definition SchedulesPathPrefix :: string where
  "SchedulesPathPrefix = ''/internal/scheduler/v1/schedules/''"

definition parseSchedulePath :: "string \<Rightarrow> (string \<times> string) option" where
  "parseSchedulePath path =
     (if \<not> HasPrefix path SchedulesPathPrefix then None
      else case Split (TrimPrefix path SchedulesPathPrefix) (CHR ''/'') of
        [name] \<Rightarrow> if IsValidScheduleName name then Some (name, []) else None
      | [name, action] \<Rightarrow>
          if IsValidScheduleName name \<and> (action = ''pause'' \<or> action = ''resume'')
          then Some (name, action) else None
      | _ \<Rightarrow> None)"

definition supportedMethod :: "string \<Rightarrow> string \<Rightarrow> bool" where
  "supportedMethod meth action =
     (if action \<noteq> [] then meth = ''POST''
      else meth = ''GET'' \<or> meth = ''POST'' \<or> meth = ''PUT'' \<or> meth = ''DELETE'')"

definition allowedMethods :: "string \<Rightarrow> string" where
  "allowedMethods action = (if action \<noteq> [] then ''POST'' else ''GET, POST, PUT, DELETE'')"

definition controlCharacter :: "char \<Rightarrow> bool" where
  "controlCharacter character \<longleftrightarrow> byte character < 0x20 \<or> byte character = 0x7f"

definition validateRequestID :: "string \<Rightarrow> goerr option" where
  "validateRequestID requestID =
     (if requestID = [] then Some (Err ''X-Request-Id is required'' [])
      else if length requestID > 128 \<or> list_ex controlCharacter requestID
      then Some (Err ''X-Request-Id is invalid'' [])
      else None)"

definition validateIdempotencyKey :: "string \<Rightarrow> goerr option" where
  "validateIdempotencyKey key =
     (if key = [] then Some (Err ''Idempotency-Key is required'' [])
      else if length key > 256 \<or> list_ex controlCharacter key
      then Some (Err ''Idempotency-Key is invalid'' [])
      else None)"

definition isJSONContentType :: "weblib \<Rightarrow> string \<Rightarrow> bool" where
  "isJSONContentType w v \<longleftrightarrow>
     (case ParseMediaType w v of None \<Rightarrow> False | Some mediaType \<Rightarrow> EqualFold mediaType ''application/json'')"

section \<open>Structs from JSON\<close>

text \<open>
  A member of an object goes to the field with its name, or to one whose name differs only in
  case; a name without a field, and a value of the wrong type, is an error, and the first error
  of a value is the one reported. A \<^verbatim>\<open>null\<close> leaves the field as it is.
\<close>

definition field_of :: "string list \<Rightarrow> string \<Rightarrow> string option" where
  "field_of names key = (if key \<in> set names then Some key else find (EqualFold key) names)"

fun json_kind :: "json \<Rightarrow> string" where
  "json_kind JNull = ''null''"
| "json_kind (JBool _) = ''bool''"
| "json_kind (JNum _) = ''number''"
| "json_kind (JStr _) = ''string''"
| "json_kind (JArr _) = ''array''"
| "json_kind (JObj _) = ''object''"

definition type_error :: "string \<Rightarrow> string \<Rightarrow> string \<Rightarrow> goerr" where
  "type_error kind field typ =
     Err ''json: cannot unmarshal %s into Go struct field %s of type %s'' [kind, field, typ]"

definition to_string :: "string \<Rightarrow> json \<Rightarrow> string \<Rightarrow> string \<times> goerr option" where
  "to_string field v old =
     (case v of JStr s \<Rightarrow> (s, None) | JNull \<Rightarrow> (old, None)
      | _ \<Rightarrow> (old, Some (type_error (json_kind v) field ''string'')))"

definition to_bool :: "string \<Rightarrow> json \<Rightarrow> bool \<Rightarrow> bool \<times> goerr option" where
  "to_bool field v old =
     (case v of JBool b \<Rightarrow> (b, None) | JNull \<Rightarrow> (old, None)
      | _ \<Rightarrow> (old, Some (type_error (json_kind v) field ''bool'')))"

definition to_int :: "string \<Rightarrow> json \<Rightarrow> int \<Rightarrow> int \<times> goerr option" where
  "to_int field v old =
     (case v of
        JNum t \<Rightarrow> (case Atoi t of Some n \<Rightarrow> (n, None)
                   | None \<Rightarrow> (old, Some (type_error (''number '' @ t) field ''int'')))
      | JNull \<Rightarrow> (old, None)
      | _ \<Rightarrow> (old, Some (type_error (json_kind v) field ''int'')))"

text \<open>A pointer field is nil after \<^verbatim>\<open>null\<close>, and points to a new value otherwise.\<close>

definition to_int_pointer :: "string \<Rightarrow> json \<Rightarrow> int option \<Rightarrow> int option \<times> goerr option" where
  "to_int_pointer field v old =
     (if v = JNull then (None, None)
      else apfst Some (to_int field v (case old of Some n \<Rightarrow> n | None \<Rightarrow> 0)))"

fun decode_members ::
  "(member \<Rightarrow> 'r \<Rightarrow> 'r \<times> goerr option) \<Rightarrow> member list \<Rightarrow> 'r \<Rightarrow> 'r \<times> goerr option" where
  "decode_members f [] r = (r, None)"
| "decode_members f (m # ms) r =
     (case f m r of
        (r', e) \<Rightarrow>
          (case decode_members f ms r' of
             (r'', e') \<Rightarrow> (r'', case e of Some err \<Rightarrow> Some err | None \<Rightarrow> e')))"

definition unknown_field :: "string \<Rightarrow> goerr" where
  "unknown_field key = Err ''json: unknown field %q'' [key]"

record retryRequest =
  rr_MaxAttempts :: "int option"
  rr_BackoffSeconds :: "int option"
  rr_MaxBackoffSeconds :: "int option"
  rr_MaxRetryWindowSeconds :: "int option"

definition retry_fields :: "string list" where
  "retry_fields = [''max_attempts'', ''backoff_seconds'', ''max_backoff_seconds'', ''max_retry_window_seconds'']"

definition store_retry :: "member \<Rightarrow> retryRequest \<Rightarrow> retryRequest \<times> goerr option" where
  "store_retry m r =
     (case m of (key, v, raw) \<Rightarrow>
        case field_of retry_fields key of
          None \<Rightarrow> (r, Some (unknown_field key))
        | Some field \<Rightarrow>
            if field = ''max_attempts'' then
              map_prod (\<lambda>x. r\<lparr>rr_MaxAttempts := x\<rparr>) id (to_int_pointer field v (rr_MaxAttempts r))
            else if field = ''backoff_seconds'' then
              map_prod (\<lambda>x. r\<lparr>rr_BackoffSeconds := x\<rparr>) id (to_int_pointer field v (rr_BackoffSeconds r))
            else if field = ''max_backoff_seconds'' then
              map_prod (\<lambda>x. r\<lparr>rr_MaxBackoffSeconds := x\<rparr>) id (to_int_pointer field v (rr_MaxBackoffSeconds r))
            else
              map_prod (\<lambda>x. r\<lparr>rr_MaxRetryWindowSeconds := x\<rparr>) id
                (to_int_pointer field v (rr_MaxRetryWindowSeconds r)))"

definition emptyRetryRequest :: retryRequest where
  "emptyRetryRequest =
     \<lparr>rr_MaxAttempts = None, rr_BackoffSeconds = None, rr_MaxBackoffSeconds = None,
      rr_MaxRetryWindowSeconds = None\<rparr>"

definition to_retry :: "json \<Rightarrow> string \<Rightarrow> retryRequest option \<Rightarrow> retryRequest option \<times> goerr option" where
  "to_retry v raw old =
     (let r = (case old of Some r \<Rightarrow> r | None \<Rightarrow> emptyRetryRequest)
      in if v = JNull then (None, None)
         else case decodeObject raw of
           Some ms \<Rightarrow> apfst Some (decode_members store_retry ms r)
         | None \<Rightarrow> (Some r, Some (type_error (json_kind v) ''retry'' ''transporthttp.retryRequest'')))"

record scheduleRequest =
  q_Name :: string
  q_Schedule :: string
  q_RunAt :: string
  q_Timezone :: string
  q_URL :: string
  q_Method :: string
  q_Body :: string
  q_Retry :: "retryRequest option"
  q_MisfirePolicy :: string
  q_CatchUpLimit :: int
  q_OverlapPolicy :: string
  q_Paused :: bool

definition emptyRequest :: scheduleRequest where
  "emptyRequest =
     \<lparr>q_Name = [], q_Schedule = [], q_RunAt = [], q_Timezone = [], q_URL = [], q_Method = [], q_Body = [],
      q_Retry = None, q_MisfirePolicy = [], q_CatchUpLimit = 0, q_OverlapPolicy = [], q_Paused = False\<rparr>"

definition schedule_fields :: "string list" where
  "schedule_fields =
     [''name'', ''schedule'', ''run_at'', ''timezone'', ''url'', ''method'', ''body'', ''retry'',
      ''misfire_policy'', ''catch_up_limit'', ''overlap_policy'', ''paused'']"

definition store_field :: "string \<Rightarrow> json \<Rightarrow> string \<Rightarrow> scheduleRequest \<Rightarrow> scheduleRequest \<times> goerr option" where
  "store_field field v raw q =
     (if field = ''name'' then map_prod (\<lambda>x. q\<lparr>q_Name := x\<rparr>) id (to_string field v (q_Name q))
      else if field = ''schedule'' then map_prod (\<lambda>x. q\<lparr>q_Schedule := x\<rparr>) id (to_string field v (q_Schedule q))
      else if field = ''run_at'' then map_prod (\<lambda>x. q\<lparr>q_RunAt := x\<rparr>) id (to_string field v (q_RunAt q))
      else if field = ''timezone'' then map_prod (\<lambda>x. q\<lparr>q_Timezone := x\<rparr>) id (to_string field v (q_Timezone q))
      else if field = ''url'' then map_prod (\<lambda>x. q\<lparr>q_URL := x\<rparr>) id (to_string field v (q_URL q))
      else if field = ''method'' then map_prod (\<lambda>x. q\<lparr>q_Method := x\<rparr>) id (to_string field v (q_Method q))
      else if field = ''body'' then (q\<lparr>q_Body := raw\<rparr>, None)
      else if field = ''retry'' then map_prod (\<lambda>x. q\<lparr>q_Retry := x\<rparr>) id (to_retry v raw (q_Retry q))
      else if field = ''misfire_policy'' then
        map_prod (\<lambda>x. q\<lparr>q_MisfirePolicy := x\<rparr>) id (to_string field v (q_MisfirePolicy q))
      else if field = ''catch_up_limit'' then
        map_prod (\<lambda>x. q\<lparr>q_CatchUpLimit := x\<rparr>) id (to_int field v (q_CatchUpLimit q))
      else if field = ''overlap_policy'' then
        map_prod (\<lambda>x. q\<lparr>q_OverlapPolicy := x\<rparr>) id (to_string field v (q_OverlapPolicy q))
      else map_prod (\<lambda>x. q\<lparr>q_Paused := x\<rparr>) id (to_bool field v (q_Paused q)))"

definition store_member :: "member \<Rightarrow> scheduleRequest \<Rightarrow> scheduleRequest \<times> goerr option" where
  "store_member m q =
     (case m of (key, v, raw) \<Rightarrow>
        case field_of schedule_fields key of
          None \<Rightarrow> (q, Some (unknown_field key))
        | Some field \<Rightarrow> store_field field v raw q)"

section \<open>Conversion to the domain\<close>

definition retry_toDomain :: "retryRequest option \<Rightarrow> RetryPolicy res" where
  "retry_toDomain r =
     (case r of
        None \<Rightarrow> Inr DefaultRetryPolicy
      | Some q \<Rightarrow>
          let d = DefaultRetryPolicy;
              policy =
                \<lparr>MaxAttempts = (case rr_MaxAttempts q of Some n \<Rightarrow> n | None \<Rightarrow> MaxAttempts d),
                 BackoffSeconds = (case rr_BackoffSeconds q of Some n \<Rightarrow> n | None \<Rightarrow> BackoffSeconds d),
                 MaxBackoffSeconds = (case rr_MaxBackoffSeconds q of Some n \<Rightarrow> n | None \<Rightarrow> MaxBackoffSeconds d),
                 MaxRetryWindowSeconds =
                   (case rr_MaxRetryWindowSeconds q of Some n \<Rightarrow> n | None \<Rightarrow> MaxRetryWindowSeconds d)\<rparr>
          in case RetryPolicy_Validate policy of Some err \<Rightarrow> Inl err | None \<Rightarrow> Inr policy)"

definition errRunAt :: goerr where
  "errRunAt = Err ''run_at must be a UTC RFC3339 instant at millisecond precision'' []"

definition requestedSchedule :: "scheduleRequest \<Rightarrow> string \<Rightarrow> string \<Rightarrow> RetryPolicy \<Rightarrow> instant \<Rightarrow> Schedule" where
  "requestedSchedule r tenantID name retry runAt =
     zeroSchedule\<lparr>s_TenantID := tenantID, s_Name := name, s_Rule := q_Schedule r, s_RunAt := runAt,
       s_Timezone := q_Timezone r, s_TargetURL := q_URL r, s_Method := q_Method r, s_Payload := q_Body r,
       s_Retry := retry, s_MisfirePolicy := q_MisfirePolicy r, s_CatchUpLimit := q_CatchUpLimit r,
       s_OverlapPolicy := q_OverlapPolicy r,
       s_Status := (if q_Paused r then SchedulePaused else ScheduleActive)\<rparr>"

definition toDomain :: "golib \<Rightarrow> scheduleRequest \<Rightarrow> string \<Rightarrow> string \<Rightarrow> Schedule res" where
  "toDomain g r tenantID pathName =
     (if q_Name r \<noteq> [] \<and> q_Name r \<noteq> pathName then Inl (Err ''schedule name must match the path'' [])
      else case retry_toDomain (q_Retry r) of
        Inl err \<Rightarrow> Inl err
      | Inr retry \<Rightarrow>
          (case (if q_RunAt r \<noteq> [] then parseRunAt (q_RunAt r) else Some 0) of
             None \<Rightarrow> Inl errRunAt
           | Some runAt \<Rightarrow> Normalized g (requestedSchedule r tenantID pathName retry runAt)))"

section \<open>Values to JSON\<close>

text \<open>
  What \<^verbatim>\<open>json.Marshal\<close> is given: structs and maps are objects with their members in the order
  they are written, \<open>VRaw\<close> is a \<^verbatim>\<open>json.RawMessage\<close>, which is compacted and must be valid.
\<close>

datatype jsonval =
    VNull
  | VBool bool
  | VInt int
  | VStr string
  | VRaw string
  | VObj "(string \<times> jsonval) list"

fun compact_body :: "bool \<Rightarrow> string \<Rightarrow> string" where
  "compact_body instr [] = []"
| "compact_body instr (c # s) =
     (if c = CHR ''<'' \<or> c = CHR ''>'' \<or> c = CHR ''&'' then quote_byte c @ compact_body instr s
      else if c = CHR 0xE2 \<and> (HasPrefix s [CHR 0x80, CHR 0xA8] \<or> HasPrefix s [CHR 0x80, CHR 0xA9]) then
        [CHR 0x5C, CHR ''u'', CHR ''2'', CHR ''0'', CHR ''2'', if s ! 1 = CHR 0xA8 then CHR ''8'' else CHR ''9'']
          @ compact_body instr (drop 2 s)
      else if \<not> instr then
        (if is_ws c then compact_body False s else c # compact_body (c = CHR 0x22) s)
      else if c = CHR 0x5C then (case s of [] \<Rightarrow> [c] | e # s' \<Rightarrow> c # e # compact_body True s')
      else c # compact_body (c \<noteq> CHR 0x22) s)"

definition compact :: "string \<Rightarrow> string option" where
  "compact raw =
     (if raw = [] then Some ''null''
      else if json_decode raw = None then None
      else Some (compact_body False raw))"

fun Marshal :: "jsonval \<Rightarrow> string option"
  and Marshal_members :: "(string \<times> jsonval) list \<Rightarrow> string option" where
  "Marshal VNull = Some ''null''"
| "Marshal (VBool b) = Some (if b then ''true'' else ''false'')"
| "Marshal (VInt n) = Some (Itoa n)"
| "Marshal (VStr s) = Some (quote_str s)"
| "Marshal (VRaw raw) = compact raw"
| "Marshal (VObj kvs) = map_option (\<lambda>t. ''{'' @ t @ ''}'') (Marshal_members kvs)"
| "Marshal_members [] = Some []"
| "Marshal_members [(k, v)] = map_option (\<lambda>t. quote_str k @ CHR '':'' # t) (Marshal v)"
| "Marshal_members ((k, v) # kv # kvs) =
     (case Marshal v of
        None \<Rightarrow> None
      | Some t \<Rightarrow> map_option (\<lambda>u. quote_str k @ CHR '':'' # t @ CHR '','' # u) (Marshal_members (kv # kvs)))"

definition retryValue :: "RetryPolicy \<Rightarrow> jsonval" where
  "retryValue p =
     VObj [(''max_attempts'', VInt (MaxAttempts p)), (''backoff_seconds'', VInt (BackoffSeconds p)),
       (''max_backoff_seconds'', VInt (MaxBackoffSeconds p)),
       (''max_retry_window_seconds'', VInt (MaxRetryWindowSeconds p))]"

definition errMarshal :: goerr where
  "errMarshal = Err ''json: error calling MarshalJSON'' []"

text \<open>An instant is written only when it is not zero; its year must have four digits.\<close>

definition canonicalCommandPayload :: "Schedule \<Rightarrow> string res" where
  "canonicalCommandPayload s =
     (if \<not> IsZero (s_RunAt s) \<and> \<not> four_digit_year (s_RunAt s) then Inl errMarshal
      else case Marshal (VObj
        ([(''tenant_id'', VStr (s_TenantID s)), (''name'', VStr (s_Name s)), (''schedule'', VStr (s_Rule s))]
         @ (if IsZero (s_RunAt s) then [] else [(''run_at'', VStr (formatRFC3339 (s_RunAt s)))])
         @ [(''timezone'', VStr (s_Timezone s)), (''url'', VStr (s_TargetURL s)), (''method'', VStr (s_Method s)),
            (''body'', VRaw (s_Payload s)), (''retry'', retryValue (s_Retry s)),
            (''misfire_policy'', VStr (s_MisfirePolicy s)), (''catch_up_limit'', VInt (s_CatchUpLimit s)),
            (''overlap_policy'', VStr (s_OverlapPolicy s)), (''status'', VStr (s_Status s))])) of
        None \<Rightarrow> Inl errMarshal
      | Some t \<Rightarrow> Inr t)"

section \<open>The body of a command\<close>

definition maxRequestBodyBytes :: int where "maxRequestBodyBytes = 1048576"

definition errUnsupportedMediaType :: goerr where
  "errUnsupportedMediaType = Err ''Content-Type must be application/json'' []"
definition errInvalidAction :: goerr where
  "errInvalidAction = Err ''action body must be an empty JSON object'' []"
definition errInvalidDelete :: goerr where
  "errInvalidDelete = Err ''delete body must be an empty JSON object'' []"
definition errInvalidSchedule :: goerr where
  "errInvalidSchedule = Err ''invalid scheduler schedule'' []"

text \<open>At most one byte more than the limit is read; an error after those is not seen.\<close>

definition readBody :: "http_request \<Rightarrow> string res" where
  "readBody r =
     (case rq_Body r of
        None \<Rightarrow> Inr []
      | Some (bytes, err) \<Rightarrow>
          if int (length bytes) > maxRequestBodyBytes then Inl (Err ''request body too large'' [])
          else (case err of Some e \<Rightarrow> Inl e | None \<Rightarrow> Inr bytes))"

definition emptyObjectPayload :: "weblib \<Rightarrow> string \<Rightarrow> goerr \<Rightarrow> string \<Rightarrow> (Schedule \<times> string) res" where
  "emptyObjectPayload w body invalid contentType =
     (if body = [] then Inr (zeroSchedule, ''{}'')
      else if \<not> isJSONContentType w contentType then Inl errUnsupportedMediaType
      else case ensureNoDuplicateKeys body of
        Some err \<Rightarrow> Inl err
      | None \<Rightarrow> if decodeObject body = Some [] then Inr (zeroSchedule, ''{}'') else Inl invalid)"

text \<open>The first key, in the order of the iteration, whose value is the text \<^verbatim>\<open>null\<close>.\<close>

definition null_key :: "weblib \<Rightarrow> member list \<Rightarrow> string option" where
  "null_key w ms =
     find (\<lambda>k. case raw_field k ms of Some raw \<Rightarrow> TrimSpace raw = ''null'' | None \<Rightarrow> False)
       (range_keys w (map fst ms))"

definition retry_null :: "weblib \<Rightarrow> member list \<Rightarrow> goerr option" where
  "retry_null w ms =
     (case raw_field ''retry'' ms of
        None \<Rightarrow> None
      | Some retryBody \<Rightarrow>
          (case decodeObject retryBody of
             None \<Rightarrow> Some (Err ''schedule field %q must be a JSON object'' [''retry''])
           | Some retryFields \<Rightarrow>
               map_option (\<lambda>key. Err ''retry field %q must not be null'' [key]) (null_key w retryFields)))"

definition text_fields :: "scheduleRequest \<Rightarrow> (string \<times> string) list" where
  "text_fields q =
     [(''name'', q_Name q), (''timezone'', q_Timezone q), (''method'', q_Method q), (''run_at'', q_RunAt q),
      (''schedule'', q_Schedule q), (''misfire_policy'', q_MisfirePolicy q), (''overlap_policy'', q_OverlapPolicy q)]"

definition empty_field :: "weblib \<Rightarrow> member list \<Rightarrow> scheduleRequest \<Rightarrow> string option" where
  "empty_field w ms q =
     find (\<lambda>field. raw_field field ms \<noteq> None \<and> map_option TrimSpace (map_of (text_fields q) field) = Some [])
       (range_keys w (map fst (text_fields q)))"

definition decodeSchedule :: "golib \<Rightarrow> weblib \<Rightarrow> string \<Rightarrow> string \<Rightarrow> string \<Rightarrow> (Schedule \<times> string) res" where
  "decodeSchedule g w body tenantID pathName =
     (case ensureNoDuplicateKeys body of
        Some err \<Rightarrow> Inl err
      | None \<Rightarrow>
      case decodeObject body of
        None \<Rightarrow> Inl errInvalidSchedule
      | Some ms \<Rightarrow>
      case null_key w ms of
        Some key \<Rightarrow> Inl (Err ''schedule field %q must not be null'' [key])
      | None \<Rightarrow>
      case retry_null w ms of
        Some err \<Rightarrow> Inl err
      | None \<Rightarrow>
      if (raw_field ''schedule'' ms \<noteq> None) = (raw_field ''run_at'' ms \<noteq> None)
      then Inl (Err ''exactly one of schedule or run_at is required'' [])
      else case decode_members store_member ms emptyRequest of
        (request, Some err) \<Rightarrow> Inl (ErrWrap ''decode schedule: %w'' [] err)
      | (request, None) \<Rightarrow>
      case empty_field w ms request of
        Some field \<Rightarrow> Inl (Err ''schedule field %q must not be empty'' [field])
      | None \<Rightarrow>
      if raw_field ''catch_up_limit'' ms \<noteq> None \<and> q_CatchUpLimit request = 0
      then Inl (Err ''schedule field %q must be at least 1'' [''catch_up_limit''])
      else case toDomain g request tenantID pathName of
        Inl err \<Rightarrow> Inl err
      | Inr normalized \<Rightarrow>
      case canonicalCommandPayload normalized of
        Inl err \<Rightarrow> Inl err
      | Inr canonical \<Rightarrow> Inr (normalized, canonical))"

definition decodePayload ::
  "golib \<Rightarrow> weblib \<Rightarrow> http_request \<Rightarrow> string \<Rightarrow> string \<Rightarrow> string \<Rightarrow> (Schedule \<times> string) res" where
  "decodePayload g w r tenantID pathName action =
     (case readBody r of
        Inl err \<Rightarrow> Inl err
      | Inr body \<Rightarrow>
          let contentType = rq_Header r ''Content-Type''
          in if action \<noteq> [] then emptyObjectPayload w body errInvalidAction contentType
             else if rq_Method r = ''DELETE'' then emptyObjectPayload w body errInvalidDelete contentType
             else if \<not> isJSONContentType w contentType then Inl errUnsupportedMediaType
             else if body = [] then Inl errInvalidSchedule
             else decodeSchedule g w body tenantID pathName)"

fun ContainsText :: "string \<Rightarrow> string \<Rightarrow> bool" where
  "ContainsText [] p = (p = [])"
| "ContainsText (c # s) p = (HasPrefix (c # s) p \<or> ContainsText s p)"

definition decodeError :: "goerr \<Rightarrow> int \<times> string \<times> string" where
  "decodeError err =
     (if errors_Is err errUnsupportedMediaType then (415, ''unsupported_media_type'', Error err)
      else if errors_Is err errInvalidAction \<or> errors_Is err errInvalidDelete \<or> errors_Is err errInvalidSchedule
      then (400, ''invalid_schedule'', Error err)
      else if ContainsText (Error err) ''request body too large''
      then (413, ''request_body_too_large'', ''request body is too large'')
      else (400, ''invalid_schedule'', Error err))"

end
