(* ===== verification/Handler.thy ===== *)
theory Handler
  imports Requests Commands
begin

text \<open>
  Responses and handlers: \<^verbatim>\<open>internal/transport/http/responses.go\<close> and \<^verbatim>\<open>handler.go\<close>. The service a
  handler calls is a record of its two functions over a state, nil when it is missing; headers
  are a map, a response is what \<^verbatim>\<open>http.ResponseWriter\<close> has been given at the end.
\<close>

section \<open>Responses\<close>

definition instantValue :: "instant \<Rightarrow> jsonval option" where
  "instantValue t = (if IsZero t then None else Some (VStr (formatRFC3339 (NormalizeInstant t))))"

text \<open>The members of \<^verbatim>\<open>scheduleResponse\<close> in the order of the struct; empty optional ones are left out.\<close>

definition toScheduleResponse :: "Schedule \<Rightarrow> (string \<times> jsonval) list" where
  "toScheduleResponse s =
     [(''id'', VStr (s_ID s)), (''name'', VStr (s_Name s))]
     @ (if s_Rule s = [] then [] else [(''schedule'', VStr (s_Rule s))])
     @ (case instantValue (s_RunAt s) of None \<Rightarrow> [] | Some v \<Rightarrow> [(''run_at'', v)])
     @ [(''timezone'', VStr (s_Timezone s)), (''url'', VStr (s_TargetURL s)), (''method'', VStr (s_Method s)),
        (''body'', VRaw (s_Payload s)), (''retry'', retryValue (s_Retry s)),
        (''misfire_policy'', VStr (s_MisfirePolicy s)), (''catch_up_limit'', VInt (s_CatchUpLimit s)),
        (''overlap_policy'', VStr (s_OverlapPolicy s)), (''paused'', VBool (s_Status s = SchedulePaused)),
        (''next_due_at'', case instantValue (s_NextDueAt s) of None \<Rightarrow> VNull | Some v \<Rightarrow> v),
        (''version'', VInt (s_Version s))]"

definition currentScheduleResponse :: "Schedule \<Rightarrow> jsonval" where
  "currentScheduleResponse s = VObj (toScheduleResponse s @ [(''status'', VStr (s_Status s))])"

definition fingerprint :: "string \<Rightarrow> string \<Rightarrow> string" where
  "fingerprint scope payload = ''sha256:'' @ hexSha256 (scope @ CHR 0x0A # payload)"

definition metaValue :: "string \<Rightarrow> string \<times> jsonval" where
  "metaValue requestID = (''meta'', VObj [(''request_id'', VStr requestID)])"

definition errorResponse :: "string \<Rightarrow> string \<Rightarrow> string \<Rightarrow> jsonval" where
  "errorResponse code message requestID =
     VObj [(''error'', VObj [(''code'', VStr code), (''message'', VStr message)]), metaValue requestID]"

definition receiptResponse :: "CommandReceipt \<Rightarrow> int \<times> jsonval" where
  "receiptResponse receipt =
     (let result = rc_Result receipt; code = c_Code result; requestID = rc_RequestID receipt
      in if code = ResultExhausted then
           (409, errorResponse ''schedule_exhausted''
              ''scheduler schedule has no further triggers; replace it explicitly to schedule again'' requestID)
         else if code = ResultChanged then
           (409, errorResponse ''schedule_changed'' ''scheduler schedule changed during the command'' requestID)
         else if code = ResultAlreadyExists then
           (409, errorResponse ''schedule_already_exists'' ''scheduler schedule already exists'' requestID)
         else if code = ResultNotFound then
           (404, errorResponse ''schedule_not_found'' ''scheduler schedule was not found'' requestID)
         else if code = ResultRegistered \<or> code = ResultUpdated \<or> code = ResultPaused
                 \<or> code = ResultResumed \<or> code = ResultDeleted then
           (200, VObj
             [(''data'', VObj
                ((''name'', VStr (c_Name result))
                 # (case c_Schedule result of None \<Rightarrow> [] | Some s \<Rightarrow> [(''schedule'', VObj (toScheduleResponse s))])
                 @ [(''status'', VStr code)])),
              metaValue requestID])
         else (500, errorResponse ''scheduler_response_invalid'' ''scheduler command result is invalid'' requestID))"

type_synonym headers = "string \<rightharpoonup> string"

record http_response =
  rs_Status :: int
  rs_Header :: headers
  rs_Body :: string

definition writeRawJSON :: "headers \<Rightarrow> int \<Rightarrow> string \<Rightarrow> http_response" where
  "writeRawJSON h status body =
     \<lparr>rs_Status = status, rs_Header = h(''Content-Type'' \<mapsto> ''application/json''), rs_Body = body\<rparr>"

definition encodingFailed :: string where
  "encodingFailed =
     (let q = [CHR 0x22] in
      ''{'' @ q @ ''error'' @ q @ '':{'' @ q @ ''code'' @ q @ '':'' @ q @ ''scheduler_response_invalid'' @ q @ '',''
       @ q @ ''message'' @ q @ '':'' @ q @ ''scheduler response could not be encoded'' @ q @ ''}}'')"

definition writeJSON :: "headers \<Rightarrow> int \<Rightarrow> jsonval \<Rightarrow> http_response" where
  "writeJSON h status payload =
     (case Marshal payload of
        Some body \<Rightarrow> writeRawJSON h status body
      | None \<Rightarrow> writeRawJSON h 500 encodingFailed)"

section \<open>The handler\<close>

record 'd CommandService =
  svc_Execute :: "Command \<Rightarrow> 'd \<Rightarrow> CommandReceipt res \<times> 'd"
  svc_Get :: "string \<Rightarrow> string \<Rightarrow> 'd \<Rightarrow> Schedule res \<times> 'd"

record 'd Handler =
  h_service :: "'d CommandService option"
  h_serviceToken :: string

definition NewHandler :: "'d CommandService option \<Rightarrow> string \<Rightarrow> 'd Handler" where
  "NewHandler service serviceToken = \<lparr>h_service = service, h_serviceToken = TrimSpace serviceToken\<rparr>"

text \<open>\<^verbatim>\<open>strings.Cut\<close> at the first occurrence of a byte; \<^verbatim>\<open>None\<close> when there is none.\<close>

fun Cut :: "string \<Rightarrow> char \<Rightarrow> (string \<times> string) option" where
  "Cut [] sep = None"
| "Cut (c # s) sep = (if c = sep then Some ([], s) else map_option (apfst ((#) c)) (Cut s sep))"

definition authorized :: "'d Handler \<Rightarrow> http_request \<Rightarrow> bool" where
  "authorized h r \<longleftrightarrow>
     (if h_serviceToken h = [] then False
      else case Cut (TrimSpace (rq_Header r ''Authorization'')) (CHR '' '') of
        None \<Rightarrow> False
      | Some (scheme, token) \<Rightarrow>
          if \<not> EqualFold scheme ''Bearer'' \<or> TrimSpace token = [] then False
          else TrimSpace token = h_serviceToken h)"

definition operationFor :: "string \<Rightarrow> string \<Rightarrow> CommandOperation" where
  "operationFor meth action =
     (if action = ''pause'' then CommandPause
      else if action = ''resume'' then CommandResume
      else if meth = ''POST'' then CommandCreate
      else if meth = ''PUT'' then CommandUpdate
      else if meth = ''DELETE'' then CommandDelete
      else [])"

definition applicationError :: "goerr \<Rightarrow> string \<Rightarrow> int \<times> jsonval" where
  "applicationError err requestID =
     (if errors_Is err ErrIdempotencyConflict then
        (409, errorResponse ''idempotency_conflict''
           ''Idempotency key already used with a different request payload'' requestID)
      else if errors_Is err ErrInvalidCommand then
        (400, errorResponse ''invalid_schedule'' ''scheduler schedule or recurrence rule is invalid'' requestID)
      else (500, errorResponse ''scheduler_command_failed'' ''scheduler command failed'' requestID))"

definition writeApplicationError :: "headers \<Rightarrow> goerr \<Rightarrow> string \<Rightarrow> http_response" where
  "writeApplicationError hs err requestID =
     (case applicationError err requestID of (status, payload) \<Rightarrow> writeJSON hs status payload)"

definition readSchedule ::
  "'d Handler \<Rightarrow> headers \<Rightarrow> http_request \<Rightarrow> string \<Rightarrow> string \<Rightarrow> string \<Rightarrow> 'd \<Rightarrow> http_response \<times> 'd" where
  "readSchedule h hs r tenantID name requestID d =
     (if readBody r \<noteq> Inr [] \<or> rq_RawQuery r \<noteq> [] \<or> rq_ForceQuery r then
        (writeJSON hs 400 (errorResponse ''invalid_schedule_read'' ''schedule reads accept no query or body'' requestID), d)
      else case h_service h of
        None \<Rightarrow>
          (writeJSON hs 500 (errorResponse ''scheduler_read_failed'' ''scheduler schedule could not be read'' requestID), d)
      | Some svc \<Rightarrow>
          (case svc_Get svc tenantID name d of
             (Inl err, d') \<Rightarrow>
               if errors_Is err ErrScheduleNotFound then
                 (writeJSON hs 404 (errorResponse ''schedule_not_found'' ''scheduler schedule was not found'' requestID), d')
               else
                 (writeJSON hs 500
                    (errorResponse ''scheduler_read_failed'' ''scheduler schedule could not be read'' requestID), d')
           | (Inr schedule, d') \<Rightarrow>
               (writeJSON hs 200 (VObj [(''data'', VObj [(''schedule'', currentScheduleResponse schedule)])]), d')))"

definition commandFor ::
  "http_request \<Rightarrow> string \<Rightarrow> string \<Rightarrow> string \<Rightarrow> string \<Rightarrow> Schedule \<Rightarrow> string \<Rightarrow> Command" where
  "commandFor r requestID tenantID name action schedule payload =
     (let scope = rq_Method r @ CHR '':'' # rq_Path r
      in \<lparr>cmd_Operation = operationFor (rq_Method r) action, cmd_TenantID = tenantID, cmd_Name = name,
          cmd_CommandScope = scope, cmd_IdempotencyKey = rq_Header r ''Idempotency-Key'',
          cmd_RequestDigest = fingerprint scope payload, cmd_RequestID = requestID, cmd_Schedule = schedule\<rparr>)"

text \<open>From the idempotency key on: the part of \<^verbatim>\<open>ServeHTTP\<close> that only commands reach.\<close>

definition runCommand ::
  "golib \<Rightarrow> weblib \<Rightarrow> 'd Handler \<Rightarrow> headers \<Rightarrow> http_request \<Rightarrow> string \<Rightarrow> string \<Rightarrow> string \<Rightarrow> string \<Rightarrow> 'd
     \<Rightarrow> http_response \<times> 'd" where
  "runCommand g w h hs r requestID tenantID name action d =
     (case validateIdempotencyKey (rq_Header r ''Idempotency-Key'') of
        Some err \<Rightarrow>
          (writeJSON hs 400
             (errorResponse
                (if rq_Header r ''Idempotency-Key'' = [] then ''idempotency_key_required'' else ''invalid_idempotency_key'')
                (Error err) requestID), d)
      | None \<Rightarrow>
      case decodePayload g w r tenantID name action of
        Inl err \<Rightarrow>
          (case decodeError err of (status, code, message) \<Rightarrow>
             (writeJSON hs status (errorResponse code message requestID), d))
      | Inr (schedule, payload) \<Rightarrow>
      case h_service h of
        None \<Rightarrow>
          (writeJSON hs 500 (errorResponse ''scheduler_unavailable'' ''scheduler service is unavailable'' requestID), d)
      | Some svc \<Rightarrow>
          (case svc_Execute svc (commandFor r requestID tenantID name action schedule payload) d of
             (Inl err, d') \<Rightarrow> (writeApplicationError hs err requestID, d')
           | (Inr receipt, d') \<Rightarrow>
               (case receiptResponse receipt of (status, response) \<Rightarrow>
                  (writeJSON (hs(''X-Request-Id'' \<mapsto> rc_RequestID receipt)) status response, d'))))"

definition ServeHTTP ::
  "golib \<Rightarrow> weblib \<Rightarrow> 'd Handler \<Rightarrow> http_request \<Rightarrow> 'd \<Rightarrow> http_response \<times> 'd" where
  "ServeHTTP g w h r d =
     (let h0 = (if rq_Method r = ''GET'' then Map.empty(''Cache-Control'' \<mapsto> ''no-store'') else Map.empty);
          requestID = TrimSpace (rq_Header r ''X-Request-Id'');
          requestIDErr = validateRequestID requestID;
          hs = (if requestIDErr = None then h0(''X-Request-Id'' \<mapsto> requestID) else h0);
          responseRequestID = (if requestIDErr = None then requestID else [])
      in if \<not> authorized h r then
           (writeJSON hs 401
              (errorResponse ''service_auth_failed'' ''scheduler service authentication failed'' responseRequestID), d)
         else case requestIDErr of
           Some err \<Rightarrow>
             (writeJSON hs 400
                (errorResponse (if requestID = [] then ''request_id_required'' else ''request_id_invalid'') (Error err) []), d)
         | None \<Rightarrow>
         let tenantID = TrimSpace (rq_Header r ''X-Kokoro-Tenant-Id'')
         in case ValidateTenantID tenantID of
           Some err \<Rightarrow> (writeJSON hs 400 (errorResponse ''tenant_context_invalid'' (Error err) requestID), d)
         | None \<Rightarrow>
         case parseSchedulePath (rq_Path r) of
           None \<Rightarrow> (writeJSON hs 404 (errorResponse ''route_not_found'' ''schedule route not found'' requestID), d)
         | Some (name, action) \<Rightarrow>
             if \<not> supportedMethod (rq_Method r) action then
               (writeJSON (hs(''Allow'' \<mapsto> allowedMethods action)) 405
                  (errorResponse ''method_not_allowed'' ''method not allowed'' requestID), d)
             else if rq_Method r = ''GET'' then readSchedule h hs r tenantID name requestID d
             else runCommand g w h hs r requestID tenantID name action d)"

section \<open>Probes and routes\<close>

text \<open>\<open>entropy\<close> is what \<^verbatim>\<open>rand.Read\<close> fills the buffer with, \<^verbatim>\<open>None\<close> when it fails.\<close>

definition probeRequestID :: "string option \<Rightarrow> http_request \<Rightarrow> string" where
  "probeRequestID entropy r =
     (let requestID = TrimSpace (rq_Header r ''X-Request-Id'')
      in if validateRequestID requestID = None then requestID
         else case entropy of
           Some bytes \<Rightarrow> ''sched_probe_'' @ hex_bytes bytes
         | None \<Rightarrow> ''sched_probe_unavailable'')"

text \<open>\<open>readiness\<close> is \<^verbatim>\<open>None\<close> for the liveness probe, otherwise what the readiness check returns.\<close>

definition probe :: "string option \<Rightarrow> http_request \<Rightarrow> goerr option option \<Rightarrow> http_response" where
  "probe entropy r readiness =
     (let requestID = probeRequestID entropy r;
          hs = Map.empty(''X-Request-Id'' \<mapsto> requestID)
      in if rq_Method r \<noteq> ''GET'' then
           writeJSON (hs(''Allow'' \<mapsto> ''GET'')) 405 (errorResponse ''method_not_allowed'' ''method not allowed'' requestID)
         else if (case readiness of Some (Some err) \<Rightarrow> True | _ \<Rightarrow> False) then
           writeJSON hs 503 (errorResponse ''scheduler_not_ready'' ''scheduler is not ready'' requestID)
         else
           writeJSON hs 200
             (VObj [(''data'', VObj [(''service'', VStr ''kokoro-scheduler''), (''status'', VStr ''ok'')]),
                metaValue requestID]))"

text \<open>The pattern \<^verbatim>\<open>http.ServeMux\<close> selects for a request is an argument.\<close>

datatype route = Healthz | Readyz | Schedules | Unknown

definition NewHTTPHandler ::
  "golib \<Rightarrow> weblib \<Rightarrow> 'd CommandService option \<Rightarrow> string \<Rightarrow> goerr option \<Rightarrow> string option \<Rightarrow> route \<Rightarrow> http_request
     \<Rightarrow> 'd \<Rightarrow> http_response \<times> 'd" where
  "NewHTTPHandler g w service serviceToken readiness entropy rt r d =
     (case rt of
        Healthz \<Rightarrow> (probe entropy r None, d)
      | Readyz \<Rightarrow> (probe entropy r (Some readiness), d)
      | Schedules \<Rightarrow> ServeHTTP g w (NewHandler service serviceToken) r d
      | Unknown \<Rightarrow> (writeJSON Map.empty 404 (errorResponse ''route_not_found'' ''route not found'' []), d))"

end
