(* ===== verification/HandlerProps.thy ===== *)
theory HandlerProps
  imports Handler DomainProps CommandProps
begin

text \<open>
  What the HTTP interface guarantees: only an authenticated, well-formed command reaches the
  service and can change the state, the commands the handler builds pass the service's own
  checks, and a request that was answered is answered the same way again.
\<close>

section \<open>Texts without surrounding white space\<close>

definition visible :: "char \<Rightarrow> bool" where
  "visible c \<longleftrightarrow> 0x20 < byte c \<and> byte c < 0x80"

lemma lead_visible:
  assumes "visible (hd s)" and "\<forall>w \<in> set ws. w \<noteq> [] \<longrightarrow> \<not> visible (hd w)"
  shows "lead ws s = 0"
  unfolding lead_0_iff
proof (intro ballI impI notI)
  fix w
  assume w: "w \<in> set ws" "w \<noteq> []" "HasPrefix s w"
  then have "hd s = hd w" by (metis HasPrefix_def hd_take length_greater_0_conv)
  with w assms show False by auto
qed

lemma spaces_not_visible:
  "\<forall>w \<in> set space_seqs. \<not> visible (hd w)" "\<forall>w \<in> set (map rev space_seqs). \<not> visible (hd w)"
  by code_simp+

lemma TrimSpace_visible:
  assumes "s \<noteq> []" and "visible (hd s)" and "visible (last s)"
  shows "TrimSpace s = s"
proof -
  have "lead space_seqs s = 0" using assms(2) spaces_not_visible(1) by (intro lead_visible) auto
  moreover have "lead (map rev space_seqs) (rev s) = 0"
    using assms(1,3) spaces_not_visible(2) by (intro lead_visible) (auto simp: hd_rev)
  ultimately show ?thesis by (simp add: TrimSpace_def strip_lead.simps)
qed

lemma name_char_visible: "name_char c \<Longrightarrow> visible c"
  by (auto simp: name_char_def name_start_def visible_def is_digit_def byte_def)

lemma valid_name:
  assumes "IsValidScheduleName n"
  shows "n \<noteq> []" and "length n \<le> 64" and "visible (hd n)" and "visible (last n)"
proof -
  obtain c cs where n: "n = c # cs" "name_start c" "list_all name_char cs" "length cs \<le> 63"
    using assms by (auto simp: IsValidScheduleName_def split: list.splits)
  then have "list_all name_char n" by (simp add: name_char_def)
  then have v: "\<forall>x \<in> set n. visible x" by (auto simp: list_all_iff name_char_visible)
  show "n \<noteq> []" "length n \<le> 64" using n by simp_all
  then show "visible (hd n)" "visible (last n)" using v by simp_all
qed

lemma TrimSpace_name: "IsValidScheduleName n \<Longrightarrow> TrimSpace n = n"
  by (rule TrimSpace_visible) (rule valid_name; assumption)+

section \<open>Paths, scopes and digests\<close>

lemma parseSchedulePath_shape:
  assumes "parseSchedulePath path = Some (name, action)"
  shows "IsValidScheduleName name" and "action = [] \<or> action = ''pause'' \<or> action = ''resume''"
    and "path = SchedulesPathPrefix @ name @ (if action = [] then [] else CHR ''/'' # action)"
proof -
  let ?t = "TrimPrefix path SchedulesPathPrefix"
  have p: "path = SchedulesPathPrefix @ ?t"
    using assms by (auto simp: parseSchedulePath_def TrimPrefix_def HasPrefix_def split: if_splits)
      (metis append_take_drop_id)
  have s: "Split ?t (CHR ''/'') = [name] \<and> action = [] \<or>
      Split ?t (CHR ''/'') = [name, action] \<and> (action = ''pause'' \<or> action = ''resume'')"
    and n: "IsValidScheduleName name"
    using assms by (auto simp: parseSchedulePath_def split: if_splits list.splits)
  show "IsValidScheduleName name" by (rule n)
  show "action = [] \<or> action = ''pause'' \<or> action = ''resume''" using s by blast
  have "?t = name @ (if action = [] then [] else CHR ''/'' # action)"
    using s Join_Split [of ?t "CHR ''/''"] by auto
  then show "path = SchedulesPathPrefix @ name @ (if action = [] then [] else CHR ''/'' # action)"
    using p by simp
qed

lemma fingerprint_digest: "digestPattern (fingerprint scope payload)"
proof -
  have "list_all lower_hex (hexSha256 x)" for x
    using hexSha256_shape [of x] by (auto simp: list_all_iff lower_hex_digit_def lower_hex_def is_digit_def byte_def)
  then show ?thesis
    using hexSha256_shape by (simp add: digestPattern_def fingerprint_def HasPrefix_def)
qed

lemma scope_shape:
  assumes "parseSchedulePath path = Some (name, action)" and "meth = ''POST'' \<or> meth = ''PUT'' \<or> meth = ''DELETE''"
  shows "TrimSpace (meth @ CHR '':'' # path) = meth @ CHR '':'' # path"
    and "meth @ CHR '':'' # path \<noteq> []" and "length (meth @ CHR '':'' # path) \<le> 256"
proof -
  note ps = parseSchedulePath_shape [OF assms(1)]
  note v = valid_name [OF ps(1)]
  have l: "visible (last path)"
    using ps(2,3) v by (auto simp: SchedulesPathPrefix_def visible_def byte_def)
  have "path \<noteq> []" using ps(3) by (simp add: SchedulesPathPrefix_def)
  with l assms(2) show "TrimSpace (meth @ CHR '':'' # path) = meth @ CHR '':'' # path"
    by (intro TrimSpace_visible) (auto simp: visible_def byte_def)
  show "meth @ CHR '':'' # path \<noteq> []" by simp
  have "length path \<le> 33 + 64 + 7" using ps(2,3) v(2) by (auto simp: SchedulesPathPrefix_def)
  then show "length (meth @ CHR '':'' # path) \<le> 256" using assms(2) by auto
qed

section \<open>Decoded schedules\<close>

lemma digits_val_scale: "digits_val n (ds @ replicate k (CHR ''0'')) = digits_val n ds * 10 ^ k"
  by (induction k) (simp_all add: replicate_append_same [symmetric] digits_val_append digit_val_def flip: append_assoc)

lemma fraction_digits_length: "fraction_digits r = Some ds \<Longrightarrow> length ds \<le> 3"
  by (auto simp: fraction_digits_def split: if_splits)

lemma parse_instant_ms: "parse_instant s = Some t \<Longrightarrow> Millisecond dvd t"
proof -
  assume a: "parse_instant s = Some t"
  have f: "Millisecond dvd digits_val 0 (take 9 (ds @ replicate 9 (CHR ''0'')))"
    if "fraction_digits (drop 19 s) = Some ds" for ds
  proof -
    have l: "length ds \<le> 3" using that by (rule fraction_digits_length)
    then have "take 9 (ds @ replicate 9 (CHR ''0'')) = (ds @ replicate (3 - length ds) (CHR ''0'')) @ replicate 6 (CHR ''0'')"
      by (simp add: replicate_add [symmetric])
    then show ?thesis by (simp only: digits_val_scale) (simp add: Millisecond_def)
  qed
  have "Millisecond dvd x * Second" for x by (simp add: Millisecond_def Second_def)
  with a f show ?thesis
    by (auto simp: parse_instant_def Let_def split: if_splits option.splits intro!: dvd_add)
qed

lemma parseRunAt_ms: "parseRunAt s = Some t \<Longrightarrow> Millisecond dvd t \<and> t \<noteq> 0"
  by (auto simp: parseRunAt_def IsZero_def parse_instant_ms split: if_splits option.splits)

lemma toDomain_fixed:
  assumes "toDomain g q tenantID name = Inr s" and "TrimSpace tenantID = tenantID" and "TrimSpace name = name"
  shows "Normalized g s = Inr s" and "s_TenantID s = tenantID" and "s_Name s = name"
    and "s_Status s = ScheduleActive \<or> s_Status s = SchedulePaused"
proof -
  obtain retry runAt where r: "(if q_RunAt q \<noteq> [] then parseRunAt (q_RunAt q) else Some 0) = Some runAt"
    and n: "Normalized g (requestedSchedule q tenantID name retry runAt) = Inr s"
    using assms(1) by (auto simp: toDomain_def split: if_splits sum.splits option.splits)
  let ?s = "requestedSchedule q tenantID name retry runAt"
  have i: "s_TenantID ?s = tenantID" "s_Name ?s = name" "s_RunAt ?s = runAt"
    "s_Status ?s = (if q_Paused q then SchedulePaused else ScheduleActive)"
    by (simp_all add: requestedSchedule_def)
  have z: "s_RunAt ?s = 0 \<or> NormalizeInstant (s_RunAt ?s) \<noteq> 0"
    using r parseRunAt_ms [of "q_RunAt q" runAt] by (auto simp: i NormalizeInstant_id split: if_splits)
  show "Normalized g s = Inr s" by (rule Normalized_fixed [OF n z])
  show "s_TenantID s = tenantID" "s_Name s = name" using Normalized_names [OF n] i(1,2) assms(2,3) by simp_all
  obtain c where "s = normalizeInstants ((withScheduleDefaults ?s)\<lparr>s_Payload := c\<rparr>)" using n by (rule Normalized_Inr)
  then have "s_Status s = (if s_Status ?s = [] then ScheduleActive else s_Status ?s)"
    by (simp add: normalizeInstants_def withScheduleDefaults_def)
  then show "s_Status s = ScheduleActive \<or> s_Status s = SchedulePaused" using i(4) by simp
qed

lemma decodeSchedule_toDomain:
  assumes "decodeSchedule g w body tenantID name = Inr (s, payload)"
  obtains q where "toDomain g q tenantID name = Inr s" and "canonicalCommandPayload s = Inr payload"
  using assms unfolding decodeSchedule_def
  by (auto split: option.splits if_splits prod.splits sum.splits)


lemma decodePayload_command:
  assumes "decodePayload g w r tenantID name action = Inr (s, payload)"
    and "action = []" and "rq_Method r \<noteq> ''DELETE''"
  obtains q where "toDomain g q tenantID name = Inr s" and "canonicalCommandPayload s = Inr payload"
  using assms decodeSchedule_toDomain [of g w _ tenantID name s payload]
  by (auto simp: decodePayload_def Let_def split: sum.splits if_splits)

section \<open>Commands of the handler\<close>

lemma commandFor_fields [simp]:
  "cmd_Operation (commandFor r i t n a s p) = operationFor (rq_Method r) a"
  "cmd_TenantID (commandFor r i t n a s p) = t" "cmd_Name (commandFor r i t n a s p) = n"
  "cmd_CommandScope (commandFor r i t n a s p) = rq_Method r @ CHR '':'' # rq_Path r"
  "cmd_IdempotencyKey (commandFor r i t n a s p) = rq_Header r ''Idempotency-Key''"
  "cmd_RequestDigest (commandFor r i t n a s p) = fingerprint (rq_Method r @ CHR '':'' # rq_Path r) p"
  "cmd_RequestID (commandFor r i t n a s p) = i" "cmd_Schedule (commandFor r i t n a s p) = s"
  by (simp_all add: commandFor_def Let_def)

text \<open>A request that gets as far as the service.\<close>

definition command_request ::
  "golib \<Rightarrow> weblib \<Rightarrow> http_request \<Rightarrow> string \<Rightarrow> string \<Rightarrow> string \<Rightarrow> string \<Rightarrow> Schedule \<Rightarrow> string \<Rightarrow> bool" where
  "command_request g w r requestID tenantID name action s payload \<longleftrightarrow>
     requestID = TrimSpace (rq_Header r ''X-Request-Id'') \<and> validateRequestID requestID = None \<and>
     tenantID = TrimSpace (rq_Header r ''X-Kokoro-Tenant-Id'') \<and> ValidateTenantID tenantID = None \<and>
     parseSchedulePath (rq_Path r) = Some (name, action) \<and>
     supportedMethod (rq_Method r) action \<and> rq_Method r \<noteq> ''GET'' \<and>
     validateIdempotencyKey (rq_Header r ''Idempotency-Key'') = None \<and>
     decodePayload g w r tenantID name action = Inr (s, payload)"

lemma command_prepared:
  assumes c: "command_request g w r requestID tenantID name action s payload"
  defines "cmd \<equiv> commandFor r requestID tenantID name action s payload"
  shows "prepare g cmd =
    (if action = [] \<and> rq_Method r \<noteq> ''DELETE'' \<and> IsZero (s_RunAt s)
     then case Validate (LoadLocation g) (s_Rule s) (s_Timezone s) of
            Some err \<Rightarrow> Inl (ErrJoin ErrInvalidCommand err) | None \<Rightarrow> Inr cmd
     else Inr cmd)"
proof -
  have id: "requestID \<noteq> []" "length requestID \<le> 128" "TrimSpace requestID = requestID"
    "TrimSpace tenantID = tenantID" "ValidateTenantID tenantID = None"
    "rq_Header r ''Idempotency-Key'' \<noteq> []" "length (rq_Header r ''Idempotency-Key'') \<le> 256"
    using c by (auto simp: command_request_def validateRequestID_def validateIdempotencyKey_def split: if_splits)
  have path: "parseSchedulePath (rq_Path r) = Some (name, action)" using c by (simp add: command_request_def)
  note ps = parseSchedulePath_shape [OF path]
  have m: "rq_Method r = ''POST'' \<or> rq_Method r = ''PUT'' \<or> rq_Method r = ''DELETE''"
    using c by (auto simp: command_request_def supportedMethod_def split: if_splits)
  have pm: "action \<noteq> [] \<Longrightarrow> rq_Method r = ''POST''" using c by (auto simp: command_request_def supportedMethod_def)
  note sc = scope_shape [OF path m]
  have t: "trimmed cmd = cmd"
    using id(3,4) TrimSpace_name [OF ps(1)] sc(1) by (simp add: trimmed_def cmd_def commandFor_def Let_def)
  have g: "\<not> (\<not> IsValidScheduleName (cmd_Name cmd) \<or> cmd_CommandScope cmd = [] \<or> length (cmd_CommandScope cmd) > 256
         \<or> cmd_IdempotencyKey cmd = [] \<or> length (cmd_IdempotencyKey cmd) > 256
         \<or> cmd_RequestID cmd = [] \<or> length (cmd_RequestID cmd) > 128 \<or> \<not> digestPattern (cmd_RequestDigest cmd))"
    using id ps(1) sc(3) fingerprint_digest by (auto simp: cmd_def)
  show ?thesis
  proof (cases "action = [] \<and> rq_Method r \<noteq> ''DELETE''")
    case True
    obtain q where "toDomain g q tenantID name = Inr s"
      using decodePayload_command [of g w r tenantID name action s payload] c True by (auto simp: command_request_def)
    note s = toDomain_fixed [OF this id(4) TrimSpace_name [OF ps(1)]]
    have op: "cmd_Operation cmd = CommandCreate \<or> cmd_Operation cmd = CommandUpdate"
      using True m by (auto simp: cmd_def operationFor_def)
    have n: "Normalized g ((cmd_Schedule cmd)\<lparr>s_TenantID := cmd_TenantID cmd, s_Name := cmd_Name cmd\<rparr>) = Inr s"
    proof -
      have "(cmd_Schedule cmd)\<lparr>s_TenantID := cmd_TenantID cmd, s_Name := cmd_Name cmd\<rparr> = s"
        using s(2,3) by (simp add: cmd_def)
      then show ?thesis using s(1) by simp
    qed
    have "s_Status s \<noteq> ScheduleExhausted" and same: "cmd\<lparr>cmd_Schedule := s\<rparr> = cmd"
      using s(4) by (auto simp: cmd_def commandFor_def Let_def)
    moreover have "ValidateTenantID (cmd_TenantID cmd) = None" using id(5) by (simp add: cmd_def)
    ultimately show ?thesis
      unfolding prepare_def Let_def t using g op n True by (simp split: option.splits)
  next
    case False
    then have op: "cmd_Operation cmd = CommandDelete \<or> cmd_Operation cmd = CommandPause \<or> cmd_Operation cmd = CommandResume"
      using ps(2) pm m by (auto simp: cmd_def operationFor_def)
    moreover have "ValidateTenantID (cmd_TenantID cmd) = None" using id(5) by (simp add: cmd_def)
    ultimately show ?thesis
      unfolding prepare_def Let_def t using g False by auto
  qed
qed


section \<open>The ways through the handler\<close>

definition answer :: "headers \<Rightarrow> CommandReceipt \<Rightarrow> http_response" where
  "answer hs rc =
     (case receiptResponse rc of (status, response) \<Rightarrow> writeJSON (hs(''X-Request-Id'' \<mapsto> rc_RequestID rc)) status response)"

definition executed :: "headers \<Rightarrow> string \<Rightarrow> CommandReceipt res \<times> 'd \<Rightarrow> http_response \<times> 'd" where
  "executed hs i out =
     (case out of (Inl err, d') \<Rightarrow> (writeApplicationError hs err i, d') | (Inr rc, d') \<Rightarrow> (answer hs rc, d'))"

lemma snd_executed [simp]: "snd (executed hs i out) = snd out"
  by (simp add: executed_def split: prod.splits sum.splits)

lemma writeJSON_status [simp]: "k \<noteq> 200 \<Longrightarrow> rs_Status (writeJSON hs k v) \<noteq> 200"
  by (simp add: writeJSON_def writeRawJSON_def split: option.splits)

lemma decodeError_status: "fst (decodeError err) \<noteq> 200"
  by (simp add: decodeError_def)

lemma runCommand_cases:
  fixes h :: "'d Handler"
  obtains (refused) resp where "rs_Status resp \<noteq> 200" "\<And>d. runCommand g w h hs r i t n a d = (resp, d)"
  | (runs) s p where "validateIdempotencyKey (rq_Header r ''Idempotency-Key'') = None"
      "decodePayload g w r t n a = Inr (s, p)" "h_service h \<noteq> None"
      "\<And>(h' :: 'd Handler) svc d. h_service h' = Some svc \<Longrightarrow>
         runCommand g w h' hs r i t n a d = executed hs i (svc_Execute svc (commandFor r i t n a s p) d)"
proof (cases "validateIdempotencyKey (rq_Header r ''Idempotency-Key'')")
  case (Some err)
  then show thesis by (intro refused) (simp_all add: runCommand_def)
next
  case key: None
  show thesis
  proof (cases "decodePayload g w r t n a")
    case (Inl err)
    then show thesis by (intro refused) (simp_all add: runCommand_def key split_beta decodeError_status)
  next
    case (Inr sp)
    obtain s p where sp: "sp = (s, p)" by (cases sp)
    show thesis
    proof (cases "h_service h")
      case None
      then show thesis by (intro refused) (simp_all add: runCommand_def key Inr sp)
    next
      case (Some svc)
      have "runCommand g w h' hs r i t n a d = executed hs i (svc_Execute sv (commandFor r i t n a s p) d)"
        if "h_service h' = Some sv" for h' :: "'d Handler" and sv d
        using that by (simp add: runCommand_def key Inr sp executed_def answer_def split_beta split: sum.splits)
      then show thesis using key Inr sp Some by (intro runs) simp_all
    qed
  qed
qed

lemma authorized_token: "h_serviceToken h' = h_serviceToken h \<Longrightarrow> authorized h' r = authorized h r"
  unfolding authorized_def by (rule if_cong) (simp_all split: option.splits prod.splits)

lemma ServeHTTP_cases:
  fixes h :: "'d Handler"
  obtains (refused) resp where "rs_Status resp \<noteq> 200" "\<And>d. ServeHTTP g w h r d = (resp, d)"
  | (read) hs i t n where "authorized h r" "rq_Method r = ''GET''" "\<And>d. ServeHTTP g w h r d = readSchedule h hs r t n i d"
  | (runs) hs i t n a s p where "authorized h r" "command_request g w r i t n a s p" "h_service h \<noteq> None"
      "\<And>(h' :: 'd Handler) svc d. h_serviceToken h' = h_serviceToken h \<Longrightarrow> h_service h' = Some svc \<Longrightarrow>
         ServeHTTP g w h' r d = executed hs i (svc_Execute svc (commandFor r i t n a s p) d)"
proof -
  let ?i = "TrimSpace (rq_Header r ''X-Request-Id'')" and ?t = "TrimSpace (rq_Header r ''X-Kokoro-Tenant-Id'')"
  define h0 :: headers where "h0 = (if rq_Method r = ''GET'' then Map.empty(''Cache-Control'' \<mapsto> ''no-store'') else Map.empty)"
  consider (auth) "\<not> authorized h r"
    | (rid) e where "authorized h r" "validateRequestID ?i = Some e"
    | (tenant) e where "authorized h r" "validateRequestID ?i = None" "ValidateTenantID ?t = Some e"
    | (path) "authorized h r" "validateRequestID ?i = None" "ValidateTenantID ?t = None" "parseSchedulePath (rq_Path r) = None"
    | (found) n a where "authorized h r" "validateRequestID ?i = None" "ValidateTenantID ?t = None"
        "parseSchedulePath (rq_Path r) = Some (n, a)"
    by (cases "validateRequestID ?i"; cases "ValidateTenantID ?t"; cases "parseSchedulePath (rq_Path r)") auto
  then show thesis
  proof cases
    case auth
    then show thesis by (intro refused) (simp_all add: ServeHTTP_def Let_def)
  next
    case rid
    then show thesis by (intro refused) (simp_all add: ServeHTTP_def Let_def)
  next
    case tenant
    then show thesis by (intro refused) (simp_all add: ServeHTTP_def Let_def)
  next
    case path
    then show thesis by (intro refused) (simp_all add: ServeHTTP_def Let_def)
  next
    case found
    let ?hs = "h0(''X-Request-Id'' \<mapsto> ?i)"
    have s: "ServeHTTP g w h' r d =
        (if \<not> supportedMethod (rq_Method r) a then
           (writeJSON (?hs(''Allow'' \<mapsto> allowedMethods a)) 405
              (errorResponse ''method_not_allowed'' ''method not allowed'' ?i), d)
         else if rq_Method r = ''GET'' then readSchedule h' ?hs r ?t n ?i d
         else runCommand g w h' ?hs r ?i ?t n a d)" if "h_serviceToken h' = h_serviceToken h" for h' :: "'d Handler" and d
      using found authorized_token [OF that, of r] by (simp add: ServeHTTP_def Let_def h0_def)
    consider (meth) "\<not> supportedMethod (rq_Method r) a" | (get) "supportedMethod (rq_Method r) a" "rq_Method r = ''GET''"
      | (cmd) "supportedMethod (rq_Method r) a" "rq_Method r \<noteq> ''GET''" by blast
    then show thesis
    proof cases
      case meth
      then show thesis using s [OF refl] by (intro refused) simp_all
    next
      case get
      then show thesis using found(1) s [OF refl] by (intro read) simp_all
    next
      case cmd
      show thesis
      proof (cases rule: runCommand_cases [of g w h ?hs r ?i ?t n a])
        case (refused resp)
        then show thesis using s [OF refl] cmd by (intro that(1)) simp_all
      next
        case (runs s' p)
        then have "command_request g w r ?i ?t n a s' p" using found cmd by (simp add: command_request_def)
        then show thesis using found(1) runs s cmd by (intro that(3)) simp_all
      qed
    qed
  qed
qed

text \<open>A well-formed request with the right token is executed.\<close>

lemma ServeHTTP_command:
  assumes "authorized h r" and "command_request g w r i t n a s p" and "h_service h = Some svc"
  shows "ServeHTTP g w h r d =
    executed [''X-Request-Id'' \<mapsto> i] i (svc_Execute svc (commandFor r i t n a s p) d)"
proof -
  have "ServeHTTP g w h r d = runCommand g w h [''X-Request-Id'' \<mapsto> i] r i t n a d"
  proof -
    have "TrimSpace (rq_Header r ''X-Request-Id'') = i" "validateRequestID i = None"
      "TrimSpace (rq_Header r ''X-Kokoro-Tenant-Id'') = t" "ValidateTenantID t = None"
      "parseSchedulePath (rq_Path r) = Some (n, a)" "supportedMethod (rq_Method r) a" "rq_Method r \<noteq> ''GET''"
      using assms(2) unfolding command_request_def by blast+
    then show ?thesis using assms(1) by (simp add: ServeHTTP_def Let_def)
  qed
  moreover have "\<dots> = executed [''X-Request-Id'' \<mapsto> i] i (svc_Execute svc (commandFor r i t n a s p) d)"
  proof -
    have "validateIdempotencyKey (rq_Header r ''Idempotency-Key'') = None" "decodePayload g w r t n a = Inr (s, p)"
      using assms(2) unfolding command_request_def by blast+
    then show ?thesis using assms(3)
      by (simp add: runCommand_def executed_def answer_def split_beta split: sum.splits)
  qed
  ultimately show ?thesis by simp
qed

lemma failure_status: "rs_Status (writeApplicationError hs err i) \<noteq> 200"
  by (simp add: writeApplicationError_def applicationError_def writeJSON_def writeRawJSON_def split: option.splits)

section \<open>The service behind the handler\<close>

text \<open>
  The contract of \<^verbatim>\<open>CommandService\<close>: reading changes nothing, and a command that was answered with
  a receipt gets the same receipt later. \<open>e\<close> is what one call meets (clock, other transactions, faults).
\<close>

locale command_service =
  fixes svc :: "'e \<Rightarrow> 'd CommandService"
    and same :: "CommandReceipt \<Rightarrow> CommandReceipt \<Rightarrow> bool"
    and undisturbed :: "'e \<Rightarrow> bool"
    and later :: "'d \<Rightarrow> 'd \<Rightarrow> bool"
  assumes reads: "snd (svc_Get (svc e) t n d) = d"
    and replays: "svc_Execute (svc e) c d = (Inr rc, d1) \<Longrightarrow> later d1 d2 \<Longrightarrow> undisturbed e' \<Longrightarrow>
      \<exists>rc'. svc_Execute (svc e') c d2 = (Inr rc', d2) \<and> same rc rc'"
begin

lemma readSchedule_reads:
  "h_service h = None \<or> h_service h = Some (svc e) \<Longrightarrow> snd (readSchedule h hs r t n i d) = d"
  using reads [of e t n d]
  by (auto simp: readSchedule_def split: option.splits prod.splits sum.splits)

lemma only_commands_write:
  assumes "h_service h = None \<or> h_service h = Some (svc e)" and "snd (ServeHTTP g w h r d) \<noteq> d"
  shows "authorized h r \<and> (\<exists>i t n a s p. command_request g w r i t n a s p \<and>
    snd (ServeHTTP g w h r d) = snd (svc_Execute (svc e) (commandFor r i t n a s p) d))"
proof (cases rule: ServeHTTP_cases [of g w h r])
  case (runs hs i t n a s p)
  then have "h_service h = Some (svc e)" using assms(1) by auto
  from runs(4) [OF refl this, of d] have "snd (ServeHTTP g w h r d) = snd (svc_Execute (svc e) (commandFor r i t n a s p) d)"
    by simp
  with runs(1,2) show ?thesis by blast
qed (use assms readSchedule_reads [OF assms(1)] in auto)

text \<open>A command that was answered 200 is answered from its receipt again, and nothing changes.\<close>

lemma answered_again:
  assumes "h_service h = Some (svc e)" and "h_service h' = Some (svc e')" and "h_serviceToken h' = h_serviceToken h"
    and "ServeHTTP g w h r d = (resp, d1)" and "rq_Method r \<noteq> ''GET''" and "rs_Status resp = 200"
    and "later d1 d2" and "undisturbed e'"
  shows "\<exists>hs rc rc'. resp = answer hs rc \<and> same rc rc' \<and> ServeHTTP g w h' r d2 = (answer hs rc', d2)"
proof (cases rule: ServeHTTP_cases [of g w h r])
  case (runs hs i t n a s p)
  have x: "executed hs i (svc_Execute (svc e) (commandFor r i t n a s p) d) = (resp, d1)"
    using runs(4) [OF refl assms(1), of d] assms(4) by simp
  obtain rc where rc: "svc_Execute (svc e) (commandFor r i t n a s p) d = (Inr rc, d1)" "resp = answer hs rc"
    using x assms(6) by (auto simp: executed_def failure_status split: prod.splits sum.splits)
  from replays [OF rc(1) assms(7,8)] obtain rc' where
    "svc_Execute (svc e') (commandFor r i t n a s p) d2 = (Inr rc', d2)" "same rc rc'" by blast
  then show ?thesis using runs(4) [OF assms(3,2), of d2] rc(2)
    by (intro exI [of _ hs] exI [of _ rc] exI [of _ rc']) (simp add: executed_def)
next
  case (refused rs)
  then show ?thesis using assms(4,6) by simp
qed (use assms(5) in auto)

end


section \<open>The application's service\<close>

text \<open>What one call of the service meets: a connection fault, the commits of other transactions, the clock.\<close>

record call =
  e_fault :: tx_fault
  e_other :: "db \<Rightarrow> db"
  e_now :: instant
  e_stamp :: instant

definition application_service :: "golib \<Rightarrow> pg \<Rightarrow> call \<Rightarrow> db CommandService" where
  "application_service g store e =
     \<lparr>svc_Execute = Execute g store (e_fault e) (e_other e) (e_now e) (e_stamp e), svc_Get = Get (e_fault e)\<rparr>"

lemma GetSchedule_reads: "GetSchedule t n d = Inr (s, d') \<Longrightarrow> d' = d"
  by (auto simp: GetSchedule_def split: if_splits option.splits)

lemma Get_reads: "snd (Get fault t n d) = d"
  by (auto simp: Get_def WithinTx_def dest: GetSchedule_reads split: option.splits tx_fault.splits sum.splits)

lemma Execute_Inr:
  assumes "Execute g store fault other now stamp c d = (Inr rc, d1)"
  obtains p where "prepare g c = Inr p" and "execute_tx g store other now stamp p d = Inr (rc, d1)"
  using assms by (auto simp: Execute_def WithinTx_def split: sum.splits tx_fault.splits)

interpretation app: command_service
  "application_service g store" "same_receipt store" "\<lambda>e. e_fault e = NoFault" receipts_kept
  for g store
proof unfold_locales
  show "snd (svc_Get (application_service g store e) t n d) = d" for e t n d
    by (simp add: application_service_def Get_reads)
next
  fix e c d rc d1 d2 and e' :: call
  assume a: "svc_Execute (application_service g store e) c d = (Inr rc, d1)" "receipts_kept d1 d2" "e_fault e' = NoFault"
  then obtain p where p: "prepare g c = Inr p" "execute_tx g store (e_other e) (e_now e) (e_stamp e) p d = Inr (rc, d1)"
    by (auto simp: application_service_def elim: Execute_Inr)
  have "\<exists>rc'. execute_tx g store (e_other e') (e_now e') (e_stamp e') p d2 = Inr (rc', d2) \<and> same_receipt store rc rc'"
    using commands.replay [of g store "(e_other e, e_now e, e_stamp e, p)" d rc d1 d2
        "(e_other e', e_now e', e_stamp e', p)"] a(2) p(2) by simp
  then show "\<exists>rc'. svc_Execute (application_service g store e') c d2 = (Inr rc', d2) \<and> same_receipt store rc rc'"
    using a(3) p(1) by (auto simp: application_service_def Execute_def WithinTx_def)
qed

definition served :: "golib \<Rightarrow> weblib \<Rightarrow> pg \<Rightarrow> call \<Rightarrow> string \<Rightarrow> http_request \<Rightarrow> db \<Rightarrow> http_response \<times> db" where
  "served g w store e serviceToken r d =
     ServeHTTP g w (NewHandler (Some (application_service g store e)) serviceToken) r d"

text \<open>A receipt that the database stores as it is answers in the same words.\<close>

lemma answer_same:
  assumes "same_receipt store rc rc'" and "result_jsonb store (rc_Result rc) = Some (rc_Result rc)"
  shows "answer hs rc' = answer hs rc"
proof -
  have r: "rc_Result rc' = rc_Result rc" "rc_RequestID rc' = rc_RequestID rc"
    using assms by (auto simp: same_receipt_def)
  then have "receiptResponse rc' = receiptResponse rc" by (simp only: receiptResponse_def)
  with r(2) show ?thesis by (simp only: answer_def)
qed

end
