(* ===== verification/HttpSamples.thy ===== *)
theory HttpSamples
  imports HandlerProps Samples
begin

text \<open>
  Concrete HTTP requests for the examples of the properties. The digest of a request is kept
  symbolic: that it has the form of a digest is all its evaluation needs.
\<close>

declare hexSha256_def [code del]

lemma pg_text_ascii: "list_all (\<lambda>c. 0 < byte c \<and> byte c < 0x80) s \<Longrightarrow> pg_text s"
proof (induction s)
  case (Cons c s)
  moreover have "c \<noteq> CHR 0x00" using Cons.prems by (auto simp: byte_def)
  ultimately show ?case by (subst pg_text.simps) (simp add: utf8_len_ascii)
qed (simp add: pg_text.simps)

lemma digest_text: "digestPattern s \<Longrightarrow> pg_text s"
proof -
  assume d: "digestPattern s"
  have s: "s = ''sha256:'' @ drop 7 s"
  proof -
    have "take 7 s = ''sha256:''" using d by (simp add: digestPattern_def HasPrefix_def eval_nat_numeral)
    then show ?thesis by (metis append_take_drop_id)
  qed
  have "list_all (\<lambda>c. 0 < byte c \<and> byte c < 0x80) (''sha256:'' @ drop 7 s)"
    using d by (auto simp: digestPattern_def list_all_iff lower_hex_def is_digit_def byte_def)
  then have "list_all (\<lambda>c. 0 < byte c \<and> byte c < 0x80) s" by (subst s)
  then show ?thesis by (rule pg_text_ascii)
qed

definition demo_web :: weblib where
  "demo_web = \<lparr>ParseMediaType = Some, range_keys = id\<rparr>"

definition demo_header :: "string \<Rightarrow> string" where
  "demo_header k =
     (if k = ''Authorization'' then ''bearer token'' else if k = ''X-Request-Id'' then '' req-9''
      else if k = ''X-Kokoro-Tenant-Id'' then ''acme'' else if k = ''Idempotency-Key'' then ''key-9''
      else if k = ''Content-Type'' then ''application/json'' else [])"

definition demo_delete_request :: http_request where
  "demo_delete_request =
     \<lparr>rq_Method = ''DELETE'', rq_Path = SchedulesPathPrefix @ ''job'', rq_RawQuery = [], rq_ForceQuery = False,
      rq_Header = demo_header, rq_Body = None\<rparr>"

definition demo_delete :: Command where
  "demo_delete = commandFor demo_delete_request ''req-9'' ''acme'' ''job'' [] zeroSchedule ''{}''"

definition demo_call :: call where
  "demo_call = \<lparr>e_fault = NoFault, e_other = id, e_now = demo_due, e_stamp = demo_due\<rparr>"

lemma demo_delete_request_ok:
  "command_request demo_lib demo_web demo_delete_request ''req-9'' ''acme'' ''job'' [] zeroSchedule ''{}''"
  by code_simp

lemma demo_delete_prepared: "prepare demo_lib demo_delete = Inr demo_delete"
  using command_prepared [OF demo_delete_request_ok] by (simp add: demo_delete_def demo_delete_request_def)

definition demo_deletion :: CommandReceipt where
  "demo_deletion = newReceipt demo_delete \<lparr>c_Code = ''deleted'', c_Name = ''job'', c_Schedule = None\<rparr> demo_due"

lemma demo_delete_applied:
  "apply_command demo_lib demo_pg id demo_due demo_delete demo_db1 =
     Inr (\<lparr>c_Code = ''deleted'', c_Name = ''job'', c_Schedule = None\<rparr>, demo_db1\<lparr>schedules := []\<rparr>)"
  by code_simp

lemma demo_delete_fresh: "lookup_receipt (command_key demo_delete) demo_db1 = None" "key_text (command_key demo_delete)"
  by code_simp+

definition demo_db_deleted :: db where
  "demo_db_deleted = snd (Execute demo_lib demo_pg NoFault id demo_due demo_due demo_delete demo_db1)"

lemma demo_delete_row: "ck_receipt (new_receipt demo_pg demo_deletion (rc_Result demo_deletion) n)"
proof -
  have "digestPattern (rc_RequestDigest demo_deletion)"
    by (simp add: demo_deletion_def newReceipt_def demo_delete_def fingerprint_digest)
  moreover from this have "pg_text (rc_RequestDigest demo_deletion)" by (rule digest_text)
  moreover have "list_all pg_text [rc_TenantID demo_deletion, rc_CommandScope demo_deletion, rc_IdempotencyKey demo_deletion,
      rc_RequestID demo_deletion, ''deleted''] \<and> ck_tenant (rc_TenantID demo_deletion) \<and>
      rc_CommandScope demo_deletion \<noteq> [] \<and> char_length (rc_CommandScope demo_deletion) \<le> 256 \<and>
      rc_IdempotencyKey demo_deletion \<noteq> [] \<and> char_length (rc_IdempotencyKey demo_deletion) \<le> 256 \<and>
      rc_RequestID demo_deletion \<noteq> [] \<and> char_length (rc_RequestID demo_deletion) \<le> 128"
    by code_simp
  moreover have "c_Code (rc_Result demo_deletion) = ''deleted''" by (simp add: demo_deletion_def newReceipt_def)
  ultimately show ?thesis by (simp add: ck_receipt_def new_receipt_def)
qed

lemma demo_delete_executed:
  "Execute demo_lib demo_pg NoFault id demo_due demo_due demo_delete demo_db1 = (Inr demo_deletion, demo_db_deleted)"
  "length (receipts demo_db_deleted) = 2"
proof -
  have ins: "\<exists>d'. InsertCommandReceipt demo_pg demo_deletion (demo_db1\<lparr>schedules := []\<rparr>) = Inr ((), d') \<and> length (receipts d') = 2"
  proof -
    have "list_all (\<lambda>r. re_id r \<noteq> re_id (new_receipt demo_pg demo_deletion (rc_Result demo_deletion) (uuid_seq demo_db1))
        \<and> \<not> receipt_key (rc_TenantID demo_deletion) (rc_CommandScope demo_deletion) (rc_IdempotencyKey demo_deletion) r)
        (receipts demo_db1)" by code_simp
    moreover have "length (receipts demo_db1) = 1" by code_simp
    moreover have "result_jsonb demo_pg = Some" by (simp add: demo_pg_def)
    ultimately show ?thesis using demo_delete_row by (simp add: InsertCommandReceipt_def Let_def)
  qed
  then obtain d' where d': "InsertCommandReceipt demo_pg demo_deletion (demo_db1\<lparr>schedules := []\<rparr>) = Inr ((), d')"
      "length (receipts d') = 2" by blast
  have "execute_tx demo_lib demo_pg id demo_due demo_due demo_delete demo_db1 = Inr (demo_deletion, d')"
    using demo_delete_fresh demo_delete_applied d'(1)
    by (simp add: execute_tx_def LockCommandIdentity_def FindCommandReceipt_def lookup_receipt_def command_key_def key_text_def
        demo_deletion_def Let_def)
  then have x: "Execute demo_lib demo_pg NoFault id demo_due demo_due demo_delete demo_db1 = (Inr demo_deletion, d')"
    by (simp add: Execute_def WithinTx_def demo_delete_prepared)
  then show "Execute demo_lib demo_pg NoFault id demo_due demo_due demo_delete demo_db1 = (Inr demo_deletion, demo_db_deleted)"
    and "length (receipts demo_db_deleted) = 2"
    using d'(2) by (simp_all add: demo_db_deleted_def)
qed


lemma demo_delete_served:
  "served demo_lib demo_web demo_pg demo_call ''token'' demo_delete_request demo_db1 =
     (answer [''X-Request-Id'' \<mapsto> ''req-9''] demo_deletion, demo_db_deleted)"
  "rs_Status (answer [''X-Request-Id'' \<mapsto> ''req-9''] demo_deletion) = 200"
proof -
  have "authorized (NewHandler (Some (application_service demo_lib demo_pg demo_call)) ''token'') demo_delete_request"
    by code_simp
  from ServeHTTP_command [OF this demo_delete_request_ok]
  show "served demo_lib demo_web demo_pg demo_call ''token'' demo_delete_request demo_db1 =
     (answer [''X-Request-Id'' \<mapsto> ''req-9''] demo_deletion, demo_db_deleted)"
    using demo_delete_executed(1)
    by (simp add: served_def NewHandler_def application_service_def demo_call_def executed_def demo_delete_def)
  show "rs_Status (answer [''X-Request-Id'' \<mapsto> ''req-9''] demo_deletion) = 200"
    by code_simp
qed

definition demo_body :: string where
  "demo_body = ''{'' @ [CHR 0x22] @ ''request body too large'' @ [CHR 0x22] @ '':null}''"

definition demo_small_request :: http_request where
  "demo_small_request = demo_delete_request\<lparr>rq_Method := ''POST'', rq_Body := Some (demo_body, None)\<rparr>"

end
