(* ===== verification/Client.thy ===== *)
theory Client
  imports Domain JsonText
begin

text \<open>
  The outbound client of \<^verbatim>\<open>internal/adapters/httpclient/client.go\<close>: resolving a target under the
  address policy, the request it sends with the pinned address, and the classification of what
  comes back. What the resolver and the transport answer and whether the request's context has
  ended are parameters. The request shows the address and the port it is sent to instead of
  their joined text.
\<close>

section \<open>The client\<close>

text \<open>
  Of \<^verbatim>\<open>http.Client\<close> the model has the timeout, whether its transport is the standard one, which
  a nil transport stands for, and whether redirects are followed.
\<close>

record http_client =
  hc_Timeout :: duration
  hc_standardTransport :: bool
  hc_followRedirects :: bool

record Client =
  cl_httpClient :: http_client
  cl_targetServiceToken :: string
  cl_allowlist :: "(string \<Rightarrow> addr \<Rightarrow> bool) option"

definition NewClientWithResolver ::
  "http_client option \<Rightarrow> string \<Rightarrow> (string \<Rightarrow> addr \<Rightarrow> bool) option \<Rightarrow> Client" where
  "NewClientWithResolver httpClient targetServiceToken allowlist =
     (let client = (case httpClient of
          Some hc \<Rightarrow> hc
        | None \<Rightarrow> \<lparr>hc_Timeout = 0, hc_standardTransport = True, hc_followRedirects = True\<rparr>)
      in \<lparr>cl_httpClient = client\<lparr>hc_followRedirects := False\<rparr>,
          cl_targetServiceToken = TrimSpace targetServiceToken, cl_allowlist = allowlist\<rparr>)"

definition NewClient :: "http_client option \<Rightarrow> string \<Rightarrow> Client" where
  "NewClient httpClient targetServiceToken = NewClientWithResolver httpClient targetServiceToken None"

definition NewDefaultClientWithAllowlist ::
  "duration \<Rightarrow> string \<Rightarrow> (string \<Rightarrow> addr \<Rightarrow> bool) option \<Rightarrow> Client" where
  "NewDefaultClientWithAllowlist timeout targetServiceToken allowlist =
     NewClientWithResolver
       (Some \<lparr>hc_Timeout = (if timeout \<le> 0 then 30 * Second else timeout),
          hc_standardTransport = True, hc_followRedirects = True\<rparr>)
       targetServiceToken allowlist"

definition NewDefaultClient :: "duration \<Rightarrow> string \<Rightarrow> Client" where
  "NewDefaultClient timeout targetServiceToken = NewDefaultClientWithAllowlist timeout targetServiceToken None"

section \<open>Resolving a target\<close>

definition errTargetRejected :: goerr where
  "errTargetRejected = Err ''target rejected by outbound policy'' []"

definition targetAddressAllowed :: "Client \<Rightarrow> string \<Rightarrow> addr \<Rightarrow> bool" where
  "targetAddressAllowed c hostname address \<longleftrightarrow>
     (case cl_allowlist c of
        Some allows \<Rightarrow> allows hostname address
      | None \<Rightarrow> IsSafeTargetAddress address)"

text \<open>\<open>lookup\<close> is the resolver's answer. An error under \<^verbatim>\<open>%v\<close> is only text.\<close>

definition resolveTarget ::
  "golib \<Rightarrow> (string \<Rightarrow> addr list res) \<Rightarrow> Client \<Rightarrow> string \<Rightarrow> (url \<times> addr) res" where
  "resolveTarget g lookup c rawURL =
     (case ValidateTargetURLSyntax (url_Parse g) (netip_ParseAddr g) rawURL of
        Some err \<Rightarrow> Inl (ErrWrap (''%w: '' @ Error err) [] errTargetRejected)
      | None \<Rightarrow>
      case url_Parse g rawURL of
        None \<Rightarrow> Inl (Err ''parse %q'' [rawURL])
      | Some parsedURL \<Rightarrow>
          let hostname = Hostname parsedURL
          in case (case netip_ParseAddr g hostname of
                     Some ip \<Rightarrow> Inr [ip]
                   | None \<Rightarrow>
                       (case lookup hostname of
                          Inl err \<Rightarrow> Inl (ErrWrap ''resolve target host: %w'' [] err)
                        | Inr addresses \<Rightarrow> Inr addresses)) of
            Inl err \<Rightarrow> Inl err
          | Inr addresses \<Rightarrow>
              (case find (targetAddressAllowed c hostname) (map Unmap addresses) of
                 Some address \<Rightarrow> Inr (parsedURL, address)
               | None \<Rightarrow>
                   Inl (ErrWrap ''%w: target resolved to a disallowed IP address'' [] errTargetRejected)))"

section \<open>The request\<close>

definition defaultPort :: "string \<Rightarrow> string" where
  "defaultPort scheme = (if EqualFold scheme ''https'' then ''443'' else ''80'')"

definition traceparent :: "string \<Rightarrow> string \<Rightarrow> string" where
  "traceparent traceID requestID =
     ''00-'' @ traceID @ ''-'' @ take 16 (hexSha256 (requestID @ '':dispatch'')) @ ''-01''"

record target_request =
  t_Method :: string
  t_URL :: string
  t_Host :: string
  t_Address :: addr
  t_Port :: string
  t_Header :: "string \<rightharpoonup> string"
  t_Body :: string
  t_ServerName :: "string option"
  t_Proxied :: bool

text \<open>The characters of a token, from which \<^verbatim>\<open>http.NewRequest\<close> accepts a method.\<close>

definition token_char :: "char \<Rightarrow> bool" where
  "token_char c \<longleftrightarrow>
     is_digit c \<or> (65 \<le> byte c \<and> byte c \<le> 90) \<or> (97 \<le> byte c \<and> byte c \<le> 122)
     \<or> c \<in> set (''!#$%&'' @ [CHR 0x27] @ ''*+-.^_'' @ [CHR 0x60] @ ''|~'')"

definition newRequest ::
  "Client \<Rightarrow> DispatchWork \<Rightarrow> OccurrenceIdentityValue \<Rightarrow> string \<Rightarrow> url \<Rightarrow> addr \<Rightarrow> target_request" where
  "newRequest c work identity body parsedURL targetAddress =
     (let headers =
        [''Content-Type'' \<mapsto> ''application/json'', ''X-Kokoro-Tenant-Id'' \<mapsto> w_TenantID work,
         ''X-Kokoro-Scheduler-Schedule'' \<mapsto> w_ScheduleName work,
         ''X-Kokoro-Scheduler-Occurrence'' \<mapsto> formatRFC3339 (i_ScheduledAt identity),
         ''X-Request-Id'' \<mapsto> i_RequestID identity, ''Idempotency-Key'' \<mapsto> i_IdempotencyKey identity,
         ''traceparent'' \<mapsto> traceparent (i_TraceID identity) (i_RequestID identity)]
      in \<lparr>t_Method = (if w_Method work = [] then ''GET'' else w_Method work), t_URL = w_TargetURL work,
          t_Host = Host parsedURL, t_Address = targetAddress,
          t_Port = (if Port parsedURL = [] then defaultPort (Scheme parsedURL) else Port parsedURL),
          t_Header =
            (if cl_targetServiceToken c \<noteq> []
             then headers(''Authorization'' \<mapsto> ''Bearer '' @ cl_targetServiceToken c) else headers),
          t_Body = body, t_ServerName = None, t_Proxied = True\<rparr>)"

text \<open>The standard transport is copied without a proxy and with the name the certificate must carry.\<close>

definition doResolved :: "Client \<Rightarrow> url \<Rightarrow> target_request \<Rightarrow> target_request" where
  "doResolved c parsedURL request =
     (if hc_standardTransport (cl_httpClient c)
      then request\<lparr>t_Proxied := False,
             t_ServerName := (if Scheme parsedURL = ''https'' then Some (Hostname parsedURL) else None)\<rparr>
      else request)"

section \<open>Classification\<close>

definition ctx_is :: "goerr option \<Rightarrow> goerr \<Rightarrow> bool" where
  "ctx_is ctxErr t \<longleftrightarrow> (case ctxErr of None \<Rightarrow> False | Some e \<Rightarrow> errors_Is e t)"

definition classifyTransportError :: "goerr option \<Rightarrow> goerr \<Rightarrow> string" where
  "classifyTransportError ctxErr err =
     (if ctx_is ctxErr ErrContextCanceled \<or> errors_Is err ErrContextCanceled then CodeCancelled
      else if ctx_is ctxErr ErrDeadlineExceeded \<or> errors_Is err ErrDeadlineExceeded then CodeTargetTimeout
      else if errors_Is err errTargetRejected then CodeTargetRejected
      else CodeTargetUnavailable)"

text \<open>A \<^verbatim>\<open>url.Error\<close> wraps the cause with the method and the URL.\<close>

definition url_error :: string where "url_error = ''%s %q: %w''"

fun as_url_error :: "goerr \<Rightarrow> goerr option" where
  "as_url_error (ErrWrap f xs e) = (if f = url_error then Some e else as_url_error e)"
| "as_url_error (ErrJoin a b) = (case as_url_error a of Some e \<Rightarrow> Some e | None \<Rightarrow> as_url_error b)"
| "as_url_error e = None"

definition sanitizeTransportError :: "goerr \<Rightarrow> goerr" where
  "sanitizeTransportError err =
     (case as_url_error err of
        Some cause \<Rightarrow> ErrWrap ''dispatch target request: %w'' [] cause
      | None \<Rightarrow> err)"

section \<open>Dispatch\<close>

text \<open>
  A response has its status, the announced length of its body, negative when it is unknown, the
  number of bytes that arrive and the error that ends them, if any.
\<close>

record target_response =
  tr_StatusCode :: int
  tr_ContentLength :: int
  tr_BodyBytes :: int
  tr_BodyErr :: "goerr option"

definition MaxResponseBodyBytes :: int where "MaxResponseBodyBytes = 1048576"

definition errTooLarge :: goerr where
  "errTooLarge = Err ''target response body exceeds %d bytes'' [''1048576'']"

definition classifyResponse :: "target_response \<Rightarrow> DispatchResult \<Rightarrow> DispatchResult" where
  "classifyResponse response base =
     (let status = tr_StatusCode response; result = base\<lparr>r_Status := status\<rparr>
      in if tr_ContentLength response > MaxResponseBodyBytes
         then result\<lparr>r_Code := CodeTargetRejected, r_Err := Some errTooLarge\<rparr>
         else if tr_BodyBytes response \<le> MaxResponseBodyBytes \<and> tr_BodyErr response \<noteq> None
         then result\<lparr>r_Code := CodeTargetUnavailable, r_Err := tr_BodyErr response\<rparr>
         else if tr_BodyBytes response > MaxResponseBodyBytes
         then result\<lparr>r_Code := CodeTargetRejected, r_Err := Some errTooLarge\<rparr>
         else if \<not> Succeeded result
         then result\<lparr>r_Code := (if status = 408 \<or> status = 425 \<or> status = 429 \<or> status \<ge> 500
                               then CodeTargetUnavailable else CodeTargetPermanent),
                     r_Err := Some (Err ''target returned HTTP %d'' [Itoa status])\<rparr>
         else result)"

text \<open>
  What one dispatch meets: the resolver, the transport, and the state of the context when
  resolving and when sending has failed. The second component of the result is the request that
  was handed to the transport.
\<close>

record surroundings =
  x_lookup :: "string \<Rightarrow> addr list res"
  x_transport :: "target_request \<Rightarrow> target_response res"
  x_resolveCtx :: "goerr option"
  x_sendCtx :: "goerr option"

definition Dispatch ::
  "golib \<Rightarrow> surroundings \<Rightarrow> Client \<Rightarrow> DispatchWork \<Rightarrow> DispatchResult \<times> target_request option" where
  "Dispatch g x c work =
     (let identity = OccurrenceIdentity (ScheduleSnapshot work) (w_ScheduledAt work);
          result = zeroResult\<lparr>r_RequestID := i_RequestID identity, r_IdempotencyKey := i_IdempotencyKey identity,
                     r_TraceID := i_TraceID identity\<rparr>;
          body = (if w_Payload work = [] then ''{}'' else w_Payload work)
      in if json_decode body = None then
           (result\<lparr>r_Err := Some (Err ''dispatch payload is invalid JSON'' []), r_Code := CodeTargetRejected\<rparr>, None)
         else case resolveTarget g (x_lookup x) c (w_TargetURL work) of
           Inl err \<Rightarrow>
             (result\<lparr>r_Code := classifyTransportError (x_resolveCtx x) err, r_Err := Some err\<rparr>, None)
         | Inr (parsedURL, targetAddress) \<Rightarrow>
             if \<not> list_all token_char (w_Method work) then
               (result\<lparr>r_Err := Some (Err ''net/http: invalid method %q'' [w_Method work]),
                       r_Code := CodeTargetRejected\<rparr>, None)
             else
               let request = doResolved c parsedURL (newRequest c work identity body parsedURL targetAddress)
               in (case x_transport x request of
                     Inl err \<Rightarrow>
                       result\<lparr>r_Code := classifyTransportError (x_sendCtx x) err,
                         r_Err := Some (sanitizeTransportError err)\<rparr>
                   | Inr response \<Rightarrow> classifyResponse response result,
                   Some request))"

section \<open>The address policy\<close>

lemma resolveTarget_allowed:
  assumes "resolveTarget g lookup c rawURL = Inr (u, a)"
  shows "targetAddressAllowed c (Hostname u) a"
    and "url_Parse g rawURL = Some u"
    and "ValidateTargetURLSyntax (url_Parse g) (netip_ParseAddr g) rawURL = None"
    and "netip_ParseAddr g (Hostname u) = Some ip \<Longrightarrow> a = Unmap ip"
    and "netip_ParseAddr g (Hostname u) = None \<Longrightarrow> \<exists>as. lookup (Hostname u) = Inr as \<and> a \<in> Unmap ` set as"
  using assms
  by (auto simp: resolveTarget_def Let_def find_Some_iff split: option.splits sum.splits if_splits)

lemma newRequest_fields [simp]:
  "t_Address (newRequest c work i body u a) = a" "t_Host (newRequest c work i body u a) = Host u"
  "t_URL (newRequest c work i body u a) = w_TargetURL work"
  "t_Header (newRequest c work i body u a) ''Idempotency-Key'' = Some (i_IdempotencyKey i)"
  by (simp_all add: newRequest_def Let_def)

lemma doResolved_fields [simp]:
  "t_Address (doResolved c u r) = t_Address r" "t_Host (doResolved c u r) = t_Host r"
  "t_URL (doResolved c u r) = t_URL r" "t_Header (doResolved c u r) = t_Header r"
  "hc_standardTransport (cl_httpClient c) \<Longrightarrow> \<not> t_Proxied (doResolved c u r)"
  by (simp_all add: doResolved_def)

lemma Dispatch_sent:
  assumes "Dispatch g x c work = (res, Some rq)"
  obtains u where "resolveTarget g (x_lookup x) c (w_TargetURL work) = Inr (u, t_Address rq)"
    and "t_Host rq = Host u" and "t_URL rq = w_TargetURL work"
    and "hc_standardTransport (cl_httpClient c) \<longrightarrow> \<not> t_Proxied rq"
    and "t_Header rq ''Idempotency-Key'' =
      Some (i_IdempotencyKey (OccurrenceIdentity (ScheduleSnapshot work) (w_ScheduledAt work)))"
proof (cases "resolveTarget g (x_lookup x) c (w_TargetURL work)")
  case (Inl e)
  then show thesis using assms by (simp add: Dispatch_def Let_def split: if_splits)
next
  case (Inr p)
  obtain u a where p: "p = (u, a)" by (cases p)
  show thesis
    using assms Inr p that [of u] unfolding Dispatch_def Let_def by (auto split: if_splits)
qed

lemma Dispatch_sends:
  assumes "json_decode (if w_Payload work = [] then ''{}'' else w_Payload work) \<noteq> None"
    and "resolveTarget g (x_lookup x) c (w_TargetURL work) = Inr (u, a)" and "list_all token_char (w_Method work)"
  shows "\<exists>res rq. Dispatch g x c work = (res, Some rq)"
  using assms by (auto simp: Dispatch_def Let_def)

text \<open>A response is final, retried or a success as the domain's retry rule has it.\<close>

definition too_large :: "target_response \<Rightarrow> bool" where
  "too_large r \<longleftrightarrow> tr_ContentLength r > MaxResponseBodyBytes \<or> tr_BodyBytes r > MaxResponseBodyBytes"

lemma classifyResponse_Succeeded:
  assumes "r_Err base = None"
  shows "Succeeded (classifyResponse r base) \<longleftrightarrow>
    200 \<le> tr_StatusCode r \<and> tr_StatusCode r < 300 \<and> \<not> too_large r \<and> tr_BodyErr r = None"
  using assms by (auto simp: classifyResponse_def Succeeded_def too_large_def Let_def)

lemma classifyResponse_Retryable:
  assumes "r_Err base = None" and "r_Code base = []"
  shows "RetryableDispatch (classifyResponse r base) \<longleftrightarrow>
    \<not> too_large r \<and> (tr_BodyErr r \<noteq> None \<or> tr_StatusCode r \<in> {408, 425, 429} \<or> 500 \<le> tr_StatusCode r)"
  using assms
  by (auto simp: classifyResponse_def Succeeded_def RetryableDispatch_def too_large_def Let_def code_literals)

end
