(* ===== verification/Wiring.thy ===== *)
theory Wiring
  imports Dispatcher Client
begin

text \<open>
  Dispatcher and target client together: the response of the target decides what the dispatcher
  records.
\<close>

lemma Dispatch_response:
  assumes "Dispatch g x c work = (res, Some rq)" and "x_transport x rq = Inr response"
  obtains base where "res = classifyResponse response base" and "r_Err base = None" and "r_Code base = []"
proof (cases "resolveTarget g (x_lookup x) c (w_TargetURL work)")
  case (Inl e)
  then show thesis using assms by (simp add: Dispatch_def Let_def split: if_splits)
next
  case (Inr p)
  obtain u a where p: "p = (u, a)" by (cases p)
  let ?id = "OccurrenceIdentity (ScheduleSnapshot work) (w_ScheduledAt work)"
  let ?base = "zeroResult\<lparr>r_RequestID := i_RequestID ?id, r_IdempotencyKey := i_IdempotencyKey ?id, r_TraceID := i_TraceID ?id\<rparr>"
  have "res = classifyResponse response ?base"
    using assms Inr p unfolding Dispatch_def Let_def by (auto split: if_splits)
  then show thesis by (rule that) (simp_all add: zeroResult_def)
qed

lemma outcome_of_attempt:
  assumes "attempt_error wd = None"
  shows "Succeeded (attemptResult wd work) = Succeeded (target_answer wd work)"
    and "RetryableDispatch (attemptResult wd work) = RetryableDispatch (target_answer wd work)"
  using assms
  by (simp_all add: attemptResult_def normalizeAttemptResult_def Succeeded_def RetryableDispatch_def)

lemma decision_cases:
  "persistDecision random now work result = Complete \<longleftrightarrow> Succeeded result"
  "persistDecision random now work result = Retry t \<Longrightarrow>
     \<not> Succeeded result \<and> RetryableDispatch result \<and> w_AttemptCount work < MaxAttempts (w_Retry work)"
  by (auto simp: persistDecision_def Let_def split: if_splits sum.splits)

end
