(* ===== verification/Config.thy ===== *)
theory Config
  imports Domain JsonKeys Requests
begin

text \<open>
  The configuration of \<^verbatim>\<open>internal/config/config.go\<close> and the text of the target allowlist
  (\<^verbatim>\<open>target_allowlist.go\<close>), read from an environment. \<^verbatim>\<open>url.Parse\<close>, \<^verbatim>\<open>url.ParseQuery\<close>,
  \<^verbatim>\<open>Values.Encode\<close>, \<^verbatim>\<open>URL.String\<close> and \<^verbatim>\<open>netip.ParsePrefix\<close> are parameters; a query is the list of
  its keys with their values, in the order in which \<^verbatim>\<open>range\<close> visits them. The lemmas show what a
  configuration that was loaded guarantees.
\<close>

record store_url =
  u_Scheme :: string
  u_Host :: string
  u_Path :: string
  u_RawQuery :: string
  u_Rest :: string

type_synonym query = "(string \<times> string list) list"

record configlib =
  url_ParseStore :: "string \<Rightarrow> store_url option"
  ParseQuery :: "string \<Rightarrow> query option"
  EncodeQuery :: "query \<Rightarrow> string"
  url_String :: "store_url \<Rightarrow> string"
  ParseAddr :: "string \<Rightarrow> addr option"
  ParsePrefix :: "string \<Rightarrow> prefix option"

section \<open>The database\<close>

record DatabaseTarget =
  driverURL :: string
  schemaName :: string

text \<open>\<^verbatim>\<open>unicode.IsControl\<close> on the runes of a text.\<close>

fun has_control :: "string \<Rightarrow> bool" where
  "has_control [] = False"
| "has_control (c # s) =
     (byte c < 0x20 \<or> byte c = 0x7f
      \<or> (c = CHR 0xC2 \<and> (case s of [] \<Rightarrow> False | d # _ \<Rightarrow> 0x80 \<le> byte d \<and> byte d \<le> 0x9f))
      \<or> has_control s)"

definition selectorError :: "string \<Rightarrow> goerr option" where
  "selectorError key =
     (let k = ToLower key
      in if k = ''schema'' then
           (if key \<noteq> ''schema'' then Some (Err ''database URL must use the exact schema selector key'' []) else None)
         else if k = ''options'' \<or> k = ''search_path'' \<or> k = ''timezone''
         then Some (Err ''database URL must not override namespace or timezone'' [])
         else None)"

fun first_selector_error :: "query \<Rightarrow> goerr option" where
  "first_selector_error [] = None"
| "first_selector_error ((k, vs) # q) =
     (case selectorError k of Some err \<Rightarrow> Some err | None \<Rightarrow> first_selector_error q)"

definition schema_letter :: "char \<Rightarrow> bool" where
  "schema_letter c \<longleftrightarrow> 97 \<le> byte c \<and> byte c \<le> 122"

definition schemaIdentifier :: "string \<Rightarrow> bool" where
  "schemaIdentifier s \<longleftrightarrow>
     (case s of [] \<Rightarrow> True
      | c # cs \<Rightarrow> schema_letter c \<and> list_all (\<lambda>c. schema_letter c \<or> is_digit c \<or> c = CHR ''_'') cs)"

definition query_Del :: "string \<Rightarrow> query \<Rightarrow> query" where
  "query_Del k q = filter (\<lambda>x. fst x \<noteq> k) q"

definition query_Set :: "string \<Rightarrow> string \<Rightarrow> query \<Rightarrow> query" where
  "query_Set k v q = query_Del k q @ [(k, [v])]"

definition errDatabaseURL :: goerr where
  "errDatabaseURL = Err ''value must be an absolute postgres or postgresql database URL without a fragment'' []"

definition databaseQuery :: "string \<Rightarrow> query \<Rightarrow> query" where
  "databaseQuery schema q = query_Set ''timezone'' ''UTC'' (query_Set ''search_path'' schema (query_Del ''schema'' q))"

definition ParseDatabaseURL :: "configlib \<Rightarrow> string \<Rightarrow> DatabaseTarget res" where
  "ParseDatabaseURL l rawURL0 =
     (if has_control rawURL0 then Inl (Err ''database URL must not contain raw control characters'' [])
      else let rawURL = TrimSpace rawURL0
      in if rawURL = [] then Inl (Err ''value is required'' [])
      else case url_ParseStore l rawURL of
        None \<Rightarrow> Inl errDatabaseURL
      | Some parsed \<Rightarrow>
      if (u_Scheme parsed \<noteq> ''postgres'' \<and> u_Scheme parsed \<noteq> ''postgresql'') \<or> u_Host parsed = []
         \<or> list_all (\<lambda>c. c = CHR ''/'') (u_Path parsed) \<or> ContainsByte rawURL (CHR ''#'')
      then Inl errDatabaseURL
      else case ParseQuery l (u_RawQuery parsed) of
        None \<Rightarrow> Inl (Err ''database URL query must use valid encoding'' [])
      | Some q \<Rightarrow>
      case first_selector_error q of
        Some err \<Rightarrow> Inl err
      | None \<Rightarrow>
      case map_of q ''schema'' of
        Some [schema] \<Rightarrow>
          if schema = [] \<or> length schema > 63
          then Inl (Err ''database URL requires exactly one nonempty schema selector of at most 63 ASCII bytes'' [])
          else if \<not> schemaIdentifier schema
          then Inl (Err ''database schema must be a lowercase ASCII identifier starting with a letter'' [])
          else if schema = ''public'' \<or> HasPrefix schema ''pg_''
          then Inl (Err ''database schema must be an explicit nonreserved owner namespace'' [])
          else Inr \<lparr>driverURL = url_String l (parsed\<lparr>u_RawQuery := EncodeQuery l (databaseQuery schema q)\<rparr>),
                     schemaName = schema\<rparr>
      | _ \<Rightarrow> Inl (Err ''database URL requires exactly one nonempty schema selector of at most 63 ASCII bytes'' []))"

section \<open>Values\<close>

definition validateRedisDBSeven :: "configlib \<Rightarrow> string \<Rightarrow> goerr option" where
  "validateRedisDBSeven l rawURL =
     (let err = Some (Err ''configured Redis URL must select logical DB 7'' [])
      in case url_ParseStore l rawURL of
        None \<Rightarrow> err
      | Some parsed \<Rightarrow>
          if (u_Scheme parsed \<noteq> ''redis'' \<and> u_Scheme parsed \<noteq> ''rediss'') \<or> u_Host parsed = [] \<or> u_Path parsed \<noteq> ''/7''
          then err else None)"

definition maximumConfiguredDuration :: duration where "maximumConfiguredDuration = 24 * Hour"
definition defaultWakeupInterval :: duration where "defaultWakeupInterval = Second"
definition defaultClaimTTL :: duration where "defaultClaimTTL = 2 * Minute"
definition defaultDispatchTimeout :: duration where "defaultDispatchTimeout = 30 * Second"
definition defaultBatchSize :: int where "defaultBatchSize = 100"
definition maximumBatchSize :: int where "maximumBatchSize = 1000"
definition defaultHTTPAddr :: string where "defaultHTTPAddr = '':8080''"

definition durationValue :: "(string \<Rightarrow> string) \<Rightarrow> string \<Rightarrow> duration \<Rightarrow> duration res" where
  "durationValue getenv name fallback =
     (let raw = TrimSpace (getenv name)
      in if raw = [] then Inr fallback
         else case ParseDuration raw of
           Some v \<Rightarrow>
             if v \<le> 0 \<or> v > maximumConfiguredDuration
             then Inl (Err ''load %s: value must be a duration between 1ns and %s'' [name, ''24h0m0s''])
             else Inr v
         | None \<Rightarrow> Inl (Err ''load %s: value must be a duration between 1ns and %s'' [name, ''24h0m0s'']))"

definition integerValue :: "(string \<Rightarrow> string) \<Rightarrow> string \<Rightarrow> int \<Rightarrow> int \<Rightarrow> int \<Rightarrow> int res" where
  "integerValue getenv name fallback minimum maximum =
     (let raw = TrimSpace (getenv name);
          err = Err ''load %s: value must be an integer between %d and %d'' [name, Itoa minimum, Itoa maximum]
      in if raw = [] then Inr fallback
         else case Atoi raw of
           Some v \<Rightarrow> if v < minimum \<or> v > maximum then Inl err else Inr v
         | None \<Rightarrow> Inl err)"

section \<open>The text of the allowlist\<close>

text \<open>
  Decoding into a slice of entries: \<^verbatim>\<open>null\<close> gives a nil slice, a \<^verbatim>\<open>null\<close> element leaves an empty
  entry, a \<^verbatim>\<open>null\<close> CIDR an empty text; the first error is reported.
\<close>

fun elements_of :: "nat \<Rightarrow> nat \<Rightarrow> string \<Rightarrow> (json \<times> string) list option" where
  "elements_of 0 d s = None"
| "elements_of (Suc n) d s =
     (let t = skip_ws s
      in case parse_value n d t of
        None \<Rightarrow> None
      | Some (v, r) \<Rightarrow>
          let e = (v, take (length t - length r) t)
          in if HasPrefix (skip_ws r) '','' then map_option ((#) e) (elements_of n d (tl (skip_ws r)))
             else if HasPrefix (skip_ws r) '']'' then Some [e]
             else None)"

definition decodeArray :: "string \<Rightarrow> (json \<times> string) list option" where
  "decodeArray body =
     (case json_decode body of
        Some (JArr _) \<Rightarrow>
          (let t = tl (skip_ws body)
           in if HasPrefix (skip_ws t) '']'' then Some [] else elements_of (length body) (maxNestingDepth - 1) t)
      | _ \<Rightarrow> None)"

record targetAllowlistEntry =
  al_Host :: string
  al_CIDRs :: "string list"

fun to_strings :: "json list \<Rightarrow> string list \<times> goerr option" where
  "to_strings [] = ([], None)"
| "to_strings (v # vs) =
     (case (to_string ''cidrs'' v [], to_strings vs) of
        ((s, e), (ss, e')) \<Rightarrow> (s # ss, case e of Some err \<Rightarrow> Some err | None \<Rightarrow> e'))"

definition store_entry :: "member \<Rightarrow> targetAllowlistEntry \<Rightarrow> targetAllowlistEntry \<times> goerr option" where
  "store_entry m t =
     (case m of (key, v, raw) \<Rightarrow>
        case field_of [''host'', ''cidrs''] key of
          None \<Rightarrow> (t, Some (unknown_field key))
        | Some field \<Rightarrow>
            if field = ''host'' then map_prod (\<lambda>x. t\<lparr>al_Host := x\<rparr>) id (to_string field v (al_Host t))
            else (case v of
                    JArr vs \<Rightarrow> map_prod (\<lambda>x. t\<lparr>al_CIDRs := x\<rparr>) id (to_strings vs)
                  | JNull \<Rightarrow> (t\<lparr>al_CIDRs := []\<rparr>, None)
                  | _ \<Rightarrow> (t, Some (type_error (json_kind v) field ''[]string''))))"

definition to_entry :: "json \<times> string \<Rightarrow> targetAllowlistEntry \<times> goerr option" where
  "to_entry e =
     (let t = \<lparr>al_Host = [], al_CIDRs = []\<rparr>
      in case fst e of
        JNull \<Rightarrow> (t, None)
      | JObj _ \<Rightarrow>
          (case decodeObject (snd e) of
             Some ms \<Rightarrow> decode_members store_entry ms t
           | None \<Rightarrow> (t, Some json_syntax))
      | v \<Rightarrow> (t, Some (type_error (json_kind v) ''entry'' ''config.targetAllowlistEntry'')))"

fun to_entries :: "(json \<times> string) list \<Rightarrow> targetAllowlistEntry list \<times> goerr option" where
  "to_entries [] = ([], None)"
| "to_entries (e # es) =
     (case (to_entry e, to_entries es) of
        ((t, err), (ts, err')) \<Rightarrow> (t # ts, case err of Some x \<Rightarrow> Some x | None \<Rightarrow> err'))"

definition allowlist_env :: string where
  "allowlist_env = ''SCHEDULER_INTERNAL_TARGET_ALLOWLIST''"

text \<open>The position of an entry, which an error names, is left out.\<close>

definition ParseInternalTargetAllowlist :: "configlib \<Rightarrow> string \<Rightarrow> TargetAllowlist option res" where
  "ParseInternalTargetAllowlist l raw =
     (if TrimSpace raw = [] then Inr None
      else case config_ensureNoDuplicateJSONKeys raw of
        Some err \<Rightarrow> Inl (ErrWrap ''decode %s: %w'' [allowlist_env] err)
      | None \<Rightarrow>
      case json_decode raw of
        None \<Rightarrow> Inl (ErrWrap ''decode %s: %w'' [allowlist_env] json_syntax)
      | Some JNull \<Rightarrow> Inl (Err ''decode %s: expected a JSON array'' [allowlist_env])
      | Some v \<Rightarrow>
      case decodeArray raw of
        None \<Rightarrow>
          Inl (ErrWrap ''decode %s: %w'' [allowlist_env]
                 (Err ''json: cannot unmarshal %s into Go value of type []config.targetAllowlistEntry'' [json_kind v]))
      | Some es \<Rightarrow>
      case to_entries es of
        (ts, Some err) \<Rightarrow> Inl (ErrWrap ''decode %s: %w'' [allowlist_env] err)
      | (ts, None) \<Rightarrow>
          (case allowlist_entries (ParseAddr l) (ParsePrefix l) (map (\<lambda>t. (al_Host t, al_CIDRs t)) ts) [] of
             Inl err \<Rightarrow> Inl (ErrWrap ''%s entry: %w'' [allowlist_env] err)
           | Inr allowlist \<Rightarrow> Inr (Some allowlist)))"

section \<open>Loading\<close>

record Config =
  cfg_Database :: DatabaseTarget
  cfg_RedisURL :: string
  cfg_HTTPAddr :: string
  cfg_InternalServiceToken :: string
  cfg_TargetServiceToken :: string
  cfg_InternalTargetAllowlist :: "TargetAllowlist option"
  cfg_WakeupInterval :: duration
  cfg_DispatchTimeout :: duration
  cfg_ClaimTTL :: duration
  cfg_BatchSize :: int
  cfg_WorkerID :: string

definition config_controlCharacter :: "char \<Rightarrow> bool" where
  "config_controlCharacter character \<longleftrightarrow> byte character < 0x20 \<or> byte character = 0x7f"

definition Load :: "configlib \<Rightarrow> (string \<Rightarrow> string) \<Rightarrow> Config res" where
  "Load l getenv =
     (case ParseDatabaseURL l (getenv ''SCHEDULER_DATABASE_URL'') of
        Inl err \<Rightarrow> Inl (ErrWrap ''load %s: %w'' [''SCHEDULER_DATABASE_URL''] err)
      | Inr database \<Rightarrow>
      let redisURL = TrimSpace (getenv ''SCHEDULER_REDIS_URL'')
      in case (if redisURL = [] then None else validateRedisDBSeven l redisURL) of
        Some err \<Rightarrow> Inl (ErrWrap ''load %s: %w'' [''SCHEDULER_REDIS_URL''] err)
      | None \<Rightarrow>
      case durationValue getenv ''SCHEDULER_WAKEUP_INTERVAL'' defaultWakeupInterval of
        Inl err \<Rightarrow> Inl err
      | Inr wakeupInterval \<Rightarrow>
      case durationValue getenv ''SCHEDULER_CLAIM_TTL'' defaultClaimTTL of
        Inl err \<Rightarrow> Inl err
      | Inr claimTTL \<Rightarrow>
      case durationValue getenv ''SCHEDULER_DISPATCH_TIMEOUT'' defaultDispatchTimeout of
        Inl err \<Rightarrow> Inl err
      | Inr dispatchTimeout \<Rightarrow>
      if claimTTL \<le> dispatchTimeout
      then Inl (Err ''load %s: value must be greater than %s'' [''SCHEDULER_CLAIM_TTL'', ''SCHEDULER_DISPATCH_TIMEOUT''])
      else case integerValue getenv ''SCHEDULER_BATCH_SIZE'' defaultBatchSize 1 maximumBatchSize of
        Inl err \<Rightarrow> Inl err
      | Inr batchSize \<Rightarrow>
      let workerID = TrimSpace (getenv ''SCHEDULER_WORKER_ID'')
      in if length workerID > 128 \<or> list_ex config_controlCharacter workerID
      then Inl (Err ''load %s: value must contain at most 128 visible characters'' [''SCHEDULER_WORKER_ID''])
      else let addr = TrimSpace (getenv ''SCHEDULER_HTTP_ADDR'')
      in case ParseInternalTargetAllowlist l (getenv allowlist_env) of
        Inl err \<Rightarrow> Inl err
      | Inr allowlist \<Rightarrow>
          Inr \<lparr>cfg_Database = database, cfg_RedisURL = redisURL,
               cfg_HTTPAddr = (if addr = [] then defaultHTTPAddr else addr),
               cfg_InternalServiceToken = TrimSpace (getenv ''SCHEDULER_INTERNAL_SERVICE_TOKEN''),
               cfg_TargetServiceToken = TrimSpace (getenv ''SCHEDULER_TARGET_SERVICE_TOKEN''),
               cfg_InternalTargetAllowlist = allowlist, cfg_WakeupInterval = wakeupInterval,
               cfg_DispatchTimeout = dispatchTimeout, cfg_ClaimTTL = claimTTL, cfg_BatchSize = batchSize,
               cfg_WorkerID = workerID\<rparr>)"

section \<open>What was loaded\<close>

definition schema_ok :: "string \<Rightarrow> bool" where
  "schema_ok s \<longleftrightarrow>
     s \<noteq> [] \<and> length s \<le> 63 \<and> schemaIdentifier s \<and> s \<noteq> ''public'' \<and> \<not> HasPrefix s ''pg_''"

lemma ParseDatabaseURL_Inr:
  assumes "ParseDatabaseURL l raw = Inr t"
  obtains u q where "url_ParseStore l (TrimSpace raw) = Some u" and "ParseQuery l (u_RawQuery u) = Some q"
    and "driverURL t = url_String l (u\<lparr>u_RawQuery := EncodeQuery l (databaseQuery (schemaName t) q)\<rparr>)"
    and "schema_ok (schemaName t)"
  using assms
  by (auto simp: ParseDatabaseURL_def Let_def schema_ok_def split: if_splits option.splits list.splits)

lemma databaseQuery_scope:
  "map_of (databaseQuery schema q) ''search_path'' = Some [schema]"
  "map_of (databaseQuery schema q) ''timezone'' = Some [''UTC'']"
  "map_of (databaseQuery schema q) ''schema'' = None"
  "distinct (map fst q) \<Longrightarrow> distinct (map fst (databaseQuery schema q))"
  by (auto simp: databaseQuery_def query_Set_def query_Del_def map_of_eq_None_iff map_add_def distinct_map_filter
      dest!: map_of_SomeD split: option.splits)

lemma durationValue_range:
  assumes "durationValue getenv name fallback = Inr v" and "0 < fallback" and "fallback \<le> maximumConfiguredDuration"
  shows "0 < v \<and> v \<le> maximumConfiguredDuration"
  using assms by (auto simp: durationValue_def Let_def split: if_splits option.splits)

lemma integerValue_range:
  "integerValue getenv name fallback lo hi = Inr v \<Longrightarrow> lo \<le> fallback \<Longrightarrow> fallback \<le> hi \<Longrightarrow> lo \<le> v \<and> v \<le> hi"
  by (auto simp: integerValue_def Let_def split: if_splits option.splits)

lemma ParseInternalTargetAllowlist_Some:
  assumes "ParseInternalTargetAllowlist l raw = Inr (Some al)"
  obtains es where "allowlist_entries (ParseAddr l) (ParsePrefix l) es [] = Inr al"
  using assms
  by (auto simp: ParseInternalTargetAllowlist_def split: if_splits option.splits json.splits prod.splits sum.splits)

lemma Load_Inr:
  assumes "Load l getenv = Inr c"
  shows "ParseDatabaseURL l (getenv ''SCHEDULER_DATABASE_URL'') = Inr (cfg_Database c)"
    and "durationValue getenv ''SCHEDULER_WAKEUP_INTERVAL'' defaultWakeupInterval = Inr (cfg_WakeupInterval c)"
    and "durationValue getenv ''SCHEDULER_CLAIM_TTL'' defaultClaimTTL = Inr (cfg_ClaimTTL c)"
    and "durationValue getenv ''SCHEDULER_DISPATCH_TIMEOUT'' defaultDispatchTimeout = Inr (cfg_DispatchTimeout c)"
    and "cfg_DispatchTimeout c < cfg_ClaimTTL c"
    and "integerValue getenv ''SCHEDULER_BATCH_SIZE'' defaultBatchSize 1 maximumBatchSize = Inr (cfg_BatchSize c)"
    and "length (cfg_WorkerID c) \<le> 128 \<and> \<not> list_ex config_controlCharacter (cfg_WorkerID c)"
    and "ParseInternalTargetAllowlist l (getenv allowlist_env) = Inr (cfg_InternalTargetAllowlist c)"
  using assms by (auto simp: Load_def Let_def split: if_splits option.splits sum.splits)

lemma Load_sound:
  assumes "Load l getenv = Inr c"
  shows "0 < cfg_DispatchTimeout c" and "cfg_DispatchTimeout c < cfg_ClaimTTL c" and "cfg_ClaimTTL c \<le> 24 * Hour"
    and "0 < cfg_WakeupInterval c" and "cfg_WakeupInterval c \<le> 24 * Hour"
    and "1 \<le> cfg_BatchSize c" and "cfg_BatchSize c \<le> 1000"
    and "schema_ok (schemaName (cfg_Database c))"
proof -
  note d = Load_Inr [OF assms]
  show "0 < cfg_WakeupInterval c" and "cfg_WakeupInterval c \<le> 24 * Hour"
    using durationValue_range [OF d(2)] by (simp_all add: defaultWakeupInterval_def maximumConfiguredDuration_def duration_units)
  show "cfg_ClaimTTL c \<le> 24 * Hour"
    using durationValue_range [OF d(3)] by (simp add: defaultClaimTTL_def maximumConfiguredDuration_def duration_units)
  show "0 < cfg_DispatchTimeout c"
    using durationValue_range [OF d(4)] by (simp add: defaultDispatchTimeout_def maximumConfiguredDuration_def duration_units)
  show "1 \<le> cfg_BatchSize c" and "cfg_BatchSize c \<le> 1000"
    using integerValue_range [OF d(6)] by (simp_all add: defaultBatchSize_def maximumBatchSize_def)
  show "schema_ok (schemaName (cfg_Database c))" using ParseDatabaseURL_Inr [OF d(1)] by metis
qed (rule Load_Inr(5) [OF assms])

end
