(* ===== verification/Lease.thy ===== *)
theory Lease
  imports Calendar Json
begin

text \<open>
  The lease store of \<^verbatim>\<open>internal/adapters/redis/lease_store.go\<close>: a key holds the token of its owner until it
  expires, acquiring sets it only when it is absent, renewing and releasing are scripts that
  compare the token. The Redis commands the program uses are modelled on a map from keys to values with
  their expiry, in milliseconds of the server's clock; a command may fail, and its effect may take
  place although the caller sees an error.
\<close>

section \<open>Redis\<close>

record redis =
  rd_keys :: "string \<rightharpoonup> string \<times> int"
  rd_now :: int

definition redis_get :: "string \<Rightarrow> redis \<Rightarrow> string option" where
  "redis_get k s = (case rd_keys s k of Some (v, t) \<Rightarrow> if rd_now s < t then Some v else None | None \<Rightarrow> None)"

text \<open>\<^verbatim>\<open>SET key value NX PX ttl\<close>; \<^verbatim>\<open>PEXPIRE\<close> with a time that is not positive deletes the key.\<close>

definition redis_setnx :: "string \<Rightarrow> string \<Rightarrow> int \<Rightarrow> redis \<Rightarrow> bool \<times> redis" where
  "redis_setnx k v ms s =
     (if redis_get k s \<noteq> None then (False, s)
      else (True, s\<lparr>rd_keys := (rd_keys s)(k \<mapsto> (v, rd_now s + ms))\<rparr>))"

definition redis_del :: "string \<Rightarrow> redis \<Rightarrow> redis" where
  "redis_del k s = s\<lparr>rd_keys := (rd_keys s)(k := None)\<rparr>"

definition redis_pexpire :: "string \<Rightarrow> int \<Rightarrow> redis \<Rightarrow> redis" where
  "redis_pexpire k ms s =
     (case redis_get k s of
        None \<Rightarrow> s
      | Some v \<Rightarrow> if ms \<le> 0 then redis_del k s else s\<lparr>rd_keys := (rd_keys s)(k \<mapsto> (v, rd_now s + ms))\<rparr>)"

definition releaseScript :: "string \<Rightarrow> string \<Rightarrow> redis \<Rightarrow> int \<times> redis" where
  "releaseScript k token s = (if redis_get k s = Some token then (1, redis_del k s) else (0, s))"

definition renewScript :: "string \<Rightarrow> string \<Rightarrow> int \<Rightarrow> redis \<Rightarrow> int \<times> redis" where
  "renewScript k token ms s = (if redis_get k s = Some token then (1, redis_pexpire k ms s) else (0, s))"

section \<open>The store\<close>

text \<open>The client writes a time of less than a millisecond as one millisecond.\<close>

definition ttl_ms :: "duration \<Rightarrow> int" where
  "ttl_ms ttl = (if ttl < Millisecond then 1 else ttl div Millisecond)"

record lease =
  l_key :: string
  l_token :: string

text \<open>What a command of the client meets: it succeeds, it is lost, or only its answer is lost.\<close>

datatype reply = Served | Unsent goerr | Unanswered goerr

definition randomToken :: "string option \<Rightarrow> string res" where
  "randomToken entropy =
     (case entropy of Some raw \<Rightarrow> Inr (hex_bytes raw) | None \<Rightarrow> Inl (Err ''rand: read failed'' []))"

text \<open>\<open>configured\<close> says whether the store has a client.\<close>

definition Acquire ::
  "bool \<Rightarrow> string option \<Rightarrow> reply \<Rightarrow> string \<Rightarrow> duration \<Rightarrow> redis \<Rightarrow> (lease option \<times> bool \<times> goerr option) \<times> redis" where
  "Acquire configured entropy rep key ttl s =
     (if \<not> configured then ((None, False, Some (Err ''redis lease store is not configured'' [])), s)
      else if key = [] \<or> ttl \<le> 0 then ((None, False, Some (Err ''lease key and ttl are required'' [])), s)
      else case randomToken entropy of
        Inl err \<Rightarrow> ((None, False, Some err), s)
      | Inr token \<Rightarrow>
          (case rep of
             Unsent err \<Rightarrow> ((None, False, Some err), s)
           | Unanswered err \<Rightarrow> ((None, False, Some err), snd (redis_setnx key token (ttl_ms ttl) s))
           | Served \<Rightarrow>
               (case redis_setnx key token (ttl_ms ttl) s of
                  (acquired, s') \<Rightarrow>
                    if acquired then ((Some \<lparr>l_key = key, l_token = token\<rparr>, True, None), s')
                    else ((None, False, None), s'))))"

definition Renew :: "reply \<Rightarrow> lease \<Rightarrow> duration \<Rightarrow> redis \<Rightarrow> goerr option \<times> redis" where
  "Renew rep l ttl s =
     (if ttl \<le> 0 then (Some (Err ''lease ttl must be positive'' []), s)
      else let out = renewScript (l_key l) (l_token l) (ttl div Millisecond) s
      in case rep of
        Unsent err \<Rightarrow> (Some err, s)
      | Unanswered err \<Rightarrow> (Some err, snd out)
      | Served \<Rightarrow> (if fst out \<noteq> 1 then Some (Err ''lease is no longer owned'' []) else None, snd out))"

definition Release :: "reply \<Rightarrow> lease \<Rightarrow> redis \<Rightarrow> goerr option \<times> redis" where
  "Release rep l s =
     (let out = releaseScript (l_key l) (l_token l) s
      in case rep of
        Unsent err \<Rightarrow> (Some err, s)
      | Unanswered err \<Rightarrow> (Some err, snd out)
      | Served \<Rightarrow> (None, snd out))"


section \<open>The contract of a lease store\<close>

text \<open>
  What \<^verbatim>\<open>ports.LeaseStore\<close> and \<^verbatim>\<open>ports.Lease\<close> promise: a lease is only given for a key without an
  owner, and giving a lease back never takes a key from another owner.
\<close>

locale lease_port =
  fixes owner :: "'s \<Rightarrow> string \<Rightarrow> string option"
    and acquire :: "'e \<Rightarrow> string \<Rightarrow> duration \<Rightarrow> 's \<Rightarrow> lease option \<times> 's"
    and release :: "'f \<Rightarrow> lease \<Rightarrow> 's \<Rightarrow> 's"
  assumes acquire_free: "acquire e k ttl s = (Some l, s') \<Longrightarrow> owner s k = None \<and> l_key l = k \<and> owner s' k = Some (l_token l)"
    and acquire_keeps: "owner s k = Some t \<Longrightarrow> owner (snd (acquire e k' ttl s)) k = Some t"
    and release_keeps: "owner s k = Some t \<Longrightarrow> k \<noteq> l_key l \<or> t \<noteq> l_token l \<Longrightarrow> owner (release f l s) k = Some t"
begin

lemma stale_release_harmless:
  assumes "acquire e k ttl s = (Some l, s')" and "l_token l \<noteq> l_token old"
  shows "owner (release f old s') k = Some (l_token l)"
  using acquire_free [OF assms(1)] assms(2) release_keeps [of s' k "l_token l" old f] by auto

lemma held_key_not_acquired: "owner s k = Some t \<Longrightarrow> fst (acquire e k ttl s) = None"
  using acquire_free [of e k ttl s] by (cases "acquire e k ttl s") (auto split: option.splits, metis not_Some_eq)

end

lemma ttl_ms_pos: "0 < ttl \<Longrightarrow> 0 < ttl_ms ttl"
  by (auto simp: ttl_ms_def Millisecond_def) 

lemma setnx_cases:
  assumes "redis_setnx k v ms s = (acquired, s')"
  obtains (taken) t where "redis_get k s = Some t" "\<not> acquired" "s' = s"
  | (free) "redis_get k s = None" "acquired" "s' = s\<lparr>rd_keys := (rd_keys s)(k \<mapsto> (v, rd_now s + ms))\<rparr>"
  using assms by (auto simp: redis_setnx_def split: if_splits)

lemma redis_get_del: "redis_get k (redis_del k' s) = (if k = k' then None else redis_get k s)"
  by (simp add: redis_get_def redis_del_def split: option.splits prod.splits)

lemma redis_get_upd:
  "redis_get k (s\<lparr>rd_keys := (rd_keys s)(k' \<mapsto> (v, t))\<rparr>) =
     (if k = k' then if rd_now s < t then Some v else None else redis_get k s)"
  by (simp add: redis_get_def split: option.splits prod.splits)

interpretation redis_lease: lease_port
  "\<lambda>s k. redis_get k s"
  "\<lambda>(entropy, rep) k ttl s. (fst (fst (Acquire True entropy rep k ttl s)), snd (Acquire True entropy rep k ttl s))"
  "\<lambda>rep l s. snd (Release rep l s)"
proof unfold_locales
  fix e k ttl s l s'
  assume a: "(case e of (entropy, rep) \<Rightarrow> \<lambda>k ttl s. (fst (fst (Acquire True entropy rep k ttl s)), snd (Acquire True entropy rep k ttl s)))
      k ttl s = (Some l, s')"
  then show "redis_get k s = None \<and> l_key l = k \<and> redis_get k s' = Some (l_token l)"
    using ttl_ms_pos [of ttl]
    by (auto simp: Acquire_def redis_setnx_def redis_get_upd split: prod.splits if_splits sum.splits reply.splits)
next
  fix s k t e k' ttl
  assume "redis_get k s = Some t"
  then show "redis_get k (snd ((case e of (entropy, rep) \<Rightarrow>
      \<lambda>k ttl s. (fst (fst (Acquire True entropy rep k ttl s)), snd (Acquire True entropy rep k ttl s))) k' ttl s)) = Some t"
    by (auto simp: Acquire_def redis_setnx_def redis_get_upd split: prod.splits if_splits sum.splits reply.splits)
next
  fix s k t f and l :: lease
  assume "redis_get k s = Some t" "k \<noteq> l_key l \<or> t \<noteq> l_token l"
  then show "redis_get k (snd (Release f l s)) = Some t"
    by (auto simp: Release_def releaseScript_def redis_get_del Let_def split: reply.splits)
qed

section \<open>Owners\<close>

text \<open>
  Processes acquire, renew and release leases, lose the answers of Redis and crash. \<open>ow_held\<close> has the
  leases the processes hold and until when, by the server's clock, they may rely on them;
  \<open>ow_used\<close> has the random tokens drawn so far, which do not repeat.
\<close>

record owners =
  ow_redis :: redis
  ow_held :: "(lease \<times> int) list"
  ow_used :: "string set"

definition init_owners :: "int \<Rightarrow> owners" where
  "init_owners now = \<lparr>ow_redis = \<lparr>rd_keys = Map.empty, rd_now = now\<rparr>, ow_held = [], ow_used = {}\<rparr>"

definition gained :: "lease option \<Rightarrow> int \<Rightarrow> (lease \<times> int) list" where
  "gained l u = (case l of None \<Rightarrow> [] | Some x \<Rightarrow> [(x, u)])"

inductive owner_step :: "owners \<Rightarrow> owners \<Rightarrow> bool" where
  acquire:
    "hex_bytes raw \<notin> ow_used s \<Longrightarrow> Acquire True (Some raw) rep key ttl (ow_redis s) = ((l, ok, err), r') \<Longrightarrow>
     owner_step s (s\<lparr>ow_redis := r', ow_held := gained l (rd_now (ow_redis s) + ttl_ms ttl) @ ow_held s,
       ow_used := insert (hex_bytes raw) (ow_used s)\<rparr>)"
| renew:
    "(l, u) \<in> set (ow_held s) \<Longrightarrow> Renew rep l ttl (ow_redis s) = (err, r') \<Longrightarrow> 0 < ttl \<Longrightarrow>
     u' = (if err = None then rd_now (ow_redis s) + ttl div Millisecond
           else min u (rd_now (ow_redis s) + ttl div Millisecond)) \<Longrightarrow>
     owner_step s (s\<lparr>ow_redis := r', ow_held := (l, u') # remove1 (l, u) (ow_held s)\<rparr>)"
| release:
    "(l, u) \<in> set (ow_held s) \<Longrightarrow> Release rep l (ow_redis s) = (err, r') \<Longrightarrow>
     owner_step s (s\<lparr>ow_redis := r', ow_held := remove1 (l, u) (ow_held s)\<rparr>)"
| tick: "rd_now (ow_redis s) \<le> now \<Longrightarrow> owner_step s (s\<lparr>ow_redis := (ow_redis s)\<lparr>rd_now := now\<rparr>\<rparr>)"
| lost: "owner_step s (s\<lparr>ow_held := filter p (ow_held s)\<rparr>)"

inductive owner_reachable :: "owners \<Rightarrow> bool" where
  start: "owner_reachable (init_owners now)"
| more: "owner_reachable s \<Longrightarrow> owner_step s s' \<Longrightarrow> owner_reachable s'"

definition secured :: "redis \<Rightarrow> lease \<times> int \<Rightarrow> bool" where
  "secured r h \<longleftrightarrow> (rd_now r < snd h \<longrightarrow>
     (\<exists>t. rd_keys r (l_key (fst h)) = Some (l_token (fst h), t) \<and> snd h \<le> t))"

definition owners_inv :: "owners \<Rightarrow> bool" where
  "owners_inv s \<longleftrightarrow>
     distinct (map (\<lambda>h. l_token (fst h)) (ow_held s)) \<and>
     (\<forall>h \<in> set (ow_held s). l_token (fst h) \<in> ow_used s \<and> secured (ow_redis s) h) \<and>
     (\<forall>k v t. rd_keys (ow_redis s) k = Some (v, t) \<longrightarrow> v \<in> ow_used s)"


lemma secured_owner: "secured r h \<Longrightarrow> rd_now r < snd h \<Longrightarrow> redis_get (l_key (fst h)) r = Some (l_token (fst h))"
  by (auto simp: secured_def redis_get_def)

lemma secured_now: "secured r h \<Longrightarrow> rd_now r \<le> now \<Longrightarrow> secured (r\<lparr>rd_now := now\<rparr>) h"
  by (auto simp: secured_def)

text \<open>A command leaves the clock alone, and a key it changes had no owner or the owner that gave the command.\<close>

lemma secured_frame:
  assumes "secured r h" and "rd_now r' = rd_now r"
    and "\<And>k. rd_keys r' k \<noteq> rd_keys r k \<Longrightarrow> redis_get k r \<noteq> Some (l_token (fst h))"
  shows "secured r' h"
  using assms secured_owner [OF assms(1)] unfolding secured_def by metis

lemma Acquire_effect:
  assumes "Acquire True (Some raw) rep key ttl r = ((l, ok, err), r')"
  shows "rd_now r' = rd_now r"
    and "rd_keys r' k \<noteq> rd_keys r k \<Longrightarrow> redis_get k r = None"
    and "rd_keys r' k = Some (v, t) \<Longrightarrow> rd_keys r k = Some (v, t) \<or> v = hex_bytes raw"
    and "l = Some x \<Longrightarrow> l_token x = hex_bytes raw \<and> secured r' (x, rd_now r + ttl_ms ttl)"
  using assms
  by (auto simp: Acquire_def randomToken_def redis_setnx_def secured_def split: if_splits reply.splits)

lemma renewScript_effect:
  "rd_now (snd (renewScript k token ms r)) = rd_now r"
  "rd_keys (snd (renewScript k token ms r)) k' \<noteq> rd_keys r k' \<Longrightarrow> k' = k \<and> redis_get k r = Some token"
  "rd_keys (snd (renewScript k token ms r)) k' = Some (v, t) \<Longrightarrow> (\<exists>t'. rd_keys r k' = Some (v, t')) \<or> v = token"
  "fst (renewScript k token ms r) = 1 \<Longrightarrow> 0 < ms \<Longrightarrow> rd_keys (snd (renewScript k token ms r)) k = Some (token, rd_now r + ms)"
  by (auto simp: renewScript_def redis_pexpire_def redis_del_def split: if_splits option.splits)

lemma releaseScript_effect:
  "rd_now (snd (releaseScript k token r)) = rd_now r"
  "rd_keys (snd (releaseScript k token r)) k' \<noteq> rd_keys r k' \<Longrightarrow> k' = k \<and> redis_get k r = Some token"
  "rd_keys (snd (releaseScript k token r)) k' = Some (v, t) \<Longrightarrow> rd_keys r k' = Some (v, t)"
  by (auto simp: releaseScript_def redis_del_def split: if_splits)

lemma Release_effect:
  assumes "Release rep l r = (err, r')"
  shows "r' = r \<or> r' = snd (releaseScript (l_key l) (l_token l) r)"
  using assms by (auto simp: Release_def Let_def split: reply.splits)

lemma Renew_effect:
  assumes "Renew rep l ttl r = (err, r')" and "0 < ttl"
  shows "r' = r \<and> err \<noteq> None \<or> r' = snd (renewScript (l_key l) (l_token l) (ttl div Millisecond) r)"
    and "err = None \<Longrightarrow> fst (renewScript (l_key l) (l_token l) (ttl div Millisecond) r) = 1"
  using assms by (auto simp: Renew_def Let_def split: reply.splits if_splits)

lemma Renew_secured:
  assumes "Renew rep l ttl r = (err, r')" and "0 < ttl" and "secured r (l, u)"
    and "u' = (if err = None then rd_now r + ttl div Millisecond else min u (rd_now r + ttl div Millisecond))"
  shows "secured r' (l, u')"
proof -
  let ?ms = "ttl div Millisecond" and ?out = "renewScript (l_key l) (l_token l) (ttl div Millisecond) r"
  have ms: "0 \<le> ?ms" using assms(2) by (simp add: Millisecond_def)
  show ?thesis
  proof (cases "r' = r \<and> err \<noteq> None")
    case True
    then show ?thesis using assms(3,4) by (auto simp: secured_def min_def)
  next
    case False
    then have r': "r' = snd ?out" using Renew_effect(1) [OF assms(1,2)] by blast
    then have now: "rd_now r' = rd_now r" by (simp add: renewScript_effect(1))
    have le: "u' \<le> rd_now r + ?ms" using assms(4) by (simp add: min_def)
    show ?thesis
    proof (cases "fst ?out = 1 \<and> 0 < ?ms")
      case True
      then show ?thesis using r' le renewScript_effect(4) [of "l_key l" "l_token l" ?ms r] by (simp add: secured_def)
    next
      case f: False
      show ?thesis
      proof (cases "?ms = 0")
        case True
        then show ?thesis using le now by (simp add: secured_def)
      next
        case False
        with f ms have o: "fst ?out \<noteq> 1" by simp
        then have "snd ?out = r" by (auto simp: renewScript_def split: if_splits)
        moreover have "err \<noteq> None" using Renew_effect(2) [OF assms(1,2)] o by blast
        ultimately show ?thesis using r' assms(3,4) by (auto simp: secured_def min_def)
      qed
    qed
  qed
qed

section \<open>Mutual exclusion\<close>

lemma owners_invD:
  assumes "owners_inv s"
  shows "distinct (map (\<lambda>h. l_token (fst h)) (ow_held s))"
    and "h \<in> set (ow_held s) \<Longrightarrow> l_token (fst h) \<in> ow_used s"
    and "h \<in> set (ow_held s) \<Longrightarrow> secured (ow_redis s) h"
    and "rd_keys (ow_redis s) k = Some (v, t) \<Longrightarrow> v \<in> ow_used s"
  using assms by (auto simp: owners_inv_def)

lemma distinct_remove1_key:
  assumes "distinct (map f xs)" and "x \<in> set xs" and "y \<in> set (remove1 x xs)"
  shows "f y \<noteq> f x"
  using assms by (induction xs) (auto split: if_splits dest: set_remove1_subset [THEN subsetD], metis image_eqI)

lemma distinct_map_remove1: "distinct (map f xs) \<Longrightarrow> distinct (map f (remove1 x xs))"
  by (induction xs) (auto dest: set_remove1_subset [THEN subsetD])

lemma acquire_inv:
  assumes inv: "owners_inv s" and new: "hex_bytes raw \<notin> ow_used s"
    and acq: "Acquire True (Some raw) rep key ttl (ow_redis s) = ((l, ok, err), r')"
  shows "owners_inv (s\<lparr>ow_redis := r', ow_held := gained l (rd_now (ow_redis s) + ttl_ms ttl) @ ow_held s,
       ow_used := insert (hex_bytes raw) (ow_used s)\<rparr>)"
proof -
  note eff = Acquire_effect [OF acq] and old = owners_invD [OF inv]
  have "hex_bytes raw \<notin> (\<lambda>h. l_token (fst h)) ` set (ow_held s)" using old(2) new by auto
  then have d: "distinct (map (\<lambda>h. l_token (fst h)) (gained l (rd_now (ow_redis s) + ttl_ms ttl) @ ow_held s))"
    using old(1) eff(4) by (auto simp: gained_def split: option.splits)
  have sec: "secured r' h" if "h \<in> set (ow_held s)" for h
    using eff(1) by (rule secured_frame [OF old(3) [OF that]]) (use eff(2) in simp)
  have h: "l_token (fst h) \<in> insert (hex_bytes raw) (ow_used s) \<and> secured r' h"
    if "h \<in> set (gained l (rd_now (ow_redis s) + ttl_ms ttl) @ ow_held s)" for h
    using that old(2) [of h] sec [of h] eff(4) by (auto simp: gained_def split: option.splits)
  have k: "v \<in> insert (hex_bytes raw) (ow_used s)" if "rd_keys r' k = Some (v, t)" for k v t
    using eff(3) [OF that] old(4) by blast
  show ?thesis using d h k by (simp add: owners_inv_def)
qed

lemma others_secured:
  assumes "secured r h" and "l_token (fst h) \<noteq> l_token l" and "rd_now r' = rd_now r"
    and "\<And>k. rd_keys r' k \<noteq> rd_keys r k \<Longrightarrow> k = l_key l \<and> redis_get (l_key l) r = Some (l_token l)"
  shows "secured r' h"
  using assms(3) by (rule secured_frame [OF assms(1)]) (use assms(2,4) in fastforce)

lemma owners_inv_step:
  assumes "owner_step s s'" and "owners_inv s"
  shows "owners_inv s'"
  using assms(1)
proof cases
  case (acquire raw rep key ttl l ok err r')
  then show ?thesis using acquire_inv [OF assms(2)] by simp
next
  case (renew l u rep ttl err r' u')
  note old = owners_invD [OF assms(2)]
  have r': "rd_now r' = rd_now (ow_redis s)"
    "rd_keys r' k \<noteq> rd_keys (ow_redis s) k \<Longrightarrow> k = l_key l \<and> redis_get (l_key l) (ow_redis s) = Some (l_token l)"
    "rd_keys r' k = Some (v, t) \<Longrightarrow> v \<in> ow_used s" for k v t
    using Renew_effect(1) [OF renew(3,4)] renewScript_effect(1) renewScript_effect(2) [of "l_key l" "l_token l" _ "ow_redis s" k]
      renewScript_effect(3) [of "l_key l" "l_token l" _ "ow_redis s" k v t] old(2) [OF renew(2)] old(4) [of k v]
    by (elim disjE, simp_all) blast+
  have "secured r' h" if "h \<in> set (remove1 (l, u) (ow_held s))" for h
    by (rule others_secured [OF old(3) [OF set_remove1_subset [THEN subsetD, OF that]] _ r'(1,2)])
      (use distinct_remove1_key [OF old(1) renew(2) that] in simp)
  moreover have "secured r' (l, u')" using Renew_secured [OF renew(3,4) old(3) [OF renew(2)] renew(5)] .
  moreover have "distinct (map (\<lambda>h. l_token (fst h)) ((l, u') # remove1 (l, u) (ow_held s)))"
    using distinct_remove1_key [OF old(1) renew(2)] distinct_map_remove1 [OF old(1)] by fastforce
  ultimately show ?thesis
    using renew(1) old(2) [OF renew(2)] old(2) r'(3) by (auto simp: owners_inv_def dest: set_remove1_subset [THEN subsetD])
next
  case (release l u rep err r')
  note old = owners_invD [OF assms(2)]
  have r': "rd_now r' = rd_now (ow_redis s)"
    "rd_keys r' k \<noteq> rd_keys (ow_redis s) k \<Longrightarrow> k = l_key l \<and> redis_get (l_key l) (ow_redis s) = Some (l_token l)"
    "rd_keys r' k = Some (v, t) \<Longrightarrow> v \<in> ow_used s" for k v t
    using Release_effect [OF release(3)] releaseScript_effect(1) releaseScript_effect(2) [of "l_key l" "l_token l" "ow_redis s" k]
      releaseScript_effect(3) [of "l_key l" "l_token l" "ow_redis s" k v t] old(4) [of k v t]
    by (elim disjE, simp_all) blast+
  have "secured r' h" if "h \<in> set (remove1 (l, u) (ow_held s))" for h
    by (rule others_secured [OF old(3) [OF set_remove1_subset [THEN subsetD, OF that]] _ r'(1,2)])
      (use distinct_remove1_key [OF old(1) release(2) that] in simp)
  then show ?thesis
    using release(1) old(2) r'(3) distinct_map_remove1 [OF old(1)]
    by (auto simp: owners_inv_def dest: set_remove1_subset [THEN subsetD])
next
  case (tick now)
  then show ?thesis using assms(2) secured_now by (auto simp: owners_inv_def)
next
  case (lost p)
  then show ?thesis using assms(2) by (auto simp: owners_inv_def intro: distinct_map_filter)
qed

lemma owners_inv_reachable: "owner_reachable s \<Longrightarrow> owners_inv s"
proof (induction rule: owner_reachable.induct)
  case (start now)
  show ?case by (simp add: owners_inv_def init_owners_def)
qed (rule owners_inv_step)

lemma lease_exclusive:
  assumes "owner_reachable s" and "h \<in> set (ow_held s)" and "h' \<in> set (ow_held s)"
    and "l_key (fst h) = l_key (fst h')" and "rd_now (ow_redis s) < snd h" and "rd_now (ow_redis s) < snd h'"
  shows "h = h'"
proof -
  note inv = owners_invD [OF owners_inv_reachable [OF assms(1)]]
  have "l_token (fst h) = l_token (fst h')"
    using secured_owner [OF inv(3) [OF assms(2)] assms(5)] secured_owner [OF inv(3) [OF assms(3)] assms(6)] assms(4) by simp
  then show ?thesis using inv(1) assms(2,3) by (auto simp: distinct_map inj_on_def)
qed

lemma lease_owned:
  assumes "owner_reachable s" and "h \<in> set (ow_held s)" and "rd_now (ow_redis s) < snd h"
  shows "redis_get (l_key (fst h)) (ow_redis s) = Some (l_token (fst h))"
  using secured_owner owners_invD(3) [OF owners_inv_reachable [OF assms(1)]] assms(2,3) by blast

end
