(* ===== verification/Runtime.thy ===== *)
theory Runtime
  imports Prelude
begin

text \<open>
  The runtime of \<^verbatim>\<open>internal/application/runtime.go\<close> and the wakeup adapter of
  \<^verbatim>\<open>internal/adapters/gocron/wakeup.go\<close>: starting, the cycles that wakeups trigger, and
  stopping. \<^verbatim>\<open>Start\<close> and \<^verbatim>\<open>Stop\<close> are cut at their locks and atomic stores into steps, which
  interleave with wakeups and with cycles that end. As in \<^verbatim>\<open>cmd/scheduler/main.go\<close>, \<^verbatim>\<open>Start\<close> is called
  once and \<^verbatim>\<open>Stop\<close> once after it returned. What the scheduler library answers is a parameter.
\<close>

section \<open>The wakeup adapter\<close>

record Wakeup =
  wk_interval :: int
  wk_jobs :: nat
  wk_running :: bool
  wk_started :: bool

definition NewWakeup :: "int \<Rightarrow> goerr option \<Rightarrow> Wakeup res" where
  "NewWakeup interval newScheduler =
     (if interval \<le> 0 then Inl (Err ''gocron wakeup interval must be positive'' [])
      else case newScheduler of
        Some err \<Rightarrow> Inl err
      | None \<Rightarrow> Inr \<lparr>wk_interval = interval, wk_jobs = 0, wk_running = False, wk_started = False\<rparr>)"

text \<open>\<open>run\<close> says whether a callback is given, \<open>newJob\<close> is what the scheduler answers.\<close>

definition Wakeup_Start :: "bool \<Rightarrow> goerr option \<Rightarrow> Wakeup \<Rightarrow> goerr option \<times> Wakeup" where
  "Wakeup_Start run newJob w =
     (if \<not> run then (Some (Err ''gocron wakeup callback is required'' []), w)
      else if wk_started w then (None, w)
      else case newJob of
        Some err \<Rightarrow> (Some err, w)
      | None \<Rightarrow> (None, w\<lparr>wk_jobs := Suc (wk_jobs w), wk_running := True, wk_started := True\<rparr>))"

text \<open>A shutdown that fails may leave the scheduler running.\<close>

definition Wakeup_Stop :: "goerr option \<Rightarrow> Wakeup \<Rightarrow> goerr option \<times> Wakeup" where
  "Wakeup_Stop shutdown w =
     (if \<not> wk_started w then (None, w\<lparr>wk_started := False\<rparr>)
      else (shutdown, w\<lparr>wk_started := False, wk_running := (shutdown \<noteq> None \<and> wk_running w)\<rparr>))"

section \<open>The runtime\<close>

datatype start_pc = Unstarted | Marked | Woken | Published | Started "goerr option"
datatype stop_pc = Running | Unready | Refusing | Cancelled | Waiting "goerr option" | Stopped "goerr option"

record Runtime =
  rt_wakeup :: Wakeup
  rt_ready :: bool
  rt_accepting :: bool
  rt_cancelled :: bool
  rt_inFlight :: nat
  rt_start :: start_pc
  rt_stop :: stop_pc

definition NewRuntime :: "Wakeup option \<Rightarrow> bool \<Rightarrow> Runtime res" where
  "NewRuntime wakeup processor =
     (case wakeup of
        None \<Rightarrow> Inl ErrInvalidDependencies
      | Some w \<Rightarrow>
          if \<not> processor then Inl ErrInvalidDependencies
          else Inr \<lparr>rt_wakeup = w, rt_ready = False, rt_accepting = False, rt_cancelled = False,
                    rt_inFlight = 0, rt_start = Unstarted, rt_stop = Running\<rparr>)"

definition Ready :: "Runtime \<Rightarrow> bool" where
  "Ready r = rt_ready r"

text \<open>A trigger starts a cycle only while work is accepted; the count rises under the lock.\<close>

definition trigger :: "Runtime \<Rightarrow> Runtime" where
  "trigger r = (if \<not> rt_accepting r then r else r\<lparr>rt_inFlight := Suc (rt_inFlight r)\<rparr>)"

definition Start_lock :: "Runtime \<Rightarrow> Runtime" where
  "Start_lock r =
     (if rt_accepting r then r\<lparr>rt_start := Started None\<rparr>
      else r\<lparr>rt_accepting := True, rt_start := Marked\<rparr>)"

definition Start_wakeup :: "goerr option \<Rightarrow> Runtime \<Rightarrow> Runtime" where
  "Start_wakeup newJob r =
     (case Wakeup_Start True newJob (rt_wakeup r) of
        (Some err, w) \<Rightarrow> r\<lparr>rt_wakeup := w, rt_accepting := False, rt_start := Started (Some err)\<rparr>
      | (None, w) \<Rightarrow> r\<lparr>rt_wakeup := w, rt_start := Woken\<rparr>)"

definition Start_publish :: "Runtime \<Rightarrow> Runtime" where
  "Start_publish r = r\<lparr>rt_ready := True, rt_start := Published\<rparr>"

definition Start_trigger :: "Runtime \<Rightarrow> Runtime" where
  "Start_trigger r = (trigger r)\<lparr>rt_start := Started None\<rparr>"

definition Stop_unready :: "Runtime \<Rightarrow> Runtime" where
  "Stop_unready r = r\<lparr>rt_ready := False, rt_stop := Unready\<rparr>"

definition Stop_refuse :: "Runtime \<Rightarrow> Runtime" where
  "Stop_refuse r = r\<lparr>rt_accepting := False, rt_stop := Refusing\<rparr>"

definition Stop_cancel :: "Runtime \<Rightarrow> Runtime" where
  "Stop_cancel r = r\<lparr>rt_cancelled := True, rt_stop := Cancelled\<rparr>"

definition Stop_wakeup :: "goerr option \<Rightarrow> Runtime \<Rightarrow> Runtime" where
  "Stop_wakeup shutdown r =
     (case Wakeup_Stop shutdown (rt_wakeup r) of
        (err, w) \<Rightarrow> r\<lparr>rt_wakeup := w, rt_stop := Waiting err\<rparr>)"

text \<open>The wait ends when no cycle is in flight, or with the error of the caller's context.\<close>

definition Stop_return :: "goerr option \<Rightarrow> goerr option \<Rightarrow> Runtime \<Rightarrow> Runtime" where
  "Stop_return wakeupErr expired r =
     (case expired of
        None \<Rightarrow> r\<lparr>rt_stop := Stopped wakeupErr\<rparr>
      | Some ctxErr \<Rightarrow> r\<lparr>rt_stop := Stopped (Some ctxErr)\<rparr>)"

text \<open>A wakeup may come at any time, even after the scheduler was shut down.\<close>

inductive runtime_step :: "Runtime \<Rightarrow> Runtime \<Rightarrow> bool" where
  start_lock: "rt_start r = Unstarted \<Longrightarrow> runtime_step r (Start_lock r)"
| start_wakeup: "rt_start r = Marked \<Longrightarrow> runtime_step r (Start_wakeup newJob r)"
| start_publish: "rt_start r = Woken \<Longrightarrow> runtime_step r (Start_publish r)"
| start_trigger: "rt_start r = Published \<Longrightarrow> runtime_step r (Start_trigger r)"
| wake: "runtime_step r (trigger r)"
| cycle_ends: "0 < rt_inFlight r \<Longrightarrow> runtime_step r (r\<lparr>rt_inFlight := rt_inFlight r - 1\<rparr>)"
| stop_unready: "rt_start r = Started e \<Longrightarrow> rt_stop r = Running \<Longrightarrow> runtime_step r (Stop_unready r)"
| stop_refuse: "rt_stop r = Unready \<Longrightarrow> runtime_step r (Stop_refuse r)"
| stop_cancel: "rt_stop r = Refusing \<Longrightarrow> runtime_step r (Stop_cancel r)"
| stop_wakeup: "rt_stop r = Cancelled \<Longrightarrow> runtime_step r (Stop_wakeup shutdown r)"
| stop_done: "rt_stop r = Waiting e \<Longrightarrow> rt_inFlight r = 0 \<Longrightarrow> runtime_step r (Stop_return e None r)"
| stop_expired: "rt_stop r = Waiting e \<Longrightarrow> runtime_step r (Stop_return e (Some ctxErr) r)"

inductive runtime_reachable :: "Runtime \<Rightarrow> bool" where
  new: "NewWakeup interval None = Inr w \<Longrightarrow> NewRuntime (Some w) True = Inr r \<Longrightarrow> runtime_reachable r"
| more: "runtime_reachable r \<Longrightarrow> runtime_step r r' \<Longrightarrow> runtime_reachable r'"


section \<open>Stopping\<close>

lemmas runtime_ops =
  Start_lock_def Start_wakeup_def Start_publish_def Start_trigger_def trigger_def
  Stop_unready_def Stop_refuse_def Stop_cancel_def Stop_wakeup_def Stop_return_def

definition refusing :: "Runtime \<Rightarrow> bool" where
  "refusing r \<longleftrightarrow> \<not> rt_ready r \<and> \<not> rt_accepting r"

definition silent :: "Runtime \<Rightarrow> bool" where
  "silent r \<longleftrightarrow> refusing r \<and> rt_cancelled r \<and> \<not> wk_started (rt_wakeup r)"

definition wakeup_inv :: "Runtime \<Rightarrow> bool" where
  "wakeup_inv r \<longleftrightarrow>
     (rt_stop r \<in> {Running, Unready, Refusing, Cancelled} \<longrightarrow>
      wk_running (rt_wakeup r) \<longrightarrow> wk_started (rt_wakeup r))"

fun stop_inv :: "stop_pc \<Rightarrow> Runtime \<Rightarrow> bool" where
  "stop_inv Running r = True"
| "stop_inv Unready r = (\<not> rt_ready r)"
| "stop_inv Refusing r = refusing r"
| "stop_inv Cancelled r = (refusing r \<and> rt_cancelled r)"
| "stop_inv (Waiting e) r = (silent r \<and> (e = None \<longrightarrow> \<not> wk_running (rt_wakeup r)))"
| "stop_inv (Stopped e) r =
     (silent r \<and> (e = None \<longrightarrow> rt_inFlight r = 0 \<and> \<not> wk_running (rt_wakeup r)))"

definition runtime_inv :: "Runtime \<Rightarrow> bool" where
  "runtime_inv r \<longleftrightarrow>
     wakeup_inv r \<and> stop_inv (rt_stop r) r \<and> (rt_stop r = Running \<or> (\<exists>e. rt_start r = Started e))"

lemma trigger_refused: "\<not> rt_accepting r \<Longrightarrow> trigger r = r"
  by (simp add: trigger_def)

lemma runtime_inv_step:
  assumes "runtime_step r r'" and "runtime_inv r"
  shows "runtime_inv r'"
  using assms
proof cases
  case wake
  then show ?thesis
    using assms(2) by (cases "rt_stop r") (auto simp: runtime_inv_def wakeup_inv_def trigger_def refusing_def silent_def)
next
  case cycle_ends
  then show ?thesis
    using assms(2) by (cases "rt_stop r") (auto simp: runtime_inv_def wakeup_inv_def refusing_def silent_def)
qed (use assms(2) in \<open>auto simp: runtime_inv_def wakeup_inv_def runtime_ops refusing_def silent_def
      Wakeup_Start_def Wakeup_Stop_def split: option.splits if_splits\<close>)

lemma runtime_inv_reachable: "runtime_reachable r \<Longrightarrow> runtime_inv r"
proof (induction rule: runtime_reachable.induct)
  case (new interval w r)
  then show ?case by (auto simp: NewWakeup_def NewRuntime_def runtime_inv_def wakeup_inv_def split: if_splits)
qed (rule runtime_inv_step)


lemma stopped_stays:
  assumes "runtime_step r r'" and "runtime_inv r" and "rt_stop r = Stopped None"
  shows "rt_stop r' = Stopped None"
  using assms by cases (auto simp: runtime_inv_def runtime_ops)

lemma graceful_stop:
  assumes "runtime_reachable r" and "rt_stop r = Stopped None" and "runtime_step\<^sup>*\<^sup>* r r'"
  shows "rt_inFlight r' = 0 \<and> silent r' \<and> \<not> wk_running (rt_wakeup r')"
proof -
  have "runtime_reachable r' \<and> rt_stop r' = Stopped None"
    using assms(3)
  proof (induction rule: rtranclp_induct)
    case (step y z)
    then show ?case using stopped_stays [OF step(2)] runtime_inv_reachable [of y] runtime_reachable.more by blast
  qed (use assms in simp)
  then show ?thesis using runtime_inv_reachable [of r'] by (simp add: runtime_inv_def)
qed

text \<open>While \<^verbatim>\<open>Stop\<close> waits no cycle begins, and it returns when those in flight have ended.\<close>

lemma waiting_drains:
  assumes "rt_stop r = Waiting e"
  shows "\<exists>r'. (runtime_step ^^ Suc (rt_inFlight r)) r r' \<and> rt_stop r' = Stopped e"
  using assms
proof (induction "rt_inFlight r" arbitrary: r)
  case 0
  then have "runtime_step r (Stop_return e None r)" by (intro stop_done) simp_all
  moreover have "rt_stop (Stop_return e None r) = Stopped e" by (simp add: Stop_return_def)
  ultimately show ?case using 0(1) by (auto simp: relcompp.simps)
next
  case (Suc n)
  let ?r = "r\<lparr>rt_inFlight := rt_inFlight r - 1\<rparr>"
  have s: "runtime_step r ?r" using Suc(2) by (intro cycle_ends) simp
  have n: "n = rt_inFlight ?r" using Suc(2) by simp
  have "rt_stop ?r = Waiting e" using Suc(3) by simp
  from Suc(1) [OF n this]
  obtain r' where r': "(runtime_step ^^ Suc n) ?r r'" "rt_stop r' = Stopped e"
    by (auto simp only: n [symmetric])
  have "(runtime_step ^^ Suc (Suc n)) r r'" using relpowp_Suc_I2 [OF s r'(1)] .
  then show ?case using Suc(2) r'(2) by metis
qed

lemma waiting_accepts_nothing:
  assumes "runtime_step r r'" and "runtime_inv r" and "rt_stop r = Waiting e"
  shows "rt_inFlight r' \<le> rt_inFlight r"
  using assms by cases (auto simp: runtime_inv_def runtime_ops silent_def refusing_def)

lemma waiting_step:
  assumes "runtime_step r r'" and "runtime_inv r" and "rt_stop r = Waiting e" and "r' \<noteq> r"
  shows "(\<exists>e'. rt_stop r' = Stopped e') \<or> rt_stop r' = Waiting e \<and> rt_inFlight r = Suc (rt_inFlight r')"
  using assms
  by cases (auto simp: runtime_inv_def runtime_ops silent_def refusing_def split: option.splits)

text \<open>Every execution whose steps change something reaches the return of \<^verbatim>\<open>Stop\<close>.\<close>

lemma waiting_ends:
  assumes "rt_stop (f 0) = Waiting e" and "runtime_inv (f 0)"
    and "\<And>i. i \<le> rt_inFlight (f 0) \<Longrightarrow> runtime_step (f i) (f (Suc i)) \<and> f (Suc i) \<noteq> f i"
  shows "\<exists>i e'. i \<le> Suc (rt_inFlight (f 0)) \<and> rt_stop (f i) = Stopped e'"
  using assms
proof (induction "rt_inFlight (f 0)" arbitrary: f)
  case 0
  then have "runtime_step (f 0) (f 1)" "f 1 \<noteq> f 0" by auto
  from waiting_step [OF this(1) 0(3,2) this(2)] 0(1) show ?case by (intro exI [of _ 1]) auto
next
  case (Suc n)
  have s: "runtime_step (f 0) (f 1)" "f 1 \<noteq> f 0" using Suc(5) [of 0] by auto
  from waiting_step [OF s(1) Suc(4,3) s(2)] show ?case
  proof
    assume "\<exists>e'. rt_stop (f 1) = Stopped e'"
    then show ?thesis by (intro exI [of _ 1]) auto
  next
    assume w: "rt_stop (f 1) = Waiting e \<and> rt_inFlight (f 0) = Suc (rt_inFlight (f 1))"
    let ?g = "\<lambda>i. f (Suc i)"
    have n: "n = rt_inFlight (?g 0)" using w Suc(2) by simp
    have "\<exists>i e'. i \<le> Suc (rt_inFlight (?g 0)) \<and> rt_stop (?g i) = Stopped e'"
      using w runtime_inv_step [OF s(1) Suc(4)] Suc(2,5) n by (intro Suc(1) [of ?g]) auto
    then obtain i e' where "i \<le> Suc n" "rt_stop (f (Suc i)) = Stopped e'" using n by auto
    then show ?thesis using Suc(2) by (intro exI [of _ "Suc i"]) auto
  qed
qed

end
