(* ===== verification/ProcessSamples.thy ===== *)
theory ProcessSamples
  imports HttpSamples Client Config Lease Runtime
begin

text \<open>
  Concrete runs of the parts around the core: a configuration with a database and nothing else,
  a dispatch over the client it gives, one process that holds a lease, and a runtime that is
  started and stopped while its first cycle runs.
\<close>

definition demo_configlib :: configlib where
  "demo_configlib =
     \<lparr>url_ParseStore = (\<lambda>_. Some \<lparr>u_Scheme = ''postgres'', u_Host = ''db'', u_Path = ''/x'',
        u_RawQuery = ''schema=kokoro'', u_Rest = []\<rparr>),
      ParseQuery = (\<lambda>_. Some [(''schema'', [''kokoro''])]), EncodeQuery = (\<lambda>q. concat (map fst q)),
      url_String = u_RawQuery, ParseAddr = (\<lambda>_. None), ParsePrefix = (\<lambda>_. None)\<rparr>"

definition demo_env :: "string \<Rightarrow> string" where
  "demo_env n = (if n = ''SCHEDULER_DATABASE_URL'' then ''postgres://db/x?schema=kokoro''
     else if n = ''SCHEDULER_BATCH_SIZE'' then ''20'' else [])"

definition demo_config :: Config where
  "demo_config =
     \<lparr>cfg_Database = \<lparr>driverURL = ''search_pathtimezone'', schemaName = ''kokoro''\<rparr>, cfg_RedisURL = [],
      cfg_HTTPAddr = '':8080'', cfg_InternalServiceToken = [], cfg_TargetServiceToken = [],
      cfg_InternalTargetAllowlist = None, cfg_WakeupInterval = Second, cfg_DispatchTimeout = 30 * Second,
      cfg_ClaimTTL = 2 * Minute, cfg_BatchSize = 20, cfg_WorkerID = []\<rparr>"

lemma demo_config_loaded: "Load demo_configlib demo_env = Inr demo_config"
  by code_simp

definition demo_client :: Client where
  "demo_client = NewDefaultClientWithAllowlist (cfg_DispatchTimeout demo_config) (cfg_TargetServiceToken demo_config)
     (map_option (\<lambda>al. Allows (Some al)) (cfg_InternalTargetAllowlist demo_config))"

definition demo_surroundings :: surroundings where
  "demo_surroundings =
     \<lparr>x_lookup = (\<lambda>_. Inr [V4 (ip4 10 0 0 2), V4 (ip4 93 184 216 34)]),
      x_transport = (\<lambda>_. Inr \<lparr>tr_StatusCode = 204, tr_ContentLength = 0, tr_BodyBytes = 0, tr_BodyErr = None\<rparr>),
      x_resolveCtx = None, x_sendCtx = None\<rparr>"

lemma demo_safe: "IsSafeTargetAddress (V4 (ip4 93 184 216 34))" "\<not> IsSafeTargetAddress (V4 (ip4 10 0 0 2))"
  by (simp_all add: safe_v4_ranges ip4_def in_ranges_def special_v4_def quad_def)

lemma demo_sent: "\<exists>res rq. Dispatch demo_lib demo_surroundings demo_client demo_work = (res, Some rq)"
proof (rule Dispatch_sends)
  show "json_decode (if w_Payload demo_work = [] then ''{}'' else w_Payload demo_work) \<noteq> None" by code_simp
  show "list_all token_char (w_Method demo_work)" by code_simp
  have v: "ValidateTargetURLSyntax (url_Parse demo_lib) (netip_ParseAddr demo_lib) (w_TargetURL demo_work) = None"
    by code_simp
  have u: "url_Parse demo_lib (w_TargetURL demo_work) =
      Some \<lparr>Scheme = ''http'', UserSet = False, Host = ''example.com'', Fragment = []\<rparr>"
    by code_simp
  have p: "netip_ParseAddr demo_lib h = None" for h by (simp add: demo_lib_def)
  have Unmap_V4: "Unmap (V4 a) = V4 a" for a by (simp add: Unmap_def)
  show "resolveTarget demo_lib (x_lookup demo_surroundings) demo_client (w_TargetURL demo_work) =
      Inr (\<lparr>Scheme = ''http'', UserSet = False, Host = ''example.com'', Fragment = []\<rparr>, V4 (ip4 93 184 216 34))"
    by (simp add: resolveTarget_def v u Let_def demo_surroundings_def demo_client_def NewDefaultClientWithAllowlist_def
        NewClientWithResolver_def Let_def targetAddressAllowed_def demo_config_def Unmap_V4 p demo_safe)
qed

definition demo_lease :: lease where
  "demo_lease = \<lparr>l_key = ''job'', l_token = hex_bytes ''t''\<rparr>"

definition demo_owners :: owners where
  "demo_owners =
     \<lparr>ow_redis = \<lparr>rd_keys = [''job'' \<mapsto> (hex_bytes ''t'', 1030)], rd_now = 1000\<rparr>,
      ow_held = [(demo_lease, 1030)], ow_used = {hex_bytes ''t''}\<rparr>"

lemma demo_owners_reachable: "owner_reachable demo_owners"
proof (rule owner_reachable.more [OF owner_reachable.start [of 1000]])
  have "Acquire True (Some ''t'') Served ''job'' (30 * Millisecond) (ow_redis (init_owners 1000)) =
      ((Some demo_lease, True, None), ow_redis demo_owners)"
    by (simp add: Acquire_def randomToken_def redis_setnx_def redis_get_def init_owners_def demo_owners_def
        demo_lease_def ttl_ms_def duration_units)
  from owner_step.acquire [OF _ this]
  show "owner_step (init_owners 1000) demo_owners"
    by (simp add: init_owners_def demo_owners_def gained_def ttl_ms_def duration_units)
qed

definition demo_runtime :: "start_pc \<Rightarrow> stop_pc \<Rightarrow> bool \<Rightarrow> nat \<Rightarrow> Runtime" where
  "demo_runtime a b running n =
     \<lparr>rt_wakeup = \<lparr>wk_interval = 1, wk_jobs = (if a \<in> {Unstarted, Marked} then 0 else 1),
        wk_running = (running \<and> a \<notin> {Unstarted, Marked}), wk_started = (running \<and> a \<notin> {Unstarted, Marked})\<rparr>,
      rt_ready = (running \<and> a \<notin> {Unstarted, Marked, Woken} \<and> b = Running),
      rt_accepting = (a \<noteq> Unstarted \<and> b \<in> {Running, Unready}),
      rt_cancelled = (b \<notin> {Running, Unready, Refusing}), rt_inFlight = n, rt_start = a, rt_stop = b\<rparr>"

lemma demo_waiting: "runtime_reachable (demo_runtime (Started None) (Waiting None) False 1)"
proof -
  have "runtime_reachable (demo_runtime Unstarted Running True 0)"
    by (rule runtime_reachable.new [of 1 "\<lparr>wk_interval = 1, wk_jobs = 0, wk_running = False, wk_started = False\<rparr>"])
      (simp_all add: NewWakeup_def NewRuntime_def demo_runtime_def)
  then have "runtime_reachable (Start_lock (demo_runtime Unstarted Running True 0))"
    by (rule runtime_reachable.more) (rule start_lock, simp add: demo_runtime_def)
  then have "runtime_reachable (demo_runtime Marked Running True 0)"
    by (simp add: Start_lock_def demo_runtime_def)
  then have "runtime_reachable (Start_wakeup None (demo_runtime Marked Running True 0))"
    by (rule runtime_reachable.more) (rule start_wakeup, simp add: demo_runtime_def)
  then have "runtime_reachable (demo_runtime Woken Running True 0)"
    by (simp add: Start_wakeup_def Wakeup_Start_def demo_runtime_def)
  then have "runtime_reachable (Start_publish (demo_runtime Woken Running True 0))"
    by (rule runtime_reachable.more) (rule start_publish, simp add: demo_runtime_def)
  then have "runtime_reachable (demo_runtime Published Running True 0)"
    by (simp add: Start_publish_def demo_runtime_def)
  then have "runtime_reachable (Start_trigger (demo_runtime Published Running True 0))"
    by (rule runtime_reachable.more) (rule start_trigger, simp add: demo_runtime_def)
  then have "runtime_reachable (demo_runtime (Started None) Running True 1)"
    by (simp add: Start_trigger_def trigger_def demo_runtime_def)
  then have "runtime_reachable (Stop_unready (demo_runtime (Started None) Running True 1))"
    by (rule runtime_reachable.more) (rule stop_unready, simp_all add: demo_runtime_def)
  then have "runtime_reachable (demo_runtime (Started None) Unready True 1)"
    by (simp add: Stop_unready_def demo_runtime_def)
  then have "runtime_reachable (Stop_refuse (demo_runtime (Started None) Unready True 1))"
    by (rule runtime_reachable.more) (rule stop_refuse, simp add: demo_runtime_def)
  then have "runtime_reachable (demo_runtime (Started None) Refusing True 1)"
    by (simp add: Stop_refuse_def demo_runtime_def)
  then have "runtime_reachable (Stop_cancel (demo_runtime (Started None) Refusing True 1))"
    by (rule runtime_reachable.more) (rule stop_cancel, simp add: demo_runtime_def)
  then have "runtime_reachable (demo_runtime (Started None) Cancelled True 1)"
    by (simp add: Stop_cancel_def demo_runtime_def)
  then have "runtime_reachable (Stop_wakeup None (demo_runtime (Started None) Cancelled True 1))"
    by (rule runtime_reachable.more) (rule stop_wakeup, simp add: demo_runtime_def)
  then show ?thesis by (simp add: Stop_wakeup_def Wakeup_Stop_def demo_runtime_def)
qed

lemma demo_stopped: "runtime_reachable (demo_runtime (Started None) (Stopped None) False 0)"
proof -
  let ?w = "demo_runtime (Started None) (Waiting None) False"
  have "runtime_reachable ((?w 1)\<lparr>rt_inFlight := rt_inFlight (?w 1) - 1\<rparr>)"
    by (rule runtime_reachable.more [OF demo_waiting]) (rule cycle_ends, simp add: demo_runtime_def)
  then have "runtime_reachable (?w 0)" by (simp add: demo_runtime_def)
  then have "runtime_reachable (Stop_return None None (?w 0))"
    by (rule runtime_reachable.more) (rule stop_done, simp_all add: demo_runtime_def)
  then show ?thesis by (simp add: Stop_return_def demo_runtime_def)
qed

end
