(* ===== verification/Tickets.thy ===== *)
theory Tickets
  imports System "HOL-Library.Multiset"
begin

text \<open>
  What the scheduler promises of its dispatches, without tables, claims or workers: a job has a
  number of attempts it may use up; beginning an attempt uses one up and gives a ticket, a call
  of the target takes a ticket; a job that is done stays as it is. The running system refines
  this specification: the jobs are the rows of the outbox, the tickets the attempts the workers
  have begun and not yet made.
\<close>

section \<open>The specification\<close>

datatype job = Live nat nat | Done nat nat string

record spec =
  jobs :: "string \<rightharpoonup> job"
  tickets :: "string multiset"
  delivered :: "string multiset"

definition spec_init :: spec where
  "spec_init = \<lparr>jobs = Map.empty, tickets = {#}, delivered = {#}\<rparr>"

inductive job_step :: "job option \<Rightarrow> job option \<Rightarrow> bool" where
  create: "1 \<le> m \<Longrightarrow> m \<le> 10 \<Longrightarrow> job_step None (Some (Live 0 m))"
| burn: "n < m \<Longrightarrow> job_step (Some (Live n m)) (Some (Live (Suc n) m))"
| finish: "outbox_final st \<Longrightarrow> job_step (Some (Live n m)) (Some (Done n m st))"

text \<open>An attempt may be used up without a ticket, when its worker does not learn that it has begun.\<close>

inductive spec_step :: "spec \<Rightarrow> spec \<Rightarrow> bool" where
  job: "job_step (jobs t i) j \<Longrightarrow> spec_step t (t\<lparr>jobs := (jobs t)(i := j)\<rparr>)"
| attempt:
    "jobs t i = Some (Live n m) \<Longrightarrow> n < m \<Longrightarrow>
     spec_step t (t\<lparr>jobs := (jobs t)(i \<mapsto> Live (Suc n) m), tickets := add_mset i (tickets t)\<rparr>)"
| deliver:
    "i \<in># tickets t \<Longrightarrow>
     spec_step t (t\<lparr>tickets := tickets t - {#i#}, delivered := add_mset i (delivered t)\<rparr>)"
| lose: "ts \<subseteq># tickets t \<Longrightarrow> spec_step t (t\<lparr>tickets := ts\<rparr>)"

inductive_cases job_stepE: "job_step a b"

section \<open>What it guarantees\<close>

fun job_attempts :: "job \<Rightarrow> nat" where
  "job_attempts (Live n m) = n"
| "job_attempts (Done n m st) = n"

fun job_limit :: "job \<Rightarrow> nat" where
  "job_limit (Live n m) = m"
| "job_limit (Done n m st) = m"

definition job_inv :: "spec \<Rightarrow> string \<Rightarrow> bool" where
  "job_inv t i \<longleftrightarrow>
     (case jobs t i of
        None \<Rightarrow> count (tickets t) i + count (delivered t) i = 0
      | Some j \<Rightarrow>
          count (tickets t) i + count (delivered t) i \<le> job_attempts j
          \<and> job_attempts j \<le> job_limit j \<and> job_limit j \<le> 10)"

lemma spec_inv_step:
  assumes "spec_step t t'" and "\<And>i. job_inv t i"
  shows "job_inv t' k"
  using assms(1)
proof cases
  case (job i j)
  then show ?thesis using assms(2) [of k] by (auto simp: job_inv_def elim!: job_stepE split: option.splits)
next
  case (attempt i n m)
  then show ?thesis using assms(2) [of k] by (auto simp: job_inv_def split: option.splits if_splits)
next
  case (deliver i)
  then show ?thesis
    using assms(2) [of k] count_greater_zero_iff [of "tickets t" i]
    by (auto simp: job_inv_def simp del: count_greater_zero_iff split: option.splits)
next
  case (lose ts)
  then have "count ts k \<le> count (tickets t) k" by (simp add: mset_subset_eq_count)
  then show ?thesis using lose assms(2) [of k] by (auto simp: job_inv_def split: option.splits)
qed

lemma spec_inv: "spec_step\<^sup>*\<^sup>* spec_init t \<Longrightarrow> job_inv t i"
proof (induction arbitrary: i rule: rtranclp_induct)
  case base
  then show ?case by (simp add: job_inv_def spec_init_def)
qed (rule spec_inv_step)

lemma spec_done: "spec_step\<^sup>*\<^sup>* t t' \<Longrightarrow> jobs t i = Some (Done n m st) \<Longrightarrow> jobs t' i = Some (Done n m st)"
proof (induction rule: rtranclp_induct)
  case (step y z)
  from step(2,3,4) show ?case by cases (auto elim: job_stepE)
qed

section \<open>Several jobs at once\<close>

lemma job_steps:
  assumes "job_step\<^sup>*\<^sup>* a b" and "jobs t i = a"
  shows "spec_step\<^sup>*\<^sup>* t (t\<lparr>jobs := (jobs t)(i := b)\<rparr>)"
  using assms
proof (induction rule: rtranclp_induct)
  case base
  then show ?case by (simp add: fun_upd_idem)
next
  case (step b c)
  have "spec_step (t\<lparr>jobs := (jobs t)(i := b)\<rparr>) (t\<lparr>jobs := (jobs t)(i := c)\<rparr>)"
    using spec_step.job [of "t\<lparr>jobs := (jobs t)(i := b)\<rparr>" i c] step(2) by simp
  with step(3) [OF step(4)] show ?case by (rule rtranclp.rtrancl_into_rtrancl)
qed

lemma all_job_steps:
  assumes "finite D" and "\<And>i. job_step\<^sup>*\<^sup>* (jobs t i) (J i)" and "\<And>i. i \<notin> D \<Longrightarrow> jobs t i = J i"
  shows "spec_step\<^sup>*\<^sup>* t (t\<lparr>jobs := J\<rparr>)"
  using assms
proof (induction D arbitrary: t)
  case empty
  then have "jobs t = J" by auto
  then have "t\<lparr>jobs := J\<rparr> = t" by (cases t) simp
  then show ?case by simp
next
  case (insert k D)
  let ?t = "t\<lparr>jobs := (jobs t)(k := J k)\<rparr>"
  have "spec_step\<^sup>*\<^sup>* t ?t" using job_steps [of "jobs t k" "J k" t k] insert(4) by simp
  also have "spec_step\<^sup>*\<^sup>* ?t (?t\<lparr>jobs := J\<rparr>)"
    using insert(4,5) by (intro insert(3)) auto
  finally show ?case by simp
qed

lemma burns: "n \<le> n' \<Longrightarrow> n' \<le> m \<Longrightarrow> job_step\<^sup>*\<^sup>* (Some (Live n m)) (Some (Live n' m))"
proof (induction n' rule: dec_induct)
  case (step n')
  then show ?case using job_step.burn [of n' m] by (simp add: rtranclp.rtrancl_into_rtrancl)
qed simp

section \<open>The system as an instance\<close>

definition job_of :: "outbox_row \<Rightarrow> job" where
  "job_of b =
     (let n = nat (ob_attempt_count b); m = nat (MaxAttempts (ob_retry b))
      in if outbox_final (ob_status b) then Done n m (ob_status b) else Live n m)"

definition jobs_of :: "db \<Rightarrow> string \<rightharpoonup> job" where
  "jobs_of d = map_of (map (\<lambda>b. (ob_id b, job_of b)) (outbox d))"

definition abs_sys :: "sys \<Rightarrow> spec" where
  "abs_sys s = \<lparr>jobs = jobs_of (sys_db s), tickets = image_mset (\<lambda>x. w_ID (snd x)) (mset (started s)),
     delivered = image_mset w_ID (mset (calls s))\<rparr>"

lemma jobs_of_row:
  assumes "db_wf d" and "b \<in> set (outbox d)"
  shows "jobs_of d (ob_id b) = Some (job_of b)"
  using assms by (auto simp: jobs_of_def db_wf_def outbox_wf_def comp_def intro!: map_of_is_SomeI)

lemma jobs_of_cases:
  obtains "jobs_of d i = None" and "\<And>b. b \<in> set (outbox d) \<Longrightarrow> ob_id b \<noteq> i"
  | b where "b \<in> set (outbox d)" and "ob_id b = i" and "jobs_of d i = Some (job_of b)"
proof (cases "jobs_of d i")
  case None
  then show thesis by (intro that(1)) (auto simp: jobs_of_def map_of_eq_None_iff image_iff)
next
  case (Some j)
  then have "(i, j) \<in> (\<lambda>b. (ob_id b, job_of b)) ` set (outbox d)" by (auto simp: jobs_of_def dest: map_of_SomeD)
  then show thesis using that(2) Some by blast
qed

lemma finite_jobs_of: "finite (dom (jobs_of d))"
  by (simp add: jobs_of_def finite_dom_map_of)

lemma row_limits:
  assumes "db_wf d" and "b \<in> set (outbox d)"
  shows "nat (ob_attempt_count b) \<le> nat (MaxAttempts (ob_retry b))"
    and "1 \<le> nat (MaxAttempts (ob_retry b)) \<and> nat (MaxAttempts (ob_retry b)) \<le> 10"
  using assms by (auto simp: db_wf_def outbox_wf_def list_all_iff ck_outbox_def ck_retry_def)

lemma live_steps:
  assumes "n \<le> nat (ob_attempt_count b)" and "nat (ob_attempt_count b) \<le> nat (MaxAttempts (ob_retry b))"
  shows "job_step\<^sup>*\<^sup>* (Some (Live n (nat (MaxAttempts (ob_retry b))))) (Some (job_of b))"
proof -
  let ?a = "nat (ob_attempt_count b)" and ?m = "nat (MaxAttempts (ob_retry b))"
  have "job_step\<^sup>*\<^sup>* (Some (Live n ?m)) (Some (Live ?a ?m))" using burns assms by blast
  also have "job_step\<^sup>*\<^sup>* (Some (Live ?a ?m)) (Some (job_of b))"
    using job_step.finish [of "ob_status b" ?a ?m] by (auto simp: job_of_def Let_def)
  finally show ?thesis .
qed

lemma rows_simulated:
  assumes "db_wf d" and "db_ok d d'"
  shows "job_step\<^sup>*\<^sup>* (jobs_of d i) (jobs_of d' i)"
proof -
  have wf': "db_wf d'" and gr: "grows d d'" using assms(2) by (simp_all add: db_ok_def)
  show ?thesis
  proof (cases rule: jobs_of_cases [of d i])
    case 1
    show ?thesis
    proof (cases rule: jobs_of_cases [of d' i])
      case (2 b)
      note l = row_limits [OF wf' 2(1)]
      have "job_step None (Some (Live 0 (nat (MaxAttempts (ob_retry b)))))" using l(2) by (intro create) simp_all
      with live_steps [OF _ l(1), of 0] show ?thesis using 1(1) 2(3) by (simp add: converse_rtranclp_into_rtranclp)
    qed (simp add: 1(1))
  next
    case (2 b)
    obtain c where c: "c \<in> set (outbox d')" "outbox_identity b c" "ob_attempt_count b \<le> ob_attempt_count c"
        "outbox_final (ob_status b) \<longrightarrow> c = b"
      using growsD(1) [OF gr 2(1)] by blast
    have j': "jobs_of d' i = Some (job_of c)"
      using jobs_of_row [OF wf' c(1)] c(2) 2(2) by (simp add: outbox_identity_def)
    show ?thesis
    proof (cases "outbox_final (ob_status b)")
      case True
      then show ?thesis using c(4) 2(3) j' by simp
    next
      case False
      then have "jobs_of d i = Some (Live (nat (ob_attempt_count b)) (nat (MaxAttempts (ob_retry c))))"
        using 2(3) c(2) by (simp add: job_of_def outbox_identity_def)
      with live_steps [of "nat (ob_attempt_count b)" c] row_limits(1) [OF wf' c(1)] c(3) j' show ?thesis
        by (simp add: nat_mono)
    qed
  qed
qed

lemma db_simulated:
  assumes "db_wf (sys_db s)" and "db_ok (sys_db s) d'" and "jobs t = jobs_of (sys_db s)"
  shows "spec_step\<^sup>*\<^sup>* t (t\<lparr>jobs := jobs_of d'\<rparr>)"
proof (rule all_job_steps [of "dom (jobs_of (sys_db s)) \<union> dom (jobs_of d')"])
  show "job_step\<^sup>*\<^sup>* (jobs t i) (jobs_of d' i)" for i using rows_simulated [OF assms(1,2)] assms(3) by simp
  show "i \<notin> dom (jobs_of (sys_db s)) \<union> dom (jobs_of d') \<Longrightarrow> jobs t i = jobs_of d' i" for i
    using assms(3) by (auto simp: dom_def)
qed (simp add: finite_jobs_of)

text \<open>A step that begins no attempt and calls no target.\<close>

lemma quiet_simulated:
  assumes "db_wf (sys_db s)" and "db_ok (sys_db s) (sys_db s')"
    and "started s' = started s" and "calls s' = calls s"
  shows "spec_step\<^sup>*\<^sup>* (abs_sys s) (abs_sys s')"
  using db_simulated [OF assms(1,2), of "abs_sys s"] assms(3,4) by (simp add: abs_sys_def)

lemma begin_simulated:
  assumes inv: "sys_inv s" and bw: "beginItem store w wd x (sys_db s) = (Inr y, d')"
    and s': "sys_db s' = d'" "started s' = (w, y) # started s" "calls s' = calls s"
  shows "spec_step\<^sup>*\<^sup>* (abs_sys s) (abs_sys s')"
proof -
  have wf: "db_wf (sys_db s)" "linked (sys_db s)" using inv by (simp_all add: sys_inv_def)
  have ok: "db_ok (sys_db s) d'" using begin_ok [OF bw wf] .
  then have wf': "db_wf d'" by (simp add: db_ok_def)
  obtain b c where bc: "b \<in> set (outbox (sys_db s))" "c \<in> set (outbox d')" "outbox_identity b c" "y = scanDispatch c"
    "ob_attempt_count c = ob_attempt_count b + 1"
    using bw by (rule begin_row)
  let ?i = "ob_id b" and ?n = "nat (ob_attempt_count b)" and ?m = "nat (MaxAttempts (ob_retry c))"
  have i: "ob_id c = ?i" "ob_retry c = ob_retry b" using bc(3) by (simp_all add: outbox_identity_def)
  have "0 \<le> ob_attempt_count b" using wf(1) bc(1) by (auto simp: db_wf_def outbox_wf_def list_all_iff ck_outbox_def)
  then have n: "nat (ob_attempt_count c) = Suc ?n" using bc(5) by simp
  have "\<not> outbox_final (ob_status b)"
  proof
    assume "outbox_final (ob_status b)"
    then have "b \<in> set (outbox d')" using growsD(1) [of _ d' b] ok bc(1) by (auto simp: db_ok_def)
    then have "b = c" using distinct_map_inj [of ob_id "outbox d'" b c] wf' bc(2) i by (simp add: db_wf_def outbox_wf_def)
    with bc(5) show False by simp
  qed
  then have j: "jobs (abs_sys s) ?i = Some (Live ?n ?m)"
    using jobs_of_row [OF wf(1) bc(1)] i by (simp add: abs_sys_def job_of_def)
  have l: "Suc ?n \<le> ?m" using row_limits(1) [OF wf' bc(2)] n by simp
  let ?t = "(abs_sys s)\<lparr>jobs := (jobs (abs_sys s))(?i \<mapsto> Live (Suc ?n) ?m), tickets := add_mset ?i (tickets (abs_sys s))\<rparr>"
  have "spec_step (abs_sys s) ?t" using spec_step.attempt [OF j] l by (simp only: Suc_le_eq)
  also have "spec_step\<^sup>*\<^sup>* ?t (?t\<lparr>jobs := jobs_of d'\<rparr>)"
  proof (rule all_job_steps [of "dom (jobs_of (sys_db s)) \<union> dom (jobs_of d') \<union> {?i}"])
    show "job_step\<^sup>*\<^sup>* (jobs ?t k) (jobs_of d' k)" for k
    proof (cases "k = ?i")
      case True
      then show ?thesis using live_steps [of "Suc ?n" c] jobs_of_row [OF wf' bc(2)] row_limits(1) [OF wf' bc(2)] n i by simp
    next
      case False
      then show ?thesis using rows_simulated [OF wf(1) ok, of k] by (simp add: abs_sys_def)
    qed
    show "k \<notin> dom (jobs_of (sys_db s)) \<union> dom (jobs_of d') \<union> {?i} \<Longrightarrow> jobs ?t k = jobs_of d' k" for k
      by (auto simp: abs_sys_def dom_def)
  qed (simp add: finite_jobs_of)
  also have "?t\<lparr>jobs := jobs_of d'\<rparr> = abs_sys s'"
    using s' bc(4) i by (simp add: abs_sys_def scanDispatch_def)
  finally show ?thesis .
qed

lemma step_simulated:
  assumes "step g store s s'" and inv: "sys_inv s"
  shows "spec_step\<^sup>*\<^sup>* (abs_sys s) (abs_sys s')"
proof -
  have wf: "db_wf (sys_db s)" using inv by (simp add: sys_inv_def)
  have ok: "db_ok (sys_db s) (sys_db s')" using sys_inv_step [OF assms] by simp
  note quiet = quiet_simulated [OF wf ok]
  show ?thesis
    using assms(1)
  proof cases
    case (begin_work w x wd y d')
    then show ?thesis by (intro begin_simulated [OF inv begin_work(3)]) simp_all
  next
    case (call_target w x)
    have "w_ID x \<in># tickets (abs_sys s)" using call_target(2) by (force simp: abs_sys_def)
    from spec_step.deliver [OF this] have "spec_step (abs_sys s) (abs_sys s')"
      using call_target(2)
      by (simp add: call_target(1) abs_sys_def image_mset_Diff)
    then show ?thesis by simp
  next
    case (crash w)
    have "tickets (abs_sys s') \<subseteq># tickets (abs_sys s)"
      by (simp add: crash forget_def abs_sys_def mset_filter image_mset_subseteq_mono)
    from spec_step.lose [OF this] have "spec_step (abs_sys s) (abs_sys s')"
      by (simp add: crash forget_def abs_sys_def)
    then show ?thesis by simp
  qed (use quiet in simp_all)
qed

lemma abs_init: "abs_sys init_sys = spec_init"
  by (simp add: abs_sys_def init_sys_def spec_init_def jobs_of_def empty_db_def)

lemma steps_simulated:
  assumes "(step g store)\<^sup>*\<^sup>* s s'" and "sys_inv s"
  shows "spec_step\<^sup>*\<^sup>* (abs_sys s) (abs_sys s')"
  using assms(1)
proof (induction rule: rtranclp_induct)
  case (step y z)
  have "sys_inv y" using steps_grow [OF step(1) assms(2)] by simp
  from step_simulated [OF step(2) this] step(3) show ?case by simp
qed simp

end
