(* ===== verification/JsonWalk.thy ===== *)
theory JsonWalk
  imports JsonKeys
begin

text \<open>
  The walk of the duplicate-key check ends on every text: each call consumes input, so the fuel of
  \<open>walkJSON\<close> is never used up and more of it makes no difference.
\<close>

lemma skip_ws_Cons_length: "skip_ws s = c # r \<Longrightarrow> length r < length s"
  using skip_ws_length [of s] by simp

lemma walk_value_rest:
  assumes "walk_value (Suc n) s = Inr r"
    and "\<And>t r. walk_members n True [] t = Inr r \<Longrightarrow> length r < length t"
    and "\<And>t r. walk_elements n True t = Inr r \<Longrightarrow> length r < length t"
  shows "length r < length s"
proof -
  obtain c t where t: "skip_ws s = c # t" using assms(1) by (cases "skip_ws s") auto
  have l: "length (c # t) \<le> length s" using skip_ws_length [of s] t by simp
  have "length r < length (c # t)"
    using assms(1) t assms(2,3) [of t r] parse_str_length [of t _ r] parse_num_length [of "c # t" _ r]
    by (auto split: if_splits option.splits)
  with l show ?thesis by simp
qed

lemma walk_members_rest:
  assumes "walk_members (Suc n) fresh seen s = Inr r"
    and "\<And>t r. walk_key n seen t = Inr r \<Longrightarrow> length r < length t"
  shows "length r < length s"
proof -
  obtain c t where t: "skip_ws s = c # t" using assms(1) by (cases "skip_ws s") auto
  have l: "length (c # t) \<le> length s" using skip_ws_length [of s] t by simp
  have "length r < length (c # t)"
    using assms(1) t assms(2) [of t r] assms(2) [of "c # t" r] by (auto split: if_splits)
  with l show ?thesis by simp
qed

lemma key_parts_length:
  assumes "HasPrefix (skip_ws s) [CHR 0x22]" and "parse_str (tl (skip_ws s)) = Some (key, r1)" and "HasPrefix (skip_ws r1) '':''"
  shows "length (tl (skip_ws r1)) + 3 \<le> length s"
  using tl_skip_ws_length [OF assms(1)] tl_skip_ws_length [OF assms(3)] parse_str_length [OF assms(2)] by simp

lemma walk_key_rest:
  assumes "walk_key (Suc n) seen s = Inr r"
    and "\<And>t r. walk_value n t = Inr r \<Longrightarrow> length r < length t"
    and "\<And>k t r. walk_members n False (k # seen) t = Inr r \<Longrightarrow> length r < length t"
  shows "length r < length s"
proof -
  obtain key r1 r2 where k: "HasPrefix (skip_ws s) [CHR 0x22]" "parse_str (tl (skip_ws s)) = Some (key, r1)"
      "HasPrefix (skip_ws r1) '':''" "walk_value n (tl (skip_ws r1)) = Inr r2" "walk_members n False (key # seen) r2 = Inr r"
    using assms(1) by (auto split: if_splits option.splits sum.splits)
  then show ?thesis using key_parts_length [OF k(1-3)] assms(2) [OF k(4)] assms(3) [OF k(5)] by simp
qed

lemma walk_elements_rest:
  assumes "walk_elements (Suc n) fresh s = Inr r"
    and "\<And>t r. walk_value n t = Inr r \<Longrightarrow> length r < length t"
    and "\<And>t r. walk_elements n False t = Inr r \<Longrightarrow> length r < length t"
  shows "length r < length s"
proof -
  obtain c t where t: "skip_ws s = c # t" using assms(1) by (cases "skip_ws s") auto
  have l: "length (c # t) \<le> length s" using skip_ws_length [of s] t by simp
  show ?thesis
  proof (cases "c = CHR '']''")
    case True
    then show ?thesis using assms(1) t l by simp
  next
    case False
    then obtain r2 where r2: "walk_value n (if fresh then c # t else t) = Inr r2" "walk_elements n False r2 = Inr r"
      using assms(1) t by (auto split: if_splits sum.splits)
    then show ?thesis using assms(2) [OF r2(1)] assms(3) [OF r2(2)] l by (simp split: if_splits)
  qed
qed

lemma walk_shorter:
  "(\<forall>s r. walk_value n s = Inr r \<longrightarrow> length r < length s) \<and>
   (\<forall>fresh seen s r. walk_members n fresh seen s = Inr r \<longrightarrow> length r < length s) \<and>
   (\<forall>seen s r. walk_key n seen s = Inr r \<longrightarrow> length r < length s) \<and>
   (\<forall>fresh s r. walk_elements n fresh s = Inr r \<longrightarrow> length r < length s)"
proof (induction n)
  case (Suc n)
  have v: "length r < length s" if "walk_value n s = Inr r" for s r using Suc that by blast
  have m: "length r < length s" if "walk_members n fresh seen s = Inr r" for fresh seen s r using Suc that by blast
  have k: "length r < length s" if "walk_key n seen s = Inr r" for seen s r using Suc that by blast
  have e: "length r < length s" if "walk_elements n fresh s = Inr r" for fresh s r using Suc that by blast
  show ?case
    by (intro conjI allI impI)
      (erule walk_value_rest walk_members_rest walk_key_rest walk_elements_rest; erule v m k e)+
qed simp

lemmas walk_value_shorter = walk_shorter [THEN conjunct1, rule_format]
lemmas walk_elements_shorter = walk_shorter [THEN conjunct2, THEN conjunct2, THEN conjunct2, rule_format]

text \<open>Enough fuel for a text of a given length; the three calls of one member are paid by its three bytes.\<close>

definition value_fuel :: "string \<Rightarrow> nat \<Rightarrow> bool" where
  "value_fuel s n \<longleftrightarrow> 3 * length s < n"

definition loop_fuel :: "string \<Rightarrow> nat \<Rightarrow> bool" where
  "loop_fuel s n \<longleftrightarrow> 3 * length s + 2 < n"

definition key_fuel :: "string \<Rightarrow> nat \<Rightarrow> bool" where
  "key_fuel s n \<longleftrightarrow> 3 * length s + 1 < n"

lemmas fuel_defs = value_fuel_def loop_fuel_def key_fuel_def

lemma value_fuel_step:
  assumes "\<And>t fresh seen. loop_fuel t n \<Longrightarrow> loop_fuel t m \<Longrightarrow> walk_members n fresh seen t = walk_members m fresh seen t"
    and "\<And>t fresh. loop_fuel t n \<Longrightarrow> loop_fuel t m \<Longrightarrow> walk_elements n fresh t = walk_elements m fresh t"
    and "value_fuel s (Suc n)" and "value_fuel s (Suc m)"
  shows "walk_value (Suc n) s = walk_value (Suc m) s"
proof (cases "skip_ws s")
  case (Cons c t)
  have "loop_fuel t n" "loop_fuel t m" using assms(3,4) skip_ws_Cons_length [OF Cons] by (simp_all add: fuel_defs)
  then show ?thesis using Cons assms(1) [of t] assms(2) [of t] by simp
qed simp

lemma members_fuel_step:
  assumes "\<And>t. key_fuel t n \<Longrightarrow> key_fuel t m \<Longrightarrow> walk_key n seen t = walk_key m seen t"
    and "loop_fuel s (Suc n)" and "loop_fuel s (Suc m)"
  shows "walk_members (Suc n) fresh seen s = walk_members (Suc m) fresh seen s"
proof (cases "skip_ws s")
  case (Cons c t)
  have "key_fuel (c # t) n" "key_fuel (c # t) m" "key_fuel t n" "key_fuel t m"
    using assms(2,3) skip_ws_Cons_length [OF Cons] by (simp_all add: fuel_defs)
  then show ?thesis using Cons assms(1) [of t] assms(1) [of "c # t"] by simp
qed simp

lemma key_fuel_step:
  assumes "\<And>t. value_fuel t n \<Longrightarrow> value_fuel t m \<Longrightarrow> walk_value n t = walk_value m t"
    and "\<And>t k. loop_fuel t n \<Longrightarrow> loop_fuel t m \<Longrightarrow> walk_members n False (k # seen) t = walk_members m False (k # seen) t"
    and "key_fuel s (Suc n)" and "key_fuel s (Suc m)"
  shows "walk_key (Suc n) seen s = walk_key (Suc m) seen s"
proof (cases "HasPrefix (skip_ws s) [CHR 0x22]")
  case True
  note q = True
  show ?thesis
  proof (cases "parse_str (tl (skip_ws s))")
    case (Some p)
    obtain key r1 where p: "parse_str (tl (skip_ws s)) = Some (key, r1)" using Some by (cases p) simp
    show ?thesis
    proof (cases "HasPrefix (skip_ws r1) '':''")
      case True
      let ?t = "tl (skip_ws r1)"
      note l = key_parts_length [OF q p True]
      have v: "walk_value n ?t = walk_value m ?t" using assms(1) [of ?t] assms(3,4) l by (simp add: fuel_defs)
      have "walk_members n False (key # seen) r2 = walk_members m False (key # seen) r2" if "walk_value m ?t = Inr r2" for r2
        using assms(2) [of r2] assms(3,4) l walk_value_shorter [OF that] by (simp add: fuel_defs)
      then show ?thesis using q p v by (auto split: sum.splits)
    qed (use q p in simp)
  qed (use q in simp)
qed simp

lemma elements_fuel_step:
  assumes "\<And>t. value_fuel t n \<Longrightarrow> value_fuel t m \<Longrightarrow> walk_value n t = walk_value m t"
    and "\<And>t. loop_fuel t n \<Longrightarrow> loop_fuel t m \<Longrightarrow> walk_elements n False t = walk_elements m False t"
    and "loop_fuel s (Suc n)" and "loop_fuel s (Suc m)"
  shows "walk_elements (Suc n) fresh s = walk_elements (Suc m) fresh s"
proof (cases "skip_ws s")
  case (Cons c t)
  let ?u = "if fresh then c # t else t"
  have l: "length ?u \<le> length s" using skip_ws_Cons_length [OF Cons] by simp
  have v: "walk_value n ?u = walk_value m ?u" using assms(1) [of ?u] assms(3,4) l by (simp add: fuel_defs)
  have "walk_elements n False r2 = walk_elements m False r2" if "walk_value m ?u = Inr r2" for r2
    using assms(2) [of r2] assms(3,4) l walk_value_shorter [OF that] by (simp add: fuel_defs)
  then show ?thesis using Cons v by (auto split: sum.splits)
qed simp

lemma walk_fuel:
  "(\<forall>m s. value_fuel s n \<longrightarrow> value_fuel s m \<longrightarrow> walk_value n s = walk_value m s) \<and>
   (\<forall>m fresh seen s. loop_fuel s n \<longrightarrow> loop_fuel s m \<longrightarrow> walk_members n fresh seen s = walk_members m fresh seen s) \<and>
   (\<forall>m seen s. key_fuel s n \<longrightarrow> key_fuel s m \<longrightarrow> walk_key n seen s = walk_key m seen s) \<and>
   (\<forall>m fresh s. loop_fuel s n \<longrightarrow> loop_fuel s m \<longrightarrow> walk_elements n fresh s = walk_elements m fresh s)"
proof (induction n)
  case 0
  then show ?case by (simp add: fuel_defs)
next
  case (Suc n)
  have v: "walk_value n s = walk_value m s" if "value_fuel s n" "value_fuel s m" for m s using Suc that by blast
  have l: "walk_members n fresh seen s = walk_members m fresh seen s" if "loop_fuel s n" "loop_fuel s m" for m fresh seen s
    using Suc that by blast
  have k: "walk_key n seen s = walk_key m seen s" if "key_fuel s n" "key_fuel s m" for m seen s using Suc that by blast
  have e: "walk_elements n fresh s = walk_elements m fresh s" if "loop_fuel s n" "loop_fuel s m" for m fresh s
    using Suc that by blast
  have "walk_value (Suc n) s = walk_value m s" if f: "value_fuel s (Suc n)" "value_fuel s m" for m s
  proof (cases m)
    case (Suc m')
    show ?thesis unfolding Suc by (rule value_fuel_step) (use f Suc in \<open>blast intro: l e\<close>)+
  qed (use f in \<open>simp add: fuel_defs\<close>)
  moreover have "walk_members (Suc n) fresh seen s = walk_members m fresh seen s"
    if f: "loop_fuel s (Suc n)" "loop_fuel s m" for m fresh seen s
  proof (cases m)
    case (Suc m')
    show ?thesis unfolding Suc by (rule members_fuel_step) (use f Suc in \<open>blast intro: k\<close>)+
  qed (use f in \<open>simp add: fuel_defs\<close>)
  moreover have "walk_key (Suc n) seen s = walk_key m seen s" if f: "key_fuel s (Suc n)" "key_fuel s m" for m seen s
  proof (cases m)
    case (Suc m')
    show ?thesis unfolding Suc by (rule key_fuel_step) (use f Suc in \<open>blast intro: v l\<close>)+
  qed (use f in \<open>simp add: fuel_defs\<close>)
  moreover have "walk_elements (Suc n) fresh s = walk_elements m fresh s"
    if f: "loop_fuel s (Suc n)" "loop_fuel s m" for m fresh s
  proof (cases m)
    case (Suc m')
    show ?thesis unfolding Suc by (rule elements_fuel_step) (use f Suc in \<open>blast intro: v e\<close>)+
  qed (use f in \<open>simp add: fuel_defs\<close>)
  ultimately show ?case by blast
qed

lemma walk_terminates:
  "3 * length s < n \<Longrightarrow> walk_value n s = walkJSON s"
  unfolding walkJSON_def by (rule walk_fuel [THEN conjunct1, rule_format]) (simp_all add: value_fuel_def)

end
