(* ===== verification/Catalog.thy ===== *)
theory Catalog
  imports Decimal
begin

text \<open>
  The comparison of schema catalogs of \<^verbatim>\<open>internal/adapters/postgres/bootstrap.go\<close>: the snapshot of
  a namespace as nested records, the checks of its identities, and the walk over two snapshots by
  reflection that lists the paths of all differences. Slices are lists; a nil slice and an empty
  one are the same here, as the walk reports nothing for them.
\<close>

section \<open>The snapshot\<close>

record SchemaCatalogIdentity =
  id_Namespace :: string
  id_Name :: string

record SchemaCatalogColumn =
  co_Position :: int
  co_Name :: string
  co_Type :: "SchemaCatalogIdentity option"
  co_TypeModifier :: int
  co_Dimensions :: int
  co_Collation :: "SchemaCatalogIdentity option"
  co_NotNull :: bool
  co_Identity :: string
  co_Generated :: string
  co_Dropped :: bool
  co_Default :: "string option"
  co_Storage :: string
  co_Compression :: string
  co_Comment :: "string option"

record SchemaCatalogConstraint =
  cn_Name :: string
  cn_Kind :: string
  cn_Columns :: "string list"
  cn_Validated :: bool
  cn_Deferrable :: bool
  cn_Deferred :: bool
  cn_NoInherit :: bool
  cn_IsLocal :: bool
  cn_InheritedCount :: int
  cn_Enforced :: "bool option"
  cn_Period :: "bool option"
  cn_Definition :: string
  cn_Expression :: "string option"
  cn_Index :: "SchemaCatalogIdentity option"
  cn_Comment :: "string option"

record SchemaCatalogIndexColumn =
  ic_Position :: int
  ic_Name :: "string option"
  ic_Definition :: string
  ic_Key :: bool
  ic_Options :: int
  ic_OperatorClass :: "SchemaCatalogIdentity option"
  ic_Collation :: "SchemaCatalogIdentity option"

record SchemaCatalogIndex =
  ix_Identity :: SchemaCatalogIdentity
  ix_AccessMethod :: string
  ix_Options :: "string list"
  ix_Unique :: bool
  ix_Primary :: bool
  ix_Exclusion :: bool
  ix_Immediate :: bool
  ix_NullsNotDistinct :: bool
  ix_Valid :: bool
  ix_Ready :: bool
  ix_Live :: bool
  ix_ReplicaIdentity :: bool
  ix_Clustered :: bool
  ix_Comment :: "string option"
  ix_KeyCount :: int
  ix_AttributeCount :: int
  ix_Columns :: "SchemaCatalogIndexColumn list"
  ix_Expressions :: "string option"
  ix_Predicate :: "string option"

record SchemaCatalogConstraintTrigger =
  tg_Constraint :: string
  tg_Function :: SchemaCatalogIdentity
  tg_TimingFlags :: int
  tg_Enabled :: string
  tg_Deferrable :: bool
  tg_Deferred :: bool
  tg_Columns :: "string list"
  tg_Arguments :: string
  tg_Index :: "SchemaCatalogIdentity option"

record SchemaCatalogTable =
  tb_Identity :: SchemaCatalogIdentity
  tb_Kind :: string
  tb_Persistence :: string
  tb_AccessMethod :: string
  tb_Options :: "string list"
  tb_RowSecurity :: bool
  tb_ForceRowSecurity :: bool
  tb_ReplicaIdentity :: string
  tb_Comment :: "string option"
  tb_Columns :: "SchemaCatalogColumn list"
  tb_Constraints :: "SchemaCatalogConstraint list"
  tb_Indexes :: "SchemaCatalogIndex list"
  tb_ConstraintTriggers :: "SchemaCatalogConstraintTrigger list"

record SchemaCatalogType =
  ty_Identity :: SchemaCatalogIdentity
  ty_Kind :: string
  ty_Category :: string
  ty_Defined :: bool
  ty_Length :: int
  ty_ByValue :: bool
  ty_Alignment :: string
  ty_Storage :: string
  ty_Delimiter :: string
  ty_NotNull :: bool
  ty_Relation :: "SchemaCatalogIdentity option"
  ty_Element :: "SchemaCatalogIdentity option"
  ty_Array :: "SchemaCatalogIdentity option"
  ty_Base :: "SchemaCatalogIdentity option"
  ty_Comment :: "string option"

record SchemaCatalog =
  Tables :: "SchemaCatalogTable list"
  Types :: "SchemaCatalogType list"

record SchemaCatalogDifference =
  ObjectKind :: string
  ObjectName :: string
  Field :: string

section \<open>Identities\<close>

definition valid_id :: "SchemaCatalogIdentity option \<Rightarrow> bool" where
  "valid_id i \<longleftrightarrow> (case i of None \<Rightarrow> True | Some x \<Rightarrow> id_Namespace x \<noteq> [] \<and> id_Name x \<noteq> [])"

definition valid_column :: "SchemaCatalogColumn \<Rightarrow> bool" where
  "valid_column c \<longleftrightarrow>
     \<not> (\<not> valid_id (co_Type c) \<or> \<not> valid_id (co_Collation c) \<or> (\<not> co_Dropped c \<and> co_Type c = None))"

definition valid_constraint :: "SchemaCatalogConstraint \<Rightarrow> bool" where
  "valid_constraint k \<longleftrightarrow> \<not> (\<not> valid_id (cn_Index k) \<or> cn_Definition k = [])"

definition valid_index_column :: "SchemaCatalogIndexColumn \<Rightarrow> bool" where
  "valid_index_column c \<longleftrightarrow>
     \<not> (\<not> valid_id (ic_OperatorClass c) \<or> \<not> valid_id (ic_Collation c) \<or> (ic_Key c \<and> ic_OperatorClass c = None))"

definition valid_index :: "SchemaCatalogIndex \<Rightarrow> bool" where
  "valid_index i \<longleftrightarrow>
     \<not> (\<not> valid_id (Some (ix_Identity i)) \<or> ix_AccessMethod i = []) \<and> list_all valid_index_column (ix_Columns i)"

definition valid_trigger :: "SchemaCatalogConstraintTrigger \<Rightarrow> bool" where
  "valid_trigger t \<longleftrightarrow>
     \<not> (tg_Constraint t = [] \<or> \<not> valid_id (Some (tg_Function t)) \<or> \<not> valid_id (tg_Index t) \<or> tg_Index t = None)"

definition valid_table :: "SchemaCatalogTable \<Rightarrow> bool" where
  "valid_table t \<longleftrightarrow>
     \<not> (\<not> valid_id (Some (tb_Identity t)) \<or> tb_AccessMethod t = [])
     \<and> list_all valid_column (tb_Columns t) \<and> list_all valid_constraint (tb_Constraints t)
     \<and> list_all valid_index (tb_Indexes t) \<and> list_all valid_trigger (tb_ConstraintTriggers t)"

definition valid_type :: "SchemaCatalogType \<Rightarrow> bool" where
  "valid_type t \<longleftrightarrow>
     \<not> (\<not> valid_id (Some (ty_Identity t)) \<or> \<not> valid_id (ty_Relation t) \<or> \<not> valid_id (ty_Element t)
        \<or> \<not> valid_id (ty_Array t) \<or> \<not> valid_id (ty_Base t))"

definition validSchemaCatalogIdentities :: "SchemaCatalog \<Rightarrow> bool" where
  "validSchemaCatalogIdentities snapshot \<longleftrightarrow>
     list_all valid_table (Tables snapshot) \<and> list_all valid_type (Types snapshot)"

section \<open>Reflection\<close>

text \<open>The values that \<^verbatim>\<open>reflect\<close> shows of a snapshot, with the names of the fields.\<close>

datatype rvalue =
    RString string
  | RInt int
  | RBool bool
  | RStruct "(string \<times> rvalue) list"
  | RPtr "rvalue option"
  | RSlice "rvalue list"

definition reflectIdentity :: "SchemaCatalogIdentity \<Rightarrow> rvalue" where
  "reflectIdentity x =
     RStruct
       [(''Namespace'', RString (id_Namespace x)),
        (''Name'', RString (id_Name x))]"

definition reflectColumn :: "SchemaCatalogColumn \<Rightarrow> rvalue" where
  "reflectColumn x =
     RStruct
       [(''Position'', RInt (co_Position x)),
        (''Name'', RString (co_Name x)),
        (''Type'', RPtr (map_option reflectIdentity (co_Type x))),
        (''TypeModifier'', RInt (co_TypeModifier x)),
        (''Dimensions'', RInt (co_Dimensions x)),
        (''Collation'', RPtr (map_option reflectIdentity (co_Collation x))),
        (''NotNull'', RBool (co_NotNull x)),
        (''Identity'', RString (co_Identity x)),
        (''Generated'', RString (co_Generated x)),
        (''Dropped'', RBool (co_Dropped x)),
        (''Default'', RPtr (map_option RString (co_Default x))),
        (''Storage'', RString (co_Storage x)),
        (''Compression'', RString (co_Compression x)),
        (''Comment'', RPtr (map_option RString (co_Comment x)))]"

definition reflectConstraint :: "SchemaCatalogConstraint \<Rightarrow> rvalue" where
  "reflectConstraint x =
     RStruct
       [(''Name'', RString (cn_Name x)),
        (''Kind'', RString (cn_Kind x)),
        (''Columns'', RSlice (map RString (cn_Columns x))),
        (''Validated'', RBool (cn_Validated x)),
        (''Deferrable'', RBool (cn_Deferrable x)),
        (''Deferred'', RBool (cn_Deferred x)),
        (''NoInherit'', RBool (cn_NoInherit x)),
        (''IsLocal'', RBool (cn_IsLocal x)),
        (''InheritedCount'', RInt (cn_InheritedCount x)),
        (''Enforced'', RPtr (map_option RBool (cn_Enforced x))),
        (''Period'', RPtr (map_option RBool (cn_Period x))),
        (''Definition'', RString (cn_Definition x)),
        (''Expression'', RPtr (map_option RString (cn_Expression x))),
        (''Index'', RPtr (map_option reflectIdentity (cn_Index x))),
        (''Comment'', RPtr (map_option RString (cn_Comment x)))]"

definition reflectIndexColumn :: "SchemaCatalogIndexColumn \<Rightarrow> rvalue" where
  "reflectIndexColumn x =
     RStruct
       [(''Position'', RInt (ic_Position x)),
        (''Name'', RPtr (map_option RString (ic_Name x))),
        (''Definition'', RString (ic_Definition x)),
        (''Key'', RBool (ic_Key x)),
        (''Options'', RInt (ic_Options x)),
        (''OperatorClass'', RPtr (map_option reflectIdentity (ic_OperatorClass x))),
        (''Collation'', RPtr (map_option reflectIdentity (ic_Collation x)))]"

definition reflectIndex :: "SchemaCatalogIndex \<Rightarrow> rvalue" where
  "reflectIndex x =
     RStruct
       [(''Identity'', reflectIdentity (ix_Identity x)),
        (''AccessMethod'', RString (ix_AccessMethod x)),
        (''Options'', RSlice (map RString (ix_Options x))),
        (''Unique'', RBool (ix_Unique x)),
        (''Primary'', RBool (ix_Primary x)),
        (''Exclusion'', RBool (ix_Exclusion x)),
        (''Immediate'', RBool (ix_Immediate x)),
        (''NullsNotDistinct'', RBool (ix_NullsNotDistinct x)),
        (''Valid'', RBool (ix_Valid x)),
        (''Ready'', RBool (ix_Ready x)),
        (''Live'', RBool (ix_Live x)),
        (''ReplicaIdentity'', RBool (ix_ReplicaIdentity x)),
        (''Clustered'', RBool (ix_Clustered x)),
        (''Comment'', RPtr (map_option RString (ix_Comment x))),
        (''KeyCount'', RInt (ix_KeyCount x)),
        (''AttributeCount'', RInt (ix_AttributeCount x)),
        (''Columns'', RSlice (map reflectIndexColumn (ix_Columns x))),
        (''Expressions'', RPtr (map_option RString (ix_Expressions x))),
        (''Predicate'', RPtr (map_option RString (ix_Predicate x)))]"

definition reflectConstraintTrigger :: "SchemaCatalogConstraintTrigger \<Rightarrow> rvalue" where
  "reflectConstraintTrigger x =
     RStruct
       [(''Constraint'', RString (tg_Constraint x)),
        (''Function'', reflectIdentity (tg_Function x)),
        (''TimingFlags'', RInt (tg_TimingFlags x)),
        (''Enabled'', RString (tg_Enabled x)),
        (''Deferrable'', RBool (tg_Deferrable x)),
        (''Deferred'', RBool (tg_Deferred x)),
        (''Columns'', RSlice (map RString (tg_Columns x))),
        (''Arguments'', RString (tg_Arguments x)),
        (''Index'', RPtr (map_option reflectIdentity (tg_Index x)))]"

definition reflectTable :: "SchemaCatalogTable \<Rightarrow> rvalue" where
  "reflectTable x =
     RStruct
       [(''Identity'', reflectIdentity (tb_Identity x)),
        (''Kind'', RString (tb_Kind x)),
        (''Persistence'', RString (tb_Persistence x)),
        (''AccessMethod'', RString (tb_AccessMethod x)),
        (''Options'', RSlice (map RString (tb_Options x))),
        (''RowSecurity'', RBool (tb_RowSecurity x)),
        (''ForceRowSecurity'', RBool (tb_ForceRowSecurity x)),
        (''ReplicaIdentity'', RString (tb_ReplicaIdentity x)),
        (''Comment'', RPtr (map_option RString (tb_Comment x))),
        (''Columns'', RSlice (map reflectColumn (tb_Columns x))),
        (''Constraints'', RSlice (map reflectConstraint (tb_Constraints x))),
        (''Indexes'', RSlice (map reflectIndex (tb_Indexes x))),
        (''ConstraintTriggers'', RSlice (map reflectConstraintTrigger (tb_ConstraintTriggers x)))]"

definition reflectType :: "SchemaCatalogType \<Rightarrow> rvalue" where
  "reflectType x =
     RStruct
       [(''Identity'', reflectIdentity (ty_Identity x)),
        (''Kind'', RString (ty_Kind x)),
        (''Category'', RString (ty_Category x)),
        (''Defined'', RBool (ty_Defined x)),
        (''Length'', RInt (ty_Length x)),
        (''ByValue'', RBool (ty_ByValue x)),
        (''Alignment'', RString (ty_Alignment x)),
        (''Storage'', RString (ty_Storage x)),
        (''Delimiter'', RString (ty_Delimiter x)),
        (''NotNull'', RBool (ty_NotNull x)),
        (''Relation'', RPtr (map_option reflectIdentity (ty_Relation x))),
        (''Element'', RPtr (map_option reflectIdentity (ty_Element x))),
        (''Array'', RPtr (map_option reflectIdentity (ty_Array x))),
        (''Base'', RPtr (map_option reflectIdentity (ty_Base x))),
        (''Comment'', RPtr (map_option RString (ty_Comment x)))]"

section \<open>The comparison\<close>

text \<open>
  The paths reported, in order. Two values of a walk have the same Go type: the equations for
  different kinds are only there to make the function total.
\<close>

function compareSchemaCatalogValue :: "rvalue \<Rightarrow> rvalue \<Rightarrow> string \<Rightarrow> string list"
  and compare_fields :: "(string \<times> rvalue) list \<Rightarrow> (string \<times> rvalue) list \<Rightarrow> string \<Rightarrow> string list"
  and compare_items :: "rvalue list \<Rightarrow> rvalue list \<Rightarrow> string \<Rightarrow> int \<Rightarrow> string list" where
  "compareSchemaCatalogValue actual reference field =
     (if actual = reference then []
      else case (actual, reference) of
        (RStruct fs, RStruct gs) \<Rightarrow> compare_fields fs gs field
      | (RPtr p, RPtr q) \<Rightarrow>
          (case (p, q) of
             (Some a, Some r) \<Rightarrow> compareSchemaCatalogValue a r field
           | _ \<Rightarrow> [field])
      | (RSlice xs, RSlice ys) \<Rightarrow>
          (if length xs \<noteq> length ys then [field @ ''.Length''] else []) @ compare_items xs ys field 0
      | _ \<Rightarrow> [field])"
| "compare_fields ((name, a) # fs) ((name', r) # gs) field =
     compareSchemaCatalogValue a r (if field \<noteq> [] then field @ ''.'' @ name else name)
     @ compare_fields fs gs field"
| "compare_fields [] gs field = []"
| "compare_fields fs [] field = []"
| "compare_items (a # xs) (r # ys) field i =
     compareSchemaCatalogValue a r (field @ ''['' @ Itoa i @ '']'') @ compare_items xs ys field (i + 1)"
| "compare_items [] ys field i = []"
| "compare_items xs [] field i = []"
  by pat_completeness auto

termination
  by (relation "measure (\<lambda>x. case x of
        Inl (a, r, f) \<Rightarrow> size a
      | Inr (Inl (fs, gs, f)) \<Rightarrow> size_list (size_prod (\<lambda>_. 0) size) fs
      | Inr (Inr (xs, ys, f, i)) \<Rightarrow> size_list size xs)") auto

declare compareSchemaCatalogValue.simps [simp del]

lemma compare_value:
  "compareSchemaCatalogValue a a field = []"
  "fs \<noteq> gs \<Longrightarrow> compareSchemaCatalogValue (RStruct fs) (RStruct gs) field = compare_fields fs gs field"
  "a \<noteq> r \<Longrightarrow> compareSchemaCatalogValue (RPtr (Some a)) (RPtr (Some r)) field = compareSchemaCatalogValue a r field"
  "p \<noteq> q \<Longrightarrow> p = None \<or> q = None \<Longrightarrow> compareSchemaCatalogValue (RPtr p) (RPtr q) field = [field]"
  "xs \<noteq> ys \<Longrightarrow> compareSchemaCatalogValue (RSlice xs) (RSlice ys) field =
     (if length xs \<noteq> length ys then [field @ ''.Length''] else []) @ compare_items xs ys field 0"
  "x \<noteq> y \<Longrightarrow> compareSchemaCatalogValue (RString x) (RString y) field = [field]"
  "i \<noteq> j \<Longrightarrow> compareSchemaCatalogValue (RInt i) (RInt j) field = [field]"
  "b \<noteq> c \<Longrightarrow> compareSchemaCatalogValue (RBool b) (RBool c) field = [field]"
  by (subst compareSchemaCatalogValue.simps; auto split: option.splits)+

definition object_name :: "SchemaCatalogIdentity \<Rightarrow> string" where
  "object_name i = id_Namespace i @ ''.'' @ id_Name i"

text \<open>The collections of a table are sorted by what identifies their members; later tables replace earlier ones.\<close>

definition sorted_table :: "SchemaCatalogTable \<Rightarrow> SchemaCatalogTable" where
  "sorted_table t =
     t\<lparr>tb_Columns := sort_key co_Position (tb_Columns t),
       tb_Constraints := sort_key cn_Name (tb_Constraints t),
       tb_Indexes := sort_key (\<lambda>i. id_Name (ix_Identity i)) (tb_Indexes t),
       tb_ConstraintTriggers := sort_key tg_Constraint (tb_ConstraintTriggers t)\<rparr>"

definition table_objects :: "SchemaCatalog \<Rightarrow> (string \<times> rvalue) list" where
  "table_objects snapshot =
     rev (map (\<lambda>t. (object_name (tb_Identity t), reflectTable (sorted_table t))) (Tables snapshot))"

definition type_objects :: "SchemaCatalog \<Rightarrow> (string \<times> rvalue) list" where
  "type_objects snapshot = rev (map (\<lambda>t. (object_name (ty_Identity t), reflectType t)) (Types snapshot))"

definition compare_object :: "string \<Rightarrow> rvalue option \<Rightarrow> rvalue option \<Rightarrow> string \<Rightarrow> SchemaCatalogDifference list" where
  "compare_object kind left right name =
     (case (left, right) of
        (Some a, Some r) \<Rightarrow>
          map (\<lambda>field. \<lparr>ObjectKind = kind, ObjectName = name, Field = field\<rparr>) (compareSchemaCatalogValue a r [])
      | _ \<Rightarrow> [\<lparr>ObjectKind = kind, ObjectName = name, Field = ''Presence''\<rparr>])"

definition compare_objects ::
  "string \<Rightarrow> (string \<times> rvalue) list \<Rightarrow> (string \<times> rvalue) list \<Rightarrow> SchemaCatalogDifference list" where
  "compare_objects kind actualObjects referenceObjects =
     concat (map (\<lambda>name. compare_object kind (map_of actualObjects name) (map_of referenceObjects name) name)
       (sort (remdups (map fst actualObjects @ map fst referenceObjects))))"

definition CompareSchemaCatalog :: "SchemaCatalog \<Rightarrow> SchemaCatalog \<Rightarrow> SchemaCatalogDifference list" where
  "CompareSchemaCatalog actual reference =
     compare_objects ''table'' (table_objects actual) (table_objects reference)
     @ compare_objects ''type'' (type_objects actual) (type_objects reference)"

end
