(* ===== verification/CatalogProps.thy ===== *)
theory CatalogProps
  imports Catalog
begin

text \<open>
  The comparison of catalogs is exact: it reports nothing if and only if the two snapshots have
  the same objects, where the order of tables, types, columns, constraints, indexes and triggers
  in the snapshots does not matter.
\<close>

section \<open>Values of one type\<close>

text \<open>The values of one Go type: structures have the same fields, pointers and slices hold values of one type.\<close>

fun same_type :: "rvalue \<Rightarrow> rvalue \<Rightarrow> bool"
  and same_fields :: "(string \<times> rvalue) list \<Rightarrow> (string \<times> rvalue) list \<Rightarrow> bool"
  and same_items :: "rvalue list \<Rightarrow> rvalue list \<Rightarrow> bool" where
  "same_type (RString x) (RString y) = True"
| "same_type (RInt x) (RInt y) = True"
| "same_type (RBool x) (RBool y) = True"
| "same_type (RStruct fs) (RStruct gs) = same_fields fs gs"
| "same_type (RPtr (Some a)) (RPtr (Some r)) = same_type a r"
| "same_type (RPtr p) (RPtr q) = True"
| "same_type (RSlice xs) (RSlice ys) = same_items xs ys"
| "same_type a r = False"
| "same_fields [] [] = True"
| "same_fields ((n, a) # fs) ((n', r) # gs) = (n = n' \<and> same_type a r \<and> same_fields fs gs)"
| "same_fields fs gs = False"
| "same_items (a # xs) (r # ys) = (same_type a r \<and> same_items xs ys)"
| "same_items xs ys = True"

lemma same_fields_Nil [simp]: "same_fields [] gs \<longleftrightarrow> gs = []" "same_fields fs [] \<longleftrightarrow> fs = []"
  by (cases gs; simp) (cases fs; simp)

lemma compare_complete:
  "compareSchemaCatalogValue a r field = [] \<Longrightarrow> same_type a r \<Longrightarrow> a = r"
  "compare_fields fs gs field = [] \<Longrightarrow> same_fields fs gs \<Longrightarrow> fs = gs"
  "compare_items xs ys field i = [] \<Longrightarrow> same_items xs ys \<Longrightarrow> length xs = length ys \<Longrightarrow> xs = ys"
proof (induction a r field and fs gs field and xs ys field i
    rule: compareSchemaCatalogValue_compare_fields_compare_items.induct)
  case (1 a r field)
  note IH = 1(1-3) and prems = 1(4,5)
  show ?case
  proof (rule ccontr)
    assume ne: "a \<noteq> r"
    show False
    proof (cases a; cases r)
      fix fs gs assume ar: "a = RStruct fs" "r = RStruct gs"
      then show ?thesis using IH(1) [OF ne refl ar] prems ne by (simp add: compare_value)
    next
      fix p q assume ar: "a = RPtr p" "r = RPtr q"
      show ?thesis
      proof (cases "p = None \<or> q = None")
        case True
        then show ?thesis using ar prems ne by (simp add: compare_value)
      next
        case False
        then obtain x y where "p = Some x" "q = Some y" by auto
        then show ?thesis using IH(2) [OF ne refl ar refl] ar prems ne by (simp add: compare_value)
      qed
    next
      fix xs ys assume ar: "a = RSlice xs" "r = RSlice ys"
      then show ?thesis using IH(3) [OF ne refl ar] prems ne by (simp add: compare_value split: if_splits)
    qed (use prems ne in \<open>simp_all add: compare_value\<close>)
  qed
qed auto

section \<open>Reflected records\<close>

lemma same_items_map: "(\<And>x y. same_type (f x) (f y)) \<Longrightarrow> same_items (map f xs) (map f ys)"
proof (induction xs arbitrary: ys)
  case (Cons x xs)
  then show ?case by (cases ys) simp_all
qed simp

lemma same_type_opt: "(\<And>x y. same_type (f x) (f y)) \<Longrightarrow> same_type (RPtr (map_option f p)) (RPtr (map_option f q))"
  by (cases p; cases q) simp_all

lemmas same_nested = same_items_map same_type_opt

lemma same_type_reflect:
  "same_type (reflectIdentity i) (reflectIdentity i')"
  "same_type (reflectColumn c) (reflectColumn c')"
  "same_type (reflectConstraint k) (reflectConstraint k')"
  "same_type (reflectIndexColumn n) (reflectIndexColumn n')"
  by (simp_all add: reflectIdentity_def reflectColumn_def reflectConstraint_def reflectIndexColumn_def same_nested)

lemma same_type_reflect':
  "same_type (reflectIndex x) (reflectIndex x')"
  "same_type (reflectConstraintTrigger g) (reflectConstraintTrigger g')"
  "same_type (reflectType y) (reflectType y')"
  by (simp_all add: reflectIndex_def reflectConstraintTrigger_def reflectType_def same_nested same_type_reflect)

lemma same_type_table: "same_type (reflectTable t) (reflectTable t')"
  by (simp add: reflectTable_def same_nested same_type_reflect same_type_reflect')

lemma map_option_inj: "inj f \<Longrightarrow> map_option f p = map_option f q \<longleftrightarrow> p = q"
  by (cases p; cases q) (auto simp: inj_eq)

lemma inj_scalars: "inj RString" "inj RInt" "inj RBool"
  by (simp_all add: inj_def)

lemma inj_reflectIdentity: "inj reflectIdentity"
  by (auto simp: inj_def reflectIdentity_def)

lemmas inj_leaves = inj_scalars [THEN map_option_inj] inj_scalars [THEN inj_map_eq_map]
  map_option_inj [OF inj_reflectIdentity] inj_eq [OF inj_reflectIdentity]

lemma inj_reflectColumn: "inj reflectColumn"
  by (intro injI SchemaCatalogColumn.equality) (simp_all add: reflectColumn_def inj_leaves)

lemma inj_reflectConstraint: "inj reflectConstraint"
  by (intro injI SchemaCatalogConstraint.equality) (simp_all add: reflectConstraint_def inj_leaves)

lemma inj_reflectIndexColumn: "inj reflectIndexColumn"
  by (intro injI SchemaCatalogIndexColumn.equality) (simp_all add: reflectIndexColumn_def inj_leaves)

lemma inj_reflectIndex: "inj reflectIndex"
  by (intro injI SchemaCatalogIndex.equality) (simp_all add: reflectIndex_def inj_leaves inj_map_eq_map [OF inj_reflectIndexColumn])

lemma inj_reflectConstraintTrigger: "inj reflectConstraintTrigger"
  by (intro injI SchemaCatalogConstraintTrigger.equality) (simp_all add: reflectConstraintTrigger_def inj_leaves)

lemma inj_reflectType: "inj reflectType"
  by (intro injI SchemaCatalogType.equality) (simp_all add: reflectType_def inj_leaves)

lemma inj_reflectTable: "inj reflectTable"
  by (intro injI SchemaCatalogTable.equality) (simp_all add: reflectTable_def inj_leaves 
      inj_map_eq_map [OF inj_reflectColumn] inj_map_eq_map [OF inj_reflectConstraint]
      inj_map_eq_map [OF inj_reflectIndex] inj_map_eq_map [OF inj_reflectConstraintTrigger])

section \<open>Collections of objects\<close>

lemma compare_object_Nil:
  assumes "\<And>x y. a = Some x \<Longrightarrow> r = Some y \<Longrightarrow> same_type x y"
  shows "compare_object kind a r name = [] \<longleftrightarrow> a = r \<and> a \<noteq> None"
  using assms compare_complete(1)
  by (cases a; cases r) (auto simp: compare_object_def compare_value)

lemma compare_objects_Nil:
  assumes "\<And>x y. x \<in> snd ` set as \<Longrightarrow> y \<in> snd ` set rs \<Longrightarrow> same_type x y"
  shows "compare_objects kind as rs = [] \<longleftrightarrow> map_of as = map_of rs"
proof -
  have st: "same_type x y" if "map_of as k = Some x" "map_of rs k = Some y" for k x y
    using assms that by (force dest: map_of_SomeD)
  have "compare_objects kind as rs = [] \<longleftrightarrow>
      (\<forall>k \<in> fst ` set as \<union> fst ` set rs. map_of as k = map_of rs k \<and> map_of as k \<noteq> None)"
    using compare_object_Nil [OF st] by (auto simp: compare_objects_def)
  also have "\<dots> \<longleftrightarrow> map_of as = map_of rs"
  proof
    assume h: "\<forall>k \<in> fst ` set as \<union> fst ` set rs. map_of as k = map_of rs k \<and> map_of as k \<noteq> None"
    show "map_of as = map_of rs"
    proof
      fix k show "map_of as k = map_of rs k"
        using h by (cases "k \<in> fst ` set as \<union> fst ` set rs") (auto simp: map_of_eq_None_iff [THEN iffD2])
    qed
  next
    assume e: "map_of as = map_of rs"
    then have "map_of as k \<noteq> None" if "k \<in> fst ` set as \<union> fst ` set rs" for k
      using that map_of_eq_None_iff [of as k] map_of_eq_None_iff [of rs k] by auto
    with e show "\<forall>k \<in> fst ` set as \<union> fst ` set rs. map_of as k = map_of rs k \<and> map_of as k \<noteq> None" by simp
  qed
  finally show ?thesis .
qed

text \<open>With distinct names, two maps are equal when the lists have the same members.\<close>

lemma map_of_rev_eq:
  assumes "distinct (map f xs)" and "distinct (map f ys)"
  shows "map_of (rev (map (\<lambda>x. (f x, h x)) xs)) = map_of (rev (map (\<lambda>x. (f x, h x)) ys)) \<longleftrightarrow>
    (\<lambda>x. (f x, h x)) ` set xs = (\<lambda>x. (f x, h x)) ` set ys"
proof -
  have "distinct (map fst (rev (map (\<lambda>x. (f x, h x)) zs)))" if "distinct (map f zs)" for zs
    using that by (simp add: rev_map [symmetric] comp_def)
  from map_of_inject_set [OF this this, OF assms] show ?thesis by simp
qed

section \<open>The comparison is exact\<close>

text \<open>What identifies the members of a collection occurs once.\<close>

definition table_wf :: "SchemaCatalogTable \<Rightarrow> bool" where
  "table_wf t \<longleftrightarrow>
     distinct (map co_Position (tb_Columns t)) \<and> distinct (map cn_Name (tb_Constraints t))
     \<and> distinct (map (\<lambda>i. id_Name (ix_Identity i)) (tb_Indexes t))
     \<and> distinct (map tg_Constraint (tb_ConstraintTriggers t))"

definition catalog_wf :: "SchemaCatalog \<Rightarrow> bool" where
  "catalog_wf c \<longleftrightarrow>
     distinct (map (\<lambda>t. object_name (tb_Identity t)) (Tables c)) \<and> list_all table_wf (Tables c)
     \<and> distinct (map (\<lambda>t. object_name (ty_Identity t)) (Types c))"

text \<open>Two tables are the same when they differ at most in the order of their collections.\<close>

definition same_table :: "SchemaCatalogTable \<Rightarrow> SchemaCatalogTable \<Rightarrow> bool" where
  "same_table t u \<longleftrightarrow>
     set (tb_Columns t) = set (tb_Columns u) \<and> set (tb_Constraints t) = set (tb_Constraints u)
     \<and> set (tb_Indexes t) = set (tb_Indexes u) \<and> set (tb_ConstraintTriggers t) = set (tb_ConstraintTriggers u)
     \<and> t\<lparr>tb_Columns := [], tb_Constraints := [], tb_Indexes := [], tb_ConstraintTriggers := []\<rparr>
       = u\<lparr>tb_Columns := [], tb_Constraints := [], tb_Indexes := [], tb_ConstraintTriggers := []\<rparr>"

definition same_catalog :: "SchemaCatalog \<Rightarrow> SchemaCatalog \<Rightarrow> bool" where
  "same_catalog a r \<longleftrightarrow>
     (\<forall>t \<in> set (Tables a). \<exists>u \<in> set (Tables r). same_table t u)
     \<and> (\<forall>u \<in> set (Tables r). \<exists>t \<in> set (Tables a). same_table t u)
     \<and> set (Types a) = set (Types r)"

lemma sort_key_eq_iff:
  fixes f :: "'a \<Rightarrow> 'b :: linorder"
  assumes "distinct (map f xs)" and "distinct (map f ys)"
  shows "sort_key f xs = sort_key f ys \<longleftrightarrow> set xs = set ys"
proof
  show "sort_key f xs = sort_key f ys \<Longrightarrow> set xs = set ys" by (metis set_sort)
next
  assume e: "set xs = set ys"
  have d: "distinct (map f (sort_key f zs))" if "distinct (map f zs)" for zs
    using that by (simp add: distinct_map)
  show "sort_key f xs = sort_key f ys"
    using d [OF assms(1)] d [OF assms(2)] e assms(1)
    by (intro map_sorted_distinct_set_unique [where f = f]) (auto simp: distinct_map)
qed

lemma sorted_table_eq_iff:
  assumes "table_wf t" and "table_wf u"
  shows "sorted_table t = sorted_table u \<longleftrightarrow> same_table t u"
proof -
  have "sorted_table t = sorted_table u \<longleftrightarrow>
      sort_key co_Position (tb_Columns t) = sort_key co_Position (tb_Columns u)
      \<and> sort_key cn_Name (tb_Constraints t) = sort_key cn_Name (tb_Constraints u)
      \<and> sort_key (\<lambda>i. id_Name (ix_Identity i)) (tb_Indexes t) = sort_key (\<lambda>i. id_Name (ix_Identity i)) (tb_Indexes u)
      \<and> sort_key tg_Constraint (tb_ConstraintTriggers t) = sort_key tg_Constraint (tb_ConstraintTriggers u)
      \<and> t\<lparr>tb_Columns := [], tb_Constraints := [], tb_Indexes := [], tb_ConstraintTriggers := []\<rparr>
        = u\<lparr>tb_Columns := [], tb_Constraints := [], tb_Indexes := [], tb_ConstraintTriggers := []\<rparr>"
    by (cases t; cases u) (simp add: sorted_table_def, blast)
  then show ?thesis using assms by (simp add: same_table_def table_wf_def sort_key_eq_iff)
qed

lemma image_eq_iff:
  "f ` A = f ` B \<longleftrightarrow> (\<forall>x \<in> A. \<exists>y \<in> B. f x = f y) \<and> (\<forall>y \<in> B. \<exists>x \<in> A. f x = f y)"
  by (auto simp: set_eq_iff image_iff) metis+

lemma compare_exact:
  assumes "catalog_wf a" and "catalog_wf r"
  shows "CompareSchemaCatalog a r = [] \<longleftrightarrow> same_catalog a r"
proof -
  let ?T = "\<lambda>t. (object_name (tb_Identity t), reflectTable (sorted_table t))"
  let ?Y = "\<lambda>t. (object_name (ty_Identity t), reflectType t)"
  have id: "object_name (tb_Identity t) = object_name (tb_Identity u)" if "sorted_table t = sorted_table u" for t u
    using arg_cong [OF that, of tb_Identity] by (simp add: sorted_table_def)
  have T: "?T t = ?T u \<longleftrightarrow> same_table t u" if "t \<in> set (Tables a)" "u \<in> set (Tables r)" for t u
    using that assms sorted_table_eq_iff [of t u] id [of t u]
    by (auto simp: catalog_wf_def list_all_iff inj_eq [OF inj_reflectTable])
  have "compare_objects ''table'' (table_objects a) (table_objects r) = [] \<longleftrightarrow> ?T ` set (Tables a) = ?T ` set (Tables r)"
    using map_of_rev_eq [of "\<lambda>t. object_name (tb_Identity t)" "Tables a" "Tables r" "\<lambda>t. reflectTable (sorted_table t)"] assms
    by (subst compare_objects_Nil) (auto simp: table_objects_def same_type_table catalog_wf_def)
  also have "\<dots> \<longleftrightarrow> (\<forall>t \<in> set (Tables a). \<exists>u \<in> set (Tables r). ?T t = ?T u)
      \<and> (\<forall>u \<in> set (Tables r). \<exists>t \<in> set (Tables a). ?T t = ?T u)"
    by (rule image_eq_iff)
  also have "\<dots> \<longleftrightarrow> (\<forall>t \<in> set (Tables a). \<exists>u \<in> set (Tables r). same_table t u)
      \<and> (\<forall>u \<in> set (Tables r). \<exists>t \<in> set (Tables a). same_table t u)"
    using T by (simp cong: ball_cong bex_cong)
  finally have tables: "compare_objects ''table'' (table_objects a) (table_objects r) = [] \<longleftrightarrow> \<dots>" .
  have "inj ?Y" using inj_reflectType by (auto simp: inj_def)
  then have "compare_objects ''type'' (type_objects a) (type_objects r) = [] \<longleftrightarrow> set (Types a) = set (Types r)"
    using map_of_rev_eq [of "\<lambda>t. object_name (ty_Identity t)" "Types a" "Types r" reflectType] assms
    by (subst compare_objects_Nil) (auto simp: type_objects_def same_type_reflect' catalog_wf_def inj_image_eq_iff)
  with tables show ?thesis by (simp add: CompareSchemaCatalog_def same_catalog_def)
qed

end
