(* ===== verification/Install.thy ===== *)
theory Install
  imports Config Catalog
begin

text \<open>
  The owner namespace of the database: the readiness probe of
  \<^verbatim>\<open>internal/adapters/postgres/store.go\<close>, the installation of \<^verbatim>\<open>database/schema.sql\<close> into an empty
  namespace and the reading of a catalog snapshot of \<^verbatim>\<open>bootstrap.go\<close>. A server has its namespaces
  with the relations in them; a session has the settings the statements read and write. What a
  statement may fail with is a parameter, and so is the metadata that the two catalog queries give.
\<close>

section \<open>The server\<close>

text \<open>A relation is its kind, \<^verbatim>\<open>r\<close> for a table and \<^verbatim>\<open>i\<close> for an index, and its name.\<close>

type_synonym relation = "string \<times> string"

record server =
  sv_database :: string
  sv_namespaces :: "string \<rightharpoonup> relation list"

record pg_session =
  ss_search_path :: string
  ss_TimeZone :: string
  ss_repeatable_read :: bool
  ss_read_only :: bool

text \<open>The first namespace of the search path that exists; the path has one element here.\<close>

definition current_schema :: "server \<Rightarrow> pg_session \<Rightarrow> string option" where
  "current_schema sv ss = (if sv_namespaces sv (ss_search_path ss) = None then None else Some (ss_search_path ss))"

definition owner_tables :: "string list" where
  "owner_tables = [''scheduler_schedule'', ''scheduler_occurrence'', ''scheduler_command_receipt'', ''scheduler_dispatch_outbox'']"

definition namespace_ready :: "server \<Rightarrow> pg_session \<Rightarrow> string \<Rightarrow> bool" where
  "namespace_ready sv ss name \<longleftrightarrow>
     current_schema sv ss = Some name \<and> ss_search_path ss = name \<and> ss_TimeZone ss = ''UTC''
     \<and> (case sv_namespaces sv name of
          None \<Rightarrow> False
        | Some rels \<Rightarrow> length (filter (\<lambda>(kind, rel). kind = ''r'' \<and> rel \<in> set owner_tables) rels) = 4)"

definition checkNamespaceReady :: "goerr option \<Rightarrow> DatabaseTarget \<Rightarrow> server \<Rightarrow> pg_session \<Rightarrow> goerr option" where
  "checkNamespaceReady failure target sv ss =
     (if schemaName target = [] then Some (Err ''scheduler PostgreSQL owner namespace is not configured'' [])
      else if failure \<noteq> None then Some (Err ''inspect scheduler PostgreSQL owner readiness failed'' [])
      else if \<not> namespace_ready sv ss (schemaName target)
      then Some (Err ''scheduler PostgreSQL owner namespace, UTC session or required facts are not ready'' [])
      else None)"

text \<open>\<open>acquired\<close> is the session of the pool, with the settings of the driver URL.\<close>

definition Ping :: "bool \<Rightarrow> pg_session res \<Rightarrow> goerr option \<Rightarrow> DatabaseTarget \<Rightarrow> server \<Rightarrow> goerr option" where
  "Ping configured acquired failure target sv =
     (if \<not> configured then Some (Err ''scheduler PostgreSQL store is not configured'' [])
      else case acquired of
        Inl _ \<Rightarrow> Some (Err ''acquire scheduler PostgreSQL readiness session failed'' [])
      | Inr ss \<Rightarrow> checkNamespaceReady failure target sv ss)"

section \<open>Installation\<close>

text \<open>\<^verbatim>\<open>CREATE ... IF NOT EXISTS\<close> for the relations of the schema, in order.\<close>

definition schema_relations :: "relation list" where
  "schema_relations =
     [(''r'', ''scheduler_schedule''), (''i'', ''ix_scheduler_schedule_due''),
      (''i'', ''ix_scheduler_schedule_claim_expiry''), (''r'', ''scheduler_occurrence''),
      (''i'', ''ix_scheduler_occurrence_tenant_schedule''), (''i'', ''ix_scheduler_occurrence_status''),
      (''r'', ''scheduler_command_receipt''), (''i'', ''ix_scheduler_command_receipt_created''),
      (''r'', ''scheduler_dispatch_outbox''), (''i'', ''ix_scheduler_dispatch_outbox_ready''),
      (''i'', ''ix_scheduler_dispatch_outbox_claim_expiry'')]"

definition create_missing :: "relation \<Rightarrow> relation list \<Rightarrow> relation list" where
  "create_missing x rels = (if snd x \<in> set (map snd rels) then rels else rels @ [x])"

definition exec_schema :: "pg_session \<Rightarrow> server \<Rightarrow> server option" where
  "exec_schema ss sv =
     (case current_schema sv ss of
        None \<Rightarrow> None
      | Some name \<Rightarrow>
          Some (sv\<lparr>sv_namespaces := (sv_namespaces sv)
            (name \<mapsto> fold create_missing schema_relations (the (sv_namespaces sv name)))\<rparr>))"

definition occupied :: "server \<Rightarrow> string \<Rightarrow> bool" where
  "occupied sv name \<longleftrightarrow> (case sv_namespaces sv name of None \<Rightarrow> False | Some rels \<Rightarrow> rels \<noteq> [])"

definition create_schema :: "string \<Rightarrow> server \<Rightarrow> server" where
  "create_schema name sv =
     (if sv_namespaces sv name = None then sv\<lparr>sv_namespaces := (sv_namespaces sv)(name \<mapsto> [])\<rparr> else sv)"

text \<open>
  Which statements fail. A commit fails without effect, or it takes effect and only its
  acknowledgement is lost. The advisory lock keeps other installations out until the end, so that
  the statements of one installation see no other.
\<close>

datatype commit = Committed | NotCommitted | Unacknowledged

record install_faults =
  if_begin :: bool
  if_database :: bool
  if_lock :: bool
  if_occupied :: bool
  if_create :: bool
  if_config :: bool
  if_schema :: bool
  if_ready :: "goerr option"
  if_commit :: commit

definition ApplySchemaToEmptyDatabase ::
  "bool \<Rightarrow> DatabaseTarget \<Rightarrow> install_faults \<Rightarrow> pg_session \<Rightarrow> server \<Rightarrow> goerr option \<times> server" where
  "ApplySchemaToEmptyDatabase pool target f ss0 sv =
     (let failed = (\<lambda>message. (Some (Err message []), sv)); name = schemaName target
      in if \<not> pool \<or> name = [] then failed ''db:apply-schema requires a PostgreSQL pool and explicit owner namespace''
      else if if_begin f then failed ''begin owner schema installation failed''
      else if if_database f then failed ''inspect owner installation database failed''
      else if if_lock f then failed ''acquire owner schema installation lock failed''
      else if if_occupied f then failed ''inspect owner namespace objects failed''
      else if occupied sv name
      then failed ''db:apply-schema requires an empty database schema; target owner namespace contains objects''
      else if if_create f then failed ''create target owner namespace failed''
      else let sv1 = create_schema name sv
      in if if_config f then failed ''select target owner installation session failed''
      else let ss = ss0\<lparr>ss_search_path := name, ss_TimeZone := ''UTC''\<rparr>
      in if if_schema f then failed ''execute canonical database/schema.sql failed''
      else case exec_schema ss sv1 of
        None \<Rightarrow> failed ''execute canonical database/schema.sql failed''
      | Some sv2 \<Rightarrow>
          (case checkNamespaceReady (if_ready f) target sv2 ss of
             Some err \<Rightarrow> (Some (ErrWrap ''verify owner installation: %w'' [] err), sv)
           | None \<Rightarrow>
               (case if_commit f of
                  Committed \<Rightarrow> (None, sv2)
                | NotCommitted \<Rightarrow> failed ''commit owner schema installation failed''
                | Unacknowledged \<Rightarrow> (Some (Err ''commit owner schema installation failed'' []), sv2))))"

section \<open>Reading a catalog\<close>

definition schemaCatalogError :: "goerr option \<Rightarrow> string \<Rightarrow> goerr \<Rightarrow> goerr" where
  "schemaCatalogError ctxErr operation err =
     (case ctxErr of
        Some e \<Rightarrow> ErrWrap ''%s: %w'' [operation] e
      | None \<Rightarrow>
          if errors_Is err ErrContextCanceled then ErrWrap ''%s: %w'' [operation] ErrContextCanceled
          else if errors_Is err ErrDeadlineExceeded then ErrWrap ''%s: %w'' [operation] ErrDeadlineExceeded
          else Err ''%s failed'' [operation])"

text \<open>The answer of a catalog query: an error, a text that does not decode, or the decoded metadata.\<close>

datatype 'a metadata = QueryFailed goerr | Undecodable | Decoded 'a

definition readSchemaCatalogJSON :: "goerr option \<Rightarrow> 'a metadata \<Rightarrow> 'a res" where
  "readSchemaCatalogJSON ctxErr answer =
     (case answer of
        QueryFailed err \<Rightarrow> Inl (schemaCatalogError ctxErr ''read structural catalog metadata'' err)
      | Undecodable \<Rightarrow> Inl (Err ''decode structural catalog metadata failed'' [])
      | Decoded x \<Rightarrow> Inr x)"

record catalog_answers =
  ca_ctx :: "string \<Rightarrow> goerr option"
  ca_begin :: "goerr option"
  ca_exists :: "goerr option"
  ca_config :: "goerr option"
  ca_session :: "goerr option"
  ca_unsupported :: "bool res"
  ca_tables :: "SchemaCatalogTable list metadata"
  ca_types :: "SchemaCatalogType list metadata"
  ca_commit :: "goerr option"

definition ReadSchemaCatalog :: "bool \<Rightarrow> DatabaseTarget \<Rightarrow> catalog_answers \<Rightarrow> pg_session \<Rightarrow> server \<Rightarrow> SchemaCatalog res" where
  "ReadSchemaCatalog pool target q ss0 sv =
     (let name = schemaName target; failed = (\<lambda>operation err. Inl (schemaCatalogError (ca_ctx q operation) operation err))
      in if \<not> pool \<or> name = [] then Inl (Err ''read catalog requires a pool and explicit owner namespace'' [])
      else case ca_begin q of
        Some err \<Rightarrow> failed ''begin read-only catalog snapshot'' err
      | None \<Rightarrow>
      case ca_exists q of
        Some err \<Rightarrow> failed ''inspect catalog target'' err
      | None \<Rightarrow>
      if sv_namespaces sv name = None then Inl (Err ''catalog target namespace does not exist'' [])
      else case ca_config q of
        Some err \<Rightarrow> failed ''select read-only catalog session'' err
      | None \<Rightarrow>
      let ss = ss0\<lparr>ss_search_path := name, ss_TimeZone := ''UTC'', ss_repeatable_read := True, ss_read_only := True\<rparr>
      in case ca_session q of
        Some err \<Rightarrow> failed ''verify read-only catalog session'' err
      | None \<Rightarrow>
      if \<not> (current_schema sv ss = Some name \<and> ss_search_path ss = name \<and> ss_TimeZone ss = ''UTC''
             \<and> ss_repeatable_read ss \<and> ss_read_only ss)
      then Inl (Err ''catalog session is not the explicit owner UTC read-only repeatable-read target'' [])
      else case ca_unsupported q of
        Inl err \<Rightarrow> failed ''inspect catalog object inventory'' err
      | Inr unsupported \<Rightarrow>
      if unsupported then Inl (Err ''catalog contains an unsupported owner object or structure'' [])
      else case readSchemaCatalogJSON (ca_ctx q ''read structural catalog metadata'') (ca_tables q) of
        Inl err \<Rightarrow> Inl err
      | Inr tables \<Rightarrow>
      case readSchemaCatalogJSON (ca_ctx q ''read structural catalog metadata'') (ca_types q) of
        Inl err \<Rightarrow> Inl err
      | Inr types \<Rightarrow>
      let snapshot = \<lparr>Tables = tables, Types = types\<rparr>
      in if \<not> validSchemaCatalogIdentities snapshot then Inl (Err ''catalog contains an unresolved structural identity'' [])
      else case ca_commit q of
        Some err \<Rightarrow> failed ''finish read-only catalog snapshot'' err
      | None \<Rightarrow> Inr snapshot)"

section \<open>What they guarantee\<close>

lemma fold_create_missing: "fold create_missing schema_relations [] = schema_relations"
  by (simp add: schema_relations_def create_missing_def)

lemma schema_relations_ready: "length (filter (\<lambda>(kind, rel). kind = ''r'' \<and> rel \<in> set owner_tables) schema_relations) = 4"
  by (simp add: schema_relations_def owner_tables_def)

lemma installed_namespace:
  assumes "\<not> occupied sv name" and "ss_search_path ss = name"
  shows "exec_schema ss (create_schema name sv) =
    Some (sv\<lparr>sv_namespaces := (sv_namespaces sv)(name \<mapsto> schema_relations)\<rparr>)"
  using assms
  by (auto simp: exec_schema_def create_schema_def current_schema_def occupied_def fold_create_missing
      split: option.splits)

lemma installed_ready:
  assumes "sv_namespaces sv name = Some schema_relations" and "ss_search_path ss = name" and "ss_TimeZone ss = ''UTC''"
  shows "namespace_ready sv ss name"
  using assms schema_relations_ready by (simp add: namespace_ready_def current_schema_def)

lemma install_effect:
  assumes "ApplySchemaToEmptyDatabase pool target f ss sv = (e, sv')"
  shows "sv' = sv \<or> (\<not> occupied sv (schemaName target) \<and> (e = None \<or> if_commit f = Unacknowledged) \<and>
    sv' = sv\<lparr>sv_namespaces := (sv_namespaces sv)(schemaName target \<mapsto> schema_relations)\<rparr>)"
  using assms installed_namespace [of sv "schemaName target" "ss\<lparr>ss_search_path := schemaName target, ss_TimeZone := ''UTC''\<rparr>"]
  by (auto simp: ApplySchemaToEmptyDatabase_def Let_def split: if_splits option.splits commit.splits)

lemma install_succeeds:
  assumes "ApplySchemaToEmptyDatabase pool target f ss sv = (None, sv')"
  shows "\<not> occupied sv (schemaName target)"
    and "sv' = sv\<lparr>sv_namespaces := (sv_namespaces sv)(schemaName target \<mapsto> schema_relations)\<rparr>"
    and "schemaName target \<noteq> []"
  using assms installed_namespace [of sv "schemaName target" "ss\<lparr>ss_search_path := schemaName target, ss_TimeZone := ''UTC''\<rparr>"]
  by (auto simp: ApplySchemaToEmptyDatabase_def Let_def split: if_splits option.splits commit.splits)

definition no_faults :: install_faults where
  "no_faults = \<lparr>if_begin = False, if_database = False, if_lock = False, if_occupied = False, if_create = False,
     if_config = False, if_schema = False, if_ready = None, if_commit = Committed\<rparr>"

lemma install_empty:
  assumes "\<not> occupied sv (schemaName target)" and "schemaName target \<noteq> []"
  shows "ApplySchemaToEmptyDatabase True target no_faults ss sv =
    (None, sv\<lparr>sv_namespaces := (sv_namespaces sv)(schemaName target \<mapsto> schema_relations)\<rparr>)"
proof -
  let ?ss = "ss\<lparr>ss_search_path := schemaName target, ss_TimeZone := ''UTC''\<rparr>"
  have "namespace_ready (sv\<lparr>sv_namespaces := (sv_namespaces sv)(schemaName target \<mapsto> schema_relations)\<rparr>) ?ss (schemaName target)"
    by (rule installed_ready) simp_all
  then show ?thesis
    using assms installed_namespace [OF assms(1), of ?ss]
    by (simp add: ApplySchemaToEmptyDatabase_def no_faults_def checkNamespaceReady_def)
qed

lemma install_refused:
  assumes "occupied sv (schemaName target)"
  shows "\<exists>e. ApplySchemaToEmptyDatabase pool target f ss sv = (Some e, sv)"
  using assms by (simp add: ApplySchemaToEmptyDatabase_def Let_def)

lemma ReadSchemaCatalog_Inr:
  assumes "ReadSchemaCatalog pool target q ss sv = Inr c"
  shows "validSchemaCatalogIdentities c" and "sv_namespaces sv (schemaName target) \<noteq> None"
    and "ca_unsupported q = Inr False" and "ca_tables q = Decoded (Tables c)" and "ca_types q = Decoded (Types c)"
  using assms
  by (auto simp: ReadSchemaCatalog_def readSchemaCatalogJSON_def Let_def
      split: if_splits option.splits sum.splits metadata.splits)

text \<open>No text of the driver reaches the caller of a failed reading.\<close>

lemma schemaCatalogError_opaque:
  "schemaCatalogError ctxErr operation err \<in>
     {Err ''%s failed'' [operation], ErrWrap ''%s: %w'' [operation] ErrContextCanceled,
      ErrWrap ''%s: %w'' [operation] ErrDeadlineExceeded}
   \<or> (\<exists>e. ctxErr = Some e \<and> schemaCatalogError ctxErr operation err = ErrWrap ''%s: %w'' [operation] e)"
  by (simp add: schemaCatalogError_def split: option.splits)

end
