(* ===== verification/Process.thy ===== *)
theory Process
  imports Config Client Runtime Planner Dispatcher Lease Install
begin

text \<open>
  The processes of the repository: the scheduler of \<^verbatim>\<open>cmd/scheduler/main.go\<close>, from the environment
  to a runtime that accepts work, its readiness and its health check, the installer of
  \<^verbatim>\<open>cmd/db-apply-schema/main.go\<close>, and the random source of \<^verbatim>\<open>internal/adapters/system/random.go\<close>.
  What the operating system, the drivers and the libraries answer are parameters; the HTTP server,
  the signals and the log are not modelled.
\<close>

section \<open>Random numbers\<close>

definition Int63n :: "(int \<Rightarrow> int res) \<Rightarrow> int \<Rightarrow> int res" where
  "Int63n rand_Int maxExclusive =
     (if maxExclusive \<le> 0 then Inl (Err ''random upper bound must be positive'' [])
      else case rand_Int maxExclusive of Inl err \<Rightarrow> Inl err | Inr value \<Rightarrow> Inr value)"

section \<open>Starting the scheduler\<close>

record outside =
  os_pool :: "goerr option"
  os_ping :: "DatabaseTarget \<Rightarrow> goerr option"
  os_redis_ParseURL :: "string \<Rightarrow> int res"
  os_redisPing :: "goerr option"
  os_Hostname :: "string res"
  os_entropy :: "string option"
  os_newScheduler :: "goerr option"
  os_newJob :: "goerr option"

text \<open>Whether there is a Redis client and a lease store.\<close>

definition openRedis :: "outside \<Rightarrow> string \<Rightarrow> bool res" where
  "openRedis x rawURL =
     (if TrimSpace rawURL = [] then Inr False
      else case os_redis_ParseURL x rawURL of
        Inl err \<Rightarrow> Inl (ErrWrap ''parse scheduler Redis URL: %w'' [] err)
      | Inr db \<Rightarrow>
          if db \<noteq> 7 then Inl (Err ''scheduler Redis URL must select logical DB 7'' [])
          else case os_redisPing x of
            Some err \<Rightarrow> Inl (ErrWrap ''ping scheduler Redis coordination: %w'' [] err)
          | None \<Rightarrow> Inr True)"

definition resolveWorkerID :: "outside \<Rightarrow> string \<Rightarrow> string res" where
  "resolveWorkerID x configured0 =
     (let configured = TrimSpace configured0
      in if configured \<noteq> [] then Inr configured
         else case os_Hostname x of
           Inl err \<Rightarrow> Inl (ErrWrap ''resolve scheduler worker hostname: %w'' [] err)
         | Inr hostname \<Rightarrow>
             (case os_entropy x of
                None \<Rightarrow> Inl (ErrWrap ''generate scheduler worker identity: %w'' [] (Err ''rand: read failed'' []))
              | Some suffix \<Rightarrow> Inr (hostname @ ''-'' @ hex_bytes suffix)))"

record Process =
  ps_config :: Config
  ps_redis :: bool
  ps_planner :: Planner
  ps_dispatcher :: Dispatcher
  ps_target :: Client
  ps_runtime :: Runtime

text \<open>\<^verbatim>\<open>Start\<close> without a wakeup in between.\<close>

definition Start :: "goerr option \<Rightarrow> Runtime \<Rightarrow> Runtime" where
  "Start newJob r =
     (let r0 = Start_lock r
      in if rt_start r0 \<noteq> Marked then r0
         else let r1 = Start_wakeup newJob r0
         in if rt_start r1 = Woken then Start_trigger (Start_publish r1) else r1)"

definition target_policy :: "Config \<Rightarrow> (string \<Rightarrow> addr \<Rightarrow> bool) option" where
  "target_policy cfg = map_option (\<lambda>al. Allows (Some al)) (cfg_InternalTargetAllowlist cfg)"

text \<open>The components of the process, wired as \<^verbatim>\<open>run\<close> wires them, and the start of the runtime.\<close>

definition assemble :: "outside \<Rightarrow> Config \<Rightarrow> bool \<Rightarrow> string \<Rightarrow> Process res" where
  "assemble x cfg redis workerID =
     (case NewPlanner workerID (cfg_ClaimTTL cfg) (cfg_BatchSize cfg) of
        Inl err \<Rightarrow> Inl err
      | Inr planner \<Rightarrow>
      case NewDispatcher workerID (cfg_ClaimTTL cfg) (cfg_DispatchTimeout cfg) (cfg_BatchSize cfg) of
        Inl err \<Rightarrow> Inl err
      | Inr dispatcher \<Rightarrow>
      case NewWakeup (cfg_WakeupInterval cfg) (os_newScheduler x) of
        Inl err \<Rightarrow> Inl err
      | Inr wakeup \<Rightarrow>
      case NewRuntime (Some wakeup) True of
        Inl err \<Rightarrow> Inl err
      | Inr runtime \<Rightarrow>
      case rt_start (Start (os_newJob x) runtime) of
        Started (Some err) \<Rightarrow> Inl (ErrWrap ''start scheduler wakeup adapter: %w'' [] err)
      | _ \<Rightarrow>
          Inr \<lparr>ps_config = cfg, ps_redis = redis, ps_planner = planner, ps_dispatcher = dispatcher,
               ps_target = NewDefaultClientWithAllowlist (cfg_DispatchTimeout cfg) (cfg_TargetServiceToken cfg)
                 (target_policy cfg),
               ps_runtime = Start (os_newJob x) runtime\<rparr>)"

text \<open>The steps of \<^verbatim>\<open>run\<close> up to the HTTP server.\<close>

definition run_startup :: "configlib \<Rightarrow> (string \<Rightarrow> string) \<Rightarrow> outside \<Rightarrow> Process res" where
  "run_startup l getenv x =
     (case Load l getenv of
        Inl err \<Rightarrow> Inl (ErrWrap ''load scheduler configuration: %w'' [] err)
      | Inr cfg \<Rightarrow>
      if os_pool x \<noteq> None then Inl (Err ''open scheduler PostgreSQL store failed'' [])
      else case os_ping x (cfg_Database cfg) of
        Some err \<Rightarrow> Inl (ErrWrap ''ping scheduler PostgreSQL store: %w'' [] err)
      | None \<Rightarrow>
      case openRedis x (cfg_RedisURL cfg) of
        Inl err \<Rightarrow> Inl err
      | Inr redis \<Rightarrow>
      case resolveWorkerID x (cfg_WorkerID cfg) of
        Inl err \<Rightarrow> Inl err
      | Inr workerID \<Rightarrow> assemble x cfg redis workerID)"

text \<open>The readiness check of the HTTP handler.\<close>

definition readiness :: "Process \<Rightarrow> (DatabaseTarget \<Rightarrow> goerr option) \<Rightarrow> goerr option \<Rightarrow> goerr option" where
  "readiness p ping redisPing =
     (if \<not> Ready (ps_runtime p) then Some (Err ''scheduler runtime is not accepting work'' [])
      else case ping (cfg_Database (ps_config p)) of
        Some err \<Rightarrow> Some err
      | None \<Rightarrow> if ps_redis p then redisPing else None)"

text \<open>The error of \<^verbatim>\<open>run\<close> after the server and the runtime have stopped.\<close>

definition run_result :: "goerr option \<Rightarrow> goerr option \<Rightarrow> goerr option \<Rightarrow> goerr option" where
  "run_result serveErr serverErr runtimeErr = errors_Join (errors_Join serveErr serverErr) runtimeErr"

definition runHealthcheck :: "(string \<Rightarrow> string) \<Rightarrow> (string \<Rightarrow> int res) \<Rightarrow> int" where
  "runHealthcheck getenv get =
     (let u = getenv ''SCHEDULER_HEALTHCHECK_URL''; url = (if u = [] then ''http://127.0.0.1:8080/readyz'' else u)
      in case get url of
        Inl _ \<Rightarrow> 1
      | Inr status \<Rightarrow> if status \<noteq> 200 then 1 else 0)"

section \<open>Installing the schema\<close>

definition apply_schema_run ::
  "configlib \<Rightarrow> (string \<Rightarrow> string) \<Rightarrow> goerr option \<Rightarrow> goerr option \<Rightarrow> install_faults \<Rightarrow> pg_session \<Rightarrow> server
    \<Rightarrow> goerr option \<times> server" where
  "apply_schema_run l getenv newPool ping f ss sv =
     (case ParseDatabaseURL l (getenv ''SCHEDULER_DATABASE_URL'') of
        Inl err \<Rightarrow> (Some (ErrWrap ''load %s: %w'' [''SCHEDULER_DATABASE_URL''] err), sv)
      | Inr target \<Rightarrow>
          if newPool \<noteq> None then (Some (Err ''open PostgreSQL target failed'' []), sv)
          else if ping \<noteq> None then (Some (Err ''ping PostgreSQL target failed'' []), sv)
          else ApplySchemaToEmptyDatabase True target f ss sv)"

section \<open>What they guarantee\<close>

lemma resolveWorkerID_not_empty: "resolveWorkerID x configured = Inr w \<Longrightarrow> w \<noteq> []"
  by (auto simp: resolveWorkerID_def Let_def split: if_splits sum.splits option.splits)

lemma Start_ok:
  assumes "NewRuntime (Some w) True = Inr r" and "\<not> wk_started w"
  shows "Start None r = r\<lparr>rt_wakeup := w\<lparr>wk_jobs := Suc (wk_jobs w), wk_running := True, wk_started := True\<rparr>,
    rt_ready := True, rt_accepting := True, rt_inFlight := 1, rt_start := Started None\<rparr>"
  using assms
  by (auto simp: NewRuntime_def Start_def Start_lock_def Start_wakeup_def Wakeup_Start_def Start_publish_def
      Start_trigger_def trigger_def)

lemma Start_failed: 
  assumes "NewRuntime (Some w) True = Inr r" and "\<not> wk_started w"
  shows "rt_start (Start (Some err) r) = Started (Some err)"
  using assms by (auto simp: NewRuntime_def Start_def Start_lock_def Start_wakeup_def Wakeup_Start_def)

lemma Start_reachable:
  assumes "runtime_reachable r" and "rt_start r = Unstarted" and "\<not> rt_accepting r"
  shows "runtime_reachable (Start newJob r)"
proof -
  let ?r1 = "Start_wakeup newJob (Start_lock r)"
  have "runtime_reachable (Start_lock r)" using assms by (blast intro: runtime_reachable.more start_lock)
  moreover have marked: "rt_start (Start_lock r) = Marked" using assms(3) by (simp add: Start_lock_def)
  ultimately have r1: "runtime_reachable ?r1" by (blast intro: runtime_reachable.more start_wakeup)
  show ?thesis
  proof (cases "rt_start ?r1 = Woken")
    case True
    have "runtime_reachable (Start_publish ?r1)" using r1 True by (blast intro: runtime_reachable.more start_publish)
    moreover have "rt_start (Start_publish ?r1) = Published" by (simp add: Start_publish_def)
    ultimately have "runtime_reachable (Start_trigger (Start_publish ?r1))"
      by (blast intro: runtime_reachable.more start_trigger)
    then show ?thesis using True marked by (simp add: Start_def Let_def)
  qed (use r1 marked in \<open>simp add: Start_def Let_def\<close>)
qed

definition new_runtime :: "duration \<Rightarrow> Runtime" where
  "new_runtime i =
     \<lparr>rt_wakeup = \<lparr>wk_interval = i, wk_jobs = 0, wk_running = False, wk_started = False\<rparr>, rt_ready = False,
      rt_accepting = False, rt_cancelled = False, rt_inFlight = 0, rt_start = Unstarted, rt_stop = Running\<rparr>"

text \<open>Only the scheduler library can keep a configuration with a positive interval from being assembled.\<close>

lemma assemble_eq:
  assumes "workerID \<noteq> []" and "0 < cfg_WakeupInterval cfg"
  shows "assemble x cfg redis workerID =
    (case os_newScheduler x of
       Some err \<Rightarrow> Inl err
     | None \<Rightarrow>
     case os_newJob x of
       Some err \<Rightarrow> Inl (ErrWrap ''start scheduler wakeup adapter: %w'' [] err)
     | None \<Rightarrow>
         Inr \<lparr>ps_config = cfg, ps_redis = redis,
              ps_planner = projr (NewPlanner workerID (cfg_ClaimTTL cfg) (cfg_BatchSize cfg)),
              ps_dispatcher = projr (NewDispatcher workerID (cfg_ClaimTTL cfg) (cfg_DispatchTimeout cfg) (cfg_BatchSize cfg)),
              ps_target = NewDefaultClientWithAllowlist (cfg_DispatchTimeout cfg) (cfg_TargetServiceToken cfg)
                (target_policy cfg),
              ps_runtime = Start None (new_runtime (cfg_WakeupInterval cfg))\<rparr>)"
proof (cases "os_newScheduler x")
  case None
  let ?r = "new_runtime (cfg_WakeupInterval cfg)"
  have wk: "NewWakeup (cfg_WakeupInterval cfg) None = Inr (rt_wakeup ?r)"
    using assms(2) by (simp add: NewWakeup_def new_runtime_def)
  have r: "NewRuntime (Some (rt_wakeup ?r)) True = Inr ?r" by (simp add: NewRuntime_def new_runtime_def)
  have st: "\<not> wk_started (rt_wakeup ?r)" by (simp add: new_runtime_def)
  show ?thesis
  proof (cases "os_newJob x")
    case None
    have "rt_start (Start None ?r) = Started None" by (simp add: Start_ok [OF r st])
    then show ?thesis
      using None \<open>os_newScheduler x = None\<close> wk r assms(1) by (simp add: assemble_def NewPlanner_def NewDispatcher_def)
  next
    case (Some err)
    then show ?thesis
      using \<open>os_newScheduler x = None\<close> wk r assms(1) Start_failed [OF r st, of err]
      by (simp add: assemble_def NewPlanner_def NewDispatcher_def)
  qed
next
  case (Some err)
  then show ?thesis using assms by (simp add: assemble_def NewPlanner_def NewDispatcher_def NewWakeup_def)
qed

lemma run_startup_cases:
  assumes "run_startup l getenv x = Inr p"
  obtains cfg redis w where "Load l getenv = Inr cfg" and "os_pool x = None" and "os_ping x (cfg_Database cfg) = None"
    and "openRedis x (cfg_RedisURL cfg) = Inr redis" and "resolveWorkerID x (cfg_WorkerID cfg) = Inr w"
    and "assemble x cfg redis w = Inr p"
  using assms by (auto simp: run_startup_def split: sum.splits if_splits option.splits)

lemma new_runtime_started:
  assumes "0 < i"
  shows "Ready (Start None (new_runtime i))" and "runtime_reachable (Start None (new_runtime i))"
proof -
  let ?r = "new_runtime i"
  have r: "NewRuntime (Some (rt_wakeup ?r)) True = Inr ?r" by (simp add: NewRuntime_def new_runtime_def)
  have "\<not> wk_started (rt_wakeup ?r)" by (simp add: new_runtime_def)
  from Start_ok [OF r this] show "Ready (Start None ?r)" by (simp add: Ready_def)
  have "NewWakeup i None = Inr (rt_wakeup ?r)" using assms by (simp add: NewWakeup_def new_runtime_def)
  then have "runtime_reachable ?r" using r by (rule runtime_reachable.new)
  then show "runtime_reachable (Start None ?r)" by (rule Start_reachable) (simp_all add: new_runtime_def)
qed

text \<open>
  The jitter never sees a number out of range, as \<^verbatim>\<open>rand.Int\<close> is documented: it only fails when the
  source of entropy does.
\<close>

lemma jitter_in_range:
  assumes "\<And>m v. 0 < m \<Longrightarrow> rand_Int m = Inr v \<Longrightarrow> 0 \<le> v \<and> v < m" and "ceiling + 1 < 2 ^ 63"
    and "rand_Int (ceiling + 1) \<noteq> Inl e"
  shows "fullJitter (Int63n rand_Int) ceiling \<noteq> Inl e"
proof (cases "ceiling \<le> 0")
  case True
  then show ?thesis by (simp add: fullJitter_def)
next
  case False
  then have i: "int64 (ceiling + 1) = ceiling + 1" using assms(2) by (intro int64_id) simp_all
  show ?thesis
  proof (cases "rand_Int (ceiling + 1)")
    case (Inl e')
    then show ?thesis using False assms(3) by (simp add: fullJitter_def Int63n_def i)
  next
    case (Inr v)
    then have "0 \<le> v \<and> v < ceiling + 1" using assms(1) [of "ceiling + 1" v] False by simp
    then show ?thesis using False Inr by (simp add: fullJitter_def Int63n_def i)
  qed
qed

end
