(* ===== verification/InstallSamples.thy ===== *)
theory InstallSamples
  imports ProcessSamples Process CatalogProps Tickets JsonWalk
begin

text \<open>
  Concrete runs of the start of the process, of an installation and of the comparison of two
  catalogs.
\<close>

definition demo_outside :: outside where
  "demo_outside =
     \<lparr>os_pool = None, os_ping = (\<lambda>_. None), os_redis_ParseURL = (\<lambda>_. Inr 7), os_redisPing = None,
      os_Hostname = Inr ''host'', os_entropy = Some ''r'', os_newScheduler = None, os_newJob = None\<rparr>"

lemma demo_process_starts: "\<exists>p. run_startup demo_configlib demo_env demo_outside = Inr p"
proof -
  have trim: "TrimSpace [] = []" by code_simp
  have "resolveWorkerID demo_outside (cfg_WorkerID demo_config) = Inr (''host-'' @ hex_bytes ''r'')"
    by (simp add: resolveWorkerID_def demo_config_def demo_outside_def trim)
  moreover have "openRedis demo_outside (cfg_RedisURL demo_config) = Inr False"
    by (simp add: openRedis_def demo_config_def trim)
  ultimately show ?thesis
    by (simp add: run_startup_def demo_config_loaded assemble_eq)
      (simp add: demo_outside_def demo_config_def duration_units assemble_eq)
qed

definition demo_server :: server where
  "demo_server = \<lparr>sv_database = ''kokoro'', sv_namespaces = [''other'' \<mapsto> [(''r'', ''t'')]]\<rparr>"

definition demo_session :: pg_session where
  "demo_session = \<lparr>ss_search_path = ''kokoro'', ss_TimeZone = ''UTC'', ss_repeatable_read = False, ss_read_only = False\<rparr>"

definition demo_target :: DatabaseTarget where
  "demo_target = \<lparr>driverURL = ''postgres://db'', schemaName = ''kokoro''\<rparr>"

definition demo_column :: "int \<Rightarrow> string \<Rightarrow> bool \<Rightarrow> SchemaCatalogColumn" where
  "demo_column n name notNull =
     \<lparr>co_Position = n, co_Name = name, co_Type = Some \<lparr>id_Namespace = ''pg_catalog'', id_Name = ''text''\<rparr>,
      co_TypeModifier = - 1, co_Dimensions = 0, co_Collation = None, co_NotNull = notNull, co_Identity = [],
      co_Generated = [], co_Dropped = False, co_Default = None, co_Storage = ''x'', co_Compression = [], co_Comment = None\<rparr>"

definition demo_table :: "SchemaCatalogColumn list \<Rightarrow> SchemaCatalogTable" where
  "demo_table cs =
     \<lparr>tb_Identity = \<lparr>id_Namespace = ''SELF'', id_Name = ''t''\<rparr>, tb_Kind = ''r'', tb_Persistence = ''p'',
      tb_AccessMethod = ''heap'', tb_Options = [], tb_RowSecurity = False, tb_ForceRowSecurity = False,
      tb_ReplicaIdentity = ''d'', tb_Comment = None, tb_Columns = cs, tb_Constraints = [], tb_Indexes = [],
      tb_ConstraintTriggers = []\<rparr>"

definition demo_catalog :: "SchemaCatalogColumn list \<Rightarrow> SchemaCatalog" where
  "demo_catalog cs = \<lparr>Tables = [demo_table cs], Types = []\<rparr>"

text \<open>A difference is reported with the path to it.\<close>

lemma demo_difference:
  "CompareSchemaCatalog (demo_catalog [demo_column 2 ''b'' True, demo_column 1 ''a'' True])
     (demo_catalog [demo_column 1 ''a'' True, demo_column 2 ''b'' False]) =
   [\<lparr>ObjectKind = ''table'', ObjectName = ''SELF.t'', Field = ''Columns[1].NotNull''\<rparr>]"
  by code_simp

end
