(* ===== verification/Spec2Isabelle.thy ===== *)
theory Spec2Isabelle
  imports Prelude GoStrings Calendar Cron CronText Recurrence Targets Json JsonText Digest Timestamps
    Domain DomainProps Store Outbox
    Invariants Links Commands CommandProps ServiceProps Planner PlannerProps Materialize
    Dispatcher DispatchProps System Claims Demo Samples
    JsonKeys Requests Handler HandlerProps HttpSamples
    Client Wiring Config Lease Runtime ProcessSamples
    Tickets JsonWalk Catalog CatalogProps Install Process InstallSamples
begin

text \<open>
  kokoro-scheduler is a Go service that keeps schedules in PostgreSQL, turns due schedules into
  occurrences and calls an HTTP target for each occurrence. This development models its own code
  and proves what the service promises.

  \<^bold>\<open>The parts and how they work together.\<close> A command arrives over HTTP
  (\<^verbatim>\<open>internal/transport/http\<close>) and is executed once per idempotency key by the command service
  (\<^verbatim>\<open>internal/application/commands.go\<close>) in a transaction of the store
  (\<^verbatim>\<open>internal/adapters/postgres\<close>). A runtime (\<^verbatim>\<open>internal/application/runtime.go\<close>), woken by
  \<^verbatim>\<open>internal/adapters/gocron\<close>, runs cycles: the planner claims due schedules, computes with the
  recurrence calculator (\<^verbatim>\<open>internal/adapters/recurrence\<close>) which occurrences they owe, and
  inserts occurrences and outbox rows in one transaction; the dispatcher claims outbox rows, takes
  an optional lease (\<^verbatim>\<open>internal/adapters/redis\<close>), begins an attempt in the database, calls the
  target (\<^verbatim>\<open>internal/adapters/httpclient\<close>) and records the outcome. Any number of processes do
  this over one database. \<^verbatim>\<open>cmd/scheduler\<close> wires the parts from the environment
  (\<^verbatim>\<open>internal/config\<close>), \<^verbatim>\<open>cmd/db-apply-schema\<close> installs \<^verbatim>\<open>database/schema.sql\<close>.

  \<^bold>\<open>Ground.\<close> \<open>Prelude\<close> has Go's error values, \<open>'a res\<close> for fallible functions, and 64-bit
  wrap-around. \<open>GoStrings\<close>, \<open>Decimal\<close>, \<open>Calendar\<close>, \<open>Timestamps\<close>, \<open>Digest\<close>, \<open>Json\<close> and \<open>JsonText\<close>
  model what the program uses of the standard library: texts as bytes, numerals, civil time with
  instants as nanoseconds since year 1, RFC 3339, SHA-256, and the JSON decoder and encoder with the
  theorem that what is written is read back.

  \<^bold>\<open>Domain and recurrence.\<close> \<open>Domain\<close> and \<open>DomainProps\<close> model \<^verbatim>\<open>internal/domain\<close>: schedules with
  defaults, normalisation and validation, occurrence identities, dispatch results, receipts.
  \<open>Targets\<close> has the address policy, with the safe IPv4 addresses as numeric ranges. \<open>Cron\<close>,
  \<open>CronText\<close> and \<open>Recurrence\<close> model \<^verbatim>\<open>cron.go\<close> and \<^verbatim>\<open>calculator.go\<close>; the locale
  \<open>recurrence_port\<close> states the laws of \<^verbatim>\<open>ports.Recurrence\<close>, the calculator interprets it, and the
  planner's lemmas are proved in it.

  \<^bold>\<open>The store.\<close> \<open>Store\<close> and \<open>Outbox\<close> have one function per method of \<^verbatim>\<open>txStore\<close> over four tables of
  rows, with the constraints of the schema checked on every write; \<open>WithinTx\<close> commits, rolls back,
  or loses the acknowledgement of a commit. \<open>Invariants\<close> and \<open>Links\<close> show that every statement keeps
  \<open>db_wf\<close> (unique keys, constraints) and \<open>linked\<close> (outbox and occurrences agree), and define
  \<open>grows\<close>: nothing is forgotten, final rows do not change.

  \<^bold>\<open>The application.\<close> \<open>Commands\<close>, \<open>CommandProps\<close> and \<open>ServiceProps\<close>: commands run once (locale
  \<open>idempotent_commands\<close>), races of writers are detected, a command touches its schedule only.
  \<open>Planner\<close>, \<open>PlannerProps\<close>, \<open>Materialize\<close>: what a plan is, and its effect. \<open>Dispatcher\<close>,
  \<open>DispatchProps\<close>, \<open>Claims\<close>: attempts, backoff and jitter, fencing by claims. \<open>Wiring\<close> joins the
  dispatcher with the client of the target.

  \<^bold>\<open>The running system.\<close> \<open>System\<close> interleaves all transactions of all processes, with crashes and
  lost connections, as an inductive \<open>step\<close> relation; its invariant is proved by rule induction.
  \<open>Tickets\<close> is the abstract specification of dispatching and the simulation that shows that the
  system refines it.

  \<^bold>\<open>The HTTP interface.\<close> \<open>JsonKeys\<close> is the duplicate-key check that three packages copy, with what
  it is for, \<open>JsonWalk\<close> its termination. \<open>Requests\<close> is \<^verbatim>\<open>routing.go\<close> and \<^verbatim>\<open>json.go\<close>, \<open>Handler\<close> is
  \<^verbatim>\<open>responses.go\<close> and \<^verbatim>\<open>handler.go\<close>; \<open>HandlerProps\<close> proves, in the locale \<open>command_service\<close> that
  the command service interprets, that only authenticated commands write and that answers repeat.

  \<^bold>\<open>The surroundings.\<close> \<open>Client\<close> is \<^verbatim>\<open>client.go\<close>, \<open>Config\<close> is \<^verbatim>\<open>config.go\<close> with the text of the
  allowlist, \<open>Lease\<close> is \<^verbatim>\<open>lease_store.go\<close> over a model of the Redis commands it uses (locale
  \<open>lease_port\<close>) with all processes that hold leases as a step relation, \<open>Runtime\<close> is \<^verbatim>\<open>runtime.go\<close> and
  \<^verbatim>\<open>wakeup.go\<close> cut at their locks into steps. \<open>Catalog\<close> and \<open>CatalogProps\<close> are the comparison of
  schema catalogs by reflection, \<open>Install\<close> the readiness probe, the installation and the reading of a
  catalog, \<open>Process\<close> the two commands. \<open>Demo\<close>, \<open>Samples\<close>, \<open>HttpSamples\<close>, \<open>ProcessSamples\<close> and
  \<open>InstallSamples\<close> evaluate the definitions on concrete inputs, on which the examples of this theory rest.

  \<^bold>\<open>Parameters.\<close> Code that is not in the repository is an argument of the definitions: \<open>golib\<close>
  (\<^verbatim>\<open>time.LoadLocation\<close>, \<^verbatim>\<open>url.Parse\<close>, \<^verbatim>\<open>netip.ParseAddr\<close>), \<open>pg\<close> (what PostgreSQL computes: ids,
  \<^verbatim>\<open>JSONB\<close>, the rounding of timestamps; its documented laws are \<open>pg_documented\<close>), \<open>weblib\<close>,
  \<open>configlib\<close>, \<open>world\<close> and \<open>surroundings\<close> (clock readings, answers of lease store, target, resolver,
  transport, random source), \<open>outside\<close> (operating system and drivers at the start). Errors from inside
  libraries have abbreviated texts.

  \<^bold>\<open>Bounds and fuel.\<close> The JSON parser takes fuel, \<open>Suc (length s)\<close> at its callers, and it is proved
  that a result does not depend on more; the token walk takes \<open>Suc (3 * length s)\<close>, which is enough by
  \<open>walk_terminates\<close>. The search for the next cron match is bounded as the code bounds it,
  by a horizon of years. All other recursion is structural or has a measure. Durations and backoffs are
  kept at 64 bits where they can overflow; addresses are 32- and 128-bit words.

  \<^bold>\<open>Not modelled.\<close> The HTTP server and its multiplexer, connection pools, signals, timers and the log
  (input and output of libraries); the SQL texts of the three catalog queries, which read system tables
  of PostgreSQL only; interleavings inside one transaction other than through row locks and through the
  reads that commands make before they write. Cycles of one process may overlap in \<open>System\<close>, as they
  may in the code. \<^verbatim>\<open>internal/ports\<close> has interfaces only; the locales state their laws.
\<close>

section \<open>The running system\<close>



text \<open>
  C2. The target is called for an outbox row at most as often as its retry policy allows, and
  never more than ten times, over the whole life of the system: an attempt is counted in the
  database before the call, so neither crashes nor expired claims nor lost acknowledgements
  give an attempt back.
\<close>

theorem attempts_bounded:
  assumes "reachable g store s" and "b \<in> set (outbox (sys_db s))"
  shows "int (length (filter (\<lambda>x. w_ID x = ob_id b) (calls s))) \<le> MaxAttempts (ob_retry b)
    \<and> MaxAttempts (ob_retry b) \<le> 10"
proof -
  have inv: "sys_inv s" using reachable_inv [OF assms(1)] .
  then have "int (uses s (ob_id b)) \<le> ob_attempt_count b" using assms(2) by (simp add: sys_inv_def)
  moreover have "ck_outbox b"
    using inv assms(2) by (auto simp: sys_inv_def db_wf_def outbox_wf_def list_all_iff)
  ultimately show ?thesis by (simp add: uses_def ck_outbox_def ck_retry_def)
qed

theorem attempts_bounded_example:
  "int (length (filter (\<lambda>x. w_ID x = ob_id (hd (outbox demo_db6))) (calls demo_s7)))
    \<le> MaxAttempts (ob_retry (hd (outbox demo_db6)))"
proof -
  have "hd (outbox demo_db6) \<in> set (outbox (sys_db demo_s7))" by code_simp
  from attempts_bounded [OF demo_reachable7 this] show ?thesis by simp
qed

text \<open>
  C3. The running system refines the specification of dispatching: a job has a number of attempts,
  beginning one uses it up and gives a ticket, a call of the target takes a ticket, and a job that is
  done never changes. Every reachable state corresponds to a state of the specification, and every
  step to steps of it. (Calls never exceed the limit of a job in the specification, see
  \<open>spec_inv\<close>.)
\<close>

theorem dispatch_refines_specification:
  assumes "reachable g store s" and "step g store s s'"
  shows "spec_step\<^sup>*\<^sup>* spec_init (abs_sys s) \<and> spec_step\<^sup>*\<^sup>* (abs_sys s) (abs_sys s')"
  using steps_simulated [OF assms(1) [unfolded reachable_def] sys_inv_init] step_simulated [OF assms(2) reachable_inv [OF assms(1)]]
  by (simp add: abs_init)

theorem dispatch_refines_specification_example:
  "spec_step\<^sup>*\<^sup>* spec_init (abs_sys demo_s6) \<and> spec_step\<^sup>*\<^sup>* (abs_sys demo_s6) (abs_sys demo_s7)"
  by (rule dispatch_refines_specification [OF demo_reachable6 demo_step7])

text \<open>
  C4. No occurrence is lost: in every reachable state an occurrence that is still open has
  exactly one outbox row, and that row is not final, so it will be claimed again.
\<close>

theorem open_occurrence_has_work:
  assumes "reachable g store s" and "r \<in> set (occurrences (sys_db s))" and "occurrence_open (oc_status r)"
  shows "\<exists>!b. b \<in> set (outbox (sys_db s)) \<and> occurrence_of b r \<and> occurrence_open (ob_status b)"
proof -
  have inv: "db_wf (sys_db s)" "linked (sys_db s)" using reachable_inv [OF assms(1)] by (simp_all add: sys_inv_def)
  have "oc_status r \<noteq> ''skipped''" using assms(3) by (auto simp: occurrence_open_def)
  then obtain b where b: "b \<in> set (outbox (sys_db s))" "occurrence_of b r"
    using inv(2) assms(2) by (auto simp: linked_def)
  then obtain r' where r': "r' \<in> set (occurrences (sys_db s))" "link b r'" "status_link (ob_status b) (oc_status r')"
    using inv(2) by (auto simp: linked_def)
  have "r' = r" using occurrence_of_unique' [OF inv(1) r'(1) assms(2) link_occurrence_of [OF r'(2)] b(2)] .
  with r'(3) assms(3) have "occurrence_open (ob_status b)"
    by (auto simp: status_link_def occurrence_open_def split: if_splits)
  with b show ?thesis using occurrence_of_unique [OF inv(1) _ b(1) _ b(2)] by blast
qed

theorem open_occurrence_has_work_example:
  "\<exists>!b. b \<in> set (outbox (sys_db demo_s3)) \<and> occurrence_of b (hd (occurrences demo_db3)) \<and> occurrence_open (ob_status b)"
  by (rule open_occurrence_has_work [OF demo_reachable3]) code_simp+



section \<open>Commands\<close>

text \<open>
  C6. A command is executed once per idempotency key. Once its transaction has committed,
  even if the caller never saw the acknowledgement, the same request in any later database
  (receipts are only appended) is answered with the recorded receipt and changes nothing.
\<close>

theorem execute_once:
  assumes "prepare g c = Inr p" and "execute_tx g store other now stamp p d = Inr (r, d1)"
    and "fault = NoFault \<or> fault = AckLost e" and "receipts_kept d1 d2"
  shows "snd (Execute g store fault other now stamp c d) = d1 \<and>
    (\<exists>r'. Execute g store NoFault other' now' stamp' c d2 = (Inr r', d2) \<and> same_receipt store r r')"
proof -
  have "\<exists>r'. execute_tx g store other' now' stamp' p d2 = Inr (r', d2) \<and> same_receipt store r r'"
    using commands.replay [of g store "(other, now, stamp, p)" d r d1 d2 "(other', now', stamp', p)"] assms(2,4) by simp
  then show ?thesis using assms(1-3) by (auto simp: Execute_def WithinTx_def)
qed

theorem execute_once_example:
  "snd (Execute demo_lib demo_pg (AckLost ErrDeadlineExceeded) id demo_start demo_start demo_create empty_db) = demo_db1 \<and>
   (\<exists>r'. Execute demo_lib demo_pg NoFault id demo_due demo_due demo_create demo_db3 = (Inr r', demo_db3)
      \<and> same_receipt demo_pg demo_receipt r')"
proof (rule execute_once)
  show "prepare demo_lib demo_create = Inr demo_prepared" by code_simp
  show "execute_tx demo_lib demo_pg id demo_start demo_start demo_prepared empty_db = Inr (demo_receipt, demo_db1)"
    by code_simp
  have "receipts demo_db3 = receipts demo_db1" by code_simp
  then show "receipts_kept demo_db1 demo_db3" by (simp add: receipts_kept_def)
qed simp

text \<open>
  C7. A key that was used with another request digest is refused and nothing changes, no
  matter what the new request asks for.
\<close>

theorem idempotency_conflict:
  assumes "prepare g c = Inr p" and "execute_tx g store other now stamp p d = Inr (r, d1)"
    and "receipts_kept d1 d2" and "prepare g c' = Inr p'"
    and "command_key p' = command_key p" and "cmd_RequestDigest p' \<noteq> cmd_RequestDigest p"
  shows "Execute g store NoFault other' now' stamp' c' d2 = (Inl ErrIdempotencyConflict, d2)"
proof -
  have "execute_tx g store other' now' stamp' p' d2 = Inl ErrIdempotencyConflict"
    using commands.conflict [of g store "(other, now, stamp, p)" d r d1 d2 "(other', now', stamp', p')"] assms(2,3,5,6)
    by simp
  then show ?thesis using assms(4) by (simp add: Execute_def WithinTx_def)
qed

theorem idempotency_conflict_example:
  "Execute demo_lib demo_pg NoFault id demo_due demo_due demo_conflicting demo_db3 = (Inl ErrIdempotencyConflict, demo_db3)"
proof (rule idempotency_conflict)
  show "prepare demo_lib demo_create = Inr demo_prepared" by code_simp
  show "execute_tx demo_lib demo_pg id demo_start demo_start demo_prepared empty_db = Inr (demo_receipt, demo_db1)"
    by code_simp
  have "receipts demo_db3 = receipts demo_db1" by code_simp
  then show "receipts_kept demo_db1 demo_db3" by (simp add: receipts_kept_def)
  show "prepare demo_lib demo_conflicting = Inr (demo_prepared\<lparr>cmd_RequestDigest := cmd_RequestDigest demo_conflicting\<rparr>)"
    by code_simp
  show "command_key (demo_prepared\<lparr>cmd_RequestDigest := cmd_RequestDigest demo_conflicting\<rparr>) = command_key demo_prepared"
    by (simp add: command_key_def)
  show "cmd_RequestDigest (demo_prepared\<lparr>cmd_RequestDigest := cmd_RequestDigest demo_conflicting\<rparr>)
      \<noteq> cmd_RequestDigest demo_prepared" by code_simp
qed

text \<open>
  C8. No lost update: when another transaction has replaced the schedule or raised its version
  between an update's read and its write, the update reports \<^verbatim>\<open>schedule_changed\<close> and the
  database is what the other transaction left.
\<close>

theorem stale_update_is_rejected:
  assumes "prepare g c = Inr p" and "cmd_Operation c = CommandUpdate"
    and "GetSchedule (cmd_TenantID p) (cmd_Name p) d = Inr (old, d)" and "db_wf (other d)"
    and "row \<in> set (schedules (other d))" and "by_name (cmd_TenantID p) (cmd_Name p) row"
    and "\<not> (sc_id row = s_ID old \<and> sc_version row = s_Version old)"
    and "apply_command g store other now p d = Inr (result, d')"
  shows "c_Code result = ResultChanged \<and> d' = other d"
  using stale_update_detected [OF prepare_names [OF assms(1)] _ assms(3-8)] prepare_identity [OF assms(1)] assms(2)
  by simp

theorem stale_update_is_rejected_example:
  "c_Code (codeResult ResultChanged demo_prepared_update) = ResultChanged \<and> demo_overtaken demo_db1 = demo_overtaken demo_db1"
proof (rule stale_update_is_rejected [where other = demo_overtaken and d = demo_db1])
  show "prepare demo_lib demo_update = Inr demo_prepared_update" by code_simp
  show "cmd_Operation demo_update = CommandUpdate" by code_simp
  show "GetSchedule (cmd_TenantID demo_prepared_update) (cmd_Name demo_prepared_update) demo_db1
      = Inr (scanSchedule (hd (schedules demo_db1)), demo_db1)" by code_simp
  show "db_wf (demo_overtaken demo_db1)" by code_simp
  show "hd (schedules (demo_overtaken demo_db1)) \<in> set (schedules (demo_overtaken demo_db1))" by code_simp
  show "by_name (cmd_TenantID demo_prepared_update) (cmd_Name demo_prepared_update) (hd (schedules (demo_overtaken demo_db1)))"
    by code_simp
  show "\<not> (sc_id (hd (schedules (demo_overtaken demo_db1))) = s_ID (scanSchedule (hd (schedules demo_db1)))
      \<and> sc_version (hd (schedules (demo_overtaken demo_db1))) = s_Version (scanSchedule (hd (schedules demo_db1))))"
    by code_simp
  show "apply_command demo_lib demo_pg demo_overtaken demo_due demo_prepared_update demo_db1
      = Inr (codeResult ResultChanged demo_prepared_update, demo_overtaken demo_db1)" by code_simp
qed

text \<open>
  C9. A command touches the schedule it names and nothing else: the schedules of other tenants
  and other names, all occurrences and all outbox rows are the same before and after, and at
  most one receipt is added.
\<close>

theorem command_touches_only_its_schedule:
  "let d' = snd (Execute g store fault id now stamp c d);
       others = filter (\<lambda>r. \<not> by_name (TrimSpace (cmd_TenantID c)) (TrimSpace (cmd_Name c)) r)
   in others (schedules d') = others (schedules d)
     \<and> occurrences d' = occurrences d \<and> outbox d' = outbox d
     \<and> (receipts d' = receipts d \<or> (\<exists>r. receipts d' = receipts d @ [r]))"
proof (cases "prepare g c")
  case (Inl e)
  then show ?thesis by (simp add: Execute_def Let_def)
next
  case (Inr p)
  obtain res d' where w: "WithinTx fault (execute_tx g store id now stamp p) d = (res, d')" by fastforce
  have e: "snd (Execute g store fault id now stamp c d) = d'" using w Inr by (simp add: Execute_def)
  from w show ?thesis
  proof (cases rule: WithinTx_cases)
    case (committed r)
    from committed(1) show ?thesis
    proof (cases rule: execute_tx_cases)
      case (applied result d3)
      have "only_schedule (cmd_TenantID p) (cmd_Name p) d d3"
        using apply_only_schedule [OF applied(3) prepare_names [OF Inr]] by (auto simp: only_schedule_def)
      moreover obtain row where "d' = d3\<lparr>receipts := receipts d3 @ [row], uuid_seq := Suc (uuid_seq d3)\<rparr>"
        using applied(5) by (rule InsertCommandReceipt_Inr)
      ultimately show ?thesis using prepare_identity [OF Inr] by (simp add: only_schedule_def e Let_def)
    qed (simp add: e Let_def)
  qed (simp add: e Let_def)
qed

text \<open>
  C10. A schedule that was created reads back as what was asked for: the normalised request
  with a fresh id, version 1, no claim, the payload as the database prints it, and a first due
  instant in the future.
\<close>

theorem created_schedule_reads_back:
  assumes "pg_documented store" and "prepare g c = Inr p" and "cmd_Operation c = CommandCreate"
    and "apply_command g store other now p d = Inr (result, d')" and "c_Code result = ResultRegistered"
    and "pg_text (TrimSpace (cmd_TenantID c))" and "pg_text (TrimSpace (cmd_Name c))"
  shows "\<exists>n payload t.
    Normalized g ((cmd_Schedule c)\<lparr>s_TenantID := TrimSpace (cmd_TenantID c), s_Name := TrimSpace (cmd_Name c)\<rparr>) = Inr n
    \<and> jsonb store (s_Payload n) = Some payload \<and> NormalizeInstant now < t
    \<and> GetSchedule (TrimSpace (cmd_TenantID c)) (TrimSpace (cmd_Name c)) d' = Inr
        (n\<lparr>s_ID := gen_random_uuid store (uuid_seq (other d)), s_Payload := payload, s_NextDueAt := t, s_Version := 1,
           s_CreatedAt := NormalizeInstant now, s_UpdatedAt := NormalizeInstant now, s_ClaimOwner := [],
           s_ClaimExpiresAt := 0\<rparr>, d')"
  using created_reads_back [OF assms] by metis

theorem created_schedule_reads_back_example:
  "\<exists>n payload t.
    Normalized demo_lib ((cmd_Schedule demo_create)\<lparr>s_TenantID := TrimSpace (cmd_TenantID demo_create),
      s_Name := TrimSpace (cmd_Name demo_create)\<rparr>) = Inr n
    \<and> jsonb demo_pg (s_Payload n) = Some payload \<and> NormalizeInstant demo_start < t
    \<and> GetSchedule (TrimSpace (cmd_TenantID demo_create)) (TrimSpace (cmd_Name demo_create))
        (empty_db\<lparr>schedules := schedules demo_db1, uuid_seq := 1\<rparr>) = Inr
        (n\<lparr>s_ID := gen_random_uuid demo_pg (uuid_seq (id empty_db)), s_Payload := payload, s_NextDueAt := t, s_Version := 1,
           s_CreatedAt := NormalizeInstant demo_start, s_UpdatedAt := NormalizeInstant demo_start, s_ClaimOwner := [],
           s_ClaimExpiresAt := 0\<rparr>, empty_db\<lparr>schedules := schedules demo_db1, uuid_seq := 1\<rparr>)"
proof (rule created_schedule_reads_back [where other = id and d = empty_db, OF demo_pg_documented])
  show "prepare demo_lib demo_create = Inr demo_prepared" by code_simp
  show "cmd_Operation demo_create = CommandCreate" by code_simp
  show "apply_command demo_lib demo_pg id demo_start demo_prepared empty_db
      = Inr (rc_Result demo_receipt, empty_db\<lparr>schedules := schedules demo_db1, uuid_seq := 1\<rparr>)" by code_simp
  show "c_Code (rc_Result demo_receipt) = ResultRegistered" by code_simp
  show "pg_text (TrimSpace (cmd_TenantID demo_create))" by code_simp
  show "pg_text (TrimSpace (cmd_Name demo_create))" by code_simp
qed

section \<open>The planner\<close>

text \<open>
  C11. A materialisation that succeeds moves a recurring schedule on: its row has the next
  version, no claim, and a next due instant after the present one, so it is not due any more;
  and every occurrence that was planned is recorded. The span between the due instant and
  the present must fit a 64-bit duration (about 292 years).
\<close>

theorem materialize_moves_on:
  assumes "materialize tz g fault w s now d = (None, d')" and "db_wf d" and "linked d" and "pg_documented g"
    and "s_RunAt s = 0" and "0 < NormalizeInstant (s_NextDueAt s)"
    and "NormalizeInstant (s_NextDueAt s) \<le> NormalizeInstant now"
    and "NormalizeInstant now - NormalizeInstant (s_NextDueAt s) \<le> safe_span"
  shows "\<exists>plans due. planSchedule (Next tz) (NextAfter tz) s now = Inr (plans, due)
    \<and> NormalizeInstant now < due
    \<and> (\<forall>p \<in> set plans. \<exists>r \<in> set (occurrences d'). occurrence_key r = (s_TenantID s, s_ID s, ts3 g (p_ScheduledAt p)))
    \<and> (\<forall>r \<in> set (schedules d'). sc_id r = s_ID s \<longrightarrow>
         sc_next_due_at r = Some due \<and> sc_claim_owner r = None \<and> sc_version r = s_Version s + 1)"
proof -
  obtain plans due where p: "planSchedule (Next tz) (NextAfter tz) s now = Inr (plans, due)"
    and tx: "materialize_tx g w s plans due now d = Inr ((), d')"
    using assms(1) by (rule materialize_success)
  note ok = planSchedule_plan_ok [OF p]
  have due: "NormalizeInstant now < due" "Millisecond dvd due"
    using calc.plan_next_due [OF p assms(5) _ assms(7,8)] assms(6) by simp_all
  then have null: "map_option (ts3 g) (nullableInstant due) = Some due"
    using assms(6,7) by (simp add: nullableInstant_def IsZero_def NormalizeInstant_id ts3_aligned [OF assms(4)])
  obtain r where r: "advance_where s w r"
    and all: "\<forall>r' \<in> set (schedules d'). sc_id r' = s_ID s \<longrightarrow> r' = advance_set g due now r"
    using tx ok assms(2,3) by (rule materialize_tx_row)
  have "\<forall>r' \<in> set (schedules d'). sc_id r' = s_ID s \<longrightarrow>
      sc_next_due_at r' = Some due \<and> sc_claim_owner r' = None \<and> sc_version r' = s_Version s + 1"
    using all r null by (auto simp: advance_set_def advance_where_def)
  moreover obtain b d2 where "insertPlans g s b plans d = Inr ((), d2)" "AdvanceSchedule g s w due now d2 = Inr ((), d')"
    using tx by (rule materialize_tx_Inr)
  then have "\<forall>p \<in> set plans. \<exists>r \<in> set (occurrences d'). occurrence_key r = (s_TenantID s, s_ID s, ts3 g (p_ScheduledAt p))"
    using insertPlans_recorded ok assms(2,3) AdvanceSchedule_dispatch(1) by metis
  ultimately show ?thesis using p due by blast
qed

theorem materialize_moves_on_example:
  "\<exists>plans due. planSchedule (Next (LoadLocation demo_lib)) (NextAfter (LoadLocation demo_lib)) demo_claimed demo_due = Inr (plans, due)
    \<and> NormalizeInstant demo_due < due
    \<and> (\<forall>p \<in> set plans. \<exists>r \<in> set (occurrences demo_db3).
         occurrence_key r = (s_TenantID demo_claimed, s_ID demo_claimed, ts3 demo_pg (p_ScheduledAt p)))
    \<and> (\<forall>r \<in> set (schedules demo_db3). sc_id r = s_ID demo_claimed \<longrightarrow>
         sc_next_due_at r = Some due \<and> sc_claim_owner r = None \<and> sc_version r = s_Version demo_claimed + 1)"
proof (rule materialize_moves_on)
  show "materialize (LoadLocation demo_lib) demo_pg NoFault ''w1'' demo_claimed demo_due (snd demo_claim) = (None, demo_db3)"
    by code_simp
  show "db_wf (snd demo_claim)" by code_simp
  show "linked (snd demo_claim)" by code_simp
  show "pg_documented demo_pg" by (rule demo_pg_documented)
  show "s_RunAt demo_claimed = 0" by code_simp
  show "0 < NormalizeInstant (s_NextDueAt demo_claimed)" by code_simp
  show "NormalizeInstant (s_NextDueAt demo_claimed) \<le> NormalizeInstant demo_due" by code_simp
  show "NormalizeInstant demo_due - NormalizeInstant (s_NextDueAt demo_claimed) \<le> safe_span" by code_simp
qed



text \<open>
  C13. Bounded catch-up misses nothing within its bound: the dispatched plans are the
  successive occurrences of the rule from the due instant on. Either they are all the
  occurrences up to the present and the next one is the new due instant, or the limit is
  reached, the occurrence after them is recorded as beyond the bound, and the new due instant
  is the first one after the present.
\<close>

theorem catch_up_is_complete:
  assumes "planSchedule (Next tz) (NextAfter tz) s now = Inr (plans, due)" and "s_RunAt s = 0"
    and "NormalizeInstant (s_NextDueAt s) \<noteq> 0" and "NormalizeInstant (s_NextDueAt s) < NormalizeInstant now"
    and "s_MisfirePolicy s = MisfireCatchUpBounded"
  shows "\<exists>ts c. chain (Next tz (s_Rule s) (s_Timezone s)) (NormalizeInstant (s_NextDueAt s)) ts c
    \<and> length ts \<le> nat (s_CatchUpLimit s) \<and> (\<forall>t \<in> set ts. t \<le> NormalizeInstant now)
    \<and> (if NormalizeInstant now < c
       then plans = map (\<lambda>t. dispatchPlan t (NormalizeInstant now)) ts \<and> due = c
       else length ts = nat (s_CatchUpLimit s)
         \<and> plans = map (\<lambda>t. dispatchPlan t (NormalizeInstant now)) ts
             @ [skippedPlan c (NormalizeInstant now) CodeMisfireBoundExceeded]
         \<and> NextAfter tz (s_Rule s) (s_Timezone s) c (NormalizeInstant now) = Inr due)"
  using assms(1,2) refl refl assms(3) order.strict_implies_order [OF assms(4)]
proof (cases rule: planSchedule_cases)
  case (caught_up ts)
  then show ?thesis by (intro exI [of _ ts] exI [of _ due]) simp
next
  case (bounded ts c)
  then show ?thesis by (intro exI [of _ ts] exI [of _ c]) simp
qed (use assms(4,5) in simp_all)

theorem catch_up_is_complete_example:
  "\<exists>ts c. chain (Next (LoadLocation demo_lib) (s_Rule demo_behind) (s_Timezone demo_behind))
      (NormalizeInstant (s_NextDueAt demo_behind)) ts c \<and> length ts \<le> nat (s_CatchUpLimit demo_behind)"
proof -
  have "planSchedule (Next (LoadLocation demo_lib)) (NextAfter (LoadLocation demo_lib)) demo_behind demo_late
      = Inr (fst demo_planned, snd demo_planned)" by code_simp
  moreover have "s_RunAt demo_behind = 0" by code_simp
  moreover have "NormalizeInstant (s_NextDueAt demo_behind) \<noteq> 0" by code_simp
  moreover have "NormalizeInstant (s_NextDueAt demo_behind) < NormalizeInstant demo_late" by code_simp
  moreover have "s_MisfirePolicy demo_behind = MisfireCatchUpBounded" by code_simp
  ultimately show ?thesis
    using catch_up_is_complete [of "LoadLocation demo_lib" demo_behind demo_late "fst demo_planned" "snd demo_planned"]
    by blast
qed



text \<open>
  C15. A worker that has lost its claim, or whose schedule has been changed since it was
  claimed, materialises nothing: the transaction is rolled back as a whole and the error is
  reported.
\<close>

theorem lost_claim_materializes_nothing:
  assumes "materialize tz g fault w s now d = (e, d')"
    and "planSchedule (Next tz) (NextAfter tz) s now = Inr (plans, due)"
    and "db_wf d" and "linked d"
    and "\<forall>r \<in> set (schedules d). sc_id r = s_ID s \<longrightarrow> sc_version r \<noteq> s_Version s \<or> sc_claim_owner r \<noteq> Some w"
  shows "d' = d \<and> e \<noteq> None"
  by (rule materialize_lost [OF assms])

theorem lost_claim_materializes_nothing_example:
  "snd demo_claim = snd demo_claim \<and> Some ErrClaimLost \<noteq> None"
proof (rule lost_claim_materializes_nothing)
  show "materialize (LoadLocation demo_lib) demo_pg NoFault ''w2'' demo_claimed demo_due (snd demo_claim)
      = (Some ErrClaimLost, snd demo_claim)" by code_simp
  show "planSchedule (Next (LoadLocation demo_lib)) (NextAfter (LoadLocation demo_lib)) demo_claimed demo_due
      = Inr ([dispatchPlan demo_due demo_due], demo_due + Minute)" by code_simp
  show "db_wf (snd demo_claim)" by code_simp
  show "linked (snd demo_claim)" by code_simp
  show "\<forall>r \<in> set (schedules (snd demo_claim)). sc_id r = s_ID demo_claimed \<longrightarrow>
      sc_version r \<noteq> s_Version demo_claimed \<or> sc_claim_owner r \<noteq> Some ''w2''" by code_simp
qed

text \<open>
  A one-time schedule that is due fires once: it has a single plan, and a successful
  materialisation leaves its row exhausted, without due instant and claim, a state in which no
  claim ever takes it.
\<close>

theorem once_schedule_is_exhausted:
  assumes "materialize tz g fault w s now d = (None, d')" and "db_wf d" and "linked d"
    and "s_RunAt s \<noteq> 0" and "NormalizeInstant (s_NextDueAt s) \<noteq> 0"
    and "NormalizeInstant (s_NextDueAt s) \<le> NormalizeInstant now"
  shows "(\<exists>p. planSchedule (Next tz) (NextAfter tz) s now = Inr ([p], 0) \<and> p_ScheduledAt p = NormalizeInstant (s_NextDueAt s))
    \<and> (\<forall>r \<in> set (schedules d'). sc_id r = s_ID s \<longrightarrow>
         sc_status r = ScheduleExhausted \<and> sc_next_due_at r = None \<and> \<not> due_candidate locked now' r)"
proof -
  obtain plans due where p: "planSchedule (Next tz) (NextAfter tz) s now = Inr (plans, due)"
    and tx: "materialize_tx g w s plans due now d = Inr ((), d')"
    using assms(1) by (rule materialize_success)
  have one: "\<exists>p. plans = [p] \<and> due = 0 \<and> p_ScheduledAt p = NormalizeInstant (s_NextDueAt s)"
    using p assms(4-6) by (auto simp: planSchedule_def Let_def IsZero_def split: if_splits)
  obtain r where "\<forall>r' \<in> set (schedules d'). sc_id r' = s_ID s \<longrightarrow> r' = advance_set g due now r"
    using tx planSchedule_plan_ok [OF p] assms(2,3) by (rule materialize_tx_row)
  with one p show ?thesis
    by (auto simp: advance_set_def nullableInstant_def IsZero_def due_candidate_def ScheduleExhausted_def)
qed

theorem once_schedule_is_exhausted_example:
  "sc_status (hd (schedules demo_once_db3)) = ScheduleExhausted
    \<and> sc_next_due_at (hd (schedules demo_once_db3)) = None
    \<and> \<not> due_candidate (\<lambda>_. False) demo_late (hd (schedules demo_once_db3))"
proof -
  have "materialize (LoadLocation demo_lib) demo_pg NoFault ''w1'' demo_once_claimed demo_due (snd demo_once_claim)
      = (None, demo_once_db3)" by code_simp
  moreover have "db_wf (snd demo_once_claim)" by code_simp
  moreover have "linked (snd demo_once_claim)" by code_simp
  moreover have "s_RunAt demo_once_claimed \<noteq> 0" by code_simp
  moreover have "NormalizeInstant (s_NextDueAt demo_once_claimed) \<noteq> 0" by code_simp
  moreover have "NormalizeInstant (s_NextDueAt demo_once_claimed) \<le> NormalizeInstant demo_due" by code_simp
  moreover have "hd (schedules demo_once_db3) \<in> set (schedules demo_once_db3)" by code_simp
  moreover have "sc_id (hd (schedules demo_once_db3)) = s_ID demo_once_claimed" by code_simp
  ultimately show ?thesis by (blast dest: once_schedule_is_exhausted)
qed

section \<open>Claims\<close>



text \<open>
  C17. Two workers never hold the same work: what a first claim took, a second claim made
  before the first one expires does not take, neither for schedules nor for outbox rows.
\<close>

theorem claims_exclude_each_other:
  assumes "db_wf d" and "now' < ts3 g e"
    and "ClaimDueSchedules g l1 now w e n d = Inr (xs, d1)"
    and "ClaimDueSchedules g l2 now' w' e' n' d1 = Inr (ys, d2)"
    and "ClaimDispatches g l3 now w e n d2 = Inr (us, d3)"
    and "ClaimDispatches g l4 now' w' e' n' d3 = Inr (vs, d4)"
  shows "s_ID ` set xs \<inter> s_ID ` set ys = {} \<and> w_ID ` set us \<inter> w_ID ` set vs = {}"
proof -
  have "db_wf d2" using ClaimDueSchedules_wf [OF assms(4) ClaimDueSchedules_wf [OF assms(3,1)]] .
  then show ?thesis
    using ClaimDueSchedules_exclusive [OF assms(3,1,4,2)] ClaimDispatches_exclusive [OF assms(5) _ assms(6,2)] by blast
qed

theorem claims_exclude_each_other_example:
  "s_ID ` set (fst demo_c1) \<inter> s_ID ` set (fst demo_c2) = {} \<and> w_ID ` set (fst demo_c3) \<inter> w_ID ` set (fst demo_c4) = {}"
proof (rule claims_exclude_each_other)
  show "db_wf demo_db3" by code_simp
  show "demo_later + Second < ts3 demo_pg (demo_later + DefaultClaimTTL)" by code_simp
  show "ClaimDueSchedules demo_pg (\<lambda>_. False) demo_later ''w1'' (demo_later + DefaultClaimTTL) 100 demo_db3
      = Inr (fst demo_c1, snd demo_c1)" by code_simp
  show "ClaimDueSchedules demo_pg (\<lambda>_. False) (demo_later + Second) ''w2'' (demo_later + Second + DefaultClaimTTL) 100 (snd demo_c1)
      = Inr (fst demo_c2, snd demo_c2)" by code_simp
  show "ClaimDispatches demo_pg (\<lambda>_. False) demo_later ''w1'' (demo_later + DefaultClaimTTL) 100 (snd demo_c2)
      = Inr (fst demo_c3, snd demo_c3)" by code_simp
  show "ClaimDispatches demo_pg (\<lambda>_. False) (demo_later + Second) ''w2'' (demo_later + Second + DefaultClaimTTL) 100 (snd demo_c3)
      = Inr (fst demo_c4, snd demo_c4)" by code_simp
qed

text \<open>
  C18. A worker whose claim on an outbox row has expired or has been taken over does not start
  an attempt: \<^verbatim>\<open>BeginDispatch\<close> reports the lost claim, the target is not called and the
  database does not change.
\<close>

theorem expired_claim_does_not_dispatch:
  assumes "\<forall>b \<in> set (outbox d). ob_id b = w_ID x \<longrightarrow>
      ob_claim_owner b \<noteq> Some w \<or> ob_status b \<noteq> ''dispatching''
      \<or> (\<exists>t. ob_claim_expires_at b = Some t \<and> t \<le> NormalizeInstant (at_begin wd))"
    and "pg_text (w_TenantID x)" and "pg_text w" and "at_lease wd \<in> {NoLeaseStore, LeaseGranted}"
    and "fault_begin wd = NoFault"
  shows "process g w wd x d = (Some ErrClaimLost, d, None)"
  using BeginDispatch_lost [OF assms(1-3), of g] assms(4,5)
  by (auto simp: process_def beginItem_def WithinTx_def split: lease_answer.splits)

theorem expired_claim_does_not_dispatch_example:
  "process demo_pg ''w1'' (demo_world\<lparr>at_begin := demo_late\<rparr>) demo_work (snd demo_work_claim)
    = (Some ErrClaimLost, snd demo_work_claim, None)"
proof (rule expired_claim_does_not_dispatch)
  have "list_all (\<lambda>b. case ob_claim_expires_at b of None \<Rightarrow> False | Some t \<Rightarrow> t \<le> NormalizeInstant demo_late)
      (outbox (snd demo_work_claim))" by code_simp
  then show "\<forall>b \<in> set (outbox (snd demo_work_claim)). ob_id b = w_ID demo_work \<longrightarrow>
      ob_claim_owner b \<noteq> Some ''w1'' \<or> ob_status b \<noteq> ''dispatching''
      \<or> (\<exists>t. ob_claim_expires_at b = Some t \<and> t \<le> NormalizeInstant (at_begin (demo_world\<lparr>at_begin := demo_late\<rparr>)))"
    by (auto simp: list_all_iff split: option.splits)
  show "pg_text (w_TenantID demo_work)" by code_simp
  show "pg_text ''w1''" by code_simp
  show "at_lease (demo_world\<lparr>at_begin := demo_late\<rparr>) \<in> {NoLeaseStore, LeaseGranted}" by (simp add: demo_world_def)
  show "fault_begin (demo_world\<lparr>at_begin := demo_late\<rparr>) = NoFault" by (simp add: demo_world_def)
qed

section \<open>Retries\<close>

text \<open>
  C27. The backoff computed with 64-bit durations, shifts and divisions is the exponential
  backoff: the base doubled for every failed attempt and capped, for every valid policy and up
  to 63 attempts; nothing overflows and nothing panics.
\<close>

theorem backoff_is_exponential:
  assumes "RetryPolicy_Validate p = None" and "1 \<le> n" and "n \<le> 63"
  shows "retryBackoff p n = Inr (min (BackoffSeconds p * 2 ^ nat (n - 1)) (MaxBackoffSeconds p) * Second)"
  using retryBackoff_exact assms by (simp add: RetryPolicy_Validate_iff)

theorem backoff_is_exponential_example:
  "retryBackoff \<lparr>MaxAttempts = 10, BackoffSeconds = 5, MaxBackoffSeconds = 60, MaxRetryWindowSeconds = 3600\<rparr> 4
    = Inr (40 * Second)"
proof -
  let ?p = "\<lparr>MaxAttempts = 10, BackoffSeconds = 5, MaxBackoffSeconds = 60, MaxRetryWindowSeconds = 3600\<rparr>"
  have "RetryPolicy_Validate ?p = None" by code_simp
  from backoff_is_exponential [OF this, of 4] show ?thesis by simp
qed

text \<open>
  C28. A retry is only scheduled for a retryable failure with attempts left, not before the
  present, strictly inside the retry window that the first attempt opened, and no later than
  the backoff of this attempt, whatever the random source answers.
\<close>

theorem retry_stays_in_window:
  assumes "persistDecision random now work result = Retry t" and "retry_ok (w_Retry work)"
    and "1 \<le> w_AttemptCount work" and "w_AttemptCount work \<le> 63"
  shows "\<not> Succeeded result \<and> RetryableDispatch result \<and> w_AttemptCount work < MaxAttempts (w_Retry work)
    \<and> now \<le> t \<and> t < retry_deadline now work
    \<and> t \<le> now + min (BackoffSeconds (w_Retry work) * 2 ^ nat (w_AttemptCount work - 1))
                   (MaxBackoffSeconds (w_Retry work)) * Second"
  by (rule persistDecision_Retry [OF assms])

theorem retry_stays_in_window_example:
  "RetryableDispatch (zeroResult\<lparr>r_Status := 503\<rparr>) \<and> demo_due + Millisecond < retry_deadline demo_due demo_started"
proof -
  have "persistDecision (\<lambda>_. Inr Millisecond) demo_due demo_started (zeroResult\<lparr>r_Status := 503\<rparr>) = Retry (demo_due + Millisecond)"
    by code_simp
  moreover have "retry_ok (w_Retry demo_started)" by code_simp
  moreover have "1 \<le> w_AttemptCount demo_started" by code_simp
  moreover have "w_AttemptCount demo_started \<le> 63" by code_simp
  ultimately show ?thesis by (blast dest: retry_stays_in_window)
qed

section \<open>Recurrence\<close>

text \<open>
  C29. For a cron rule the calculator returns the first matching minute: it lies after the
  given instant, it matches the parsed expression in the schedule's time zone, and no whole
  minute in between does.
\<close>

theorem next_is_first_match:
  assumes "Next tz rule zone after = Inr t" and "\<not> is_every rule"
  shows "\<exists>loc e. loadLocation tz zone = Inr loc \<and> parseCron rule = Inr e \<and> after < t \<and> Minute dvd t
    \<and> matches e loc t \<and> (\<forall>u. after < u \<and> u < t \<and> Minute dvd u \<longrightarrow> \<not> matches e loc u)"
  using assms by (rule Next_cron_first) blast

theorem next_is_first_match_example:
  "\<exists>loc e. loadLocation (LoadLocation demo_lib) ''UTC'' = Inr loc \<and> parseCron ''*/15 * * * *'' = Inr e
    \<and> demo_start < demo_start + 100 * Second \<and> Minute dvd (demo_start + 100 * Second) \<and> matches e loc (demo_start + 100 * Second)
    \<and> (\<forall>u. demo_start < u \<and> u < demo_start + 100 * Second \<and> Minute dvd u \<longrightarrow> \<not> matches e loc u)"
proof (rule next_is_first_match)
  show "Next (LoadLocation demo_lib) ''*/15 * * * *'' ''UTC'' demo_start = Inr (demo_start + 100 * Second)" by code_simp
  show "\<not> is_every ''*/15 * * * *''" by code_simp
qed

text \<open>
  C30. For an interval rule \<^verbatim>\<open>NextAfter\<close> computes in closed form, with 64-bit arithmetic, what
  stepping the interval from the anchor past the threshold gives.
\<close>

theorem next_after_equals_stepping:
  assumes "NextAfter tz rule zone a th = Inr t" and "is_every rule"
    and "Millisecond dvd a" and "Millisecond dvd th" and "a \<le> th" and "th - a \<le> safe_span"
  shows "\<exists>i. parseInterval rule = Inr i \<and> t = every_steps i a th"
  using assms by (rule NextAfter_every) blast

theorem next_after_equals_stepping_example:
  "\<exists>i. parseInterval ''@every 90s'' = Inr i \<and> demo_start + 270 * Second = every_steps i demo_start (demo_start + 200 * Second)"
proof (rule next_after_equals_stepping)
  show "NextAfter (LoadLocation demo_lib) ''@every 90s'' ''UTC'' demo_start (demo_start + 200 * Second)
      = Inr (demo_start + 270 * Second)" by code_simp
  show "is_every ''@every 90s''" by code_simp
  show "Millisecond dvd demo_start" by code_simp
  show "Millisecond dvd (demo_start + 200 * Second)" by code_simp
  show "demo_start \<le> demo_start + 200 * Second" by code_simp
  show "demo_start + 200 * Second - demo_start \<le> safe_span" by code_simp
qed

text \<open>
  C31. Printing the items of a cron field and parsing the text gives the values the items
  mean, for every list of items within the field's bounds; day 7 of the week is Sunday.
\<close>

theorem cron_field_round_trip:
  assumes "\<And>n. 0 \<le> n \<Longrightarrow> map_of names (show_int n) = None"
    and "\<forall>it \<in> set items. wf_item lo hi it" and "items \<noteq> []" and "0 \<le> lo" and "hi < 2 ^ 63"
  shows "parseCronField (show_field items) lo hi names ns =
    Inr \<lparr>allowed = (\<Union>it \<in> set items. sunday ns ` item_values lo hi it),
         wildcard = (\<exists>it \<in> set items. item_wildcard it)\<rparr>"
  by (rule parseCronField_show [OF assms])

theorem cron_field_round_trip_example:
  "parseCronField (show_field [(BRange 1 5, Some 2), (BVal 30, None)]) 0 59 [] False =
    Inr \<lparr>allowed = (\<Union>it \<in> set [(BRange 1 5, Some 2), (BVal 30, None)]. sunday False ` item_values 0 59 it),
         wildcard = (\<exists>it \<in> set [(BRange 1 5, Some 2), (BVal 30, None)]. item_wildcard it)\<rparr>"
  by (rule cron_field_round_trip) (simp_all add: wf_item_def item_step_def)

text \<open>
  C32. A cron expression that parses is well-formed: every field is non-empty and within its
  range, a wildcard day field allows every day, and some calendar date satisfies it.
\<close>

theorem parsed_cron_is_well_formed:
  assumes "parseCron rule = Inr e"
  shows "wf_cron e"
  by (rule parseCron_wf [OF assms])

theorem parsed_cron_is_well_formed_example:
  "\<exists>e. parseCron ''0 9-17 29 FEB MON-FRI'' = Inr e \<and> wf_cron e"
proof -
  have "isOk (parseCron ''0 9-17 29 FEB MON-FRI'')" by code_simp
  then obtain e where "parseCron ''0 9-17 29 FEB MON-FRI'' = Inr e" by (auto simp: isOk_iff)
  then show ?thesis using parsed_cron_is_well_formed by blast
qed

section \<open>The domain model\<close>

text \<open>
  C34. Normalising a schedule twice is normalising it once, and the result is valid: the
  defaults, the trimmed texts, the instants at millisecond precision and the canonical JSON
  payload are their own normal form. A run-at instant within the first millisecond of year 1
  is excluded, it would be truncated to the zero time, which means "no run-at".
\<close>

theorem normalization_is_idempotent:
  assumes "Normalized g s = Inr n" and "s_RunAt s = 0 \<or> NormalizeInstant (s_RunAt s) \<noteq> 0"
  shows "Normalized g n = Inr n \<and> Schedule_Validate g n = None"
  using Normalized_fixed [OF assms] by simp

theorem normalization_is_idempotent_example:
  "Normalized demo_lib (cmd_Schedule demo_prepared) = Inr (cmd_Schedule demo_prepared)"
proof -
  have "Normalized demo_lib (cmd_Schedule (demo_create\<lparr>cmd_Schedule := (cmd_Schedule demo_create)
      \<lparr>s_TenantID := cmd_TenantID demo_create, s_Name := cmd_Name demo_create\<rparr>\<rparr>)) = Inr (cmd_Schedule demo_prepared)"
    by code_simp
  moreover have "s_RunAt (cmd_Schedule (demo_create\<lparr>cmd_Schedule := (cmd_Schedule demo_create)
      \<lparr>s_TenantID := cmd_TenantID demo_create, s_Name := cmd_Name demo_create\<rparr>\<rparr>)) = 0"
    by code_simp
  ultimately show ?thesis by (blast dest: normalization_is_idempotent)
qed

text \<open>
  C35. The idempotency key a target receives identifies the occurrence: two attempts with the
  same key are of the same tenant, schedule and scheduled millisecond, unless SHA-256 collides
  on the two seeds. A retry of an occurrence carries the key of the first attempt.
\<close>

theorem idempotency_key_identifies_occurrence:
  assumes "i_IdempotencyKey (OccurrenceIdentity s t) = i_IdempotencyKey (OccurrenceIdentity s' t')"
    and "hexSha256 (identity_seed s (NormalizeInstant t)) = hexSha256 (identity_seed s' (NormalizeInstant t')) \<Longrightarrow>
      identity_seed s (NormalizeInstant t) = identity_seed s' (NormalizeInstant t')"
    and "ValidateTenantID (s_TenantID s) = None" and "ValidateTenantID (s_TenantID s') = None"
    and "IsValidScheduleName (s_Name s)" and "IsValidScheduleName (s_Name s')"
    and "CHR 0x00 \<notin> set (s_ID s)" and "CHR 0x00 \<notin> set (s_ID s')"
    and "four_digit_year (NormalizeInstant t)" and "four_digit_year (NormalizeInstant t')"
    and "NormalizeInstant t \<noteq> 0" and "NormalizeInstant t' \<noteq> 0"
  shows "s_TenantID s = s_TenantID s' \<and> s_ID s = s_ID s' \<and> s_Name s = s_Name s' \<and> NormalizeInstant t = NormalizeInstant t'"
  by (rule identity_determines [OF assms])

theorem idempotency_key_identifies_occurrence_example:
  "s_ID (ScheduleSnapshot demo_work) = s_ID (ScheduleSnapshot demo_started)
    \<and> NormalizeInstant demo_due = NormalizeInstant (demo_due + 1)"
proof -
  have same: "identity_seed (ScheduleSnapshot demo_work) (NormalizeInstant demo_due)
      = identity_seed (ScheduleSnapshot demo_started) (NormalizeInstant (demo_due + 1))"
    by code_simp
  have "NormalizeInstant demo_due = NormalizeInstant (demo_due + 1)" by code_simp
  with same have "i_IdempotencyKey (OccurrenceIdentity (ScheduleSnapshot demo_work) demo_due)
      = i_IdempotencyKey (OccurrenceIdentity (ScheduleSnapshot demo_started) (demo_due + 1))"
    by (simp add: OccurrenceIdentity_def Let_def)
  then have "s_TenantID (ScheduleSnapshot demo_work) = s_TenantID (ScheduleSnapshot demo_started)
      \<and> s_ID (ScheduleSnapshot demo_work) = s_ID (ScheduleSnapshot demo_started)
      \<and> s_Name (ScheduleSnapshot demo_work) = s_Name (ScheduleSnapshot demo_started)
      \<and> NormalizeInstant demo_due = NormalizeInstant (demo_due + 1)"
    by (rule idempotency_key_identifies_occurrence) (rule same | code_simp)+
  then show ?thesis by blast
qed

section \<open>Targets\<close>

text \<open>
  C33. The IPv4 addresses a target may have are exactly those outside the special ranges:
  "this network", private, shared, loopback, link-local, protocol, documentation, benchmark,
  relay and AS112 ranges, multicast and everything above.
\<close>

theorem safe_ipv4_addresses:
  "IsSafeTargetAddress (V4 a) \<longleftrightarrow> \<not> in_ranges (unat a) special_v4"
  by (rule safe_v4_ranges)

section \<open>The HTTP interface\<close>

text \<open>
  C36. Only an authenticated command changes anything: when a request changes the database, it
  carries the service's bearer token, which is not empty, it is a well-formed command for the
  tenant and the schedule it names, and the change is that of executing this command.
\<close>

theorem only_authenticated_commands_write:
  assumes "snd (served g w store e token r d) \<noteq> d"
  shows "(\<exists>scheme tok. Cut (TrimSpace (rq_Header r ''Authorization'')) (CHR '' '') = Some (scheme, tok) \<and>
        EqualFold scheme ''Bearer'' \<and> TrimSpace tok = TrimSpace token \<and> TrimSpace token \<noteq> []) \<and>
    (\<exists>i t n a s p. command_request g w r i t n a s p \<and>
       snd (served g w store e token r d) =
         snd (Execute g store (e_fault e) (e_other e) (e_now e) (e_stamp e) (commandFor r i t n a s p) d))"
proof -
  let ?h = "NewHandler (Some (application_service g store e)) token"
  have "authorized ?h r \<and> (\<exists>i t n a s p. command_request g w r i t n a s p \<and>
      snd (ServeHTTP g w ?h r d) = snd (svc_Execute (application_service g store e) (commandFor r i t n a s p) d))"
    using assms by (intro app.only_commands_write) (simp_all add: served_def NewHandler_def)
  then show ?thesis
    by (auto simp: authorized_def served_def NewHandler_def application_service_def split: option.splits prod.splits if_splits)
qed

theorem only_authenticated_commands_write_example:
  "\<exists>i t n a s p. command_request demo_lib demo_web demo_delete_request i t n a s p \<and>
     demo_db_deleted = snd (Execute demo_lib demo_pg NoFault id demo_due demo_due (commandFor demo_delete_request i t n a s p) demo_db1)"
proof -
  have "length (receipts demo_db1) = 1" by code_simp
  then have "snd (served demo_lib demo_web demo_pg demo_call ''token'' demo_delete_request demo_db1) \<noteq> demo_db1"
    using demo_delete_executed(2) demo_delete_served(1) by auto
  from only_authenticated_commands_write [OF this] show ?thesis
    by (simp add: demo_delete_served(1)) (simp add: demo_call_def)
qed

text \<open>
  C37. Commands that the HTTP handler builds are never rejected by the service for their
  identity: everything the handler lets through passes the service's own checks unchanged, but
  for a recurrence rule, which only the service validates.
\<close>

theorem handler_commands_pass_the_service:
  assumes "command_request g w r requestID tenantID name action s payload"
  shows "prepare g (commandFor r requestID tenantID name action s payload) =
    (if action = [] \<and> rq_Method r \<noteq> ''DELETE'' \<and> IsZero (s_RunAt s)
     then case Validate (LoadLocation g) (s_Rule s) (s_Timezone s) of
            Some err \<Rightarrow> Inl (ErrJoin ErrInvalidCommand err)
          | None \<Rightarrow> Inr (commandFor r requestID tenantID name action s payload)
     else Inr (commandFor r requestID tenantID name action s payload))"
  by (rule command_prepared [OF assms])

theorem handler_commands_pass_the_service_example:
  "prepare demo_lib demo_delete = Inr demo_delete"
  using handler_commands_pass_the_service [OF demo_delete_request_ok]
  by (simp add: demo_delete_def demo_delete_request_def)



text \<open>
  An instant that a response prints can be sent back as \<^verbatim>\<open>run_at\<close> and means the same
  instant, for every year of four digits.
\<close>

theorem run_at_round_trip:
  assumes "instantValue t = Some (VStr printed)" and "four_digit_year (NormalizeInstant t)" and "NormalizeInstant t \<noteq> 0"
  shows "parseRunAt printed = Some (NormalizeInstant t)"
proof -
  have "printed = formatRFC3339 (NormalizeInstant t)" using assms(1) by (simp add: instantValue_def split: if_splits)
  then show ?thesis using parse_format [of "NormalizeInstant t"] assms(2,3) by simp
qed

theorem run_at_round_trip_example: "parseRunAt ''2022-09-28T22:13:20.25Z'' = Some (demo_start + 250 * Millisecond)"
proof -
  have "instantValue (demo_start + 250 * Millisecond) = Some (VStr ''2022-09-28T22:13:20.25Z'')" by code_simp
  moreover have "four_digit_year (NormalizeInstant (demo_start + 250 * Millisecond))" by code_simp
  moreover have n: "NormalizeInstant (demo_start + 250 * Millisecond) = demo_start + 250 * Millisecond" by code_simp
  moreover have "demo_start + 250 * Millisecond \<noteq> 0" by code_simp
  ultimately show ?thesis using run_at_round_trip [of "demo_start + 250 * Millisecond" "''2022-09-28T22:13:20.25Z''"] by simp
qed

text \<open>
  C39. A text that passes the duplicate-key check has one meaning: it decodes to the same value
  whether the first or the last of equal keys is kept, at every depth.
\<close>

theorem duplicate_free_texts_are_unambiguous:
  assumes "ensureNoDuplicateKeys body = None"
  shows "first_decode body = json_decode body"
  by (rule unique_keys_decode [OF assms])

theorem duplicate_free_texts_are_unambiguous_example:
  "first_decode ''{}'' = json_decode ''{}''"
  by (rule duplicate_free_texts_are_unambiguous) code_simp



text \<open>
  A body of 31 bytes is reported as too large: an error that quotes a key of the request
  is taken for the size limit when the key contains that text.
\<close>

theorem small_body_reported_too_large:
  "length demo_body = 31 \<and>
   rs_Status (fst (served demo_lib demo_web demo_pg demo_call ''token'' demo_small_request demo_db1)) = 413"
  by code_simp

section \<open>The surroundings\<close>

lemma Unmap_idem: "Unmap (Unmap a) = Unmap a"
  by (simp add: Unmap_def split: addr.splits)

text \<open>
  C19. Every connection to a target obeys the address policy: with a client made from a loaded
  configuration, a request is only handed to the transport for an address that the host of the
  target resolved to in this very dispatch, or that it names; without an allowlist the address is
  safe, with one it is internal. No proxy is used and no redirect is followed, so the target has
  no other way to be reached.
\<close>

theorem target_connections_are_policed:
  assumes "Load l getenv = Inr cfg"
    and "c = NewDefaultClientWithAllowlist (cfg_DispatchTimeout cfg) (cfg_TargetServiceToken cfg)
        (map_option (\<lambda>al. Allows (Some al)) (cfg_InternalTargetAllowlist cfg))"
    and "Dispatch g x c work = (res, Some rq)"
  shows "(case cfg_InternalTargetAllowlist cfg of
        None \<Rightarrow> IsSafeTargetAddress (t_Address rq)
      | Some al \<Rightarrow> internal_address (t_Address rq))
    \<and> \<not> t_Proxied rq \<and> \<not> hc_followRedirects (cl_httpClient c)
    \<and> (\<exists>u. url_Parse g (w_TargetURL work) = Some u \<and> t_Host rq = Host u \<and>
        t_Address rq \<in> Unmap ` (case netip_ParseAddr g (Hostname u) of
          Some ip \<Rightarrow> {ip}
        | None \<Rightarrow> (case x_lookup x (Hostname u) of Inl e \<Rightarrow> {} | Inr as \<Rightarrow> set as)))"
proof -
  obtain u where u: "resolveTarget g (x_lookup x) c (w_TargetURL work) = Inr (u, t_Address rq)"
      "t_Host rq = Host u" "hc_standardTransport (cl_httpClient c) \<longrightarrow> \<not> t_Proxied rq"
    using Dispatch_sent [OF assms(3)] by metis
  note al = resolveTarget_allowed [OF u(1)]
  have src: "t_Address rq \<in> Unmap ` (case netip_ParseAddr g (Hostname u) of
          Some ip \<Rightarrow> {ip}
        | None \<Rightarrow> (case x_lookup x (Hostname u) of Inl e \<Rightarrow> {} | Inr as \<Rightarrow> set as))"
    using al(4,5) by (auto split: option.splits)
  then obtain b where b: "t_Address rq = Unmap b" by blast
  have c: "\<not> hc_followRedirects (cl_httpClient c)" "hc_standardTransport (cl_httpClient c)" 
      "cl_allowlist c = map_option (\<lambda>al. Allows (Some al)) (cfg_InternalTargetAllowlist cfg)"
    by (simp_all add: assms(2) NewDefaultClientWithAllowlist_def NewClientWithResolver_def Let_def)
  have "case cfg_InternalTargetAllowlist cfg of
        None \<Rightarrow> IsSafeTargetAddress (t_Address rq)
      | Some al \<Rightarrow> internal_address (t_Address rq)"
  proof (cases "cfg_InternalTargetAllowlist cfg")
    case None
    then show ?thesis using al(1) c(3) by (simp add: targetAddressAllowed_def)
  next
    case (Some al')
    obtain es where "allowlist_entries (ParseAddr l) (ParsePrefix l) es [] = Inr al'"
      using ParseInternalTargetAllowlist_Some Load_Inr(8) [OF assms(1)] Some by metis
    moreover have "Allows (Some al') (Hostname u) (t_Address rq)"
      using al(1) c(3) Some by (simp add: targetAddressAllowed_def)
    ultimately have "internal_address (Unmap (t_Address rq))" by (rule allowlist_admits_internal)
    then show ?thesis using Some b by (simp add: Unmap_idem)
  qed
  then show ?thesis using al(2) src u(2,3) c(1,2) by blast
qed

theorem target_connections_are_policed_example:
  "\<exists>res rq. Dispatch demo_lib demo_surroundings demo_client demo_work = (res, Some rq) \<and> IsSafeTargetAddress (t_Address rq)"
proof -
  obtain res rq where d: "Dispatch demo_lib demo_surroundings demo_client demo_work = (res, Some rq)"
    using demo_sent by blast
  from target_connections_are_policed [OF demo_config_loaded demo_client_def d] d show ?thesis
    by (simp add: demo_config_def)
qed



text \<open>
  C21. A lease excludes others: among all leases that processes hold, at most one per key has not
  run out by the clock of the Redis server, however acquiring, renewing and releasing interleave and
  however answers are lost, and the server has its token. The random tokens do not repeat.
\<close>

theorem lease_mutual_exclusion:
  assumes "owner_reachable s" and "(l, u) \<in> set (ow_held s)" and "(l', u') \<in> set (ow_held s)"
    and "l_key l = l_key l'" and "rd_now (ow_redis s) < u" and "rd_now (ow_redis s) < u'"
  shows "l = l' \<and> u = u' \<and> redis_get (l_key l) (ow_redis s) = Some (l_token l)"
  using lease_exclusive [OF assms(1-3)] lease_owned [OF assms(1,2)] assms(4-6) by simp

theorem lease_mutual_exclusion_example:
  "redis_get ''job'' (ow_redis demo_owners) = Some (l_token demo_lease)"
proof -
  have "(demo_lease, 1030) \<in> set (ow_held demo_owners)" by (simp add: demo_owners_def)
  from lease_mutual_exclusion [OF demo_owners_reachable this this] show ?thesis
    by (simp add: demo_owners_def demo_lease_def)
qed

text \<open>
  C22. When \<^verbatim>\<open>Stop\<close> has returned without an error, no cycle is in flight, the scheduler of the
  wakeups is shut down, the service reports that it is not ready, and this stays so: a late wakeup
  starts nothing.
\<close>

theorem stop_is_graceful:
  assumes "runtime_reachable r" and "rt_stop r = Stopped None" and "runtime_step\<^sup>*\<^sup>* r r'"
  shows "rt_inFlight r' = 0 \<and> \<not> Ready r' \<and> trigger r' = r' \<and> rt_cancelled r' \<and> \<not> wk_running (rt_wakeup r')"
  using graceful_stop [OF assms] by (simp add: silent_def refusing_def Ready_def trigger_def)

theorem stop_is_graceful_example:
  "trigger (demo_runtime (Started None) (Stopped None) False 0) = demo_runtime (Started None) (Stopped None) False 0"
  using stop_is_graceful [OF demo_stopped _ rtranclp.rtrancl_refl] by (simp add: demo_runtime_def)

text \<open>
  C23. \<^verbatim>\<open>Stop\<close> comes to its end: while it waits it can return after as many steps as cycles are in
  flight and one, and every execution whose steps change something has it returned by then, since
  no new cycle begins.
\<close>

theorem stop_returns:
  assumes "runtime_reachable r" and "rt_stop r = Waiting e"
  shows "(\<exists>r'. (runtime_step ^^ Suc (rt_inFlight r)) r r' \<and> rt_stop r' = Stopped e) \<and>
    (\<forall>f. f 0 = r \<and> (\<forall>i \<le> rt_inFlight r. runtime_step (f i) (f (Suc i)) \<and> f (Suc i) \<noteq> f i) \<longrightarrow>
      (\<exists>i e'. i \<le> Suc (rt_inFlight r) \<and> rt_stop (f i) = Stopped e'))"
  using waiting_drains [OF assms(2)] waiting_ends assms(2) runtime_inv_reachable [OF assms(1)] by blast

theorem stop_returns_example:
  "\<exists>r'. (runtime_step ^^ 2) (demo_runtime (Started None) (Waiting None) False 1) r' \<and> rt_stop r' = Stopped None"
  using stop_returns [OF demo_waiting, of None] by (auto simp: demo_runtime_def numeral_2_eq_2)

text \<open>
  C24. A process that has started is well configured: its configuration was loaded and the database
  was reached, its runtime is ready and in a state that the stopping theorems are about, planner and
  dispatcher act for one worker with a name, and a claim outlasts a call to the target.
\<close>

theorem started_process_is_sound:
  assumes "run_startup l getenv x = Inr p"
  shows "Load l getenv = Inr (ps_config p) \<and> schema_ok (schemaName (cfg_Database (ps_config p)))
    \<and> os_ping x (cfg_Database (ps_config p)) = None
    \<and> runtime_reachable (ps_runtime p) \<and> Ready (ps_runtime p)
    \<and> pl_workerID (ps_planner p) = di_workerID (ps_dispatcher p) \<and> di_workerID (ps_dispatcher p) \<noteq> []
    \<and> 0 < di_dispatchTimeout (ps_dispatcher p) \<and> di_dispatchTimeout (ps_dispatcher p) < di_claimTTL (ps_dispatcher p)
    \<and> di_claimTTL (ps_dispatcher p) \<le> 24 * Hour
    \<and> 1 \<le> di_batchSize (ps_dispatcher p) \<and> di_batchSize (ps_dispatcher p) \<le> 1000"
proof -
  obtain cfg redis w where c: "Load l getenv = Inr cfg" "os_ping x (cfg_Database cfg) = None"
      "resolveWorkerID x (cfg_WorkerID cfg) = Inr w" "assemble x cfg redis w = Inr p"
    using assms by (rule run_startup_cases)
  note sound = Load_sound [OF c(1)] and w = resolveWorkerID_not_empty [OF c(3)]
  from c(4) have p: "p = \<lparr>ps_config = cfg, ps_redis = redis,
      ps_planner = projr (NewPlanner w (cfg_ClaimTTL cfg) (cfg_BatchSize cfg)),
      ps_dispatcher = projr (NewDispatcher w (cfg_ClaimTTL cfg) (cfg_DispatchTimeout cfg) (cfg_BatchSize cfg)),
      ps_target = NewDefaultClientWithAllowlist (cfg_DispatchTimeout cfg) (cfg_TargetServiceToken cfg) (target_policy cfg),
      ps_runtime = Start None (new_runtime (cfg_WakeupInterval cfg))\<rparr>"
    by (simp add: assemble_eq [OF w sound(4)] split: option.splits)
  show ?thesis
    using c sound w new_runtime_started [OF sound(4)] by (simp add: p NewPlanner_def NewDispatcher_def)
qed

theorem started_process_is_sound_example:
  "\<exists>p. run_startup demo_configlib demo_env demo_outside = Inr p \<and> Ready (ps_runtime p)"
  using demo_process_starts started_process_is_sound by blast

text \<open>
  C25. An installation that succeeds found the namespace empty; afterwards the readiness probe
  succeeds for a session of the driver URL, other namespaces are as they were, and every further
  installation is refused without a change.
\<close>

theorem schema_is_installed_once:
  assumes "ApplySchemaToEmptyDatabase pool target f ss sv = (None, sv')"
  shows "\<not> occupied sv (schemaName target)
    \<and> Ping True (Inr (ss'\<lparr>ss_search_path := schemaName target, ss_TimeZone := ''UTC''\<rparr>)) None target sv' = None
    \<and> (name \<noteq> schemaName target \<longrightarrow> sv_namespaces sv' name = sv_namespaces sv name)
    \<and> (\<exists>e. ApplySchemaToEmptyDatabase pool' target f' ss'' sv' = (Some e, sv'))"
proof -
  note i = install_succeeds [OF assms]
  have rel: "sv_namespaces sv' (schemaName target) = Some schema_relations" by (simp add: i(2))
  have "namespace_ready sv' (ss'\<lparr>ss_search_path := schemaName target, ss_TimeZone := ''UTC''\<rparr>) (schemaName target)"
    by (rule installed_ready [OF rel]) simp_all
  moreover have "occupied sv' (schemaName target)" using rel by (simp add: occupied_def schema_relations_def)
  ultimately show ?thesis using i install_refused by (simp add: Ping_def checkNamespaceReady_def)
qed

theorem schema_is_installed_once_example:
  "\<exists>sv'. ApplySchemaToEmptyDatabase True demo_target no_faults demo_session demo_server = (None, sv') \<and>
     Ping True (Inr demo_session) None demo_target sv' = None"
proof -
  have "\<not> occupied demo_server (schemaName demo_target)" "schemaName demo_target \<noteq> []"
    by (simp_all add: occupied_def demo_server_def demo_target_def)
  note ok = install_empty [OF this, of demo_session]
  have "demo_session\<lparr>ss_search_path := schemaName demo_target, ss_TimeZone := ''UTC''\<rparr> = demo_session"
    by (simp add: demo_session_def demo_target_def)
  with schema_is_installed_once [OF ok, of demo_session] ok show ?thesis by auto
qed

text \<open>
  C26. The comparison of two catalogs is exact: it reports nothing if and only if they have the same
  objects, down to every field, whatever the order of tables, types, columns, constraints, indexes
  and triggers in the two snapshots.
\<close>

theorem catalog_comparison_is_exact:
  assumes "catalog_wf actual" and "catalog_wf reference"
  shows "CompareSchemaCatalog actual reference = [] \<longleftrightarrow> same_catalog actual reference"
  by (rule compare_exact [OF assms])

theorem catalog_comparison_is_exact_example:
  "\<not> same_catalog (demo_catalog [demo_column 2 ''b'' True, demo_column 1 ''a'' True])
     (demo_catalog [demo_column 1 ''a'' True, demo_column 2 ''b'' False])"
proof -
  have "catalog_wf (demo_catalog [demo_column 2 ''b'' True, demo_column 1 ''a'' True])"
    and "catalog_wf (demo_catalog [demo_column 1 ''a'' True, demo_column 2 ''b'' False])"
    by (simp_all add: catalog_wf_def table_wf_def demo_catalog_def demo_table_def demo_column_def)
  from catalog_comparison_is_exact [OF this] show ?thesis by (simp add: demo_difference)
qed

end
